(* ===== verification/Prelude.thy ===== *)
theory Prelude
  imports Main "HOL-Library.AList" "HOL-Library.Char_ord" "HOL-Library.List_Lexorder"
    "HOL-Library.Word" "HOL-Library.Monad_Syntax"
begin

text \<open>
  What every theory of the development shares.

  \<^item> The lemma collections \<open>dict_simps\<close>, \<open>ctx_simps\<close>, \<open>conv_simps\<close> and \<open>rpc_simps\<close>.
  \<^item> Go maps. A \<open>map[string]V\<close> is an association list: the order of the pairs stands for
    the iteration order, which Go leaves open. A map the code builds has distinct keys
    (\<open>gm_wf\<close>). A nil map is \<open>None\<close> of an option around it, where the code tells nil from
    empty. The locale \<open>go_dict\<close> is the contract of a dictionary; it is interpreted on
    association lists here, and its clients rest on its facts.
  \<^item> Go run-time panics (\<open>outcome\<close>), for the nil-pointer dereferences of the source.
  \<^item> The functions of the Go package \<open>strings\<close> that the source calls. A Go string is a
    sequence of bytes, so is \<open>string\<close> (a list of \<open>char\<close>); \<open>[]byte\<close> is the same type.
\<close>

named_theorems dict_simps \<open>lookup laws of Go maps\<close>
named_theorems ctx_simps \<open>reading a context after writing to it\<close>
named_theorems conv_simps \<open>conversions between the SDK types and the wire types\<close>
named_theorems rpc_simps \<open>the operations of the RPC servers\<close>

type_synonym bytes = string

section \<open>Go maps\<close>

type_synonym ('k, 'v) gomap = "('k \<times> 'v) list"

abbreviation gm_get :: "('k, 'v) gomap \<Rightarrow> 'k \<Rightarrow> 'v option" where
  "gm_get m k \<equiv> map_of m k"

definition gm_put :: "'k \<Rightarrow> 'v \<Rightarrow> ('k, 'v) gomap \<Rightarrow> ('k, 'v) gomap" where
  "gm_put k v m = AList.update k v m"

definition gm_del :: "'k \<Rightarrow> ('k, 'v) gomap \<Rightarrow> ('k, 'v) gomap" where
  "gm_del k m = AList.delete k m"

definition gm_keys :: "('k, 'v) gomap \<Rightarrow> 'k list" where
  "gm_keys m = map fst m"

definition gm_wf :: "('k, 'v) gomap \<Rightarrow> bool" where
  "gm_wf m \<longleftrightarrow> distinct (map fst m)"

text \<open>\<open>for k, v := range src { dst[k] = f(v) }\<close>\<close>

fun gm_copy :: "('a \<Rightarrow> 'b) \<Rightarrow> ('k, 'a) gomap \<Rightarrow> ('k, 'b) gomap \<Rightarrow> ('k, 'b) gomap" where
  "gm_copy f [] dst = dst"
| "gm_copy f ((k, v) # src) dst = gm_copy f src (gm_put k (f v) dst)"

text \<open>A nil map reads as an empty one.\<close>

definition gm_of :: "('k, 'v) gomap option \<Rightarrow> ('k, 'v) gomap" where
  "gm_of m = (case m of None \<Rightarrow> [] | Some m' \<Rightarrow> m')"

lemma gm_of_simps [simp]: "gm_of None = []" "gm_of (Some m) = m"
  by (simp_all add: gm_of_def)

lemma gm_put_Nil [simp]: "gm_put k v [] = [(k, v)]"
  by (simp add: gm_put_def)

lemma gm_put_Cons [simp]:
  "gm_put k v ((k', v') # m) = (if k' = k then (k, v) # m else (k', v') # gm_put k v m)"
  by (simp add: gm_put_def)

lemma gm_del_Nil [simp]: "gm_del k [] = []"
  by (simp add: gm_del_def)

lemma gm_del_Cons [simp]:
  "gm_del k ((k', v') # m) = (if k' = k then gm_del k m else (k', v') # gm_del k m)"
  by (simp add: gm_del_def AList.delete_eq)

lemma gm_get_put [dict_simps]: "gm_get (gm_put k v m) = (gm_get m)(k \<mapsto> v)"
  unfolding gm_put_def by (rule update_conv')

lemma gm_get_del [dict_simps]: "gm_get (gm_del k m) = (gm_get m)(k := None)"
  unfolding gm_del_def by (rule delete_conv')

lemma gm_wf_Nil [simp]: "gm_wf []"
  by (simp add: gm_wf_def)

lemma gm_wf_put [simp]: "gm_wf m \<Longrightarrow> gm_wf (gm_put k v m)"
  by (simp add: gm_wf_def gm_put_def distinct_update)

lemma gm_wf_del [simp]: "gm_wf m \<Longrightarrow> gm_wf (gm_del k m)"
  by (simp add: gm_wf_def gm_del_def distinct_delete)

lemma gm_keys_dom: "set (gm_keys m) = dom (gm_get m)"
  by (simp add: gm_keys_def dom_map_of_conv_image_fst)

lemma gm_wf_copy [simp]: "gm_wf dst \<Longrightarrow> gm_wf (gm_copy f src dst)"
  by (induction f src dst rule: gm_copy.induct) simp_all

lemma gm_get_copy [dict_simps]:
  "gm_wf src \<Longrightarrow> gm_get (gm_copy f src dst) = gm_get dst ++ (map_option f \<circ> gm_get src)"
proof (induction f src dst rule: gm_copy.induct)
  case (1 f dst)
  then show ?case by (simp add: fun_eq_iff map_add_def)
next
  case (2 f k v src dst)
  then have "k \<notin> fst ` set src" and "gm_wf src" by (auto simp: gm_wf_def)
  then have "gm_get src k = None" by (simp add: map_of_eq_None_iff)
  with 2 \<open>gm_wf src\<close> show ?case
    by (auto simp: fun_eq_iff map_add_def gm_get_put split: option.splits)
qed

lemma gm_copy_fresh_gen:
  fixes f :: "'a \<Rightarrow> 'b"
  shows "distinct (map fst dst @ map fst src) \<Longrightarrow>
    gm_copy f src dst = dst @ map (\<lambda>(k, v). (k, f v)) src"
proof (induction f src dst rule: gm_copy.induct)
  case (2 f k v src dst)
  then have "k \<notin> fst ` set dst" by auto
  then have "gm_put k (f v) dst = dst @ [(k, f v)]"
    by (induction dst) auto
  with 2 show ?case by auto
qed simp

text \<open>Copying into a new map keeps the pairs, each value sent through \<open>f\<close>.\<close>

lemma gm_copy_fresh: "gm_wf src \<Longrightarrow> gm_copy f src [] = map (\<lambda>(k, v). (k, f v)) src"
  using gm_copy_fresh_gen [of "[]" src f] by (simp add: gm_wf_def)

lemma gm_copy_id: "gm_wf src \<Longrightarrow> gm_copy (\<lambda>v. v) src [] = src"
  by (simp add: gm_copy_fresh)

subsection \<open>The dictionary contract\<close>

locale go_dict =
  fixes get :: "'m \<Rightarrow> 'k \<Rightarrow> 'v option"
    and put :: "'k \<Rightarrow> 'v \<Rightarrow> 'm \<Rightarrow> 'm"
    and del :: "'k \<Rightarrow> 'm \<Rightarrow> 'm"
    and wf :: "'m \<Rightarrow> bool"
  assumes get_put: "get (put k v m) = (get m)(k \<mapsto> v)"
    and get_del: "get (del k m) = (get m)(k := None)"
    and wf_put: "wf m \<Longrightarrow> wf (put k v m)"
    and wf_del: "wf m \<Longrightarrow> wf (del k m)"
begin

lemma put_same: "get (put k v m) k = Some v"
  by (simp add: get_put)

lemma put_other: "k' \<noteq> k \<Longrightarrow> get (put k v m) k' = get m k'"
  by (simp add: get_put)

lemma del_same: "get (del k m) k = None"
  by (simp add: get_del)

lemma del_other: "k' \<noteq> k \<Longrightarrow> get (del k m) k' = get m k'"
  by (simp add: get_del)

lemma put_put: "get (put k v (put k v' m)) = get (put k v m)"
  by (simp add: get_put)

end

interpretation gm: go_dict gm_get gm_put gm_del gm_wf
  by unfold_locales (rule gm_get_put gm_get_del gm_wf_put gm_wf_del, assumption?)+

section \<open>Panics\<close>

text \<open>A computation that dereferences a nil pointer ends the process: \<open>Panic\<close>.\<close>

datatype 'a outcome = Panic | Ret (ret_val: 'a)

fun out_bind :: "'a outcome \<Rightarrow> ('a \<Rightarrow> 'b outcome) \<Rightarrow> 'b outcome" where
  "out_bind Panic f = Panic"
| "out_bind (Ret x) f = f x"

text \<open>A loop that may panic at each element, over a slice.\<close>

fun out_map :: "('a \<Rightarrow> 'b outcome) \<Rightarrow> 'a list \<Rightarrow> 'b list outcome" where
  "out_map f [] = Ret []"
| "out_map f (x # xs) = out_bind (f x) (\<lambda>y. out_bind (out_map f xs) (\<lambda>ys. Ret (y # ys)))"

lemma out_bind_Ret [simp]: "out_bind m Ret = m"
  by (cases m) simp_all

lemma out_bind_eq_Ret: "out_bind m f = Ret y \<longleftrightarrow> (\<exists>x. m = Ret x \<and> f x = Ret y)"
  by (cases m) simp_all

lemma out_map_eq_Panic: "out_map f xs = Panic \<longleftrightarrow> (\<exists>x \<in> set xs. f x = Panic)"
proof (induction xs)
  case (Cons x xs)
  then show ?case by (cases "f x"; cases "out_map f xs") auto
qed simp

lemma out_map_Ret: "(\<And>x. x \<in> set xs \<Longrightarrow> f x = Ret (g x)) \<Longrightarrow> out_map f xs = Ret (map g xs)"
  by (induction xs) auto

lemma out_map_cong [fundef_cong]:
  "xs = ys \<Longrightarrow> (\<And>x. x \<in> set ys \<Longrightarrow> f x = g x) \<Longrightarrow> out_map f xs = out_map g ys"
  by (induction xs arbitrary: ys) (auto intro: arg_cong2 [where f = out_bind])

text \<open>The results of the calls that succeeded, in order: the errors are dropped.\<close>

fun rights :: "('e + 'a) list \<Rightarrow> 'a list" where
  "rights [] = []"
| "rights (Inl e # xs) = rights xs"
| "rights (Inr x # xs) = x # rights xs"

section \<open>The package strings\<close>

definition has_prefix :: "string \<Rightarrow> string \<Rightarrow> bool" where
  "has_prefix s p \<longleftrightarrow> take (length p) s = p"

definition trim_prefix :: "string \<Rightarrow> string \<Rightarrow> string" where
  "trim_prefix s p = (if has_prefix s p then drop (length p) s else s)"

text \<open>\<open>strings.Index\<close>: the position of the first occurrence, \<open>None\<close> for Go's -1.\<close>

fun str_index :: "string \<Rightarrow> string \<Rightarrow> nat option" where
  "str_index [] p = (if p = [] then Some 0 else None)"
| "str_index (c # s) p =
     (if has_prefix (c # s) p then Some 0 else map_option Suc (str_index s p))"

text \<open>\<open>strings.Split(s, "\n")\<close>: split at every separator byte; never an empty list.\<close>

fun split_on :: "char \<Rightarrow> string \<Rightarrow> string list" where
  "split_on sep [] = [[]]"
| "split_on sep (c # s) =
     (if c = sep then [] # split_on sep s
      else (case split_on sep s of [] \<Rightarrow> [[c]] | l # ls \<Rightarrow> (c # l) # ls))"

text \<open>
  \<open>strings.TrimSpace\<close> removes Unicode white space at both ends. The list holds the UTF-8
  encodings of the runes with the property White_Space: the six ASCII ones, U+0085,
  U+00A0, U+1680, U+2000 to U+200A, U+2028, U+2029, U+202F, U+205F and U+3000.
\<close>

definition space_seqs :: "string list" where
  "space_seqs =
     [[CHR 0x09], [CHR 0x0A], [CHR 0x0B], [CHR 0x0C], [CHR 0x0D], [CHR 0x20],
      [CHR 0xC2, CHR 0x85], [CHR 0xC2, CHR 0xA0],
      [CHR 0xE1, CHR 0x9A, CHR 0x80],
      [CHR 0xE2, CHR 0x80, CHR 0x80], [CHR 0xE2, CHR 0x80, CHR 0x81],
      [CHR 0xE2, CHR 0x80, CHR 0x82], [CHR 0xE2, CHR 0x80, CHR 0x83],
      [CHR 0xE2, CHR 0x80, CHR 0x84], [CHR 0xE2, CHR 0x80, CHR 0x85],
      [CHR 0xE2, CHR 0x80, CHR 0x86], [CHR 0xE2, CHR 0x80, CHR 0x87],
      [CHR 0xE2, CHR 0x80, CHR 0x88], [CHR 0xE2, CHR 0x80, CHR 0x89],
      [CHR 0xE2, CHR 0x80, CHR 0x8A], [CHR 0xE2, CHR 0x80, CHR 0xA8],
      [CHR 0xE2, CHR 0x80, CHR 0xA9], [CHR 0xE2, CHR 0x80, CHR 0xAF],
      [CHR 0xE2, CHR 0x81, CHR 0x9F], [CHR 0xE3, CHR 0x80, CHR 0x80]]"

text \<open>One white-space rune at the front of the string, from the given encodings.\<close>

definition space_at :: "string list \<Rightarrow> string \<Rightarrow> string option" where
  "space_at seqs s = List.find (has_prefix s) seqs"

lemma space_at_Some: "space_at seqs s = Some p \<Longrightarrow> p \<in> set seqs \<and> has_prefix s p"
  by (auto simp: space_at_def find_Some_iff)

function trim_seqs :: "string list \<Rightarrow> string \<Rightarrow> string" where
  "trim_seqs seqs s =
     (case space_at seqs s of
        None \<Rightarrow> s
      | Some p \<Rightarrow> if p = [] then s else trim_seqs seqs (drop (length p) s))"
  by pat_completeness auto
termination
proof (relation "measure (\<lambda>(seqs, s). length s)")
  fix seqs s p
  assume "space_at seqs s = Some p" and "p \<noteq> []"
  then have "has_prefix s p" by (auto dest: space_at_Some)
  with \<open>p \<noteq> []\<close> have "s \<noteq> []" by (auto simp: has_prefix_def)
  with \<open>p \<noteq> []\<close> show "((seqs, drop (length p) s), seqs, s) \<in> measure (\<lambda>(seqs, s). length s)"
    by simp
qed simp

declare trim_seqs.simps [simp del]

definition trim_space :: "string \<Rightarrow> string" where
  "trim_space s =
     rev (trim_seqs (map rev space_seqs) (rev (trim_seqs space_seqs s)))"

text \<open>
  \<open>strings.ToLower\<close>, on bytes: the ASCII letters, and the two non-ASCII runes whose
  lower case is an ASCII letter (U+212A KELVIN SIGN and U+0130 I WITH DOT ABOVE). Every
  other rune lowers to a non-ASCII rune and is left as it is, which no comparison with an
  ASCII literal can tell.
\<close>

definition lower_byte :: "char \<Rightarrow> char" where
  "lower_byte c = (if CHR ''A'' \<le> c \<and> c \<le> CHR ''Z'' then char_of (of_char c + 32 :: nat) else c)"

fun to_lower :: "string \<Rightarrow> string" where
  "to_lower [] = []"
| "to_lower (c # s) =
     (if c = CHR 0xE2 \<and> take 2 s = [CHR 0x84, CHR 0xAA] then CHR ''k'' # to_lower (drop 2 s)
      else if c = CHR 0xC4 \<and> take 1 s = [CHR 0xB0] then CHR ''i'' # to_lower (drop 1 s)
      else lower_byte c # to_lower s)"

text \<open>Decimal digits, for \<open>%d\<close>.\<close>

fun dec_digits :: "nat \<Rightarrow> string" where
  "dec_digits n =
     (if n < 10 then [char_of (48 + n)] else dec_digits (n div 10) @ [char_of (48 + n mod 10)])"

declare dec_digits.simps [simp del]

subsection \<open>Facts about the string functions\<close>

lemma has_prefix_append [simp]: "has_prefix (p @ s) p"
  by (simp add: has_prefix_def)

lemma has_prefix_iff: "has_prefix s p \<longleftrightarrow> (\<exists>t. s = p @ t)"
  by (metis append_eq_conv_conj has_prefix_def)

lemma trim_prefix_append [simp]: "trim_prefix (p @ s) p = s"
  by (simp add: trim_prefix_def)

lemma split_on_nonempty [simp]: "split_on sep s \<noteq> []"
  by (cases s) (auto split: list.splits)

text \<open>A trimmed string neither starts nor ends with a white-space rune.\<close>

lemma space_seqs_nonempty: "p \<in> set space_seqs \<Longrightarrow> p \<noteq> []"
  by (auto simp: space_seqs_def)

lemma trim_seqs_stop: "[] \<notin> set seqs \<Longrightarrow> space_at seqs (trim_seqs seqs s) = None"
proof (induction seqs s rule: trim_seqs.induct)
  case (1 seqs s)
  show ?case
  proof (cases "space_at seqs s")
    case None
    then show ?thesis by (subst trim_seqs.simps) simp
  next
    case (Some p)
    with 1 have "p \<noteq> []" by (auto dest: space_at_Some)
    with 1 Some show ?thesis by (subst trim_seqs.simps) simp
  qed
qed

lemma trim_seqs_suffix: "\<exists>d. s = d @ trim_seqs seqs s"
proof (induction seqs s rule: trim_seqs.induct)
  case (1 seqs s)
  show ?case
  proof (cases "space_at seqs s")
    case None
    then show ?thesis by (subst trim_seqs.simps) simp
  next
    case (Some p)
    show ?thesis
    proof (cases "p = []")
      case True
      with Some show ?thesis by (subst trim_seqs.simps) simp
    next
      case False
      with 1 Some obtain d where "drop (length p) s = d @ trim_seqs seqs (drop (length p) s)"
        by blast
      then have "s = (take (length p) s @ d) @ trim_seqs seqs (drop (length p) s)"
        using append_take_drop_id [of "length p" s] by simp
      moreover have "trim_seqs seqs s = trim_seqs seqs (drop (length p) s)"
        using Some False by (subst trim_seqs.simps) simp
      ultimately show ?thesis by (metis (no_types))
    qed
  qed
qed

lemma space_at_None_iff: "space_at seqs s = None \<longleftrightarrow> (\<forall>p \<in> set seqs. \<not> has_prefix s p)"
  by (auto simp: space_at_def find_None_iff)

lemma trim_space_last: "space_at (map rev space_seqs) (rev (trim_space s)) = None"
  unfolding trim_space_def rev_rev_ident
  by (rule trim_seqs_stop) (auto dest: space_seqs_nonempty)

lemma trim_space_first: "space_at space_seqs (trim_space s) = None"
proof -
  let ?l = "trim_seqs space_seqs s"
  let ?r = "trim_seqs (map rev space_seqs) (rev ?l)"
  have "[] \<notin> set space_seqs" by (auto dest: space_seqs_nonempty)
  then have l: "space_at space_seqs ?l = None" by (rule trim_seqs_stop)
  obtain d where "rev ?l = d @ ?r" using trim_seqs_suffix by blast
  then have "?l = trim_space s @ rev d"
    by (metis rev_append rev_rev_ident trim_space_def)
  with l show ?thesis by (auto simp: space_at_None_iff has_prefix_iff)
qed

end
