(* ===== verification/Go_Errors.thy ===== *)
theory Go_Errors
  imports Prelude
begin

text \<open>
  Go error values. An error made by \<open>errors.New\<close> or \<open>fmt.Errorf\<close> is kept as its format:
  literal text, \<open>%q\<close> and \<open>%s\<close> arguments, errors wrapped with \<open>%w\<close> and errors
  printed with \<open>%v\<close> (which are not part of the chain). \<open>error_text\<close> is \<open>Error()\<close>,
  \<open>unwrap\<close> is \<open>errors.Unwrap\<close>, and \<open>errors_is_streaming\<close> is
  \<open>errors.Is(err, ErrStreamingNotSupported)\<close>, the one sentinel the source compares with.
  Fallible functions return \<open>goerror + 'a\<close>, with \<open>Inl\<close> for the error; the Go code never
  looks at the other result once the error is not nil.
\<close>

section \<open>Quoting\<close>

text \<open>
  \<open>strconv.Quote\<close>, exact on ASCII. A byte from 128 on is passed through, which is what Go
  does with the bytes of a printable rune; for other non-ASCII text Go prints escapes.
\<close>

definition hex_digit :: "nat \<Rightarrow> char" where
  "hex_digit n = (if n < 10 then char_of (48 + n) else char_of (87 + n))"

definition quote_byte :: "char \<Rightarrow> string" where
  "quote_byte c =
     (let n = of_char c :: nat in
      if c = CHR 0x22 then [CHR 0x5C, CHR 0x22]
      else if c = CHR 0x5C then [CHR 0x5C, CHR 0x5C]
      else if n = 7 then [CHR 0x5C, CHR ''a'']
      else if n = 8 then [CHR 0x5C, CHR ''b'']
      else if n = 9 then [CHR 0x5C, CHR ''t'']
      else if n = 10 then [CHR 0x5C, CHR ''n'']
      else if n = 11 then [CHR 0x5C, CHR ''v'']
      else if n = 12 then [CHR 0x5C, CHR ''f'']
      else if n = 13 then [CHR 0x5C, CHR ''r'']
      else if n < 32 \<or> n = 127 then [CHR 0x5C, CHR ''x'', hex_digit (n div 16), hex_digit (n mod 16)]
      else [c])"

definition go_quote :: "string \<Rightarrow> string" where
  "go_quote s = CHR 0x22 # concat (map quote_byte s) @ [CHR 0x22]"

section \<open>Error values\<close>

text \<open>The status codes of gRPC that the source or its documentation names.\<close>

datatype grpc_code = CodeUnknown | CodeCanceled | CodeUnavailable | CodeUnimplemented

definition code_name :: "grpc_code \<Rightarrow> string" where
  "code_name c = (case c of CodeUnknown \<Rightarrow> ''Unknown'' | CodeCanceled \<Rightarrow> ''Canceled''
     | CodeUnavailable \<Rightarrow> ''Unavailable'' | CodeUnimplemented \<Rightarrow> ''Unimplemented'')"

datatype goerror =
    Errorf "frag list"             \<comment> \<open>\<open>fmt.Errorf\<close>, \<open>errors.New\<close>\<close>
  | ErrStreamingNotSupported       \<comment> \<open>the sentinel of \<open>plugin/interface.go\<close>\<close>
  | StatusErr grpc_code string     \<comment> \<open>\<open>status.Error(code, msg)\<close>\<close>
  | Joined "goerror list"          \<comment> \<open>\<open>errors.Join\<close>\<close>
  | Foreign string                 \<comment> \<open>any other error, by its text\<close>
and frag =
    Lit string
  | Quo string                     \<comment> \<open>\<open>%q\<close>\<close>
  | Str string                     \<comment> \<open>\<open>%s\<close> of a string\<close>
  | Wrap goerror                   \<comment> \<open>\<open>%w\<close>\<close>
  | Show goerror                   \<comment> \<open>\<open>%v\<close> of an error\<close>

fun join_lines :: "string list \<Rightarrow> string" where
  "join_lines [] = []"
| "join_lines [s] = s"
| "join_lines (s # ss) = s @ CHR 0x0A # join_lines ss"

fun error_text :: "goerror \<Rightarrow> string" and frag_text :: "frag \<Rightarrow> string" where
  "error_text (Errorf fs) = concat (map frag_text fs)"
| "error_text ErrStreamingNotSupported = ''streaming execution not supported''"
| "error_text (StatusErr c m) = ''rpc error: code = '' @ code_name c @ '' desc = '' @ m"
| "error_text (Joined es) = join_lines (map error_text es)"
| "error_text (Foreign t) = t"
| "frag_text (Lit s) = s"
| "frag_text (Quo s) = go_quote s"
| "frag_text (Str s) = s"
| "frag_text (Wrap e) = error_text e"
| "frag_text (Show e) = error_text e"

text \<open>The errors an error wraps: the \<open>%w\<close> arguments, or the members of a join.\<close>

fun wrapped_errs :: "frag list \<Rightarrow> goerror list" where
  "wrapped_errs [] = []"
| "wrapped_errs (Wrap e # fs) = e # wrapped_errs fs"
| "wrapped_errs (_ # fs) = wrapped_errs fs"

text \<open>
  \<open>errors.Unwrap\<close>: defined for an error that wraps exactly one other. A join, and a
  \<open>fmt.Errorf\<close> with several \<open>%w\<close>, have \<open>Unwrap() []error\<close>, for which
  \<open>errors.Unwrap\<close> returns nil.
\<close>

definition unwrap :: "goerror \<Rightarrow> goerror option" where
  "unwrap e = (case e of Errorf fs \<Rightarrow> (case wrapped_errs fs of [e'] \<Rightarrow> Some e' | _ \<Rightarrow> None) | _ \<Rightarrow> None)"

lemma wrapped_errs_size: "e \<in> set (wrapped_errs fs) \<Longrightarrow> size e < Suc (size_list size fs)"
  by (induction fs rule: wrapped_errs.induct) auto

lemma unwrap_size: "unwrap e = Some e' \<Longrightarrow> size e' < size e"
  by (auto simp: unwrap_def split: goerror.splits list.splits dest: wrapped_errs_size
      intro!: wrapped_errs_size)

text \<open>\<open>errors.Is(err, ErrStreamingNotSupported)\<close>: the whole tree of wrapped errors.\<close>

function errors_is_streaming :: "goerror \<Rightarrow> bool" where
  "errors_is_streaming ErrStreamingNotSupported = True"
| "errors_is_streaming (Errorf fs) = (\<exists>e \<in> set (wrapped_errs fs). errors_is_streaming e)"
| "errors_is_streaming (Joined es) = (\<exists>e \<in> set es. errors_is_streaming e)"
| "errors_is_streaming (StatusErr c m) = False"
| "errors_is_streaming (Foreign t) = False"
  by pat_completeness auto
termination
proof (relation "measure size")
  fix fs e
  assume "e \<in> set (wrapped_errs fs)"
  then show "(e, Errorf fs) \<in> measure size" by (auto dest: wrapped_errs_size)
next
  fix es and e :: goerror
  assume "e \<in> set es"
  then have "size e < Suc (size_list size es)"
    by (simp add: less_Suc_eq_le size_list_estimation')
  then show "(e, Joined es) \<in> measure size" by simp
qed simp

text \<open>\<open>errors.Join\<close> of a slice of non-nil errors: nil for the empty slice.\<close>

definition errors_join :: "goerror list \<Rightarrow> goerror option" where
  "errors_join es = (if es = [] then None else Some (Joined es))"

lemma errors_join_None [simp]: "errors_join es = None \<longleftrightarrow> es = []"
  by (simp add: errors_join_def)

text \<open>The one-argument wrapper the source uses most: \<open>fmt.Errorf("prefix: %w", err)\<close>.\<close>

definition wrap_with :: "string \<Rightarrow> goerror \<Rightarrow> goerror" where
  "wrap_with p e = Errorf [Lit (p @ '': ''), Wrap e]"

lemma unwrap_wrap_with [simp]: "unwrap (wrap_with p e) = Some e"
  by (simp add: unwrap_def wrap_with_def)

lemma error_text_wrap_with [simp]: "error_text (wrap_with p e) = p @ '': '' @ error_text e"
  by (simp add: wrap_with_def)

lemma errors_is_streaming_wrap [simp]:
  "errors_is_streaming (wrap_with p e) = errors_is_streaming e"
  by (simp add: wrap_with_def)

end
