(* ===== verification/Go_Values.thy ===== *)
theory Go_Values
  imports Go_Errors
begin

text \<open>
  The dynamic values, instants and JSON schemas the components share.

  \<^item> \<open>goval\<close> is Go's \<open>any\<close>, as far as the source builds, decodes or inspects it.
  \<^item> \<open>gotime\<close> is \<open>time.Time\<close>: an instant, in nanoseconds since Go's zero time (January 1,
    year 1, UTC). Its order is \<open>Before\<close>/\<open>After\<close>, as an instance of \<open>linorder\<close>.
    \<open>time.Duration\<close> is a signed 64-bit word of nanoseconds. The clock is an argument of
    the functions that call \<open>time.Now\<close>.
  \<^item> \<open>schema\<close> holds the fields of \<open>jsonschema.Schema\<close> that the source reads or writes.
\<close>

section \<open>Dynamic values\<close>

text \<open>
  A \<open>float64\<close> is its bit pattern: the source copies such values and never computes with
  them. Go's \<open>int\<close> has 64 bits.
\<close>

type_synonym float64 = "64 word"
type_synonym goint = "64 word"
type_synonym int64 = "64 word"
type_synonym int32 = "32 word"
type_synonym uint32 = "32 word"
type_synonym duration = "64 word"

datatype goval =
    VNil
  | VBool bool
  | VNum float64
  | VStr string
  | VArr "goval list"
  | VMap "(string \<times> goval) list option"   \<comment> \<open>\<open>map[string]any\<close>, possibly nil\<close>
  | VRaw bytes                              \<comment> \<open>\<open>json.RawMessage\<close>\<close>
  | VOther nat                              \<comment> \<open>a value of any other type\<close>

type_synonym 'v strmap = "(string, 'v) gomap"

text \<open>\<open>v.(string)\<close>, \<open>v.(bool)\<close> and \<open>v.(map[string]any)\<close> with the \<open>ok\<close> result.\<close>

fun as_string :: "goval \<Rightarrow> string option" where
  "as_string (VStr s) = Some s"
| "as_string _ = None"

fun as_bool :: "goval \<Rightarrow> bool option" where
  "as_bool (VBool b) = Some b"
| "as_bool _ = None"

fun as_map :: "goval \<Rightarrow> goval strmap option option" where
  "as_map (VMap m) = Some m"
| "as_map _ = None"

text \<open>\<open>m[key]\<close> on a \<open>map[string]any\<close>: nil when the key (or the map) is missing.\<close>

definition index_any :: "goval strmap option \<Rightarrow> string \<Rightarrow> goval" where
  "index_any m k = (case gm_get (gm_of m) k of None \<Rightarrow> VNil | Some v \<Rightarrow> v)"

lemma index_any_None [simp]: "index_any None k = VNil"
  by (simp add: index_any_def)

section \<open>Instants and durations\<close>

datatype gotime = GoTime (abs_ns: int)

instantiation gotime :: linorder
begin

definition less_eq_gotime :: "gotime \<Rightarrow> gotime \<Rightarrow> bool" where
  "less_eq_gotime s t \<longleftrightarrow> abs_ns s \<le> abs_ns t"

definition less_gotime :: "gotime \<Rightarrow> gotime \<Rightarrow> bool" where
  "less_gotime s t \<longleftrightarrow> abs_ns s < abs_ns t"

instance
  by standard (auto simp: less_eq_gotime_def less_gotime_def intro: gotime.expand)

end

definition zero_time :: gotime where
  "zero_time = GoTime 0"

definition time_is_zero :: "gotime \<Rightarrow> bool" where
  "time_is_zero t \<longleftrightarrow> abs_ns t = 0"

text \<open>\<open>t.Add(d)\<close>.\<close>

definition time_add :: "gotime \<Rightarrow> duration \<Rightarrow> gotime" where
  "time_add t d = GoTime (abs_ns t + sint d)"

text \<open>\<open>t.Sub(u)\<close> saturates at the ends of the \<open>Duration\<close> range.\<close>

definition max_duration :: int where "max_duration = 2 ^ 63 - 1"
definition min_duration :: int where "min_duration = - (2 ^ 63)"

definition time_sub :: "gotime \<Rightarrow> gotime \<Rightarrow> duration" where
  "time_sub t u =
     (let d = abs_ns t - abs_ns u in
      word_of_int (if d > max_duration then max_duration
                   else if d < min_duration then min_duration else d))"

text \<open>\<open>t.Unix()\<close>: whole seconds since 1970, rounded down, as an \<open>int64\<close>.\<close>

definition unix_epoch_s :: int where "unix_epoch_s = 62135596800"

definition time_unix :: "gotime \<Rightarrow> int64" where
  "time_unix t = word_of_int (abs_ns t div 1000000000 - unix_epoch_s)"

definition second :: duration where "second = 1000000000"
definition hour :: duration where "hour = 3600 * second"

lemma sint_word_of_int_64: "- (2 ^ 63) \<le> d \<Longrightarrow> d < 2 ^ 63 \<Longrightarrow> sint (word_of_int d :: 64 word) = d"
  by (subst signed_take_bit_int_eq_self [symmetric, of 63 d]) (simp_all add: signed_of_int)

lemma sint_word_of_int_32: "- (2 ^ 31) \<le> d \<Longrightarrow> d < 2 ^ 31 \<Longrightarrow> sint (word_of_int d :: 32 word) = d"
  by (subst signed_take_bit_int_eq_self [symmetric, of 31 d]) (simp_all add: signed_of_int)

lemma sint_64_range: "- (2 ^ 63) \<le> sint (w :: 64 word)" "sint (w :: 64 word) < 2 ^ 63"
  using sint_greater_eq [of w] sint_less [of w] by simp_all

lemma sint_32_range: "- (2 ^ 31) \<le> sint (w :: 32 word)" "sint (w :: 32 word) < 2 ^ 31"
  using sint_greater_eq [of w] sint_less [of w] by simp_all

lemma sint_time_sub:
  "sint (time_sub t u) = max min_duration (min max_duration (abs_ns t - abs_ns u))"
  unfolding time_sub_def Let_def
  by (subst sint_word_of_int_64) (auto simp: max_duration_def min_duration_def)

lemma time_less_iff [simp]: "GoTime a < GoTime b \<longleftrightarrow> a < b"
  by (simp add: less_gotime_def)

lemma time_le_iff [simp]: "GoTime a \<le> GoTime b \<longleftrightarrow> a \<le> b"
  by (simp add: less_eq_gotime_def)

section \<open>JSON schemas\<close>

record schema_core =
  sc_Type :: string
  sc_Title :: string
  sc_Description :: string
  sc_Pattern :: string
  sc_Format :: string
  sc_Default :: "bytes option"
  sc_Examples :: "goval list"
  sc_Enum :: "goval list option"      \<comment> \<open>nil and empty differ for validation\<close>
  sc_Required :: "string list"
  sc_MinLength :: "goint option"
  sc_MaxLength :: "goint option"
  sc_MinItems :: "goint option"
  sc_MaxItems :: "goint option"
  sc_Minimum :: "float64 option"
  sc_Maximum :: "float64 option"
  sc_ExclusiveMinimum :: "float64 option"
  sc_ExclusiveMaximum :: "float64 option"
  sc_Deprecated :: bool
  sc_WriteOnly :: bool

text \<open>\<open>Properties\<close> is \<open>map[string]*Schema\<close>: the map and each pointer can be nil.\<close>

datatype schema =
  Schema (schema_core: schema_core) (Properties: "(string \<times> schema option) list option")
    (Items: "schema option") (AdditionalProperties: "schema option")

definition zero_core :: schema_core where
  "zero_core = \<lparr>sc_Type = '''', sc_Title = '''', sc_Description = '''', sc_Pattern = '''',
     sc_Format = '''', sc_Default = None, sc_Examples = [], sc_Enum = None, sc_Required = [],
     sc_MinLength = None, sc_MaxLength = None, sc_MinItems = None, sc_MaxItems = None,
     sc_Minimum = None, sc_Maximum = None, sc_ExclusiveMinimum = None,
     sc_ExclusiveMaximum = None, sc_Deprecated = False, sc_WriteOnly = False\<rparr>"

text \<open>A schema literal that sets only non-recursive fields.\<close>

definition leaf_schema :: "schema_core \<Rightarrow> schema" where
  "leaf_schema c = Schema c None None None"

definition map_core :: "(schema_core \<Rightarrow> schema_core) \<Rightarrow> schema \<Rightarrow> schema" where
  "map_core f s = Schema (f (schema_core s)) (Properties s) (Items s) (AdditionalProperties s)"

text \<open>\<open>&jsonschema.Schema{Type: typ}\<close>.\<close>

definition typed_schema :: "string \<Rightarrow> schema" where
  "typed_schema t = leaf_schema (zero_core\<lparr>sc_Type := t\<rparr>)"

lemma leaf_schema_sel [simp]:
  "schema_core (leaf_schema c) = c" "Properties (leaf_schema c) = None"
  "Items (leaf_schema c) = None" "AdditionalProperties (leaf_schema c) = None"
  by (simp_all add: leaf_schema_def)

lemma map_core_sel [simp]:
  "schema_core (map_core f s) = f (schema_core s)" "Properties (map_core f s) = Properties s"
  "Items (map_core f s) = Items s" "AdditionalProperties (map_core f s) = AdditionalProperties s"
  by (simp_all add: map_core_def)

lemma sc_Type_typed [simp]: "sc_Type (schema_core (typed_schema t)) = t"
  by (simp add: typed_schema_def)

end
