(* ===== verification/Go_Context.thy ===== *)
theory Go_Context
  imports Go_Values
begin

text \<open>
  The execution context that carries request data to a plugin: \<open>provider/context.go\<close>,
  \<open>plugin/context.go\<close> and \<open>auth/context.go\<close>.

  A \<open>context.Context\<close> is the chain of its \<open>WithValue\<close> layers, innermost first; \<open>Value\<close>
  finds the innermost layer with the key. Keys of different Go types are never equal, so
  the key type has one constructor per key type. A stored value keeps its dynamic type,
  and each accessor type-asserts it. A result \<open>(v, ok)\<close> is an option, \<open>None\<close> for not ok.

  The locale \<open>ctx_slot\<close> is the contract of one With/From pair; every pair is an
  interpretation of it.
\<close>

section \<open>Contexts\<close>

datatype ctx_key =
    ProviderKey string   \<comment> \<open>\<open>provider.contextKey\<close>\<close>
  | PluginKey string     \<comment> \<open>\<open>plugin.contextKey\<close>\<close>
  | ProfileKeyType       \<comment> \<open>\<open>auth.profileKeyType{}\<close>\<close>
  | OtherKey nat         \<comment> \<open>a key of another package\<close>

text \<open>The struct types a context holds pointers to.\<close>

record SolutionMeta =
  sm_Name :: string
  sm_Version :: string
  sm_DisplayName :: string
  sm_Description :: string
  sm_Category :: string
  sm_Tags :: "string list"
  sm_Source :: string

record IterationContext =
  ic_Item :: goval
  ic_Index :: goint
  ic_ItemAlias :: string
  ic_IndexAlias :: string

text \<open>The writers of \<open>IOStreams\<close> are identities: the source never writes to them.\<close>

record IOStreams =
  io_Out :: nat
  io_ErrOut :: nat

text \<open>A host client is the connection it wraps (\<open>NewHostServiceClient(conn)\<close>).\<close>

type_synonym conn_id = nat
type_synonym capability = string

datatype ctx_val =
    CtxStr string
  | CtxBool bool
  | CtxCap capability
  | CtxMap "goval strmap option"
  | CtxSettings "bytes strmap option"
  | CtxSolution "SolutionMeta option"
  | CtxIteration "IterationContext option"
  | CtxStreams "IOStreams option"
  | CtxHost "conn_id option"
  | CtxOther nat

type_synonym ctx = "(ctx_key \<times> ctx_val) list"

definition with_value :: "ctx \<Rightarrow> ctx_key \<Rightarrow> ctx_val \<Rightarrow> ctx" where
  "with_value c k v = (k, v) # c"

definition ctx_value :: "ctx \<Rightarrow> ctx_key \<Rightarrow> ctx_val option" where
  "ctx_value c k = map_of c k"

definition background :: ctx where "background = []"

lemma ctx_value_with [ctx_simps]:
  "ctx_value (with_value c k v) k' = (if k' = k then Some v else ctx_value c k')"
  by (simp add: ctx_value_def with_value_def)

lemma ctx_value_background [simp]: "ctx_value background k = None"
  by (simp add: ctx_value_def background_def)

subsection \<open>The keys\<close>

definition executionModeKey :: ctx_key where
  "executionModeKey = ProviderKey ''scafctl.provider.executionMode''"
definition dryRunKey :: ctx_key where
  "dryRunKey = ProviderKey ''scafctl.provider.dryRun''"
definition resolverContextKey :: ctx_key where
  "resolverContextKey = ProviderKey ''scafctl.provider.resolverContext''"
definition parametersKey :: ctx_key where
  "parametersKey = ProviderKey ''scafctl.provider.parameters''"
definition iterationContextKey :: ctx_key where
  "iterationContextKey = ProviderKey ''scafctl.provider.iterationContext''"
definition ioStreamsKey :: ctx_key where
  "ioStreamsKey = ProviderKey ''scafctl.provider.ioStreams''"
definition solutionMetadataKey :: ctx_key where
  "solutionMetadataKey = ProviderKey ''scafctl.provider.solutionMetadata''"
definition outputDirectoryKey :: ctx_key where
  "outputDirectoryKey = ProviderKey ''scafctl.provider.outputDirectory''"
definition workingDirectoryKey :: ctx_key where
  "workingDirectoryKey = ProviderKey ''scafctl.provider.workingDirectory''"
definition conflictStrategyKey :: ctx_key where
  "conflictStrategyKey = ProviderKey ''scafctl.provider.conflictStrategy''"
definition backupKey :: ctx_key where
  "backupKey = ProviderKey ''scafctl.provider.backup''"
definition settingsKey :: ctx_key where
  "settingsKey = ProviderKey ''scafctl.provider.settings''"
definition hostClientKey :: ctx_key where
  "hostClientKey = PluginKey ''scafctl.plugin.hostClient''"
definition profileKey :: ctx_key where
  "profileKey = ProfileKeyType"

definition sdk_keys :: "ctx_key list" where
  "sdk_keys = [executionModeKey, dryRunKey, resolverContextKey, parametersKey,
     iterationContextKey, ioStreamsKey, solutionMetadataKey, outputDirectoryKey,
     workingDirectoryKey, conflictStrategyKey, backupKey, settingsKey, hostClientKey, profileKey]"

lemmas key_defs = executionModeKey_def dryRunKey_def resolverContextKey_def parametersKey_def
  iterationContextKey_def ioStreamsKey_def solutionMetadataKey_def outputDirectoryKey_def
  workingDirectoryKey_def conflictStrategyKey_def backupKey_def settingsKey_def
  hostClientKey_def profileKey_def

text \<open>No two slots share a key, so a write to one slot leaves every other as it was.\<close>

lemma sdk_keys_distinct: "distinct sdk_keys" "distinct (rev sdk_keys)"
  unfolding distinct_rev by (simp_all add: sdk_keys_def key_defs)

lemmas keys_neq [simp] = sdk_keys_distinct [unfolded sdk_keys_def, simplified]

section \<open>The With and From functions\<close>

definition WithSolutionMetadata :: "ctx \<Rightarrow> SolutionMeta option \<Rightarrow> ctx" where
  "WithSolutionMetadata c meta = with_value c solutionMetadataKey (CtxSolution meta)"

definition SolutionMetadataFromContext :: "ctx \<Rightarrow> SolutionMeta option option" where
  "SolutionMetadataFromContext c =
     (case ctx_value c solutionMetadataKey of Some (CtxSolution m) \<Rightarrow> Some m | _ \<Rightarrow> None)"

definition WithSettings :: "ctx \<Rightarrow> bytes strmap option \<Rightarrow> ctx" where
  "WithSettings c settings = with_value c settingsKey (CtxSettings settings)"

definition SettingsFromContext :: "ctx \<Rightarrow> bytes strmap option option" where
  "SettingsFromContext c =
     (case ctx_value c settingsKey of Some (CtxSettings m) \<Rightarrow> Some m | _ \<Rightarrow> None)"

definition WithOutputDirectory :: "ctx \<Rightarrow> string \<Rightarrow> ctx" where
  "WithOutputDirectory c dir = with_value c outputDirectoryKey (CtxStr dir)"

definition OutputDirectoryFromContext :: "ctx \<Rightarrow> string option" where
  "OutputDirectoryFromContext c =
     (case ctx_value c outputDirectoryKey of Some (CtxStr s) \<Rightarrow> Some s | _ \<Rightarrow> None)"

definition WithWorkingDirectory :: "ctx \<Rightarrow> string \<Rightarrow> ctx" where
  "WithWorkingDirectory c dir = with_value c workingDirectoryKey (CtxStr dir)"

definition WorkingDirectoryFromContext :: "ctx \<Rightarrow> string option" where
  "WorkingDirectoryFromContext c =
     (case ctx_value c workingDirectoryKey of Some (CtxStr s) \<Rightarrow> Some s | _ \<Rightarrow> None)"

definition WithIOStreams :: "ctx \<Rightarrow> IOStreams option \<Rightarrow> ctx" where
  "WithIOStreams c streams = with_value c ioStreamsKey (CtxStreams streams)"

definition IOStreamsFromContext :: "ctx \<Rightarrow> IOStreams option option" where
  "IOStreamsFromContext c =
     (case ctx_value c ioStreamsKey of Some (CtxStreams s) \<Rightarrow> Some s | _ \<Rightarrow> None)"

definition WithExecutionMode :: "ctx \<Rightarrow> capability \<Rightarrow> ctx" where
  "WithExecutionMode c mode = with_value c executionModeKey (CtxCap mode)"

definition ExecutionModeFromContext :: "ctx \<Rightarrow> capability option" where
  "ExecutionModeFromContext c =
     (case ctx_value c executionModeKey of Some (CtxCap m) \<Rightarrow> Some m | _ \<Rightarrow> None)"

definition WithDryRun :: "ctx \<Rightarrow> bool \<Rightarrow> ctx" where
  "WithDryRun c dryRun = with_value c dryRunKey (CtxBool dryRun)"

text \<open>False when the value is absent or not a bool.\<close>

definition DryRunFromContext :: "ctx \<Rightarrow> bool" where
  "DryRunFromContext c =
     (case ctx_value c dryRunKey of Some (CtxBool b) \<Rightarrow> b | _ \<Rightarrow> False)"

definition WithResolverContext :: "ctx \<Rightarrow> goval strmap option \<Rightarrow> ctx" where
  "WithResolverContext c m = with_value c resolverContextKey (CtxMap m)"

definition ResolverContextFromContext :: "ctx \<Rightarrow> goval strmap option option" where
  "ResolverContextFromContext c =
     (case ctx_value c resolverContextKey of Some (CtxMap m) \<Rightarrow> Some m | _ \<Rightarrow> None)"

definition WithParameters :: "ctx \<Rightarrow> goval strmap option \<Rightarrow> ctx" where
  "WithParameters c m = with_value c parametersKey (CtxMap m)"

definition ParametersFromContext :: "ctx \<Rightarrow> goval strmap option option" where
  "ParametersFromContext c =
     (case ctx_value c parametersKey of Some (CtxMap m) \<Rightarrow> Some m | _ \<Rightarrow> None)"

definition WithConflictStrategy :: "ctx \<Rightarrow> string \<Rightarrow> ctx" where
  "WithConflictStrategy c s = with_value c conflictStrategyKey (CtxStr s)"

definition ConflictStrategyFromContext :: "ctx \<Rightarrow> string option" where
  "ConflictStrategyFromContext c =
     (case ctx_value c conflictStrategyKey of Some (CtxStr s) \<Rightarrow> Some s | _ \<Rightarrow> None)"

definition WithBackup :: "ctx \<Rightarrow> bool \<Rightarrow> ctx" where
  "WithBackup c b = with_value c backupKey (CtxBool b)"

definition BackupFromContext :: "ctx \<Rightarrow> bool option" where
  "BackupFromContext c =
     (case ctx_value c backupKey of Some (CtxBool b) \<Rightarrow> Some b | _ \<Rightarrow> None)"

definition WithIterationContext :: "ctx \<Rightarrow> IterationContext option \<Rightarrow> ctx" where
  "WithIterationContext c i = with_value c iterationContextKey (CtxIteration i)"

definition IterationContextFromContext :: "ctx \<Rightarrow> IterationContext option option" where
  "IterationContextFromContext c =
     (case ctx_value c iterationContextKey of Some (CtxIteration i) \<Rightarrow> Some i | _ \<Rightarrow> None)"

text \<open>\<open>plugin/context.go\<close>: a nil client both when absent and when nil is stored.\<close>

definition WithHostClient :: "ctx \<Rightarrow> conn_id option \<Rightarrow> ctx" where
  "WithHostClient c client = with_value c hostClientKey (CtxHost client)"

definition HostClientFromContext :: "ctx \<Rightarrow> conn_id option" where
  "HostClientFromContext c =
     (case ctx_value c hostClientKey of Some (CtxHost h) \<Rightarrow> h | _ \<Rightarrow> None)"

text \<open>\<open>auth/context.go\<close>: the empty string is the default profile.\<close>

definition WithProfile :: "ctx \<Rightarrow> string \<Rightarrow> ctx" where
  "WithProfile c profile = with_value c profileKey (CtxStr profile)"

definition ProfileFromContext :: "ctx \<Rightarrow> string" where
  "ProfileFromContext c =
     (case ctx_value c profileKey of Some (CtxStr s) \<Rightarrow> s | _ \<Rightarrow> '''')"

section \<open>The contract of a slot\<close>

locale ctx_slot =
  fixes key :: ctx_key
    and store :: "ctx \<Rightarrow> 'a \<Rightarrow> ctx"
    and fetch :: "ctx \<Rightarrow> 'b"
    and seen :: "'a \<Rightarrow> 'b"
  assumes fetch_store: "fetch (store c x) = seen x"
    and store_frame: "k \<noteq> key \<Longrightarrow> ctx_value (store c x) k = ctx_value c k"
    and fetch_local: "ctx_value c key = ctx_value c' key \<Longrightarrow> fetch c = fetch c'"
begin

lemma fetch_last: "fetch (store (store c x) y) = seen y"
  by (rule fetch_store)

lemma fetch_with_other: "k \<noteq> key \<Longrightarrow> fetch (with_value c k v) = fetch c"
  by (rule fetch_local) (simp add: ctx_simps)

lemma fetch_absent: "ctx_value c key = None \<Longrightarrow> fetch c = fetch background"
  by (rule fetch_local) simp

end

text \<open>Two slots with different keys do not disturb each other.\<close>

locale ctx_slot_pair =
  a: ctx_slot key1 store1 fetch1 seen1 + b: ctx_slot key2 store2 fetch2 seen2
  for key1 :: ctx_key and store1 :: "ctx \<Rightarrow> 'a \<Rightarrow> ctx" and fetch1 :: "ctx \<Rightarrow> 'b" and seen1 :: "'a \<Rightarrow> 'b"
    and key2 :: ctx_key and store2 :: "ctx \<Rightarrow> 'c \<Rightarrow> ctx" and fetch2 :: "ctx \<Rightarrow> 'd" and seen2 :: "'c \<Rightarrow> 'd" +
  assumes keys: "key1 \<noteq> key2"
begin

lemma fetch1_store2: "fetch1 (store2 c x) = fetch1 c"
  by (rule a.fetch_local) (rule b.store_frame [OF keys])

lemma fetch2_store1: "fetch2 (store1 c x) = fetch2 c"
  by (rule b.fetch_local) (rule a.store_frame [OF not_sym [OF keys]])

lemma both: "fetch1 (store2 (store1 c x) y) = seen1 x \<and> fetch2 (store2 (store1 c x) y) = seen2 y"
  by (simp add: fetch1_store2 a.fetch_store b.fetch_store)

end

lemmas with_defs = WithSolutionMetadata_def WithSettings_def WithOutputDirectory_def
  WithWorkingDirectory_def WithIOStreams_def WithExecutionMode_def WithDryRun_def
  WithResolverContext_def WithParameters_def WithConflictStrategy_def WithBackup_def
  WithIterationContext_def WithHostClient_def WithProfile_def

lemmas from_defs = SolutionMetadataFromContext_def SettingsFromContext_def
  OutputDirectoryFromContext_def WorkingDirectoryFromContext_def IOStreamsFromContext_def
  ExecutionModeFromContext_def DryRunFromContext_def ResolverContextFromContext_def
  ParametersFromContext_def ConflictStrategyFromContext_def BackupFromContext_def
  IterationContextFromContext_def HostClientFromContext_def ProfileFromContext_def

lemmas ctx_unfold = with_defs from_defs ctx_simps

interpretation solution_slot: ctx_slot solutionMetadataKey WithSolutionMetadata
    SolutionMetadataFromContext Some
  by unfold_locales (simp_all add: ctx_unfold)

interpretation settings_slot: ctx_slot settingsKey WithSettings SettingsFromContext Some
  by unfold_locales (simp_all add: ctx_unfold)

interpretation outdir_slot: ctx_slot outputDirectoryKey WithOutputDirectory
    OutputDirectoryFromContext Some
  by unfold_locales (simp_all add: ctx_unfold)

interpretation workdir_slot: ctx_slot workingDirectoryKey WithWorkingDirectory
    WorkingDirectoryFromContext Some
  by unfold_locales (simp_all add: ctx_unfold)

interpretation streams_slot: ctx_slot ioStreamsKey WithIOStreams IOStreamsFromContext Some
  by unfold_locales (simp_all add: ctx_unfold)

interpretation mode_slot: ctx_slot executionModeKey WithExecutionMode
    ExecutionModeFromContext Some
  by unfold_locales (simp_all add: ctx_unfold)

interpretation dryrun_slot: ctx_slot dryRunKey WithDryRun DryRunFromContext "\<lambda>b. b"
  by unfold_locales (simp_all add: ctx_unfold)

interpretation resolver_slot: ctx_slot resolverContextKey WithResolverContext
    ResolverContextFromContext Some
  by unfold_locales (simp_all add: ctx_unfold)

interpretation params_slot: ctx_slot parametersKey WithParameters ParametersFromContext Some
  by unfold_locales (simp_all add: ctx_unfold)

interpretation conflict_slot: ctx_slot conflictStrategyKey WithConflictStrategy
    ConflictStrategyFromContext Some
  by unfold_locales (simp_all add: ctx_unfold)

interpretation backup_slot: ctx_slot backupKey WithBackup BackupFromContext Some
  by unfold_locales (simp_all add: ctx_unfold)

interpretation iteration_slot: ctx_slot iterationContextKey WithIterationContext
    IterationContextFromContext Some
  by unfold_locales (simp_all add: ctx_unfold)

interpretation host_slot: ctx_slot hostClientKey WithHostClient HostClientFromContext "\<lambda>h. h"
  by unfold_locales (simp_all add: ctx_unfold)

interpretation profile_slot: ctx_slot profileKey WithProfile ProfileFromContext "\<lambda>s. s"
  by unfold_locales (simp_all add: ctx_unfold)

text \<open>The pairs the RPC servers write together.\<close>

interpretation settings_host: ctx_slot_pair settingsKey WithSettings SettingsFromContext Some
    hostClientKey WithHostClient HostClientFromContext "\<lambda>h. h"
  by unfold_locales simp

interpretation host_profile: ctx_slot_pair hostClientKey WithHostClient HostClientFromContext
    "\<lambda>h. h" profileKey WithProfile ProfileFromContext "\<lambda>s. s"
  by unfold_locales simp

end
