(* ===== verification/Provider.thy ===== *)
theory Provider
  imports Go_Context
begin

text \<open>
  \<open>provider/provider.go\<close>: the descriptor of a provider, its accessors, and the validation
  of a descriptor.

  The semver library is not part of the repository: a version is a value of a type
  parameter \<open>'v\<close>. A nil \<open>WriteOperations\<close> (the provider cannot classify its operations)
  and an empty one (all operations are reads) are different, so the field is an option; the
  other slices are only measured with \<open>len\<close> or ranged over, where nil is the empty slice.

  Validation collects its errors in the order of the code. Its reference is
  \<open>valid_descriptor\<close>, which says what a valid descriptor is; \<open>validate_descriptor_iff\<close> shows the
  two agree. The second half shows that the write classification is consistent, and that
  the default output schemas pass validation.
\<close>

section \<open>Types\<close>

record Contact =
  co_Name :: string
  co_Email :: string

record Link =
  li_Name :: string
  li_URL :: string

record Example =
  ex_Name :: string
  ex_Description :: string
  ex_YAML :: string

record OperationDescriptor =
  op_Name :: string
  op_DisplayName :: string
  op_Description :: string
  op_Capabilities :: "capability list"
  op_IsWrite :: bool
  op_InputSchema :: "schema option"
  op_OutputSchema :: "schema option"
  op_Examples :: "Example list"
  op_Tags :: "string list"
  op_IsDeprecated :: bool
  op_DeprecationMessage :: string

record 'v Descriptor =
  d_Name :: string
  d_DisplayName :: string
  d_APIVersion :: string
  d_Version :: "'v option"
  d_Description :: string
  d_Schema :: "schema option"
  d_OutputSchemas :: "(capability, schema option) gomap option"
  d_SensitiveFields :: "string list"
  d_Decode :: "(goval strmap option \<Rightarrow> goerror + goval) option"
  d_ExtractDependencies :: "(goval strmap option \<Rightarrow> string list) option"
  d_WhatIf :: "(ctx \<Rightarrow> goval \<Rightarrow> goerror + string) option"
  d_Capabilities :: "capability list"
  d_WriteOperations :: "string list option"
  d_Operations :: "OperationDescriptor list"
  d_Category :: string
  d_Tags :: "string list"
  d_Icon :: string
  d_Links :: "Link list"
  d_Examples :: "Example list"
  d_IsDeprecated :: bool
  d_Beta :: bool
  d_Maintainers :: "Contact list"

record Output =
  out_Data :: goval
  out_Warnings :: "string list"
  out_Metadata :: "goval strmap option"
  out_Streamed :: bool

text \<open>
  The interface of a provider, over a state \<open>'s\<close> of its own. What \<open>Execute\<close> gets is any value:
  the input map, or what the descriptor's \<open>Decode\<close> makes of it.
\<close>

record ('s, 'v) ProviderImpl =
  pv_Descriptor :: "'s \<Rightarrow> 'v Descriptor option \<times> 's"
  pv_Execute :: "ctx \<Rightarrow> goval \<Rightarrow> 's \<Rightarrow> (goerror + Output option) \<times> 's"

definition CapabilityFrom :: capability where "CapabilityFrom = ''from''"
definition CapabilityTransform :: capability where "CapabilityTransform = ''transform''"
definition CapabilityValidation :: capability where "CapabilityValidation = ''validation''"
definition CapabilityAuthentication :: capability where
  "CapabilityAuthentication = ''authentication''"
definition CapabilityAction :: capability where "CapabilityAction = ''action''"
definition CapabilityState :: capability where "CapabilityState = ''state''"
definition CapabilityKubeconfig :: capability where "CapabilityKubeconfig = ''kubeconfig''"

lemmas capability_defs = CapabilityFrom_def CapabilityTransform_def CapabilityValidation_def
  CapabilityAuthentication_def CapabilityAction_def CapabilityState_def CapabilityKubeconfig_def

definition IsValid :: "capability \<Rightarrow> bool" where
  "IsValid c \<longleftrightarrow>
     c = CapabilityFrom \<or> c = CapabilityTransform \<or> c = CapabilityValidation \<or>
     c = CapabilityAuthentication \<or> c = CapabilityAction \<or> c = CapabilityState \<or>
     c = CapabilityKubeconfig"

definition Capability_String :: "capability \<Rightarrow> string" where
  "Capability_String c = c"

section \<open>Accessors of a descriptor\<close>

definition DescribeWhatIf :: "'v Descriptor \<Rightarrow> ctx \<Rightarrow> goval \<Rightarrow> string" where
  "DescribeWhatIf d c input =
     (let generic = ''Would execute '' @ d_Name d @ '' provider'' in
      case d_WhatIf d of
        None \<Rightarrow> generic
      | Some f \<Rightarrow>
          (case f c input of
             Inl err \<Rightarrow> generic
           | Inr msg \<Rightarrow> if msg \<noteq> '''' then msg else generic))"

fun any_equal :: "string list \<Rightarrow> string \<Rightarrow> bool" where
  "any_equal [] name = False"
| "any_equal (f # fs) name = (if f = name then True else any_equal fs name)"

definition IsSensitiveField :: "'v Descriptor \<Rightarrow> string \<Rightarrow> bool" where
  "IsSensitiveField d name = any_equal (d_SensitiveFields d) name"

fun find_operation :: "OperationDescriptor list \<Rightarrow> string \<Rightarrow> OperationDescriptor option" where
  "find_operation [] name = None"
| "find_operation (op # ops) name = (if op_Name op = name then Some op else find_operation ops name)"

definition GetOperation :: "'v Descriptor \<Rightarrow> string \<Rightarrow> OperationDescriptor option" where
  "GetOperation d name = find_operation (d_Operations d) name"

definition IsWriteOperation :: "'v Descriptor \<Rightarrow> string \<Rightarrow> bool" where
  "IsWriteOperation d name =
     (case d_WriteOperations d of
        Some ops \<Rightarrow> any_equal ops name
      | None \<Rightarrow> (case GetOperation d name of Some op \<Rightarrow> op_IsWrite op | None \<Rightarrow> False))"

definition EffectiveWriteOperations :: "'v Descriptor \<Rightarrow> string list option" where
  "EffectiveWriteOperations d =
     (case d_WriteOperations d of
        Some ops \<Rightarrow> Some ops
      | None \<Rightarrow>
          if d_Operations d = [] then None
          else Some (map op_Name (filter op_IsWrite (d_Operations d))))"

definition OperationNames :: "'v Descriptor \<Rightarrow> string list option" where
  "OperationNames d =
     (if d_Operations d = [] then None else Some (map op_Name (d_Operations d)))"

section \<open>Validation\<close>

definition getCapabilityRequiredFields :: "capability \<Rightarrow> (string, string) gomap option" where
  "getCapabilityRequiredFields c =
     (if c = CapabilityValidation then Some [(''valid'', ''boolean''), (''errors'', ''array'')]
      else if c = CapabilityAuthentication then
        Some [(''authenticated'', ''boolean''), (''token'', ''string'')]
      else if c = CapabilityAction \<or> c = CapabilityState \<or> c = CapabilityKubeconfig then
        Some [(''success'', ''boolean'')]
      else None)"

definition err_missing_field :: "capability \<Rightarrow> string \<Rightarrow> goerror" where
  "err_missing_field c f =
     Errorf [Lit ''capability '', Quo c, Lit '' requires output field '', Quo f]"

text \<open>The body of the loop over the required fields of one capability.\<close>

definition check_field :: "capability \<Rightarrow> schema option \<Rightarrow> string \<Rightarrow> string \<Rightarrow> goerror list" where
  "check_field c sch field expected =
     (case sch of
        None \<Rightarrow> [err_missing_field c field]
      | Some s \<Rightarrow>
          (case Properties s of
             None \<Rightarrow> [err_missing_field c field]
           | Some props \<Rightarrow>
               (case gm_get props field of
                  None \<Rightarrow> [err_missing_field c field]
                | Some None \<Rightarrow> [err_missing_field c field]
                | Some (Some prop) \<Rightarrow>
                    if sc_Type (schema_core prop) \<noteq> expected
                    then [Errorf [Lit ''capability '', Quo c, Lit '' field '', Quo field,
                            Lit '' must be type '', Quo expected, Lit '', got '',
                            Quo (sc_Type (schema_core prop))]]
                    else [])))"

definition check_fields :: "capability \<Rightarrow> schema option \<Rightarrow> (string, string) gomap \<Rightarrow> goerror list" where
  "check_fields c sch required =
     concat (map (\<lambda>field. check_field c sch field
                    (case gm_get required field of None \<Rightarrow> '''' | Some t \<Rightarrow> t))
                 (sort (gm_keys required)))"

text \<open>The body of the loop over the declared capabilities.\<close>

definition check_capability ::
  "(capability, schema option) gomap \<Rightarrow> capability \<Rightarrow> goerror list" where
  "check_capability outs c =
     (if \<not> IsValid c then [Errorf [Lit ''unknown capability '', Quo c]]
      else (case gm_get outs c of
              None \<Rightarrow> [Errorf [Lit ''missing output schema for capability '', Quo c]]
            | Some sch \<Rightarrow> check_fields c sch (gm_of (getCapabilityRequiredFields c))))"

text \<open>The loop over WriteOperations, which breaks at the first empty string.\<close>

fun check_write_ops :: "string list \<Rightarrow> string list \<Rightarrow> goerror list" where
  "check_write_ops seen [] = []"
| "check_write_ops seen (op # ops) =
     (if op = '''' then [Errorf [Lit ''WriteOperations must not contain empty strings'']]
      else (if op \<in> set seen
            then [Errorf [Lit ''WriteOperations contains duplicate entry '', Quo op]] else [])
           @ check_write_ops (op # seen) ops)"

definition check_op_capability :: "capability list \<Rightarrow> string \<Rightarrow> capability \<Rightarrow> goerror list" where
  "check_op_capability provider_caps name c =
     (if \<not> IsValid c then
        [Errorf [Lit ''operation '', Quo name, Lit '' declares unknown capability '', Quo c]]
      else if c \<notin> set provider_caps then
        [Errorf [Lit ''operation '', Quo name, Lit '' declares capability '', Quo c,
           Lit '' not supported by the provider'']]
      else [])"

text \<open>
  The loop over Operations: it returns the errors and the \<open>opIsWrite\<close> map. \<open>write_set\<close> is
  nil when WriteOperations is.
\<close>

fun check_ops :: "capability list \<Rightarrow> string list option \<Rightarrow> string list \<Rightarrow> bool strmap \<Rightarrow>
    OperationDescriptor list \<Rightarrow> goerror list \<times> bool strmap" where
  "check_ops caps write_set seen isw [] = ([], isw)"
| "check_ops caps write_set seen isw (op # ops) =
     (if op_Name op = '''' then
        (let (es, isw') = check_ops caps write_set seen isw ops
         in (Errorf [Lit ''operations must not contain entries with empty names''] # es, isw'))
      else
        (let dup = (if op_Name op \<in> set seen
                    then [Errorf [Lit ''operations contains duplicate entry '', Quo (op_Name op)]]
                    else []);
             cap_errs = concat (map (check_op_capability caps (op_Name op)) (op_Capabilities op));
             missing = (case write_set of
                          None \<Rightarrow> []
                        | Some ws \<Rightarrow>
                            if op_IsWrite op \<and> op_Name op \<notin> set ws
                            then [Errorf [Lit ''operation '', Quo (op_Name op),
                              Lit '' is marked IsWrite but is missing from WriteOperations'']]
                            else []);
             (es, isw') = check_ops caps write_set (op_Name op # seen)
                            (gm_put (op_Name op) (op_IsWrite op) isw) ops
         in (dup @ cap_errs @ missing @ es, isw')))"

text \<open>The reverse direction: an entry of WriteOperations that names a read operation.\<close>

definition check_reverse :: "bool strmap \<Rightarrow> string \<Rightarrow> goerror list" where
  "check_reverse isw name =
     (case gm_get isw name of
        Some False \<Rightarrow> [Errorf [Lit ''operation '', Quo name,
          Lit '' is listed in WriteOperations but its descriptor is not marked IsWrite'']]
      | _ \<Rightarrow> [])"

definition validateOperations :: "'v Descriptor \<Rightarrow> goerror list" where
  "validateOperations d =
     (if d_Operations d = [] then []
      else
        (let (es, isw) = check_ops (d_Capabilities d) (d_WriteOperations d) [] [] (d_Operations d)
         in es @ (case d_WriteOperations d of
                    None \<Rightarrow> []
                  | Some ws \<Rightarrow> concat (map (check_reverse isw) ws))))"

definition ValidateDescriptor :: "'v Descriptor option \<Rightarrow> goerror option" where
  "ValidateDescriptor desc =
     (case desc of
        None \<Rightarrow> Some (Errorf [Lit ''descriptor is nil''])
      | Some d \<Rightarrow>
          if d_Capabilities d = [] then
            Some (Errorf [Lit ''descriptor must declare at least one capability''])
          else
            (case d_OutputSchemas d of
               None \<Rightarrow> Some (Errorf [Lit ''descriptor must define OutputSchemas''])
             | Some outs \<Rightarrow>
                 errors_join
                   (concat (map (check_capability outs) (d_Capabilities d))
                    @ check_write_ops [] (case d_WriteOperations d of None \<Rightarrow> [] | Some ws \<Rightarrow> ws)
                    @ validateOperations d)))"

section \<open>Default output schemas\<close>

definition defaultSchemaForCapability :: "capability \<Rightarrow> schema" where
  "defaultSchemaForCapability c =
     Schema (zero_core\<lparr>sc_Type := ''object''\<rparr>)
       (Some (gm_copy (\<lambda>typ. Some (typed_schema typ)) (gm_of (getCapabilityRequiredFields c)) []))
       None None"

fun default_schemas_into ::
  "capability list \<Rightarrow> (capability, schema option) gomap \<Rightarrow> (capability, schema option) gomap" where
  "default_schemas_into [] schemas = schemas"
| "default_schemas_into (c # cs) schemas =
     default_schemas_into cs (gm_put c (Some (defaultSchemaForCapability c)) schemas)"

definition DefaultOutputSchemas :: "capability list \<Rightarrow> (capability, schema option) gomap" where
  "DefaultOutputSchemas caps = default_schemas_into caps []"

section \<open>What a valid descriptor is\<close>

definition has_typed_property :: "schema option \<Rightarrow> string \<Rightarrow> string \<Rightarrow> bool" where
  "has_typed_property sch field typ \<longleftrightarrow>
     (\<exists>s props p. sch = Some s \<and> Properties s = Some props \<and>
        gm_get props field = Some (Some p) \<and> sc_Type (schema_core p) = typ)"

definition valid_output :: "(capability, schema option) gomap \<Rightarrow> capability \<Rightarrow> bool" where
  "valid_output outs c \<longleftrightarrow> IsValid c \<and>
     (\<exists>sch. gm_get outs c = Some sch \<and>
        (\<forall>(field, typ) \<in> set (gm_of (getCapabilityRequiredFields c)).
           has_typed_property sch field typ))"

text \<open>The operations of a descriptor, and their agreement with WriteOperations.\<close>

definition valid_operation :: "capability list \<Rightarrow> string list option \<Rightarrow> OperationDescriptor \<Rightarrow> bool" where
  "valid_operation caps ws op \<longleftrightarrow>
     op_Name op \<noteq> '''' \<and>
     (\<forall>c \<in> set (op_Capabilities op). IsValid c \<and> c \<in> set caps) \<and>
     (\<forall>w. ws = Some w \<longrightarrow> (op_IsWrite op \<longleftrightarrow> op_Name op \<in> set w))"

definition valid_operations :: "capability list \<Rightarrow> string list option \<Rightarrow> OperationDescriptor list \<Rightarrow> bool" where
  "valid_operations caps ws ops \<longleftrightarrow>
     distinct (map op_Name ops) \<and> (\<forall>op \<in> set ops. valid_operation caps ws op)"

definition valid_write_ops :: "string list option \<Rightarrow> bool" where
  "valid_write_ops ws \<longleftrightarrow> (\<forall>w. ws = Some w \<longrightarrow> '''' \<notin> set w \<and> distinct w)"

definition valid_descriptor :: "'v Descriptor \<Rightarrow> bool" where
  "valid_descriptor d \<longleftrightarrow>
     d_Capabilities d \<noteq> [] \<and>
     (\<exists>outs. d_OutputSchemas d = Some outs \<and> (\<forall>c \<in> set (d_Capabilities d). valid_output outs c)) \<and>
     valid_write_ops (d_WriteOperations d) \<and>
     valid_operations (d_Capabilities d) (d_WriteOperations d) (d_Operations d)"

section \<open>Validation accepts exactly the valid descriptors\<close>

lemma any_equal_iff [simp]: "any_equal xs x \<longleftrightarrow> x \<in> set xs"
  by (induction xs) auto

lemma check_field_Nil: "check_field c sch f t = [] \<longleftrightarrow> has_typed_property sch f t"
  by (auto simp: check_field_def has_typed_property_def split: option.splits)

lemma required_wf: "gm_wf (gm_of (getCapabilityRequiredFields c))"
  by (simp add: getCapabilityRequiredFields_def gm_wf_def)

lemma check_fields_Nil:
  assumes "gm_wf required"
  shows "check_fields c sch required = [] \<longleftrightarrow>
    (\<forall>(f, t) \<in> set required. has_typed_property sch f t)"
proof -
  have "gm_get required f = Some t" if "(f, t) \<in> set required" for f t
    using assms that by (simp add: gm_wf_def)
  then show ?thesis
    by (fastforce simp: check_fields_def check_field_Nil gm_keys_def)
qed

lemma check_capability_Nil: "check_capability outs c = [] \<longleftrightarrow> valid_output outs c"
  by (simp add: check_capability_def valid_output_def check_fields_Nil required_wf
      split: option.split)

lemma check_write_ops_Nil:
  "check_write_ops seen ops = [] \<longleftrightarrow> '''' \<notin> set ops \<and> distinct ops \<and> set ops \<inter> set seen = {}"
  by (induction seen ops rule: check_write_ops.induct) auto

lemma check_op_capability_Nil:
  "check_op_capability caps name c = [] \<longleftrightarrow> IsValid c \<and> c \<in> set caps"
  by (simp add: check_op_capability_def)

text \<open>One direction of the write agreement: what the loop over Operations checks.\<close>

definition write_listed :: "string list option \<Rightarrow> OperationDescriptor \<Rightarrow> bool" where
  "write_listed ws op \<longleftrightarrow> (\<forall>w. ws = Some w \<and> op_IsWrite op \<longrightarrow> op_Name op \<in> set w)"

lemma check_ops_Nil:
  "fst (check_ops caps ws seen isw ops) = [] \<longleftrightarrow>
     '''' \<notin> set (map op_Name ops) \<and> distinct (map op_Name ops) \<and>
     set (map op_Name ops) \<inter> set seen = {} \<and>
     (\<forall>op \<in> set ops. (\<forall>c \<in> set (op_Capabilities op). IsValid c \<and> c \<in> set caps) \<and> write_listed ws op)"
proof (induction caps ws seen isw ops rule: check_ops.induct)
  case (2 caps ws seen isw op ops)
  show ?case
  proof (cases "op_Name op = ''''")
    case True
    then show ?thesis by (simp add: case_prod_beta)
  next
    case False
    with 2 show ?thesis
      by (auto simp: case_prod_beta check_op_capability_Nil write_listed_def split: option.splits)
  qed
qed simp

lemma check_ops_isw:
  assumes "'''' \<notin> set (map op_Name ops)" and "distinct (map op_Name ops)"
  shows "gm_get (snd (check_ops caps ws seen isw ops)) n =
    (case find_operation ops n of Some op \<Rightarrow> Some (op_IsWrite op) | None \<Rightarrow> gm_get isw n)"
  using assms
proof (induction caps ws seen isw ops rule: check_ops.induct)
  case (2 caps ws seen isw op ops)
  have "find_operation ops n = None" if "op_Name op = n"
    using 2(4) that by (induction ops) auto
  with 2 show ?case by (auto simp: case_prod_beta gm_get_put split: option.split)
qed simp

lemma find_operation_Some:
  "find_operation ops n = Some op \<Longrightarrow> op \<in> set ops \<and> op_Name op = n"
  by (induction ops) (auto split: if_splits)

lemma find_operation_None: "find_operation ops n = None \<longleftrightarrow> n \<notin> op_Name ` set ops"
  by (induction ops) auto

lemma find_operation_distinct:
  "distinct (map op_Name ops) \<Longrightarrow> op \<in> set ops \<Longrightarrow> find_operation ops (op_Name op) = Some op"
  by (induction ops) auto

lemma check_reverse_Nil:
  assumes "'''' \<notin> set (map op_Name ops)" and "distinct (map op_Name ops)"
  shows "check_reverse (snd (check_ops caps ws [] [] ops)) n = [] \<longleftrightarrow>
    (\<forall>op \<in> set ops. op_Name op = n \<longrightarrow> op_IsWrite op)"
  unfolding check_reverse_def check_ops_isw [OF assms]
  by (auto simp: find_operation_None find_operation_distinct [OF assms(2)]
      split: option.splits bool.splits dest: find_operation_Some)

lemma validateOperations_Nil:
  "validateOperations d = [] \<longleftrightarrow>
     valid_operations (d_Capabilities d) (d_WriteOperations d) (d_Operations d)"
proof (cases "'''' \<notin> set (map op_Name (d_Operations d)) \<and> distinct (map op_Name (d_Operations d))")
  case True
  then have "op_Name op \<noteq> ''''" if "op \<in> set (d_Operations d)" for op
    using that by force
  with True show ?thesis
    by (auto simp: validateOperations_def case_prod_beta check_ops_Nil check_reverse_Nil
        write_listed_def valid_operations_def valid_operation_def split: option.split)
next
  case False
  then have "fst (check_ops (d_Capabilities d) (d_WriteOperations d) [] [] (d_Operations d)) \<noteq> []"
    by (auto simp: check_ops_Nil)
  then have "validateOperations d \<noteq> []"
    by (auto simp: validateOperations_def case_prod_beta)
  moreover have "\<not> valid_operations (d_Capabilities d) (d_WriteOperations d) (d_Operations d)"
    using False by (force simp: valid_operations_def valid_operation_def)
  ultimately show ?thesis by simp
qed

lemma validate_iff: "ValidateDescriptor (Some d) = None \<longleftrightarrow> valid_descriptor d"
  by (auto simp: ValidateDescriptor_def valid_descriptor_def check_capability_Nil
      check_write_ops_Nil validateOperations_Nil valid_write_ops_def split: option.split)

section \<open>The write classification\<close>

lemma IsWriteOperation_iff:
  assumes "distinct (map op_Name (d_Operations d))"
  shows "IsWriteOperation d n \<longleftrightarrow> n \<in> set (case EffectiveWriteOperations d of None \<Rightarrow> [] | Some ws \<Rightarrow> ws)"
proof (cases "d_WriteOperations d")
  case None
  have "(\<exists>op. find_operation (d_Operations d) n = Some op \<and> op_IsWrite op) \<longleftrightarrow>
        n \<in> op_Name ` {op \<in> set (d_Operations d). op_IsWrite op}"
    using find_operation_distinct [OF assms] by (auto dest: find_operation_Some)
  with None show ?thesis
    by (auto simp: IsWriteOperation_def EffectiveWriteOperations_def GetOperation_def
        split: option.splits)
next
  case (Some ws)
  then show ?thesis by (simp add: IsWriteOperation_def EffectiveWriteOperations_def)
qed

section \<open>Default output schemas\<close>

lemma default_schemas_get:
  "gm_get (default_schemas_into cs m) c =
     (if c \<in> set cs then Some (Some (defaultSchemaForCapability c)) else gm_get m c)"
  by (induction cs m rule: default_schemas_into.induct) (simp_all add: gm_get_put)

lemma DefaultOutputSchemas_get [dict_simps]:
  "gm_get (DefaultOutputSchemas cs) c =
     (if c \<in> set cs then Some (Some (defaultSchemaForCapability c)) else None)"
  by (simp add: DefaultOutputSchemas_def default_schemas_get)

lemma default_schema_property:
  "(f, t) \<in> set (gm_of (getCapabilityRequiredFields c)) \<Longrightarrow>
     has_typed_property (Some (defaultSchemaForCapability c)) f t"
  using required_wf [of c]
  by (auto simp: has_typed_property_def defaultSchemaForCapability_def gm_get_copy gm_wf_def)

lemma default_valid_output:
  "c \<in> set cs \<Longrightarrow> valid_output (DefaultOutputSchemas cs) c \<longleftrightarrow> IsValid c"
  by (auto simp: valid_output_def dict_simps default_schema_property)


section \<open>Properties\<close>

text \<open>
  C1. Descriptor validation reports no error exactly for the valid descriptors: it is there,
  has a capability, every capability is known and has an output schema with the required
  fields at the required types, WriteOperations has no empty or duplicate entry, and the
  operations have distinct non-empty names, capabilities of the provider, and agree with
  WriteOperations in both directions.
\<close>

theorem validate_descriptor_iff:
  "ValidateDescriptor desc = None \<longleftrightarrow> (case desc of None \<Rightarrow> False | Some d \<Rightarrow> valid_descriptor d)"
  by (cases desc) (simp_all add: validate_iff, simp add: ValidateDescriptor_def)

text \<open>
  C27. On a descriptor that passes validation the three ways to classify an operation agree: a
  declared operation is a write operation by name exactly when it is marked IsWrite, and any
  name is one exactly when it is in the effective list of write operations.
\<close>

theorem write_classification:
  assumes valid: "ValidateDescriptor (Some d) = None"
  shows "list_all (\<lambda>op. IsWriteOperation d (op_Name op) \<longleftrightarrow> op_IsWrite op) (d_Operations d) \<and>
    (IsWriteOperation d n \<longleftrightarrow>
       n \<in> set (case EffectiveWriteOperations d of None \<Rightarrow> [] | Some ws \<Rightarrow> ws))"
proof -
  from valid have ops: "valid_operations (d_Capabilities d) (d_WriteOperations d) (d_Operations d)"
    by (simp add: validate_iff valid_descriptor_def)
  then have dist: "distinct (map op_Name (d_Operations d))" by (simp add: valid_operations_def)
  have "IsWriteOperation d (op_Name op) \<longleftrightarrow> op_IsWrite op" if "op \<in> set (d_Operations d)" for op
    using that ops find_operation_distinct [OF dist that]
    by (auto simp: IsWriteOperation_def GetOperation_def valid_operations_def valid_operation_def
        split: option.split)
  with IsWriteOperation_iff [OF dist] show ?thesis by (simp add: list_all_iff)
qed

text \<open>A provider with an action capability, a read operation and a write operation.\<close>

definition empty_descriptor :: "string \<Rightarrow> 'v Descriptor" where
  "empty_descriptor name = \<lparr>d_Name = name, d_DisplayName = '''', d_APIVersion = '''', d_Version = None,
     d_Description = '''', d_Schema = None, d_OutputSchemas = None, d_SensitiveFields = [],
     d_Decode = None, d_ExtractDependencies = None, d_WhatIf = None, d_Capabilities = [],
     d_WriteOperations = None, d_Operations = [], d_Category = '''', d_Tags = [], d_Icon = '''',
     d_Links = [], d_Examples = [], d_IsDeprecated = False, d_Beta = False, d_Maintainers = []\<rparr>"

definition sample_operation :: "string \<Rightarrow> bool \<Rightarrow> OperationDescriptor" where
  "sample_operation name w = \<lparr>op_Name = name, op_DisplayName = '''', op_Description = '''',
     op_Capabilities = [CapabilityAction], op_IsWrite = w, op_InputSchema = None,
     op_OutputSchema = None, op_Examples = [], op_Tags = [], op_IsDeprecated = False,
     op_DeprecationMessage = ''''\<rparr>"

definition sample_descriptor :: "'v Descriptor" where
  "sample_descriptor = (empty_descriptor ''sample'')\<lparr>d_Capabilities := [CapabilityAction],
     d_OutputSchemas := Some (DefaultOutputSchemas [CapabilityAction]),
     d_WriteOperations := Some [''set''],
     d_Operations := [sample_operation ''get'' False, sample_operation ''set'' True]\<rparr>"

lemma sample_descriptor_valid: "valid_descriptor sample_descriptor"
  by (simp add: valid_descriptor_def sample_descriptor_def default_valid_output valid_write_ops_def
      valid_operations_def valid_operation_def sample_operation_def IsValid_def)

theorem write_classification_witness:
  "IsWriteOperation (sample_descriptor :: unit Descriptor) ''set'' \<and>
   \<not> IsWriteOperation (sample_descriptor :: unit Descriptor) ''get''"
proof -
  have "ValidateDescriptor (Some (sample_descriptor :: unit Descriptor)) = None"
    by (simp add: validate_iff sample_descriptor_valid)
  from write_classification [OF this, of "''set''"] show ?thesis
    by (simp add: sample_descriptor_def sample_operation_def)
qed

text \<open>
  C31. The default output schemas are always right: a descriptor that uses them for its
  capabilities, and declares no operations, passes validation exactly when it has a
  capability and all of them are known.
\<close>

theorem default_output_schemas_valid:
  "ValidateDescriptor (Some (d\<lparr>d_OutputSchemas := Some (DefaultOutputSchemas (d_Capabilities d)),
       d_WriteOperations := None, d_Operations := []\<rparr>)) = None \<longleftrightarrow>
     d_Capabilities d \<noteq> [] \<and> list_all IsValid (d_Capabilities d)"
  by (auto simp: validate_iff valid_descriptor_def valid_write_ops_def valid_operations_def
      default_valid_output list_all_iff)

end
