(* ===== verification/Json.thy ===== *)
theory Json
  imports Provider
begin

text \<open>
  The JSON interface. \<open>encoding/json\<close> works by reflection and calls the marshalling
  methods of jsonschema-go, which is not part of the repository, so the calls the source
  makes are the fields of a record \<open>json_lib\<close>, an argument of every function that encodes or
  decodes. Theorems hold for every such library; where a round trip needs a law, it is a
  named hypothesis about the values concerned, and the concrete library \<open>sample_json\<close> shows
  the hypotheses can hold.
\<close>

record json_lib =
  unmarshal_map :: "bytes \<Rightarrow> goerror + goval strmap option"  \<comment> \<open>into \<open>map[string]any\<close>; nil for \<open>null\<close>\<close>
  unmarshal_any :: "bytes \<Rightarrow> goerror + goval"
  unmarshal_schema :: "bytes \<Rightarrow> goerror + schema"
  marshal_any :: "goval \<Rightarrow> goerror + bytes"
  marshal_output :: "Output option \<Rightarrow> goerror + bytes"
  marshal_schema :: "schema \<Rightarrow> goerror + bytes"

text \<open>A schema that survives the library: it encodes to non-empty bytes that decode to it.\<close>

definition schema_stable :: "json_lib \<Rightarrow> schema \<Rightarrow> bool" where
  "schema_stable J s \<longleftrightarrow>
     (\<exists>b. marshal_schema J s = Inr b \<and> b \<noteq> [] \<and> unmarshal_schema J b = Inr s)"

definition value_stable :: "json_lib \<Rightarrow> goval \<Rightarrow> bool" where
  "value_stable J v \<longleftrightarrow>
     (\<exists>b. marshal_any J v = Inr b \<and> b \<noteq> [] \<and> unmarshal_any J b = Inr v)"

text \<open>Raw JSON that the library re-encodes to itself (compact JSON).\<close>

definition raw_stable :: "json_lib \<Rightarrow> bytes \<Rightarrow> bool" where
  "raw_stable J b \<longleftrightarrow> b \<noteq> [] \<and> marshal_any J (VRaw b) = Inr b"

section \<open>A concrete library\<close>

text \<open>
  A small library on which witnesses run: it knows \<open>null\<close>, \<open>true\<close>, \<open>false\<close>, the
  empty object, one-member objects with a string value, unescaped strings, and type-only schemas. Its laws
  are those of \<open>encoding/json\<close> on these inputs.
\<close>

definition json_error :: goerror where
  "json_error = Foreign ''unexpected end of JSON input''"

definition dquote :: char where "dquote = CHR 0x22"

definition sample_string :: "string \<Rightarrow> bytes" where
  "sample_string s = dquote # s @ [dquote]"

definition sample_unstring :: "bytes \<Rightarrow> string option" where
  "sample_unstring b =
     (if length b \<ge> 2 \<and> hd b = dquote \<and> last b = dquote then Some (butlast (tl b)) else None)"

definition sample_unmarshal_map :: "bytes \<Rightarrow> goerror + goval strmap option" where
  "sample_unmarshal_map b =
     (if b = ''null'' then Inr None
      else if b = ''{}'' then Inr (Some [])
      else if take 6 b = ''{'' @ sample_string ''m'' @ '':'' @ [dquote]
             \<and> drop (length b - 2) b = dquote # ''}''
        then Inr (Some [(''m'', VStr (take (length b - 8) (drop 6 b)))])
      else Inl json_error)"

definition sample_unmarshal_any :: "bytes \<Rightarrow> goerror + goval" where
  "sample_unmarshal_any b =
     (if b = ''null'' then Inr VNil
      else if b = ''true'' then Inr (VBool True)
      else if b = ''false'' then Inr (VBool False)
      else (case sample_unstring b of Some s \<Rightarrow> Inr (VStr s) | None \<Rightarrow> Inl json_error))"

fun sample_marshal_any :: "goval \<Rightarrow> goerror + bytes" where
  "sample_marshal_any VNil = Inr ''null''"
| "sample_marshal_any (VBool b) = Inr (if b then ''true'' else ''false'')"
| "sample_marshal_any (VStr s) = Inr (sample_string s)"
| "sample_marshal_any (VRaw b) = Inr b"
| "sample_marshal_any _ = Inl json_error"

definition sample_marshal_schema :: "schema \<Rightarrow> goerror + bytes" where
  "sample_marshal_schema s =
     (if s = typed_schema (sc_Type (schema_core s)) then Inr (sample_string (sc_Type (schema_core s)))
      else Inl json_error)"

definition sample_json :: json_lib where
  "sample_json = \<lparr>
     unmarshal_map = sample_unmarshal_map,
     unmarshal_any = sample_unmarshal_any,
     unmarshal_schema = (\<lambda>b. case sample_unstring b of
        Some t \<Rightarrow> Inr (typed_schema t) | None \<Rightarrow> Inl json_error),
     marshal_any = sample_marshal_any,
     marshal_output = (\<lambda>out. case out of None \<Rightarrow> Inr ''null''
        | Some out' \<Rightarrow> sample_marshal_any (out_Data out')),
     marshal_schema = sample_marshal_schema\<rparr>"

lemma sample_unstring_string [simp]: "sample_unstring (sample_string s) = Some s"
  by (simp add: sample_unstring_def sample_string_def)

lemma sample_string_nonempty [simp]: "sample_string s \<noteq> []"
  by (simp add: sample_string_def)

lemma sample_schema_stable [simp]: "schema_stable sample_json (typed_schema t)"
  by (simp add: schema_stable_def sample_json_def sample_marshal_schema_def)

lemma sample_string_neq [simp]:
  "sample_string s \<noteq> ''null''" "sample_string s \<noteq> ''true''" "sample_string s \<noteq> ''false''"
  by (simp_all add: sample_string_def dquote_def)

lemma sample_value_stable [simp]: "value_stable sample_json (VStr s)"
  by (simp add: value_stable_def sample_json_def sample_unmarshal_any_def)

lemma sample_raw_stable [simp]: "raw_stable sample_json b \<longleftrightarrow> b \<noteq> []"
  by (simp add: raw_stable_def sample_json_def)

end
