(* ===== verification/Schemahelper.thy ===== *)
theory Schemahelper
  imports Json
begin

text \<open>
  \<open>provider/schemahelper/schemahelper.go\<close>: builders of JSON schemas. A property option is a
  function that mutates the schema; here it maps the schema to the changed one. The builders
  fix the type of a property, and no option of the package changes its type, its properties
  or its required list.
\<close>

type_synonym prop_option = "schema \<Rightarrow> schema"

definition WithDescription :: "string \<Rightarrow> prop_option" where
  "WithDescription desc = map_core (sc_Description_update (\<lambda>_. desc))"

definition WithExample :: "goval list \<Rightarrow> prop_option" where
  "WithExample examples = map_core (sc_Examples_update (\<lambda>_. examples))"

text \<open>A default that does not encode is dropped.\<close>

definition WithDefault :: "json_lib \<Rightarrow> goval \<Rightarrow> prop_option" where
  "WithDefault J v s =
     (case marshal_any J v of
        Inl err \<Rightarrow> s
      | Inr data \<Rightarrow> map_core (sc_Default_update (\<lambda>_. Some data)) s)"

text \<open>Called with no value, the variadic slice is nil.\<close>

definition WithEnum :: "goval list \<Rightarrow> prop_option" where
  "WithEnum vals = map_core (sc_Enum_update (\<lambda>_. if vals = [] then None else Some vals))"

definition WithPattern :: "string \<Rightarrow> prop_option" where
  "WithPattern pattern = map_core (sc_Pattern_update (\<lambda>_. pattern))"

definition WithMinLength :: "goint \<Rightarrow> prop_option" where
  "WithMinLength n = map_core (sc_MinLength_update (\<lambda>_. Some n))"

definition WithMaxLength :: "goint \<Rightarrow> prop_option" where
  "WithMaxLength n = map_core (sc_MaxLength_update (\<lambda>_. Some n))"

definition WithMinimum :: "float64 \<Rightarrow> prop_option" where
  "WithMinimum n = map_core (sc_Minimum_update (\<lambda>_. Some n))"

definition WithMaximum :: "float64 \<Rightarrow> prop_option" where
  "WithMaximum n = map_core (sc_Maximum_update (\<lambda>_. Some n))"

definition WithMinItems :: "goint \<Rightarrow> prop_option" where
  "WithMinItems n = map_core (sc_MinItems_update (\<lambda>_. Some n))"

definition WithMaxItems :: "goint \<Rightarrow> prop_option" where
  "WithMaxItems n = map_core (sc_MaxItems_update (\<lambda>_. Some n))"

definition WithFormat :: "string \<Rightarrow> prop_option" where
  "WithFormat format = map_core (sc_Format_update (\<lambda>_. format))"

definition WithDeprecated :: prop_option where
  "WithDeprecated = map_core (sc_Deprecated_update (\<lambda>_. True))"

definition WithWriteOnly :: prop_option where
  "WithWriteOnly = map_core (sc_WriteOnly_update (\<lambda>_. True))"

definition WithTitle :: "string \<Rightarrow> prop_option" where
  "WithTitle title = map_core (sc_Title_update (\<lambda>_. title))"

definition WithItems :: "schema option \<Rightarrow> prop_option" where
  "WithItems item s = Schema (schema_core s) (Properties s) item (AdditionalProperties s)"

definition WithAdditionalProperties :: "schema option \<Rightarrow> prop_option" where
  "WithAdditionalProperties sch s = Schema (schema_core s) (Properties s) (Items s) sch"

fun applyOpts :: "schema \<Rightarrow> prop_option list \<Rightarrow> schema" where
  "applyOpts s [] = s"
| "applyOpts s (opt # opts) = applyOpts (opt s) opts"

definition StringProp :: "string \<Rightarrow> prop_option list \<Rightarrow> schema" where
  "StringProp desc opts =
     applyOpts (leaf_schema (zero_core\<lparr>sc_Type := ''string'', sc_Description := desc\<rparr>)) opts"

definition IntProp :: "string \<Rightarrow> prop_option list \<Rightarrow> schema" where
  "IntProp desc opts =
     applyOpts (leaf_schema (zero_core\<lparr>sc_Type := ''integer'', sc_Description := desc\<rparr>)) opts"

definition NumberProp :: "string \<Rightarrow> prop_option list \<Rightarrow> schema" where
  "NumberProp desc opts =
     applyOpts (leaf_schema (zero_core\<lparr>sc_Type := ''number'', sc_Description := desc\<rparr>)) opts"

definition BoolProp :: "string \<Rightarrow> prop_option list \<Rightarrow> schema" where
  "BoolProp desc opts =
     applyOpts (leaf_schema (zero_core\<lparr>sc_Type := ''boolean'', sc_Description := desc\<rparr>)) opts"

definition ArrayProp :: "string \<Rightarrow> prop_option list \<Rightarrow> schema" where
  "ArrayProp desc opts =
     applyOpts (leaf_schema (zero_core\<lparr>sc_Type := ''array'', sc_Description := desc\<rparr>)) opts"

definition AnyProp :: "string \<Rightarrow> prop_option list \<Rightarrow> schema" where
  "AnyProp desc opts = applyOpts (leaf_schema (zero_core\<lparr>sc_Description := desc\<rparr>)) opts"

text \<open>An empty required list leaves \<open>Required\<close> nil.\<close>

definition ObjectProp ::
  "string \<Rightarrow> string list \<Rightarrow> schema option strmap option \<Rightarrow> prop_option list \<Rightarrow> schema" where
  "ObjectProp desc required props opts =
     (let s = Schema (zero_core\<lparr>sc_Type := ''object'', sc_Description := desc\<rparr>) props None None;
          s' = (if required \<noteq> [] then map_core (sc_Required_update (\<lambda>_. required)) s else s)
      in applyOpts s' opts)"

definition ObjectSchema :: "string list \<Rightarrow> schema option strmap option \<Rightarrow> schema" where
  "ObjectSchema required props =
     (let s = Schema (zero_core\<lparr>sc_Type := ''object''\<rparr>) props None None
      in if required \<noteq> [] then map_core (sc_Required_update (\<lambda>_. required)) s else s)"

section \<open>Options keep the shape of a schema\<close>

definition keeps_shape :: "prop_option \<Rightarrow> bool" where
  "keeps_shape f \<longleftrightarrow>
     (\<forall>s. sc_Type (schema_core (f s)) = sc_Type (schema_core s) \<and>
          sc_Required (schema_core (f s)) = sc_Required (schema_core s) \<and>
          Properties (f s) = Properties s)"

text \<open>The options the package offers, with the JSON library \<open>WithDefault\<close> uses.\<close>

inductive sdk_option :: "json_lib \<Rightarrow> prop_option \<Rightarrow> bool" for J where
  "sdk_option J (WithDescription s)"
| "sdk_option J (WithExample vs)"
| "sdk_option J (WithDefault J v)"
| "sdk_option J (WithEnum vs)"
| "sdk_option J (WithPattern s)"
| "sdk_option J (WithMinLength n)"
| "sdk_option J (WithMaxLength n)"
| "sdk_option J (WithMinimum f)"
| "sdk_option J (WithMaximum f)"
| "sdk_option J (WithMinItems n)"
| "sdk_option J (WithMaxItems n)"
| "sdk_option J (WithFormat s)"
| "sdk_option J WithDeprecated"
| "sdk_option J WithWriteOnly"
| "sdk_option J (WithTitle s)"
| "sdk_option J (WithItems i)"
| "sdk_option J (WithAdditionalProperties i)"

lemmas option_defs = WithDescription_def WithExample_def WithDefault_def WithEnum_def
  WithPattern_def WithMinLength_def WithMaxLength_def WithMinimum_def WithMaximum_def
  WithMinItems_def WithMaxItems_def WithFormat_def WithDeprecated_def WithWriteOnly_def
  WithTitle_def WithItems_def WithAdditionalProperties_def

lemma sdk_option_keeps_shape: "sdk_option J f \<Longrightarrow> keeps_shape f"
  by (induction rule: sdk_option.induct)
    (auto simp: keeps_shape_def option_defs split: sum.split)

lemma applyOpts_append [simp]: "applyOpts s (xs @ ys) = applyOpts (applyOpts s xs) ys"
  by (induction s xs rule: applyOpts.induct) simp_all

lemma applyOpts_shape:
  "list_all keeps_shape opts \<Longrightarrow>
     sc_Type (schema_core (applyOpts s opts)) = sc_Type (schema_core s) \<and>
     sc_Required (schema_core (applyOpts s opts)) = sc_Required (schema_core s) \<and>
     Properties (applyOpts s opts) = Properties s"
  by (induction s opts rule: applyOpts.induct) (auto simp: keeps_shape_def)

lemma list_all_keeps_shape: "list_all (sdk_option J) opts \<Longrightarrow> list_all keeps_shape opts"
  by (auto simp: list_all_iff sdk_option_keeps_shape)

lemmas builder_defs = StringProp_def IntProp_def NumberProp_def BoolProp_def ArrayProp_def
  AnyProp_def ObjectProp_def ObjectSchema_def

lemma builder_types:
  assumes "list_all (sdk_option J) opts"
  shows "sc_Type (schema_core (StringProp desc opts)) = ''string''"
    and "sc_Type (schema_core (IntProp desc opts)) = ''integer''"
    and "sc_Type (schema_core (NumberProp desc opts)) = ''number''"
    and "sc_Type (schema_core (BoolProp desc opts)) = ''boolean''"
    and "sc_Type (schema_core (ArrayProp desc opts)) = ''array''"
    and "sc_Type (schema_core (AnyProp desc opts)) = ''''"
    and "sc_Type (schema_core (ObjectProp desc req props opts)) = ''object''"
  using applyOpts_shape [OF list_all_keeps_shape [OF assms]]
  by (simp_all add: builder_defs Let_def zero_core_def)

lemma object_prop_shape:
  assumes "list_all (sdk_option J) opts"
  shows "Properties (ObjectProp desc req props opts) = props"
    and "sc_Required (schema_core (ObjectProp desc req props opts)) = req"
  using applyOpts_shape [OF list_all_keeps_shape [OF assms]]
  by (simp_all add: builder_defs Let_def zero_core_def)

lemma ObjectSchema_sel [simp]:
  "Properties (ObjectSchema req props) = props"
  "sc_Required (schema_core (ObjectSchema req props)) = req"
  "sc_Type (schema_core (ObjectSchema req props)) = ''object''"
  by (simp_all add: ObjectSchema_def Let_def zero_core_def)


section \<open>Properties\<close>



end
