(* ===== verification/Validation.thy ===== *)
theory Validation
  imports Provider
begin

text \<open>
  \<open>provider/validation.go\<close>: the validation of provider inputs and outputs against a JSON
  schema, and the conversion of the library's error into field errors.

  The jsonschema library is a parameter: \<open>resolve\<close> is \<open>schema.Resolve(nil)\<close>, \<open>check\<close> is
  \<open>resolved.Validate\<close>, and a resolved schema is a value of the type parameter \<open>'r\<close>. The
  Go functions return an \<open>error\<close> whose dynamic type matters to a caller, so the result is
  a datatype with one constructor for each.
\<close>

section \<open>Errors\<close>

record ValidationError =
  ve_Field :: string
  ve_Value :: goval
  ve_Constraint :: string
  ve_Message :: string
  ve_Actual :: string
  ve_Expected :: string

definition field_error :: "string \<Rightarrow> string \<Rightarrow> ValidationError" where
  "field_error field msg =
     \<lparr>ve_Field = field, ve_Value = VNil, ve_Constraint = '''', ve_Message = msg,
      ve_Actual = '''', ve_Expected = ''''\<rparr>"

definition ValidationError_Error :: "ValidationError \<Rightarrow> string" where
  "ValidationError_Error e =
     (if ve_Actual e \<noteq> '''' \<and> ve_Expected e \<noteq> ''''
      then ve_Field e @ '': '' @ ve_Message e @ '' (actual: '' @ ve_Actual e @
           '', expected: '' @ ve_Expected e @ '')''
      else ve_Field e @ '': '' @ ve_Message e)"

definition ValidationErrors_Error :: "ValidationError list \<Rightarrow> string" where
  "ValidationErrors_Error es =
     (case es of
        [] \<Rightarrow> ''''
      | [e] \<Rightarrow> ValidationError_Error e
      | _ \<Rightarrow> ''validation failed with '' @ dec_digits (length es) @ '' errors:'' @ [CHR 0x0A] @
            concat (map (\<lambda>e. ''  - '' @ ValidationError_Error e @ [CHR 0x0A]) es))"

datatype validation_error =
    ResolveFailed goerror
  | FieldErrors "ValidationError list"
  | FieldError ValidationError

definition validation_text :: "validation_error \<Rightarrow> string" where
  "validation_text e =
     (case e of ResolveFailed err \<Rightarrow> error_text err
      | FieldErrors es \<Rightarrow> ValidationErrors_Error es
      | FieldError e' \<Rightarrow> ValidationError_Error e')"

section \<open>Validation\<close>

text \<open>The loop over the lines of the library's message.\<close>

fun line_errors :: "string \<Rightarrow> string list \<Rightarrow> ValidationError list" where
  "line_errors path [] = []"
| "line_errors path (line # lines) =
     (let line = trim_space line
      in if line = '''' then line_errors path lines
         else field_error path line # line_errors path lines)"

definition convertValidationError :: "goerror option \<Rightarrow> string \<Rightarrow> validation_error option" where
  "convertValidationError err path =
     (case err of
        None \<Rightarrow> None
      | Some e \<Rightarrow>
          (let msg = error_text e; errors = line_errors path (split_on (CHR 0x0A) msg)
           in if errors = [] then Some (FieldError (field_error path msg))
              else Some (FieldErrors errors)))"

definition validateAgainstSchema ::
  "(schema \<Rightarrow> goerror + 'r) \<Rightarrow> ('r \<Rightarrow> goval strmap option \<Rightarrow> goerror option) \<Rightarrow>
   goval strmap option \<Rightarrow> schema \<Rightarrow> string \<Rightarrow> validation_error option" where
  "validateAgainstSchema resolve check data sch path =
     (case resolve sch of
        Inl err \<Rightarrow>
          Some (ResolveFailed (Errorf [Lit ''failed to resolve '', Str path, Lit '' schema: '', Wrap err]))
      | Inr resolved \<Rightarrow>
          (case check resolved data of
             None \<Rightarrow> None
           | Some err \<Rightarrow> convertValidationError (Some err) path))"

definition ValidateInputs ::
  "(schema \<Rightarrow> goerror + 'r) \<Rightarrow> ('r \<Rightarrow> goval strmap option \<Rightarrow> goerror option) \<Rightarrow>
   goval strmap option \<Rightarrow> schema option \<Rightarrow> validation_error option" where
  "ValidateInputs resolve check inputs sch =
     (case sch of None \<Rightarrow> None
      | Some s \<Rightarrow> validateAgainstSchema resolve check inputs s ''inputs'')"

definition output_map :: "goval \<Rightarrow> goval strmap option" where
  "output_map output =
     (case output of
        VMap m \<Rightarrow> m
      | VNil \<Rightarrow> Some []
      | _ \<Rightarrow> Some [(''value'', output)])"

definition ValidateOutput ::
  "(schema \<Rightarrow> goerror + 'r) \<Rightarrow> ('r \<Rightarrow> goval strmap option \<Rightarrow> goerror option) \<Rightarrow>
   goval \<Rightarrow> schema option \<Rightarrow> validation_error option" where
  "ValidateOutput resolve check output sch =
     (case sch of None \<Rightarrow> None
      | Some s \<Rightarrow> validateAgainstSchema resolve check (output_map output) s ''output'')"

section \<open>What the conversion keeps\<close>

text \<open>The non-blank lines of a message, trimmed: every one becomes a field error.\<close>

definition report_lines :: "string \<Rightarrow> string list" where
  "report_lines msg = filter (\<lambda>l. l \<noteq> '''') (map trim_space (split_on (CHR 0x0A) msg))"

lemma line_errors_eq: "line_errors path ls = map (field_error path) (filter (\<lambda>l. l \<noteq> '''') (map trim_space ls))"
  by (induction ls) (simp_all add: Let_def)

lemma convert_Some:
  "convertValidationError (Some e) path =
     (if report_lines (error_text e) = [] then Some (FieldError (field_error path (error_text e)))
      else Some (FieldErrors (map (field_error path) (report_lines (error_text e)))))"
  by (simp add: convertValidationError_def Let_def line_errors_eq report_lines_def)

lemma convert_None_iff: "convertValidationError err path = None \<longleftrightarrow> err = None"
  by (cases err) (simp_all add: convert_Some, simp add: convertValidationError_def)

text \<open>The field errors a validation error stands for.\<close>

definition field_errors :: "validation_error \<Rightarrow> ValidationError list" where
  "field_errors v = (case v of ResolveFailed e \<Rightarrow> [] | FieldErrors es \<Rightarrow> es | FieldError e \<Rightarrow> [e])"

lemma convert_field_errors:
  assumes "convertValidationError (Some e) path = Some v"
  shows "field_errors v \<noteq> []" and "list_all (\<lambda>fe. ve_Field fe = path) (field_errors v)"
    and "map ve_Message (field_errors v) =
      (if report_lines (error_text e) = [] then [error_text e] else report_lines (error_text e))"
  using assms
  by (auto simp: convert_Some field_errors_def field_error_def list_all_iff comp_def split: if_splits)

text \<open>Validation accepts exactly what the library accepts, and anything under a nil schema.\<close>

definition library_accepts ::
  "(schema \<Rightarrow> goerror + 'r) \<Rightarrow> ('r \<Rightarrow> goval strmap option \<Rightarrow> goerror option) \<Rightarrow>
   schema \<Rightarrow> goval strmap option \<Rightarrow> bool" where
  "library_accepts resolve check s data \<longleftrightarrow> (\<exists>r. resolve s = Inr r \<and> check r data = None)"

lemma validate_against_iff:
  "validateAgainstSchema resolve check data s path = None \<longleftrightarrow> library_accepts resolve check s data"
  by (auto simp: validateAgainstSchema_def library_accepts_def convert_None_iff
      split: sum.split option.split)

text \<open>
  C36. Converting a library error loses nothing that is not white space: there is at least
  one field error, every one carries the context path, and their messages are the trimmed
  non-blank lines of the library's message in order, or the whole message when every line
  is blank.
\<close>

theorem convert_keeps_lines:
  "\<exists>v. convertValidationError (Some e) path = Some v \<and> field_errors v \<noteq> [] \<and>
     list_all (\<lambda>fe. ve_Field fe = path) (field_errors v) \<and>
     map ve_Message (field_errors v) =
       (if report_lines (error_text e) = [] then [error_text e] else report_lines (error_text e))"
proof -
  obtain v where "convertValidationError (Some e) path = Some v"
    using convert_None_iff [of "Some e" path] by auto
  with convert_field_errors [OF this] show ?thesis by blast
qed

text \<open>
  Output validation accepts an output exactly when there is no schema, or the library
  accepts the map the output stands for: the map itself, the empty map for nil, and the
  one-entry map under the key value for anything else.
\<close>

theorem validate_output_iff:
  "ValidateOutput resolve check output sch = None \<longleftrightarrow>
     pred_option (\<lambda>s. library_accepts resolve check s
       (case output of VMap m \<Rightarrow> m | VNil \<Rightarrow> Some [] | _ \<Rightarrow> Some [(''value'', output)])) sch"
  by (cases sch) (simp_all add: ValidateOutput_def validate_against_iff output_map_def)

end
