(* ===== verification/Proto_Messages.thy ===== *)
theory Proto_Messages
  imports Go_Values
begin

text \<open>
  The wire messages of \<open>plugin/proto/plugin.pb.go\<close> that the servers, the client and the
  conversions read or build: one record per message with the fields of the generated
  struct (without the runtime state of protobuf), in their order. A record's name is the
  message's with a \<open>P\<close> in front where the SDK has a type of the same name. A field that
  points to a message is an option, and a repeated message field a list of options, since
  the conversions test or dereference such pointers. An empty list is a nil slice, but for
  \<open>WriteOperations\<close>, which the conversions hand on without copying.
\<close>

section \<open>Descriptors\<close>

record PLink =
  pl_Name :: string
  pl_Url :: string

record PExample =
  px_Name :: string
  px_Description :: string
  px_Yaml :: string

record PContact =
  pc_Name :: string
  pc_Email :: string

record PParameter =
  pa_Type :: string
  pa_Required :: bool
  pa_Description :: string
  pa_DefaultValue :: bytes
  pa_Example :: string
  pa_MaxLength :: int32
  pa_Pattern :: string
  pa_PatternDescription :: string
  pa_MinLength :: int32
  pa_Minimum :: float64
  pa_Maximum :: float64
  pa_ExclusiveMinimum :: float64
  pa_ExclusiveMaximum :: float64
  pa_EnumValues :: "bytes list"
  pa_Format :: string
  pa_MinItems :: int32
  pa_MaxItems :: int32
  pa_HasMinimum :: bool
  pa_HasMaximum :: bool
  pa_HasExclusiveMinimum :: bool
  pa_HasExclusiveMaximum :: bool

record PSchema =
  ps_Parameters :: "PParameter option strmap"

record POperation =
  po_Name :: string
  po_DisplayName :: string
  po_Description :: string
  po_Capabilities :: "string list"
  po_IsWrite :: bool
  po_InputSchema :: bytes
  po_OutputSchema :: bytes
  po_Examples :: "PExample option list"
  po_Tags :: "string list"
  po_Deprecated :: bool
  po_DeprecationMessage :: string

record PDescriptor =
  pd_Name :: string
  pd_DisplayName :: string
  pd_Description :: string
  pd_Version :: string
  pd_Category :: string
  pd_Capabilities :: "string list"
  pd_Schema :: "PSchema option"
  pd_OutputSchemas :: "PSchema option strmap"
  pd_ApiVersion :: string
  pd_SensitiveFields :: "string list"
  pd_Tags :: "string list"
  pd_Icon :: string
  pd_Links :: "PLink option list"
  pd_Examples :: "PExample option list"
  pd_Maintainers :: "PContact option list"
  pd_Deprecated :: bool
  pd_Beta :: bool
  pd_RawSchema :: bytes
  pd_RawOutputSchemas :: "bytes strmap"
  pd_HasExtractDependencies :: bool
  pd_WriteOperations :: "string list option"
  pd_Operations :: "POperation option list"

section \<open>The provider service\<close>

record PSolutionMeta =
  pm_Name :: string
  pm_Version :: string
  pm_DisplayName :: string
  pm_Description :: string
  pm_Category :: string
  pm_Tags :: "string list"
  pm_Source :: string

record PIterationContext =
  pi_Item :: bytes
  pi_Index :: int32
  pi_ItemAlias :: string
  pi_IndexAlias :: string

record ExecuteProviderRequest =
  er_ProviderName :: string
  er_Input :: bytes
  er_Context :: bytes
  er_DryRun :: bool
  er_ExecutionMode :: string
  er_WorkingDirectory :: string
  er_OutputDirectory :: string
  er_ConflictStrategy :: string
  er_Backup :: bool
  er_IterationContext :: "PIterationContext option"
  er_Parameters :: bytes
  er_SolutionMetadata :: "PSolutionMeta option"
  er_AuthProfile :: string
  er_Settings :: "bytes strmap"

text \<open>The SDK never sets \<open>ExitCode\<close> or the diagnostics of a response; they are left out.\<close>

record ExecuteProviderResponse =
  es_Output :: bytes
  es_Error :: string

datatype ExecuteProviderStreamChunk =
    ChunkStdout bytes
  | ChunkStderr bytes
  | ChunkResult ExecuteProviderResponse

record ConfigureProviderRequest =
  cr_ProviderName :: string
  cr_Quiet :: bool
  cr_NoColor :: bool
  cr_BinaryName :: string
  cr_HostServiceId :: uint32
  cr_Settings :: "bytes strmap"
  cr_ProtocolVersion :: int32
  cr_Profile :: string

record ConfigureProviderResponse =
  cs_Error :: string
  cs_ProtocolVersion :: int32

record DescribeWhatIfRequest =
  wr_ProviderName :: string
  wr_Input :: bytes

record DescribeWhatIfResponse =
  ws_Description :: string
  ws_Error :: string

record ExtractDependenciesRequest =
  xr_ProviderName :: string
  xr_Inputs :: bytes

record ExtractDependenciesResponse =
  xs_Dependencies :: "string list"
  xs_Error :: string

section \<open>The auth handler service\<close>

record PAuthHandlerInfo =
  pah_Name :: string
  pah_DisplayName :: string
  pah_Flows :: "string list"
  pah_Capabilities :: "string list"

record PLoginRequest =
  lr_HandlerName :: string
  lr_TenantId :: string
  lr_Scopes :: "string list"
  lr_Flow :: string
  lr_TimeoutSeconds :: int64
  lr_Profile :: string
  lr_Hostname :: string
  lr_CallbackPort :: int32

record PClaims =
  pcl_Issuer :: string
  pcl_Subject :: string
  pcl_TenantId :: string
  pcl_ObjectId :: string
  pcl_ClientId :: string
  pcl_Email :: string
  pcl_Name :: string
  pcl_Username :: string
  pcl_IssuedAtUnix :: int64
  pcl_ExpiresAtUnix :: int64

record PDeviceCodePrompt =
  pdp_UserCode :: string
  pdp_VerificationUri :: string
  pdp_Message :: string

record PLoginResult =
  plr_Claims :: "PClaims option"
  plr_ExpiresAtUnix :: int64

datatype PLoginStreamMessage =
    MsgDeviceCodePrompt PDeviceCodePrompt
  | MsgResult PLoginResult
  | MsgError string

record PLogoutRequest =
  lo_HandlerName :: string
  lo_Profile :: string
  lo_Hostname :: string

record PGetStatusRequest =
  gs_HandlerName :: string
  gs_Profile :: string
  gs_Hostname :: string

record PGetStatusResponse =
  gsr_Authenticated :: bool
  gsr_Claims :: "PClaims option"
  gsr_ExpiresAtUnix :: int64
  gsr_LastRefreshUnix :: int64
  gsr_TenantId :: string
  gsr_IdentityType :: string
  gsr_ClientId :: string
  gsr_TokenFile :: string
  gsr_Scopes :: "string list"
  gsr_Reason :: string
  gsr_Flow :: string
  gsr_Hostname :: string

record PGetTokenRequest =
  gt_HandlerName :: string
  gt_Scope :: string
  gt_MinValidForSeconds :: int64
  gt_ForceRefresh :: bool
  gt_Profile :: string
  gt_ServerContext :: string
  gt_Caller :: string
  gt_Assertion :: string
  gt_Hostname :: string

record PGetTokenResponse =
  gtr_AccessToken :: string
  gtr_TokenType :: string
  gtr_ExpiresAtUnix :: int64
  gtr_Scope :: string
  gtr_CachedAtUnix :: int64
  gtr_Flow :: string
  gtr_SessionId :: string

record PListCachedTokensRequest =
  lc_HandlerName :: string
  lc_Profile :: string

record PCachedTokenInfo =
  pct_Handler :: string
  pct_TokenKind :: string
  pct_Scope :: string
  pct_TokenType :: string
  pct_Flow :: string
  pct_ExpiresAtUnix :: int64
  pct_CachedAtUnix :: int64
  pct_IsExpired :: bool
  pct_SessionId :: string
  pct_Fingerprint :: string
  pct_Hostname :: string

record PPurgeExpiredTokensRequest =
  pe_HandlerName :: string
  pe_Profile :: string

record PHostCapabilities =
  phc_PromptAuthResponse :: bool

record PConfigureAuthHandlerRequest =
  ca_HandlerName :: string
  ca_Quiet :: bool
  ca_NoColor :: bool
  ca_BinaryName :: string
  ca_Settings :: "bytes strmap"
  ca_HostServiceId :: uint32
  ca_ProtocolVersion :: int32
  ca_Profile :: string
  ca_HostCapabilities :: "PHostCapabilities option"

record PConfigureAuthHandlerResponse =
  cas_Error :: string
  cas_ProtocolVersion :: int32

record PFlowAvailability =
  pfa_Flow :: string
  pfa_Available :: bool
  pfa_Reason :: string

record PDetectAvailableFlowsResponse =
  df_Flows :: "PFlowAvailability list"
  df_Error :: string

section \<open>The host service\<close>

record GetSecretResponse =
  hs_Value :: string
  hs_Found :: bool
  hs_Error :: string

record ListSecretsResponse =
  hl_Names :: "string list"
  hl_Error :: string

record GetAuthIdentityResponse =
  hi_Claims :: "PClaims option"
  hi_Error :: string

record ListAuthHandlersResponse =
  hh_HandlerNames :: "string list"
  hh_DefaultHandler :: string

record GetAuthTokenRequest =
  ht_HandlerName :: string
  ht_Scope :: string
  ht_MinValidForSeconds :: int64
  ht_ForceRefresh :: bool
  ht_Profile :: string

record GetAuthTokenResponse =
  htr_AccessToken :: string
  htr_TokenType :: string
  htr_ExpiresAtUnix :: int64
  htr_Scope :: string
  htr_Error :: string

text \<open>A nil and an empty list of groups are told apart.\<close>

record GetAuthGroupsResponse =
  hg_Groups :: "string list option"
  hg_Error :: string

record PromptAuthResponseRequest =
  hp_HandlerName :: string
  hp_AuthorizationUrl :: string
  hp_RedirectUri :: string

end
