(* ===== verification/Conversion.thy ===== *)
theory Conversion
  imports Schemahelper Proto_Messages "HOL-Library.Multiset"
begin

text \<open>
  The conversions between a provider descriptor and its wire form, in
  \<open>plugin/grpc_server.go\<close>: \<open>descriptorToProto\<close> on the plugin's side, \<open>ProtoToDescriptor\<close>
  on the host's, and the schema and operation conversions under them.

  A nil pointer that the code dereferences ends in \<open>Panic\<close>. Ranging over a map into a
  fresh map gives the list of the new pairs, in the same order (\<open>gm_copy_fresh\<close>). The
  version library is the pair \<open>sv_string\<close>, \<open>sv_new\<close> of \<open>Version.String\<close> and
  \<open>semver.NewVersion\<close>.
\<close>

section \<open>From the SDK types to the wire\<close>

definition int32_of_ptr :: "goint option \<Rightarrow> int32" where
  "int32_of_ptr p = (case p of None \<Rightarrow> 0 | Some n \<Rightarrow> ucast n)"

text \<open>The JSON string \<open>"<marshal error>"\<close>, with its quotes.\<close>

definition marshal_error_bytes :: bytes where
  "marshal_error_bytes = dquote # ''<marshal error>'' @ [dquote]"

definition example_string :: "json_lib \<Rightarrow> goval list \<Rightarrow> string" where
  "example_string J examples =
     (case examples of
        [] \<Rightarrow> ''''
      | e # _ \<Rightarrow> (case marshal_any J e of Inl err \<Rightarrow> '''' | Inr b \<Rightarrow> b))"

definition default_bytes :: "json_lib \<Rightarrow> bytes option \<Rightarrow> bytes" where
  "default_bytes J d =
     (case d of
        None \<Rightarrow> ''''
      | Some raw \<Rightarrow> (case marshal_any J (VRaw raw) of Inl err \<Rightarrow> marshal_error_bytes | Inr b \<Rightarrow> b))"

definition zero_or :: "float64 option \<Rightarrow> float64" where
  "zero_or p = (case p of None \<Rightarrow> 0 | Some x \<Rightarrow> x)"

definition paramToProto :: "json_lib \<Rightarrow> schema option \<Rightarrow> bool \<Rightarrow> PParameter outcome" where
  "paramToProto J prop required =
     (case prop of
        None \<Rightarrow> Panic
      | Some p \<Rightarrow>
          (let c = schema_core p in
           Ret \<lparr>pa_Type = sc_Type c, pa_Required = required, pa_Description = sc_Description c,
                pa_DefaultValue = default_bytes J (sc_Default c),
                pa_Example = example_string J (sc_Examples c),
                pa_MaxLength = int32_of_ptr (sc_MaxLength c), pa_Pattern = sc_Pattern c,
                pa_PatternDescription = '''', pa_MinLength = int32_of_ptr (sc_MinLength c),
                pa_Minimum = zero_or (sc_Minimum c), pa_Maximum = zero_or (sc_Maximum c),
                pa_ExclusiveMinimum = zero_or (sc_ExclusiveMinimum c),
                pa_ExclusiveMaximum = zero_or (sc_ExclusiveMaximum c),
                pa_EnumValues = rights (map (marshal_any J)
                   (case sc_Enum c of None \<Rightarrow> [] | Some vs \<Rightarrow> vs)),
                pa_Format = sc_Format c,
                pa_MinItems = int32_of_ptr (sc_MinItems c),
                pa_MaxItems = int32_of_ptr (sc_MaxItems c),
                pa_HasMinimum = (sc_Minimum c \<noteq> None), pa_HasMaximum = (sc_Maximum c \<noteq> None),
                pa_HasExclusiveMinimum = (sc_ExclusiveMinimum c \<noteq> None),
                pa_HasExclusiveMaximum = (sc_ExclusiveMaximum c \<noteq> None)\<rparr>))"

definition schemaToProto :: "json_lib \<Rightarrow> schema option \<Rightarrow> PSchema option outcome" where
  "schemaToProto J sch =
     (case sch of
        None \<Rightarrow> Ret None
      | Some s \<Rightarrow>
          (let props = gm_of (Properties s); req = sc_Required (schema_core s) in
           if props = [] then Ret None
           else out_bind
                  (out_map (\<lambda>(name, prop). out_bind (paramToProto J prop (name \<in> set req))
                     (\<lambda>p. Ret (name, Some p))) props)
                  (\<lambda>params. Ret (Some \<lparr>ps_Parameters = params\<rparr>))))"

definition link_to_proto :: "Link \<Rightarrow> PLink" where
  "link_to_proto l = \<lparr>pl_Name = li_Name l, pl_Url = li_URL l\<rparr>"

definition example_to_proto :: "Example \<Rightarrow> PExample" where
  "example_to_proto e =
     \<lparr>px_Name = ex_Name e, px_Description = ex_Description e, px_Yaml = ex_YAML e\<rparr>"

definition contact_to_proto :: "Contact \<Rightarrow> PContact" where
  "contact_to_proto m = \<lparr>pc_Name = co_Name m, pc_Email = co_Email m\<rparr>"

text \<open>The raw bytes of an optional schema: left nil when the schema is nil or does not encode.\<close>

definition raw_of_schema :: "json_lib \<Rightarrow> schema option \<Rightarrow> bytes" where
  "raw_of_schema J sch =
     (case sch of
        None \<Rightarrow> ''''
      | Some s \<Rightarrow> (case marshal_schema J s of Inl err \<Rightarrow> '''' | Inr raw \<Rightarrow> raw))"

definition operation_to_proto :: "json_lib \<Rightarrow> OperationDescriptor \<Rightarrow> POperation" where
  "operation_to_proto J op =
     \<lparr>po_Name = op_Name op, po_DisplayName = op_DisplayName op,
      po_Description = op_Description op, po_Capabilities = op_Capabilities op,
      po_IsWrite = op_IsWrite op,
      po_InputSchema = raw_of_schema J (op_InputSchema op),
      po_OutputSchema = raw_of_schema J (op_OutputSchema op),
      po_Examples = map (Some \<circ> example_to_proto) (op_Examples op),
      po_Tags = op_Tags op, po_Deprecated = op_IsDeprecated op,
      po_DeprecationMessage = op_DeprecationMessage op\<rparr>"

definition operationsToProto :: "json_lib \<Rightarrow> OperationDescriptor list \<Rightarrow> POperation option list" where
  "operationsToProto J ops = map (Some \<circ> operation_to_proto J) ops"

text \<open>
  The loop over OutputSchemas: a nil schema is skipped, a schema that does not encode has no
  raw form, and a schema without properties has no parameter form.
\<close>

fun output_schemas_to_proto :: "json_lib \<Rightarrow> (capability, schema option) gomap \<Rightarrow>
    (bytes strmap \<times> PSchema option strmap) outcome" where
  "output_schemas_to_proto J [] = Ret ([], [])"
| "output_schemas_to_proto J ((c, None) # outs) = output_schemas_to_proto J outs"
| "output_schemas_to_proto J ((c, Some s) # outs) =
     out_bind (schemaToProto J (Some s)) (\<lambda>ps.
       out_bind (output_schemas_to_proto J outs) (\<lambda>(raws, pss).
         Ret ((case marshal_schema J s of Inl err \<Rightarrow> raws | Inr raw \<Rightarrow> (c, raw) # raws),
              (case ps of None \<Rightarrow> pss | Some p \<Rightarrow> (c, Some p) # pss))))"

definition descriptorToProto ::
  "json_lib \<Rightarrow> ('v \<Rightarrow> string) \<Rightarrow> 'v Descriptor option \<Rightarrow> PDescriptor outcome" where
  "descriptorToProto J sv_string desc =
     (case desc of
        None \<Rightarrow> Panic
      | Some d \<Rightarrow>
          out_bind (schemaToProto J (d_Schema d)) (\<lambda>schema.
          out_bind (output_schemas_to_proto J (gm_of (d_OutputSchemas d))) (\<lambda>(raws, pss).
            Ret \<lparr>pd_Name = d_Name d, pd_DisplayName = d_DisplayName d,
                 pd_Description = d_Description d,
                 pd_Version = (case d_Version d of None \<Rightarrow> '''' | Some v \<Rightarrow> sv_string v),
                 pd_Category = d_Category d, pd_Capabilities = d_Capabilities d,
                 pd_Schema = schema, pd_OutputSchemas = pss,
                 pd_ApiVersion = d_APIVersion d, pd_SensitiveFields = d_SensitiveFields d,
                 pd_Tags = d_Tags d, pd_Icon = d_Icon d,
                 pd_Links = map (Some \<circ> link_to_proto) (d_Links d),
                 pd_Examples = map (Some \<circ> example_to_proto) (d_Examples d),
                 pd_Maintainers = map (Some \<circ> contact_to_proto) (d_Maintainers d),
                 pd_Deprecated = d_IsDeprecated d, pd_Beta = d_Beta d,
                 pd_RawSchema = raw_of_schema J (d_Schema d), pd_RawOutputSchemas = raws,
                 pd_HasExtractDependencies = (d_ExtractDependencies d \<noteq> None),
                 pd_WriteOperations = d_WriteOperations d,
                 pd_Operations = operationsToProto J (d_Operations d)\<rparr>)))"

section \<open>From the wire to the SDK types\<close>

definition ptr_of_int32 :: "int32 \<Rightarrow> goint option" where
  "ptr_of_int32 n = (if sint n > 0 then Some (scast n) else None)"

definition protoParamToJSON :: "json_lib \<Rightarrow> PParameter option \<Rightarrow> schema outcome" where
  "protoParamToJSON J param =
     (case param of
        None \<Rightarrow> Panic
      | Some p \<Rightarrow>
          Ret (leaf_schema (zero_core\<lparr>
            sc_Type := pa_Type p, sc_Description := pa_Description p,
            sc_Pattern := pa_Pattern p, sc_Format := pa_Format p,
            sc_Default := (if pa_DefaultValue p \<noteq> [] then Some (pa_DefaultValue p) else None),
            sc_Examples := (if pa_Example p \<noteq> '''' then
                              (case unmarshal_any J (pa_Example p) of Inl err \<Rightarrow> [] | Inr v \<Rightarrow> [v])
                            else []),
            sc_MaxLength := ptr_of_int32 (pa_MaxLength p),
            sc_MinLength := ptr_of_int32 (pa_MinLength p),
            sc_Minimum := (if pa_HasMinimum p then Some (pa_Minimum p) else None),
            sc_Maximum := (if pa_HasMaximum p then Some (pa_Maximum p) else None),
            sc_ExclusiveMinimum :=
              (if pa_HasExclusiveMinimum p then Some (pa_ExclusiveMinimum p) else None),
            sc_ExclusiveMaximum :=
              (if pa_HasExclusiveMaximum p then Some (pa_ExclusiveMaximum p) else None),
            sc_MinItems := ptr_of_int32 (pa_MinItems p),
            sc_MaxItems := ptr_of_int32 (pa_MaxItems p),
            sc_Enum := (if pa_EnumValues p \<noteq> []
                        then Some (rights (map (unmarshal_any J) (pa_EnumValues p)))
                        else None)\<rparr>)))"

text \<open>A parameter the code reached is not nil: \<open>protoParamToJSON\<close> came first.\<close>

definition param_required :: "PParameter option \<Rightarrow> bool" where
  "param_required param = (case param of None \<Rightarrow> False | Some p \<Rightarrow> pa_Required p)"

definition protoSchemaToJSON :: "json_lib \<Rightarrow> PSchema \<Rightarrow> schema outcome" where
  "protoSchemaToJSON J ps =
     out_bind (out_map (\<lambda>(name, param). out_bind (protoParamToJSON J param)
                 (\<lambda>p. Ret (name, Some p))) (ps_Parameters ps))
       (\<lambda>props.
          Ret (Schema
            (zero_core\<lparr>sc_Type := ''object'',
               sc_Required := sort (map fst (filter (param_required \<circ> snd) (ps_Parameters ps)))\<rparr>)
            (Some props) None None))"

definition unmarshalSchemaOrFallback ::
  "json_lib \<Rightarrow> bytes \<Rightarrow> PSchema option \<Rightarrow> schema option outcome" where
  "unmarshalSchemaOrFallback J raw ps =
     (let fallback = (case ps of None \<Rightarrow> Ret None
                      | Some p \<Rightarrow> out_bind (protoSchemaToJSON J p) (\<lambda>s. Ret (Some s)))
      in if raw \<noteq> [] then
           (case unmarshal_schema J raw of Inr s \<Rightarrow> Ret (Some s) | Inl err \<Rightarrow> fallback)
         else fallback)"

fun raw_output_schemas :: "json_lib \<Rightarrow> bytes strmap \<Rightarrow> (capability, schema option) gomap" where
  "raw_output_schemas J [] = []"
| "raw_output_schemas J ((c, raw) # raws) =
     (case unmarshal_schema J raw of
        Inl err \<Rightarrow> raw_output_schemas J raws
      | Inr s \<Rightarrow> (c, Some s) # raw_output_schemas J raws)"

fun proto_output_schemas ::
  "json_lib \<Rightarrow> PSchema option strmap \<Rightarrow> (capability, schema option) gomap outcome" where
  "proto_output_schemas J [] = Ret []"
| "proto_output_schemas J ((c, None) # pss) = proto_output_schemas J pss"
| "proto_output_schemas J ((c, Some ps) # pss) =
     out_bind (protoSchemaToJSON J ps) (\<lambda>s.
       out_bind (proto_output_schemas J pss) (\<lambda>outs. Ret ((c, Some s) # outs)))"

definition unmarshalOutputSchemas :: "json_lib \<Rightarrow> bytes strmap \<Rightarrow> PSchema option strmap \<Rightarrow>
    (capability, schema option) gomap option outcome" where
  "unmarshalOutputSchemas J raws pss =
     (if raws \<noteq> [] then Ret (Some (raw_output_schemas J raws))
      else if pss \<noteq> [] then out_bind (proto_output_schemas J pss) (\<lambda>outs. Ret (Some outs))
      else Ret None)"

definition link_from_proto :: "PLink option \<Rightarrow> Link outcome" where
  "link_from_proto l =
     (case l of None \<Rightarrow> Panic | Some l \<Rightarrow> Ret \<lparr>li_Name = pl_Name l, li_URL = pl_Url l\<rparr>)"

definition example_of :: "PExample \<Rightarrow> Example" where
  "example_of e = \<lparr>ex_Name = px_Name e, ex_Description = px_Description e, ex_YAML = px_Yaml e\<rparr>"

definition example_from_proto :: "PExample option \<Rightarrow> Example outcome" where
  "example_from_proto e = (case e of None \<Rightarrow> Panic | Some e \<Rightarrow> Ret (example_of e))"

definition contact_from_proto :: "PContact option \<Rightarrow> Contact outcome" where
  "contact_from_proto m =
     (case m of None \<Rightarrow> Panic | Some m \<Rightarrow> Ret \<lparr>co_Name = pc_Name m, co_Email = pc_Email m\<rparr>)"

definition schema_of_raw :: "json_lib \<Rightarrow> bytes \<Rightarrow> schema option" where
  "schema_of_raw J raw =
     (if raw \<noteq> [] then (case unmarshal_schema J raw of Inl err \<Rightarrow> None | Inr s \<Rightarrow> Some s) else None)"

definition operation_from_proto :: "json_lib \<Rightarrow> POperation \<Rightarrow> OperationDescriptor" where
  "operation_from_proto J po =
     \<lparr>op_Name = po_Name po, op_DisplayName = po_DisplayName po,
      op_Description = po_Description po, op_Capabilities = po_Capabilities po,
      op_IsWrite = po_IsWrite po,
      op_InputSchema = schema_of_raw J (po_InputSchema po),
      op_OutputSchema = schema_of_raw J (po_OutputSchema po),
      op_Examples = map (example_of \<circ> the) (filter (\<lambda>e. e \<noteq> None) (po_Examples po)),
      op_Tags = po_Tags po, op_IsDeprecated = po_Deprecated po,
      op_DeprecationMessage = po_DeprecationMessage po\<rparr>"

text \<open>Nil entries are skipped.\<close>

definition protoToOperations :: "json_lib \<Rightarrow> POperation option list \<Rightarrow> OperationDescriptor list" where
  "protoToOperations J ops =
     map (operation_from_proto J \<circ> the) (filter (\<lambda>po. po \<noteq> None) ops)"

definition ProtoToDescriptor :: "json_lib \<Rightarrow> (string \<Rightarrow> goerror + 'v) \<Rightarrow> PDescriptor option \<Rightarrow>
    (goerror + 'v Descriptor) outcome" where
  "ProtoToDescriptor J sv_new desc =
     (case desc of
        None \<Rightarrow> Panic
      | Some pd \<Rightarrow>
          (case (if pd_Version pd = '''' then Inr None
                 else map_sum id Some (sv_new (pd_Version pd))) of
             Inl err \<Rightarrow>
               Ret (Inl (Errorf [Lit ''plugin '', Quo (pd_Name pd),
                  Lit '' has invalid semver version '', Quo (pd_Version pd), Lit '': '', Wrap err]))
           | Inr version \<Rightarrow>
               out_bind (out_map link_from_proto (pd_Links pd)) (\<lambda>links.
               out_bind (out_map example_from_proto (pd_Examples pd)) (\<lambda>examples.
               out_bind (out_map contact_from_proto (pd_Maintainers pd)) (\<lambda>maintainers.
               out_bind (unmarshalSchemaOrFallback J (pd_RawSchema pd) (pd_Schema pd)) (\<lambda>schema.
               out_bind (unmarshalOutputSchemas J (pd_RawOutputSchemas pd) (pd_OutputSchemas pd)) (\<lambda>outs.
                 Ret (Inr \<lparr>d_Name = pd_Name pd, d_DisplayName = pd_DisplayName pd,
                   d_APIVersion = pd_ApiVersion pd, d_Version = version,
                   d_Description = pd_Description pd, d_Schema = schema, d_OutputSchemas = outs,
                   d_SensitiveFields = pd_SensitiveFields pd, d_Decode = None,
                   d_ExtractDependencies =
                     (if pd_HasExtractDependencies pd then Some (\<lambda>_. []) else None),
                   d_WhatIf = None, d_Capabilities = pd_Capabilities pd,
                   d_WriteOperations = pd_WriteOperations pd,
                   d_Operations = protoToOperations J (pd_Operations pd),
                   d_Category = pd_Category pd, d_Tags = pd_Tags pd, d_Icon = pd_Icon pd,
                   d_Links = links, d_Examples = examples, d_IsDeprecated = pd_Deprecated pd,
                   d_Beta = pd_Beta pd, d_Maintainers = maintainers\<rparr>))))))))"

section \<open>When a conversion panics\<close>

definition no_nil_props :: "schema \<Rightarrow> bool" where
  "no_nil_props s \<longleftrightarrow> None \<notin> snd ` set (gm_of (Properties s))"

lemma paramToProto_Panic: "paramToProto J prop r = Panic \<longleftrightarrow> prop = None"
  by (simp add: paramToProto_def Let_def split: option.split)

lemma schemaToProto_Panic:
  "schemaToProto J sch = Panic \<longleftrightarrow> (\<exists>s. sch = Some s \<and> \<not> no_nil_props s)"
proof (cases sch)
  case None
  then show ?thesis by (simp add: schemaToProto_def)
next
  case (Some s)
  let ?f = "\<lambda>(name, prop). out_bind (paramToProto J prop (name \<in> set (sc_Required (schema_core s))))
              (\<lambda>p. Ret (name, Some p))"
  have f: "?f x = Panic \<longleftrightarrow> snd x = None" for x
    by (cases x; cases "paramToProto J (snd x) (fst x \<in> set (sc_Required (schema_core s)))")
      (auto simp: paramToProto_Panic paramToProto_def Let_def split: option.splits)
  have "out_map ?f (gm_of (Properties s)) = Panic \<longleftrightarrow> \<not> no_nil_props s"
    unfolding out_map_eq_Panic f no_nil_props_def by force
  with Some show ?thesis
    by (cases "out_map ?f (gm_of (Properties s))")
      (auto simp: schemaToProto_def Let_def no_nil_props_def)
qed

lemma schemaToProto_Ret: "no_nil_props s \<Longrightarrow> \<exists>ps. schemaToProto J (Some s) = Ret ps"
  using schemaToProto_Panic [of J "Some s"] by (cases "schemaToProto J (Some s)") auto

lemma schemaToProto_None [simp]: "schemaToProto J None = Ret None"
  by (simp add: schemaToProto_def)

section \<open>The round trip of a descriptor\<close>

text \<open>
  Between the two conversions the message crosses gRPC: it is marshalled by the protobuf
  library, sent and unmarshalled. Protobuf has no presence for repeated fields, so an empty one
  arrives as nil; \<open>WriteOperations\<close> is the one slice where the conversions keep the two apart.
  A transport \<open>deliver\<close> is a parameter, which may fail (on text that is not UTF-8, say); the
  documented behaviour is that a message it delivers is its \<open>wire_form\<close>.
\<close>

definition wire_form :: "PDescriptor \<Rightarrow> PDescriptor" where
  "wire_form pd = pd\<lparr>pd_WriteOperations :=
     (if pd_WriteOperations pd = Some [] then None else pd_WriteOperations pd)\<rparr>"

definition proto_transport :: "(PDescriptor \<Rightarrow> goerror + PDescriptor) \<Rightarrow> bool" where
  "proto_transport deliver \<longleftrightarrow> (\<forall>pd pd'. deliver pd = Inr pd' \<longrightarrow> pd' = wire_form pd)"

text \<open>
  What the wire cannot carry: the three functions (of ExtractDependencies only its presence
  travels), the nil output schemas, and an empty WriteOperations.
\<close>

definition non_nil_schemas :: "(capability, schema option) gomap \<Rightarrow> (capability, schema option) gomap" where
  "non_nil_schemas outs = filter (\<lambda>(c, s). s \<noteq> None) outs"

definition wire_view :: "'v Descriptor \<Rightarrow> 'v Descriptor" where
  "wire_view d = d\<lparr>
     d_Decode := None,
     d_WhatIf := None,
     d_ExtractDependencies := map_option (\<lambda>_ _. []) (d_ExtractDependencies d),
     d_WriteOperations := (if d_WriteOperations d = Some [] then None else d_WriteOperations d),
     d_OutputSchemas :=
       (let outs = non_nil_schemas (gm_of (d_OutputSchemas d))
        in if outs = [] then None else Some outs)\<rparr>"

text \<open>
  The documented behaviour the round trip needs from the libraries: the version and the
  schemas of this descriptor survive printing and parsing. \<open>op_ready\<close> is the part about
  one operation.
\<close>

definition op_ready :: "json_lib \<Rightarrow> OperationDescriptor \<Rightarrow> bool" where
  "op_ready J op \<longleftrightarrow>
     pred_option (schema_stable J) (op_InputSchema op) \<and>
     pred_option (schema_stable J) (op_OutputSchema op)"

definition wire_ready ::
  "json_lib \<Rightarrow> ('v \<Rightarrow> string) \<Rightarrow> (string \<Rightarrow> goerror + 'v) \<Rightarrow> 'v Descriptor \<Rightarrow> bool" where
  "wire_ready J sv_string sv_new d \<longleftrightarrow>
     pred_option (\<lambda>v. sv_string v \<noteq> '''' \<and> sv_new (sv_string v) = Inr v) (d_Version d) \<and>
     pred_option (\<lambda>s. schema_stable J s \<and> no_nil_props s) (d_Schema d) \<and>
     list_all (\<lambda>(c, sch). pred_option (\<lambda>s. schema_stable J s \<and> no_nil_props s) sch)
       (gm_of (d_OutputSchemas d)) \<and>
     list_all (op_ready J) (d_Operations d)"

definition round_trip :: "json_lib \<Rightarrow> ('v \<Rightarrow> string) \<Rightarrow> (string \<Rightarrow> goerror + 'v) \<Rightarrow>
    'v Descriptor \<Rightarrow> (goerror + 'v Descriptor) outcome" where
  "round_trip J sv_string sv_new d =
     out_bind (descriptorToProto J sv_string (Some d))
       (\<lambda>pd. ProtoToDescriptor J sv_new (Some (wire_form pd)))"

text \<open>
  The contract of a conversion pair whose encoder is total: decoding gives the value back.
  It lifts to optional elements of a slice.
\<close>

locale wire_pair =
  fixes enc :: "'a \<Rightarrow> 'b" and dec :: "'b option \<Rightarrow> 'a outcome"
  assumes dec_enc: "dec (Some (enc x)) = Ret x"
begin

lemma dec_slice: "out_map dec (map (Some \<circ> enc) xs) = Ret xs"
  by (induction xs) (simp_all add: dec_enc)

end

interpretation link_pair: wire_pair link_to_proto link_from_proto
  by unfold_locales (simp add: link_to_proto_def link_from_proto_def)

interpretation example_pair: wire_pair example_to_proto example_from_proto
  by unfold_locales (simp add: example_to_proto_def example_from_proto_def example_of_def)

interpretation contact_pair: wire_pair contact_to_proto contact_from_proto
  by unfold_locales (simp add: contact_to_proto_def contact_from_proto_def)

lemma example_of_to [simp]: "example_of (example_to_proto e) = e"
  by (simp add: example_of_def example_to_proto_def)

lemma raw_round_trip:
  "pred_option (schema_stable J) sch \<Longrightarrow> schema_of_raw J (raw_of_schema J sch) = sch"
  by (cases sch) (auto simp: schema_of_raw_def raw_of_schema_def schema_stable_def)

lemma filter_Some_map: "filter (\<lambda>e. e \<noteq> None) (map (Some \<circ> f) xs) = map (Some \<circ> f) xs"
  by (induction xs) simp_all

lemma operation_round_trip: "op_ready J op \<Longrightarrow> operation_from_proto J (operation_to_proto J op) = op"
  unfolding operation_from_proto_def operation_to_proto_def op_ready_def
  by (simp add: raw_round_trip filter_Some_map comp_def del: filter_map)

lemma operations_round_trip:
  "list_all (op_ready J) ops \<Longrightarrow> protoToOperations J (operationsToProto J ops) = ops"
  unfolding protoToOperations_def operationsToProto_def filter_Some_map
  by (induction ops) (simp_all add: operation_round_trip)

lemma schema_round_trip:
  assumes "pred_option (\<lambda>s. schema_stable J s \<and> no_nil_props s) sch"
  shows "out_bind (schemaToProto J sch)
    (\<lambda>ps. unmarshalSchemaOrFallback J (raw_of_schema J sch) ps) = Ret sch"
proof (cases sch)
  case None
  then show ?thesis by (simp add: unmarshalSchemaOrFallback_def raw_of_schema_def)
next
  case (Some s)
  with assms obtain ps where ps: "schemaToProto J (Some s) = Ret ps"
    using schemaToProto_Ret [of s J] by auto
  from Some assms obtain b where "marshal_schema J s = Inr b" "b \<noteq> []" "unmarshal_schema J b = Inr s"
    by (auto simp: schema_stable_def)
  with Some ps show ?thesis
    by (simp add: unmarshalSchemaOrFallback_def raw_of_schema_def)
qed

lemma output_schemas_encoded:
  "list_all (\<lambda>(c, sch). pred_option (\<lambda>s. schema_stable J s \<and> no_nil_props s) sch) outs \<Longrightarrow>
   \<exists>raws pss. output_schemas_to_proto J outs = Ret (raws, pss) \<and>
     raw_output_schemas J raws = non_nil_schemas outs \<and>
     (raws = [] \<longleftrightarrow> non_nil_schemas outs = []) \<and> (raws = [] \<longrightarrow> pss = [])"
proof (induction J outs rule: output_schemas_to_proto.induct)
  case (3 J c s outs)
  then have "schema_stable J s" "no_nil_props s" by simp_all
  then obtain b where b: "marshal_schema J s = Inr b" "unmarshal_schema J b = Inr s"
    by (auto simp: schema_stable_def)
  from \<open>no_nil_props s\<close> obtain ps where ps: "schemaToProto J (Some s) = Ret ps"
    using schemaToProto_Ret [of s J] by auto
  from 3 ps obtain raws pss where
    "output_schemas_to_proto J outs = Ret (raws, pss)"
    "raw_output_schemas J raws = non_nil_schemas outs" by auto
  with b ps show ?case by (simp add: non_nil_schemas_def)
qed (auto simp: non_nil_schemas_def)

lemma output_schemas_decoded:
  "raw_output_schemas J raws = outs \<Longrightarrow> (raws = [] \<longleftrightarrow> outs = []) \<Longrightarrow> (raws = [] \<longrightarrow> pss = []) \<Longrightarrow>
     unmarshalOutputSchemas J raws pss = Ret (if outs = [] then None else Some outs)"
  by (auto simp: unmarshalOutputSchemas_def)

lemma version_round_trip:
  assumes "pred_option (\<lambda>v. sv_string v \<noteq> '''' \<and> sv_new (sv_string v) = Inr v) version"
  shows "(let s = (case version of None \<Rightarrow> '''' | Some v \<Rightarrow> sv_string v)
          in if s = '''' then Inr None else map_sum id Some (sv_new s)) = Inr version"
  using assms by (cases version) auto

lemma descriptor_round_trip:
  assumes ready: "wire_ready J sv_string sv_new d"
  shows "round_trip J sv_string sv_new d = Ret (Inr (wire_view d))"
proof -
  from ready have sch: "pred_option (\<lambda>s. schema_stable J s \<and> no_nil_props s) (d_Schema d)"
    and ops: "list_all (op_ready J) (d_Operations d)"
    and ver: "pred_option (\<lambda>v. sv_string v \<noteq> '''' \<and> sv_new (sv_string v) = Inr v) (d_Version d)"
    by (simp_all add: wire_ready_def)
  from ready obtain raws pss where
    enc: "output_schemas_to_proto J (gm_of (d_OutputSchemas d)) = Ret (raws, pss)" and
    dec: "unmarshalOutputSchemas J raws pss =
      Ret (let outs = non_nil_schemas (gm_of (d_OutputSchemas d)) in if outs = [] then None else Some outs)"
    using output_schemas_encoded output_schemas_decoded
    by (metis (no_types, lifting) Let_def wire_ready_def)
  obtain ps where ps: "schemaToProto J (d_Schema d) = Ret ps"
    using schema_round_trip [OF sch] by (cases "schemaToProto J (d_Schema d)") auto
  with schema_round_trip [OF sch]
  have fb: "unmarshalSchemaOrFallback J (raw_of_schema J (d_Schema d)) ps = Ret (d_Schema d)"
    by simp
  show ?thesis
    unfolding round_trip_def descriptorToProto_def ProtoToDescriptor_def
    using ver
    by (cases "d_Version d"; cases "d_ExtractDependencies d")
      (simp_all add: ps enc dec fb link_pair.dec_slice example_pair.dec_slice
        contact_pair.dec_slice operations_round_trip [OF ops] wire_view_def wire_form_def Let_def)
qed


section \<open>The parameter form, for hosts and plugins without the raw schemas\<close>

text \<open>
  \<open>MaxLength\<close> and its like are Go ints that travel as int32, where 0 means absent. They
  survive exactly when they are absent, or between 1 and the largest int32.
\<close>

lemma sint_ucast_64_32: "0 \<le> sint (n :: 64 word) \<Longrightarrow> sint n < 2 ^ 31 \<Longrightarrow> sint (ucast n :: 32 word) = sint n"
proof -
  assume n: "0 \<le> sint n" "sint n < 2 ^ 31"
  have "sint (ucast (word_of_int k :: 64 word) :: 32 word) = k" if "0 \<le> k" "k < 2 ^ 31" for k
  proof -
    have "(ucast (word_of_int k :: 64 word) :: 32 word) = word_of_int k"
      by transfer simp
    with that show ?thesis by (simp only: sint_word_of_int_32)
  qed
  from this [OF n] show ?thesis by simp
qed

lemma ptr_round_trip:
  "ptr_of_int32 (int32_of_ptr p) = p \<longleftrightarrow>
     (case p of None \<Rightarrow> True | Some n \<Rightarrow> 0 < sint n \<and> sint n < 2 ^ 31)"
proof (cases p)
  case None
  then show ?thesis by (simp add: ptr_of_int32_def int32_of_ptr_def)
next
  case (Some n)
  have fwd: "0 < sint n \<and> sint n < 2 ^ 31" if "ptr_of_int32 (ucast n) = Some n"
  proof -
    let ?w = "ucast n :: 32 word"
    from that have "0 < sint ?w" "scast ?w = n" by (auto simp: ptr_of_int32_def split: if_splits)
    moreover have "sint (scast ?w :: 64 word) = sint ?w"
      by (rule sint_up_scast) (simp add: is_up)
    ultimately show ?thesis using sint_32_range(2) [of ?w] by simp
  qed
  have bwd: "ptr_of_int32 (ucast n) = Some n" if "0 < sint n" "sint n < 2 ^ 31"
  proof -
    have "sint (ucast n :: 32 word) = sint n" using that by (simp add: sint_ucast_64_32)
    then have "sint (scast (ucast n :: 32 word) :: 64 word) = sint n"
      by (simp add: sint_up_scast is_up)
    then have "scast (ucast n :: 32 word) = n"
      by (rule signed_word_eqI)
    with that show ?thesis
      using \<open>sint (ucast n :: 32 word) = sint n\<close> by (simp add: ptr_of_int32_def)
  qed
  from Some fwd bwd show ?thesis by (auto simp: int32_of_ptr_def)
qed

text \<open>A schema that fits the parameter form, with values the library re-reads.\<close>

definition small_int :: "goint option \<Rightarrow> bool" where
  "small_int p \<longleftrightarrow> (case p of None \<Rightarrow> True | Some n \<Rightarrow> 0 < sint n \<and> sint n < 2 ^ 31)"

definition param_ready :: "json_lib \<Rightarrow> schema \<Rightarrow> bool" where
  "param_ready J s \<longleftrightarrow>
     (let c = schema_core s in
      s = leaf_schema c \<and> sc_Title c = '''' \<and> sc_Required c = [] \<and>
      \<not> sc_Deprecated c \<and> \<not> sc_WriteOnly c \<and>
      pred_option (raw_stable J) (sc_Default c) \<and>
      length (sc_Examples c) \<le> 1 \<and> list_all (value_stable J) (sc_Examples c) \<and>
      sc_Enum c \<noteq> Some [] \<and> pred_option (list_all (value_stable J)) (sc_Enum c) \<and>
      small_int (sc_MinLength c) \<and> small_int (sc_MaxLength c) \<and>
      small_int (sc_MinItems c) \<and> small_int (sc_MaxItems c))"

lemma rights_value_stable:
  "list_all (value_stable J) vs \<Longrightarrow>
   rights (map (unmarshal_any J) (rights (map (marshal_any J) vs))) = vs \<and>
   (rights (map (marshal_any J) vs) = [] \<longleftrightarrow> vs = [])"
  by (induction vs) (auto simp: value_stable_def)

lemma enum_round_trip:
  assumes "e \<noteq> Some []" "pred_option (list_all (value_stable J)) e"
  defines "bs \<equiv> rights (map (marshal_any J) (case e of None \<Rightarrow> [] | Some vs \<Rightarrow> vs))"
  shows "(if bs \<noteq> [] then Some (rights (map (unmarshal_any J) bs)) else None) = e"
  using assms rights_value_stable by (cases e) (auto simp: bs_def)

lemma example_round_trip:
  assumes "length es \<le> 1" "list_all (value_stable J) es"
  shows "(if example_string J es \<noteq> '''' then
            (case unmarshal_any J (example_string J es) of Inl err \<Rightarrow> [] | Inr v \<Rightarrow> [v]) else []) = es"
  using assms by (cases es) (auto simp: example_string_def value_stable_def)

lemma default_round_trip:
  "pred_option (raw_stable J) d \<Longrightarrow>
     (if default_bytes J d \<noteq> [] then Some (default_bytes J d) else None) = d"
  by (cases d) (auto simp: default_bytes_def raw_stable_def)

lemma number_round_trip: "(if x \<noteq> None then Some (zero_or x) else None) = x"
  by (cases x) (simp_all add: zero_or_def)

definition param_trip :: "json_lib \<Rightarrow> schema option \<Rightarrow> bool \<Rightarrow> schema outcome" where
  "param_trip J prop required =
     out_bind (paramToProto J prop required) (\<lambda>p. protoParamToJSON J (Some p))"

lemma param_round_trip:
  assumes ready: "param_ready J s"
  shows "param_trip J (Some s) required = Ret s"
proof -
  let ?c = "schema_core s"
  note r = ready [unfolded param_ready_def Let_def]
  have ints: "ptr_of_int32 (int32_of_ptr (sc_MinLength ?c)) = sc_MinLength ?c"
    "ptr_of_int32 (int32_of_ptr (sc_MaxLength ?c)) = sc_MaxLength ?c"
    "ptr_of_int32 (int32_of_ptr (sc_MinItems ?c)) = sc_MinItems ?c"
    "ptr_of_int32 (int32_of_ptr (sc_MaxItems ?c)) = sc_MaxItems ?c"
    using r by (simp_all add: ptr_round_trip small_int_def)
  from r have enum: "sc_Enum ?c \<noteq> Some []" "pred_option (list_all (value_stable J)) (sc_Enum ?c)"
    and ex: "length (sc_Examples ?c) \<le> 1" "list_all (value_stable J) (sc_Examples ?c)"
    and df: "pred_option (raw_stable J) (sc_Default ?c)"
    by blast+
  have "param_trip J (Some s) required = Ret (leaf_schema ?c)"
    unfolding param_trip_def paramToProto_def protoParamToJSON_def Let_def option.case out_bind.simps
      PParameter.simps ints number_round_trip enum_round_trip [OF enum]
      example_round_trip [OF ex] default_round_trip [OF df]
    using r by (intro arg_cong [of _ _ Ret] arg_cong [of _ _ leaf_schema])
      (simp add: zero_core_def schema_core.equality)
  with r show ?thesis by simp
qed


section \<open>The order of a wire map does not matter\<close>

text \<open>
  Go ranges over \<open>Parameters\<close> in any order. The decoded schema is the same up to the order
  of its Properties map: the sorted Required list and every lookup agree.
\<close>

lemma protoParamToJSON_Panic [simp]: "protoParamToJSON J param = Panic \<longleftrightarrow> param = None"
  by (simp add: protoParamToJSON_def split: option.split)

definition json_of_param :: "json_lib \<Rightarrow> string \<times> PParameter option \<Rightarrow> string \<times> schema option" where
  "json_of_param J np = (fst np, case protoParamToJSON J (snd np) of Panic \<Rightarrow> None | Ret p \<Rightarrow> Some p)"

lemma protoSchemaToJSON_Ret:
  assumes "None \<notin> snd ` set (ps_Parameters ps)"
  shows "protoSchemaToJSON J ps =
    Ret (Schema (zero_core\<lparr>sc_Type := ''object'',
           sc_Required := sort (map fst (filter (param_required \<circ> snd) (ps_Parameters ps)))\<rparr>)
         (Some (map (json_of_param J) (ps_Parameters ps))) None None)"
proof -
  have "out_map (\<lambda>(name, param). out_bind (protoParamToJSON J param) (\<lambda>p. Ret (name, Some p)))
          (ps_Parameters ps) = Ret (map (json_of_param J) (ps_Parameters ps))"
  proof (rule out_map_Ret)
    fix np assume "np \<in> set (ps_Parameters ps)"
    with assms have "snd np \<noteq> None" by force
    then show "(case np of (name, param) \<Rightarrow>
        out_bind (protoParamToJSON J param) (\<lambda>p. Ret (name, Some p))) = Ret (json_of_param J np)"
      by (cases "protoParamToJSON J (snd np)") (auto simp: json_of_param_def split: prod.split)
  qed
  then show ?thesis by (simp add: protoSchemaToJSON_def)
qed

lemma map_of_mset_eq:
  assumes "gm_wf a" and "mset a = mset b"
  shows "gm_get a = gm_get b"
proof (rule map_of_inject_set [THEN iffD2])
  from assms(1) show "distinct (map fst a)" by (simp add: gm_wf_def)
  from assms have "mset (map fst a) = mset (map fst b)" by simp
  with \<open>distinct (map fst a)\<close> show "distinct (map fst b)" by (metis mset_eq_imp_distinct_iff)
  from assms(2) show "set a = set b" by (rule mset_eq_setD)
qed

lemma map_json_of_param_wf: "gm_wf ps \<Longrightarrow> gm_wf (map (json_of_param J) ps)"
  by (simp add: gm_wf_def json_of_param_def comp_def)

lemma required_order:
  "mset a = mset b \<Longrightarrow> sort (map fst (filter P a)) = sort (map fst (filter P b))"
  for a b :: "(string \<times> 'a) list"
  by (intro properties_for_sort sorted_sort) simp_all

text \<open>Two decoded schemas that a lookup cannot tell apart.\<close>

definition same_object :: "schema \<Rightarrow> schema \<Rightarrow> bool" where
  "same_object s t \<longleftrightarrow> schema_core s = schema_core t \<and>
     gm_get (gm_of (Properties s)) = gm_get (gm_of (Properties t)) \<and>
     Items s = Items t \<and> AdditionalProperties s = AdditionalProperties t"

lemma decode_order:
  assumes wf: "gm_wf (ps_Parameters a)" and perm: "mset (ps_Parameters a) = mset (ps_Parameters b)"
    and nn: "None \<notin> snd ` set (ps_Parameters a)"
  shows "\<exists>s t. protoSchemaToJSON J a = Ret s \<and> protoSchemaToJSON J b = Ret t \<and> same_object s t"
proof -
  from nn perm have nn': "None \<notin> snd ` set (ps_Parameters b)"
    by (metis mset_eq_setD)
  have "mset (map (json_of_param J) (ps_Parameters a)) = mset (map (json_of_param J) (ps_Parameters b))"
    using perm by simp
  with wf have "gm_get (map (json_of_param J) (ps_Parameters a)) =
      gm_get (map (json_of_param J) (ps_Parameters b))"
    by (intro map_of_mset_eq map_json_of_param_wf)
  with required_order [OF perm] show ?thesis
    by (simp add: protoSchemaToJSON_Ret [OF nn] protoSchemaToJSON_Ret [OF nn'] same_object_def)
qed

section \<open>When sending a descriptor panics\<close>

lemma output_schemas_to_proto_Panic:
  "output_schemas_to_proto J outs = Panic \<longleftrightarrow>
     (\<exists>c s. (c, Some s) \<in> set outs \<and> \<not> no_nil_props s)"
proof (induction J outs rule: output_schemas_to_proto.induct)
  case (3 J c s outs)
  show ?case
  proof (cases "schemaToProto J (Some s)")
    case Panic
    then show ?thesis using schemaToProto_Panic [of J "Some s"] by auto
  next
    case (Ret ps)
    then have "no_nil_props s" using schemaToProto_Panic [of J "Some s"] by auto
    with Ret 3 show ?thesis
      by (cases "output_schemas_to_proto J outs") auto
  qed
qed auto

text \<open>The descriptors that are safe to send.\<close>

definition sendable :: "'v Descriptor option \<Rightarrow> bool" where
  "sendable desc \<longleftrightarrow>
     (case desc of None \<Rightarrow> False
      | Some d \<Rightarrow> pred_option no_nil_props (d_Schema d) \<and>
                  list_all (\<lambda>(c, sch). pred_option no_nil_props sch) (gm_of (d_OutputSchemas d)))"

lemma descriptorToProto_Panic: "descriptorToProto J sv desc = Panic \<longleftrightarrow> \<not> sendable desc"
proof (cases desc)
  case None
  then show ?thesis by (simp add: descriptorToProto_def sendable_def)
next
  case (Some d)
  have outs: "output_schemas_to_proto J (gm_of (d_OutputSchemas d)) = Panic \<longleftrightarrow>
      \<not> list_all (\<lambda>(c, sch). pred_option no_nil_props sch) (gm_of (d_OutputSchemas d))"
    by (force simp: output_schemas_to_proto_Panic list_all_iff option.pred_set)
  have sch: "schemaToProto J (d_Schema d) = Panic \<longleftrightarrow> \<not> pred_option no_nil_props (d_Schema d)"
    by (cases "d_Schema d") (simp_all add: schemaToProto_Panic)
  show ?thesis
    using Some outs sch
    by (cases "schemaToProto J (d_Schema d)"; cases "output_schemas_to_proto J (gm_of (d_OutputSchemas d))")
      (auto simp: descriptorToProto_def sendable_def)
qed

section \<open>What the wire does to validity\<close>

lemma gm_get_non_nil:
  "gm_wf outs \<Longrightarrow> gm_get (non_nil_schemas outs) c =
     (case gm_get outs c of Some (Some s) \<Rightarrow> Some (Some s) | _ \<Rightarrow> None)"
  unfolding non_nil_schemas_def
  by (induction outs) (auto simp: gm_wf_def map_of_eq_None_iff split: option.splits)

text \<open>A nil output schema is lost; a capability with required fields has none when valid.\<close>

lemma valid_output_non_nil:
  "gm_wf outs \<Longrightarrow> valid_output (non_nil_schemas outs) c \<longleftrightarrow>
     valid_output outs c \<and> gm_get outs c \<noteq> Some None"
  by (auto simp: valid_output_def gm_get_non_nil split: option.splits)


lemma valid_without_write_list:
  "d_WriteOperations d = Some [] \<Longrightarrow> valid_descriptor d \<Longrightarrow>
     valid_descriptor (d\<lparr>d_WriteOperations := None\<rparr>) \<and> (\<forall>op \<in> set (d_Operations d). \<not> op_IsWrite op)"
  by (auto simp: valid_descriptor_def valid_write_ops_def valid_operations_def valid_operation_def)

lemma wire_valid:
  assumes wf: "gm_wf (gm_of (d_OutputSchemas d))"
  shows "valid_descriptor (wire_view d) \<longleftrightarrow>
    valid_descriptor (d\<lparr>d_WriteOperations :=
      (if d_WriteOperations d = Some [] then None else d_WriteOperations d)\<rparr>) \<and>
    (\<forall>c \<in> set (d_Capabilities d). gm_get (gm_of (d_OutputSchemas d)) c \<noteq> Some None)"
proof (cases "d_OutputSchemas d")
  case None
  then show ?thesis by (simp add: valid_descriptor_def wire_view_def Let_def non_nil_schemas_def)
next
  case (Some outs)
  with wf have v: "valid_output (non_nil_schemas outs) c \<longleftrightarrow> valid_output outs c \<and> gm_get outs c \<noteq> Some None" for c
    by (simp add: valid_output_non_nil)
  have "\<not> valid_output [] c" for c by (simp add: valid_output_def)
  with v have "non_nil_schemas outs = [] \<Longrightarrow> \<not> (valid_output outs c \<and> gm_get outs c \<noteq> Some None)" for c
    by metis
  with Some v show ?thesis
    by (cases "d_Capabilities d"; cases "non_nil_schemas outs = []")
      (auto simp: valid_descriptor_def wire_view_def Let_def)
qed


section \<open>Properties\<close>

text \<open>
  C2. A descriptor sent by a plugin and read by the host comes back as it was, but for what
  the wire cannot carry (\<open>wire_view\<close>): Decode and WhatIf are gone, ExtractDependencies is a
  stub that returns nothing, nil output schemas are dropped, and an empty WriteOperations is
  nil. The version and the schemas must survive their libraries, no schema may have a nil
  property, and the transport does with a message what protobuf does.
\<close>

theorem descriptor_wire_round_trip:
  assumes "proto_transport deliver" and "wire_ready J sv_string sv_new d"
  shows "\<exists>pd. descriptorToProto J sv_string (Some d) = Ret pd \<and>
    (case deliver pd of
       Inl err \<Rightarrow> True
     | Inr pd' \<Rightarrow> ProtoToDescriptor J sv_new (Some pd') = Ret (Inr (wire_view d)))"
  using descriptor_round_trip [OF assms(2)] assms(1)
  by (auto simp: round_trip_def out_bind_eq_Ret proto_transport_def split: sum.split)

text \<open>The host holds \<open>h\<close> after the plugin sent \<open>d\<close>.\<close>

definition received :: "json_lib \<Rightarrow> ('v \<Rightarrow> string) \<Rightarrow> (string \<Rightarrow> goerror + 'v) \<Rightarrow>
    (PDescriptor \<Rightarrow> goerror + PDescriptor) \<Rightarrow> 'v Descriptor \<Rightarrow> 'v Descriptor \<Rightarrow> bool" where
  "received J sv_string sv_new deliver d h \<longleftrightarrow>
     (\<exists>pd pd'. descriptorToProto J sv_string (Some d) = Ret pd \<and> deliver pd = Inr pd' \<and>
        ProtoToDescriptor J sv_new (Some pd') = Ret (Inr h))"

lemma received_view:
  assumes "proto_transport deliver" and "wire_ready J sv_string sv_new d"
    and "received J sv_string sv_new deliver d h"
  shows "h = wire_view d"
  using descriptor_round_trip [OF assms(2)] assms(1,3)
  by (auto simp: round_trip_def received_def proto_transport_def)

lemma received_wire_form:
  assumes "wire_ready J sv_string sv_new d"
  shows "received J sv_string sv_new (Inr \<circ> wire_form) d (wire_view d)"
  using descriptor_round_trip [OF assms]
  by (auto simp: round_trip_def received_def out_bind_eq_Ret)

text \<open>A descriptor with a version, a schema, an output schema and an operation, sent as JSON.\<close>

definition sample_wire_descriptor :: "string Descriptor" where
  "sample_wire_descriptor = (empty_descriptor ''w'')\<lparr>d_Version := Some ''1.0.0'',
     d_Capabilities := [CapabilityFrom], d_Schema := Some (typed_schema ''object''),
     d_OutputSchemas := Some [(CapabilityFrom, Some (typed_schema ''string''))],
     d_Links := [\<lparr>li_Name = ''home'', li_URL = ''http://x''\<rparr>],
     d_Operations := [(sample_operation ''get'' False)\<lparr>op_OutputSchema := Some (typed_schema ''string'')\<rparr>]\<rparr>"

lemma typed_schema_props [simp]: "no_nil_props (typed_schema t)"
  by (simp add: no_nil_props_def typed_schema_def)

lemma sample_wire_ready: "wire_ready sample_json (\<lambda>v. v) Inr sample_wire_descriptor"
  by (simp add: wire_ready_def sample_wire_descriptor_def empty_descriptor_def op_ready_def
      sample_operation_def)

lemma wire_form_transport: "proto_transport (Inr \<circ> wire_form)"
  by (simp add: proto_transport_def)

theorem descriptor_wire_round_trip_witness:
  "\<exists>pd. descriptorToProto sample_json (\<lambda>v. v) (Some sample_wire_descriptor) = Ret pd \<and>
     ProtoToDescriptor sample_json Inr (Some (wire_form pd)) = Ret (Inr (wire_view sample_wire_descriptor)) \<and>
     d_Version (wire_view sample_wire_descriptor) = Some ''1.0.0''"
  using descriptor_wire_round_trip [OF wire_form_transport sample_wire_ready]
  by (auto simp: wire_view_def Let_def sample_wire_descriptor_def)

text \<open>
  C21. The host validates what it receives with the same result as the plugin validated what
  it sent, with two exceptions. A capability that was declared with a nil output schema is
  accepted by the plugin's validation when it needs no field, but is missing on the host. And
  an empty WriteOperations, which contradicts an operation marked IsWrite in the plugin, is
  gone on the host, and the contradiction with it.
\<close>

theorem wire_validity:
  assumes "proto_transport deliver" and "wire_ready J sv_string sv_new d"
    and "received J sv_string sv_new deliver d h"
    and "gm_wf (gm_of (d_OutputSchemas d))"
  shows "ValidateDescriptor (Some h) = None \<longleftrightarrow>
    (ValidateDescriptor (Some d) = None \<or>
      d_WriteOperations d = Some [] \<and> ValidateDescriptor (Some (d\<lparr>d_WriteOperations := None\<rparr>)) = None) \<and>
    list_all (\<lambda>c. gm_get (gm_of (d_OutputSchemas d)) c \<noteq> Some None) (d_Capabilities d)"
proof -
  have "valid_descriptor (d\<lparr>d_WriteOperations :=
      (if d_WriteOperations d = Some [] then None else d_WriteOperations d)\<rparr>) \<longleftrightarrow>
    valid_descriptor d \<or> d_WriteOperations d = Some [] \<and> valid_descriptor (d\<lparr>d_WriteOperations := None\<rparr>)"
    using valid_without_write_list [of d] by auto
  then show ?thesis
    by (simp add: received_view [OF assms(1-3)] validate_iff wire_valid [OF assms(4)] list_all_iff)
qed

text \<open>
  The exceptions are real: a transform provider with a nil output schema, and one that says
  all its operations are reads but marks one as a write.
\<close>

definition nil_schema_descriptor :: "unit Descriptor" where
  "nil_schema_descriptor = (empty_descriptor ''n'')\<lparr>d_Capabilities := [CapabilityTransform],
     d_OutputSchemas := Some [(CapabilityTransform, None)]\<rparr>"

definition all_reads_descriptor :: "unit Descriptor" where
  "all_reads_descriptor = nil_schema_descriptor\<lparr>
     d_OutputSchemas := Some [(CapabilityTransform, Some (typed_schema ''object''))],
     d_WriteOperations := Some [], d_Operations := [(sample_operation ''put'' True)\<lparr>op_Capabilities := []\<rparr>]\<rparr>"

abbreviation arrives :: "unit Descriptor \<Rightarrow> unit Descriptor \<Rightarrow> bool" where
  "arrives \<equiv> received sample_json (\<lambda>_. ''1'') (\<lambda>_. Inr ()) (Inr \<circ> wire_form)"

lemma sample_descriptors_ready:
  "wire_ready sample_json (\<lambda>_. ''1'') (\<lambda>_. Inr ()) nil_schema_descriptor"
  "wire_ready sample_json (\<lambda>_. ''1'') (\<lambda>_. Inr ()) all_reads_descriptor"
  by (simp_all add: wire_ready_def all_reads_descriptor_def nil_schema_descriptor_def
      empty_descriptor_def op_ready_def sample_operation_def)

theorem wire_validity_witness:
  "\<exists>h1 h2. arrives nil_schema_descriptor h1 \<and> arrives all_reads_descriptor h2 \<and>
     ValidateDescriptor (Some nil_schema_descriptor) = None \<and> ValidateDescriptor (Some h1) \<noteq> None \<and>
     ValidateDescriptor (Some all_reads_descriptor) \<noteq> None \<and> ValidateDescriptor (Some h2) = None"
proof (intro exI conjI)
  note r1 = received_wire_form [OF sample_descriptors_ready(1)]
  note r2 = received_wire_form [OF sample_descriptors_ready(2)]
  show "arrives nil_schema_descriptor (wire_view nil_schema_descriptor)" by (rule r1)
  show "arrives all_reads_descriptor (wire_view all_reads_descriptor)" by (rule r2)
  have wf2: "gm_wf (gm_of (d_OutputSchemas all_reads_descriptor))"
    by (simp add: all_reads_descriptor_def gm_wf_def)
  have good: "valid_descriptor (all_reads_descriptor\<lparr>d_WriteOperations := None\<rparr>)"
    and bad: "\<not> valid_descriptor all_reads_descriptor"
    by (simp_all add: valid_descriptor_def all_reads_descriptor_def nil_schema_descriptor_def
        empty_descriptor_def valid_output_def IsValid_def getCapabilityRequiredFields_def capability_defs
        valid_write_ops_def valid_operations_def valid_operation_def sample_operation_def)
  show "ValidateDescriptor (Some (wire_view all_reads_descriptor)) = None"
    using wire_validity [OF wire_form_transport sample_descriptors_ready(2) r2 wf2] good
    by (simp add: validate_iff) (simp add: all_reads_descriptor_def nil_schema_descriptor_def)
  show "ValidateDescriptor (Some all_reads_descriptor) \<noteq> None" using bad by (simp add: validate_iff)
  have wf: "gm_wf (gm_of (d_OutputSchemas nil_schema_descriptor))"
    by (simp add: nil_schema_descriptor_def gm_wf_def)
  have ok: "valid_descriptor nil_schema_descriptor"
    by (simp add: valid_descriptor_def nil_schema_descriptor_def empty_descriptor_def valid_output_def
        IsValid_def getCapabilityRequiredFields_def capability_defs valid_write_ops_def
        valid_operations_def)
  then show "ValidateDescriptor (Some nil_schema_descriptor) = None" by (simp add: validate_iff)
  show "ValidateDescriptor (Some (wire_view nil_schema_descriptor)) \<noteq> None"
    using wire_validity [OF wire_form_transport sample_descriptors_ready(1) r1 wf] ok
    by (simp add: validate_iff nil_schema_descriptor_def)
qed

text \<open>
  C22. On a descriptor the plugin's validation accepts, the host classifies every operation by
  name as the plugin does. The list of write operations is the same too, but for a provider that
  declares no operation and says with an empty WriteOperations that all are reads: the host sees
  a provider that cannot classify its operations.
\<close>

theorem wire_write_operations:
  assumes "proto_transport deliver" and "wire_ready J sv_string sv_new d"
    and "received J sv_string sv_new deliver d h"
    and "ValidateDescriptor (Some d) = None"
  shows "(IsWriteOperation h n \<longleftrightarrow> IsWriteOperation d n) \<and>
    EffectiveWriteOperations h =
      (if d_WriteOperations d = Some [] \<and> d_Operations d = [] then None else EffectiveWriteOperations d)"
proof (cases "d_WriteOperations d = Some []")
  case True
  with assms(4) valid_without_write_list [of d] have reads: "\<forall>op \<in> set (d_Operations d). \<not> op_IsWrite op"
    by (simp add: validate_iff)
  have none: "filter op_IsWrite (d_Operations d) = []" using reads by (simp add: filter_empty_conv)
  have "\<not> op_IsWrite op" if "find_operation (d_Operations d) n = Some op" for op
    using find_operation_Some [OF that] reads by blast
  with True none show ?thesis
    by (auto simp: received_view [OF assms(1-3)] wire_view_def Let_def IsWriteOperation_def EffectiveWriteOperations_def GetOperation_def
        split: option.split)
next
  case False
  then show ?thesis
    by (auto simp: received_view [OF assms(1-3)] wire_view_def Let_def IsWriteOperation_def EffectiveWriteOperations_def GetOperation_def
        split: option.split)
qed

text \<open>A provider without declared operations that says all are reads.\<close>

definition no_writes_descriptor :: "unit Descriptor" where
  "no_writes_descriptor = all_reads_descriptor\<lparr>d_Operations := []\<rparr>"

theorem wire_write_operations_witness:
  "EffectiveWriteOperations no_writes_descriptor = Some [] \<and>
   (\<exists>h. arrives no_writes_descriptor h \<and> EffectiveWriteOperations h = None)"
proof -
  have ready: "wire_ready sample_json (\<lambda>_. ''1'') (\<lambda>_. Inr ()) no_writes_descriptor"
    using sample_descriptors_ready(2) by (simp add: wire_ready_def no_writes_descriptor_def)
  have "valid_descriptor no_writes_descriptor"
    by (simp add: no_writes_descriptor_def valid_descriptor_def all_reads_descriptor_def
        nil_schema_descriptor_def empty_descriptor_def valid_output_def IsValid_def
        getCapabilityRequiredFields_def capability_defs valid_write_ops_def valid_operations_def)
  then have ok: "ValidateDescriptor (Some no_writes_descriptor) = None" by (simp add: validate_iff)
  have fields: "d_WriteOperations no_writes_descriptor = Some []" "d_Operations no_writes_descriptor = []"
    by (simp_all add: no_writes_descriptor_def all_reads_descriptor_def)
  from wire_write_operations [OF wire_form_transport ready received_wire_form [OF ready] ok]
    received_wire_form [OF ready]
  show ?thesis using fields by (auto simp: EffectiveWriteOperations_def [of no_writes_descriptor])
qed

text \<open>
  C33. For hosts or plugins that exchange only the parameter form, a property schema that fits
  it (type, description, pattern, format, bounds, at most one example, an enumeration that is
  not empty, lengths that fit an int32) is read back unchanged.
\<close>

theorem parameter_form_round_trip:
  assumes "param_ready J s"
  shows "out_bind (paramToProto J (Some s) required) (\<lambda>p. protoParamToJSON J (Some p)) = Ret s"
  using param_round_trip [OF assms, of required] by (simp add: param_trip_def)

definition sample_param :: schema where
  "sample_param = leaf_schema (zero_core\<lparr>sc_Type := ''string'', sc_Description := ''a name'',
     sc_Default := Some ''true'', sc_Examples := [VStr ''x''], sc_Enum := Some [VStr ''x'', VStr ''y''],
     sc_MaxLength := Some 64, sc_Minimum := Some 0\<rparr>)"

theorem parameter_form_round_trip_witness:
  "out_bind (paramToProto sample_json (Some sample_param) True)
     (\<lambda>p. protoParamToJSON sample_json (Some p)) = Ret sample_param"
proof (rule parameter_form_round_trip)
  show "param_ready sample_json sample_param"
    by (simp add: param_ready_def sample_param_def zero_core_def small_int_def)
qed


text \<open>
  C35. Decoding a parameter schema does not depend on the order in which Go ranges over the
  parameters: two orders of the same map give schemas with the same type, the same sorted
  required list and the same property under every name.
\<close>

theorem decode_order_independent:
  assumes "gm_wf (ps_Parameters a)" and "mset (ps_Parameters a) = mset (ps_Parameters b)"
    and "None \<notin> snd ` set (ps_Parameters a)"
  shows "\<exists>s t. protoSchemaToJSON J a = Ret s \<and> protoSchemaToJSON J b = Ret t \<and>
    schema_core s = schema_core t \<and> sorted (sc_Required (schema_core s)) \<and>
    gm_get (gm_of (Properties s)) = gm_get (gm_of (Properties t))"
proof -
  from decode_order [OF assms] obtain s t where st: "protoSchemaToJSON J a = Ret s"
    "protoSchemaToJSON J b = Ret t" "same_object s t" by blast
  from st(1) have "sorted (sc_Required (schema_core s))"
    by (auto simp: protoSchemaToJSON_def out_bind_eq_Ret)
  with st show ?thesis by (auto simp: same_object_def)
qed

definition sample_parameter :: "bool \<Rightarrow> PParameter" where
  "sample_parameter req = (case paramToProto sample_json (Some sample_param) req of Ret p \<Rightarrow> p)"

theorem decode_order_independent_witness:
  "\<exists>s t. protoSchemaToJSON sample_json
       \<lparr>ps_Parameters = [(''b'', Some (sample_parameter True)), (''a'', Some (sample_parameter True))]\<rparr> = Ret s \<and>
     protoSchemaToJSON sample_json
       \<lparr>ps_Parameters = [(''a'', Some (sample_parameter True)), (''b'', Some (sample_parameter True))]\<rparr> = Ret t \<and>
     schema_core s = schema_core t \<and> sorted (sc_Required (schema_core s)) \<and>
     gm_get (gm_of (Properties s)) = gm_get (gm_of (Properties t))"
  by (rule decode_order_independent) (simp_all add: gm_wf_def)

end
