(* ===== verification/Streams.thy ===== *)
theory Streams
  imports Json Proto_Messages
begin

text \<open>
  Server streams, and the callback that forwards a plugin's chunks into one:
  \<open>streamForwarder\<close> of \<open>plugin/grpc_server.go\<close> and the types of \<open>plugin/interface.go\<close> that
  travel on streams.

  A gRPC server stream is a context, the messages it delivered, and the results of its
  \<open>Send\<close> calls: the n-th call fails with the n-th entry of \<open>st_results\<close> when there is one.
  A callback returns nothing to its caller, so what a plugin sends does not depend on the
  results, and a run of a streaming call is the list of the items it passed to the callback
  (in the order the forwarder's lock was taken).

  The locale \<open>sticky_sender\<close> is the contract that the provider's forwarder and the device
  code callback of Login share: once a send failed, nothing more is sent.
\<close>

record 'm stream =
  st_ctx :: ctx
  st_results :: "nat \<Rightarrow> goerror option"
  st_attempts :: nat
  st_sent :: "'m list"

definition new_stream :: "ctx \<Rightarrow> (nat \<Rightarrow> goerror option) \<Rightarrow> 'm stream" where
  "new_stream c results = \<lparr>st_ctx = c, st_results = results, st_attempts = 0, st_sent = []\<rparr>"

definition stream_send :: "'m \<Rightarrow> 'm stream \<Rightarrow> goerror option \<times> 'm stream" where
  "stream_send m s =
     (case st_results s (st_attempts s) of
        None \<Rightarrow> (None, s\<lparr>st_attempts := Suc (st_attempts s), st_sent := st_sent s @ [m]\<rparr>)
      | Some e \<Rightarrow> (Some e, s\<lparr>st_attempts := Suc (st_attempts s)\<rparr>))"

lemma stream_send_frame [rpc_simps]:
  "st_results (snd (stream_send m s)) = st_results s" "st_ctx (snd (stream_send m s)) = st_ctx s"
  "st_attempts (snd (stream_send m s)) = Suc (st_attempts s)"
  "st_sent (snd (stream_send m s)) = st_sent s @ (if fst (stream_send m s) = None then [m] else [])"
  "fst (stream_send m s) = st_results s (st_attempts s)"
  by (simp_all add: stream_send_def split: option.split)

text \<open>A stream that breaks after \<open>k\<close> messages, for good: what gRPC does.\<close>

definition breaks_after :: "nat \<Rightarrow> goerror \<Rightarrow> nat \<Rightarrow> goerror option" where
  "breaks_after k e n = (if n < k then None else Some e)"

section \<open>The contract of a sticky sender\<close>

locale sticky_sender =
  fixes step :: "'i \<Rightarrow> 's \<Rightarrow> 's"
    and encode :: "'i \<Rightarrow> 'm option"
    and failed :: "'s \<Rightarrow> bool"
    and out :: "'s \<Rightarrow> 'm stream"
  assumes stuck: "failed s \<Longrightarrow> step i s = s"
    and skip: "encode i = None \<Longrightarrow> step i s = s"
    and send: "\<not> failed s \<Longrightarrow> encode i = Some m \<Longrightarrow>
      out (step i s) = snd (stream_send m (out s)) \<and>
      (failed (step i s) \<longleftrightarrow> fst (stream_send m (out s)) \<noteq> None)"
begin

lemma fold_stuck: "failed s \<Longrightarrow> fold step xs s = s"
  by (induction xs) (simp_all add: stuck)

lemma frame: "st_results (out (fold step xs s)) = st_results (out s) \<and>
    st_ctx (out (fold step xs s)) = st_ctx (out s)"
proof (induction xs arbitrary: s)
  case (Cons x xs)
  have "st_results (out (step x s)) = st_results (out s) \<and> st_ctx (out (step x s)) = st_ctx (out s)"
    by (cases "failed s"; cases "encode x") (simp_all add: stuck skip send rpc_simps)
  with Cons show ?case by simp
qed simp

text \<open>
  A run delivers a prefix of the encoded items: all of them when no send fails, and
  otherwise those before the first failed attempt, which is the last attempt.
\<close>

lemma run:
  assumes "\<not> failed s"
  shows "\<exists>k \<le> length (List.map_filter encode xs).
    st_sent (out (fold step xs s)) = st_sent (out s) @ take k (List.map_filter encode xs) \<and>
    (failed (fold step xs s) \<longleftrightarrow> k < length (List.map_filter encode xs)) \<and>
    st_attempts (out (fold step xs s)) =
      st_attempts (out s) + k + (if failed (fold step xs s) then 1 else 0) \<and>
    (\<forall>j < k. st_results (out s) (st_attempts (out s) + j) = None) \<and>
    (failed (fold step xs s) \<longrightarrow> st_results (out s) (st_attempts (out s) + k) \<noteq> None)"
  using assms
proof (induction xs arbitrary: s)
  case Nil
  then show ?case by (simp add: map_filter_simps)
next
  case (Cons x xs)
  show ?case
  proof (cases "encode x")
    case None
    with Cons show ?thesis by (simp add: skip map_filter_simps)
  next
    case (Some m)
    let ?r = "st_results (out s) (st_attempts (out s))"
    from send [OF Cons.prems Some] have o: "out (step x s) = snd (stream_send m (out s))"
      and f: "failed (step x s) \<longleftrightarrow> ?r \<noteq> None" by (simp_all add: rpc_simps)
    have ms: "List.map_filter encode (x # xs) = m # List.map_filter encode xs"
      by (simp add: map_filter_simps Some)
    show ?thesis
    proof (cases "?r = None")
      case True
      with f have nf: "\<not> failed (step x s)" by simp
      from Cons.IH [OF nf] obtain k where k: "k \<le> length (List.map_filter encode xs)"
        "st_sent (out (fold step xs (step x s))) = st_sent (out s) @ m # take k (List.map_filter encode xs)"
        "failed (fold step xs (step x s)) \<longleftrightarrow> k < length (List.map_filter encode xs)"
        "st_attempts (out (fold step xs (step x s))) =
           Suc (st_attempts (out s) + k) + (if failed (fold step xs (step x s)) then 1 else 0)"
        "\<forall>j < k. st_results (out s) (Suc (st_attempts (out s) + j)) = None"
        "failed (fold step xs (step x s)) \<longrightarrow> st_results (out s) (Suc (st_attempts (out s) + k)) \<noteq> None"
        unfolding o by (auto simp: rpc_simps True)
      then have "\<forall>j < Suc k. st_results (out s) (st_attempts (out s) + j) = None"
        using True by (auto simp: less_Suc_eq_0_disj)
      with k ms show ?thesis by (intro exI [of _ "Suc k"]) simp
    next
      case False
      with f have "failed (step x s)" by simp
      with False ms show ?thesis
        by (intro exI [of _ 0]) (simp add: fold_stuck o rpc_simps)
    qed
  qed
qed

lemma run_ok:
  assumes "\<not> failed s" and "\<not> failed (fold step xs s)"
  shows "st_sent (out (fold step xs s)) = st_sent (out s) @ List.map_filter encode xs"
  using run [OF assms(1), of xs] assms(2) by auto

text \<open>On a stream where every send succeeds, everything is delivered.\<close>

lemma run_whole:
  assumes "\<not> failed s" and "st_results (out s) = (\<lambda>_. None)"
  shows "st_sent (out (fold step xs s)) = st_sent (out s) @ List.map_filter encode xs \<and>
    \<not> failed (fold step xs s) \<and> st_results (out (fold step xs s)) = (\<lambda>_. None)"
  using run [OF assms(1), of xs] frame [of xs s] assms(2) by auto

end

section \<open>The forwarder of streamed provider output\<close>

record StreamChunk =
  sk_Stdout :: "bytes option"
  sk_Stderr :: "bytes option"
  sk_Result :: "Output option"
  sk_Error :: string


record streamForwarder =
  fw_stream :: "ExecuteProviderStreamChunk stream"
  fw_err :: "goerror option"

definition newStreamForwarder :: "ExecuteProviderStreamChunk stream \<Rightarrow> streamForwarder" where
  "newStreamForwarder stream = \<lparr>fw_stream = stream, fw_err = None\<rparr>"

definition encode_failed :: "goerror \<Rightarrow> string" where
  "encode_failed err = ''failed to encode output: '' @ error_text err"

text \<open>The switch of \<open>forward\<close>: a chunk with no field set is dropped.\<close>

definition chunk_to_proto :: "json_lib \<Rightarrow> StreamChunk \<Rightarrow> ExecuteProviderStreamChunk option" where
  "chunk_to_proto J chunk =
     (case sk_Stdout chunk of
        Some b \<Rightarrow> Some (ChunkStdout b)
      | None \<Rightarrow>
          (case sk_Stderr chunk of
             Some b \<Rightarrow> Some (ChunkStderr b)
           | None \<Rightarrow>
               if sk_Result chunk \<noteq> None \<or> sk_Error chunk \<noteq> '''' then
                 (case marshal_output J (sk_Result chunk) of
                    Inl err \<Rightarrow> Some (ChunkResult \<lparr>es_Output = '''', es_Error = encode_failed err\<rparr>)
                  | Inr b \<Rightarrow> Some (ChunkResult \<lparr>es_Output = b, es_Error = sk_Error chunk\<rparr>))
               else None))"

definition forward :: "json_lib \<Rightarrow> StreamChunk \<Rightarrow> streamForwarder \<Rightarrow> streamForwarder" where
  "forward J chunk f =
     (if fw_err f \<noteq> None then f
      else (case chunk_to_proto J chunk of
              None \<Rightarrow> f
            | Some pc \<Rightarrow>
                (case stream_send pc (fw_stream f) of
                   (None, st) \<Rightarrow> f\<lparr>fw_stream := st\<rparr>
                 | (Some e, st) \<Rightarrow> f\<lparr>fw_stream := st, fw_err := Some e\<rparr>)))"

interpretation fwd: sticky_sender "forward J" "chunk_to_proto J" "\<lambda>f. fw_err f \<noteq> None" fw_stream
  by unfold_locales (auto simp: forward_def split: prod.split option.split)

text \<open>Which chunks are dropped, and which become a result message.\<close>

lemma chunk_dropped_iff:
  "chunk_to_proto J chunk = None \<longleftrightarrow>
     sk_Stdout chunk = None \<and> sk_Stderr chunk = None \<and> sk_Result chunk = None \<and> sk_Error chunk = ''''"
  by (auto simp: chunk_to_proto_def split: option.split sum.split)

text \<open>
  Forwarding the chunks of a streaming call delivers a prefix of their wire forms: all
  of them when no send fails, and otherwise exactly those before the first failed send, after
  which no further send is attempted.
\<close>

theorem forward_prefix:
  "\<exists>k \<le> length (List.map_filter (chunk_to_proto J) chunks).
     let f = fold (forward J) chunks (newStreamForwarder (new_stream c results)) in
     st_sent (fw_stream f) = take k (List.map_filter (chunk_to_proto J) chunks) \<and>
     (fw_err f = None \<longleftrightarrow> k = length (List.map_filter (chunk_to_proto J) chunks)) \<and>
     st_attempts (fw_stream f) = k + (if fw_err f = None then 0 else 1) \<and>
     list_all (\<lambda>j. results j = None) [0..<k] \<and>
     (if fw_err f = None then True else results k \<noteq> None)"
proof -
  let ?s = "newStreamForwarder (new_stream c results)"
  have "\<not> fw_err ?s \<noteq> None" by (simp add: newStreamForwarder_def)
  from fwd.run [OF this, of J chunks] obtain k
    where k: "k \<le> length (List.map_filter (chunk_to_proto J) chunks)"
      and "st_sent (fw_stream (fold (forward J) chunks ?s)) = take k (List.map_filter (chunk_to_proto J) chunks)"
      and failed: "fw_err (fold (forward J) chunks ?s) \<noteq> None \<longleftrightarrow>
        k < length (List.map_filter (chunk_to_proto J) chunks)"
      and "st_attempts (fw_stream (fold (forward J) chunks ?s)) =
        k + (if fw_err (fold (forward J) chunks ?s) \<noteq> None then 1 else 0)"
      and "\<forall>j < k. results j = None"
      and "fw_err (fold (forward J) chunks ?s) \<noteq> None \<longrightarrow> results k \<noteq> None"
    by (auto simp: newStreamForwarder_def new_stream_def)
  moreover have "fw_err (fold (forward J) chunks ?s) = None \<longleftrightarrow>
      k = length (List.map_filter (chunk_to_proto J) chunks)"
    using failed k by auto
  ultimately show ?thesis
    unfolding Let_def by (intro exI [of _ k]) (simp add: list_all_iff)
qed

end
