(* ===== verification/Auth_Types.thy ===== *)
theory Auth_Types
  imports Go_Context
begin

text \<open>
  The data types of package \<open>auth\<close> and their methods: \<open>auth/claims.go\<close>, \<open>auth/handler.go\<close>,
  \<open>auth/flow.go\<close>, \<open>auth/capability.go\<close> and \<open>auth/metadata.go\<close>. A method with a pointer
  receiver takes an option (nil is \<open>None\<close>); a method that reads the clock takes the current
  time. String enumerations are strings, as in Go.
\<close>

type_synonym flow = string

section \<open>Claims\<close>

record Claims =
  cl_Issuer :: string
  cl_Subject :: string
  cl_TenantID :: string
  cl_ObjectID :: string
  cl_ClientID :: string
  cl_Email :: string
  cl_Name :: string
  cl_Username :: string
  cl_IssuedAt :: gotime
  cl_ExpiresAt :: gotime

definition Claims_IsEmpty :: "Claims option \<Rightarrow> bool" where
  "Claims_IsEmpty c =
     (case c of None \<Rightarrow> True
      | Some c' \<Rightarrow> cl_Subject c' = '''' \<and> cl_Email c' = '''' \<and> cl_Name c' = '''' \<and> cl_Username c' = '''')"

definition DisplayIdentity :: "Claims option \<Rightarrow> string" where
  "DisplayIdentity c =
     (case c of None \<Rightarrow> ''''
      | Some c' \<Rightarrow>
          if cl_Email c' \<noteq> '''' then cl_Email c'
          else if cl_Username c' \<noteq> '''' then cl_Username c'
          else if cl_Name c' \<noteq> '''' then cl_Name c'
          else cl_Subject c')"

section \<open>Flows\<close>

definition FlowDeviceCode :: flow where "FlowDeviceCode = ''device_code''"
definition FlowInteractive :: flow where "FlowInteractive = ''interactive''"
definition FlowServicePrincipal :: flow where "FlowServicePrincipal = ''service_principal''"
definition FlowWorkloadIdentity :: flow where "FlowWorkloadIdentity = ''workload_identity''"
definition FlowPAT :: flow where "FlowPAT = ''pat''"
definition FlowMetadata :: flow where "FlowMetadata = ''metadata''"
definition FlowGcloudADC :: flow where "FlowGcloudADC = ''gcloud_adc''"
definition FlowGitHubApp :: flow where "FlowGitHubApp = ''github_app''"
definition FlowClientCredentials :: flow where "FlowClientCredentials = ''client_credentials''"
definition FlowOnBehalfOf :: flow where "FlowOnBehalfOf = ''obo''"

lemmas flow_defs = FlowDeviceCode_def FlowInteractive_def FlowServicePrincipal_def
  FlowWorkloadIdentity_def FlowPAT_def FlowMetadata_def FlowGcloudADC_def FlowGitHubApp_def
  FlowClientCredentials_def FlowOnBehalfOf_def

text \<open>The switch over the lower-case name.\<close>

definition flow_of_name :: "string \<Rightarrow> flow option" where
  "flow_of_name s =
     (if s \<in> {''device_code'', ''device-code'', ''devicecode''} then Some FlowDeviceCode
      else if s = ''interactive'' then Some FlowInteractive
      else if s \<in> {''service_principal'', ''service-principal'', ''serviceprincipal'', ''sp''}
        then Some FlowServicePrincipal
      else if s \<in> {''workload_identity'', ''workload-identity'', ''workloadidentity'', ''wi''}
        then Some FlowWorkloadIdentity
      else if s = ''pat'' then Some FlowPAT
      else if s = ''metadata'' then Some FlowMetadata
      else if s \<in> {''gcloud_adc'', ''gcloud-adc'', ''gcloudadc'', ''adc''} then Some FlowGcloudADC
      else if s \<in> {''github_app'', ''github-app'', ''githubapp'', ''app''} then Some FlowGitHubApp
      else if s \<in> {''client_credentials'', ''client-credentials'', ''clientcredentials'', ''cc''}
        then Some FlowClientCredentials
      else None)"

definition unknown_flow_hint :: "string \<Rightarrow> string" where
  "unknown_flow_hint handler =
     (if handler = ''github'' then '' (valid for github: interactive, device-code, pat, github-app)''
      else if handler = ''gcp'' then
        '' (valid for gcp: interactive, service-principal, workload-identity, metadata, gcloud-adc)''
      else if handler = ''entra'' then
        '' (valid for entra: interactive, device-code, service-principal, workload-identity)''
      else '''')"

definition ParseFlow :: "string \<Rightarrow> string \<Rightarrow> goerror + flow" where
  "ParseFlow s handler =
     (if s = '''' then Inr ''''
      else (case flow_of_name (to_lower s) of
              Some f \<Rightarrow> Inr f
            | None \<Rightarrow> Inl (Errorf [Lit ''unknown flow: '', Str s, Lit (unknown_flow_hint handler)])))"

text \<open>The capabilities of a handler, and the identity types of a status.\<close>

type_synonym auth_capability = string
type_synonym identity_type = string

definition CapScopesOnLogin :: auth_capability where "CapScopesOnLogin = ''scopes_on_login''"
definition CapScopesOnTokenRequest :: auth_capability where "CapScopesOnTokenRequest = ''scopes_on_token_request''"
definition CapTenantID :: auth_capability where "CapTenantID = ''tenant_id''"
definition CapHostname :: auth_capability where "CapHostname = ''hostname''"
definition CapTokenHostname :: auth_capability where "CapTokenHostname = ''token_hostname''"
definition CapInstanceHostname :: auth_capability where "CapInstanceHostname = ''instance_hostname''"
definition CapFederatedToken :: auth_capability where "CapFederatedToken = ''federated_token''"
definition CapCallbackPort :: auth_capability where "CapCallbackPort = ''callback_port''"
definition CapFlowOverride :: auth_capability where "CapFlowOverride = ''flow_override''"

definition IdentityTypeUser :: identity_type where "IdentityTypeUser = ''user''"
definition IdentityTypeServicePrincipal :: identity_type where "IdentityTypeServicePrincipal = ''service-principal''"
definition IdentityTypeWorkloadIdentity :: identity_type where "IdentityTypeWorkloadIdentity = ''workload-identity''"

text \<open>Who asks for a token, and for whom.\<close>

type_synonym caller_type = string
type_synonym server_context = string

definition CallerServer :: caller_type where "CallerServer = ''server''"
definition CallerUser :: caller_type where "CallerUser = ''user''"
definition CallerMachine :: caller_type where "CallerMachine = ''machine''"

definition ServerContextServer :: server_context where "ServerContextServer = ''server''"
definition ServerContextDelegated :: server_context where "ServerContextDelegated = ''delegated''"

definition HasCapability :: "auth_capability list \<Rightarrow> auth_capability \<Rightarrow> bool" where
  "HasCapability caps c = list_ex (\<lambda>c'. c' = c) caps"

section \<open>Tokens and status\<close>

record Token =
  tk_AccessToken :: string
  tk_TokenType :: string
  tk_ExpiresAt :: gotime
  tk_Scope :: string
  tk_CachedAt :: gotime
  tk_Flow :: flow
  tk_SessionID :: string

record CachedTokenInfo =
  ct_Handler :: string
  ct_Hostname :: string
  ct_TokenKind :: string
  ct_Scope :: string
  ct_TokenType :: string
  ct_Flow :: flow
  ct_Fingerprint :: string
  ct_ExpiresAt :: gotime
  ct_CachedAt :: gotime
  ct_IsExpired :: bool
  ct_SessionID :: string

record Status =
  su_Authenticated :: bool
  su_Reason :: string
  su_Claims :: "Claims option"
  su_ExpiresAt :: gotime
  su_LastRefresh :: gotime
  su_TenantID :: string
  su_IdentityType :: string
  su_ClientID :: string
  su_TokenFile :: string
  su_Scopes :: "string list"
  su_Flow :: flow
  su_Hostname :: string

definition DefaultMinValidFor :: duration where
  "DefaultMinValidFor = 60 * second"

definition IsValidFor :: "gotime \<Rightarrow> Token option \<Rightarrow> duration \<Rightarrow> bool" where
  "IsValidFor now t d =
     (case t of None \<Rightarrow> False
      | Some t' \<Rightarrow>
          if tk_AccessToken t' = '''' \<or> time_is_zero (tk_ExpiresAt t') then False
          else time_add now d < tk_ExpiresAt t')"

definition IsExpired :: "gotime \<Rightarrow> Token option \<Rightarrow> bool" where
  "IsExpired now t = (\<not> IsValidFor now t 0)"

text \<open>\<open>time.Until(t)\<close> is \<open>t.Sub(time.Now())\<close>.\<close>

definition timeUntilExpiry :: "gotime \<Rightarrow> gotime \<Rightarrow> duration" where
  "timeUntilExpiry now expiresAt =
     (if time_is_zero expiresAt then 0
      else (let remaining = time_sub expiresAt now in
            if sint remaining < 0 then 0 else remaining))"

definition Token_TimeUntilExpiry :: "gotime \<Rightarrow> Token option \<Rightarrow> duration" where
  "Token_TimeUntilExpiry now t =
     (case t of None \<Rightarrow> 0 | Some t' \<Rightarrow> timeUntilExpiry now (tk_ExpiresAt t'))"

definition CachedTokenInfo_TimeUntilExpiry :: "gotime \<Rightarrow> CachedTokenInfo option \<Rightarrow> duration" where
  "CachedTokenInfo_TimeUntilExpiry now c =
     (case c of None \<Rightarrow> 0 | Some c' \<Rightarrow> timeUntilExpiry now (ct_ExpiresAt c'))"

section \<open>Options and optional interfaces\<close>

text \<open>
  The option structs of a login and of a token request, for handlers inside a host. A callback
  is an action on a state \<open>'u\<close> of the caller; nil is \<open>None\<close>.
\<close>

record 'u LoginOptions =
  lgo_TenantID :: string
  lgo_Scopes :: "string list"
  lgo_Flow :: flow
  lgo_Timeout :: duration
  lgo_Hostname :: string
  lgo_CallbackPort :: goint
  lgo_DeviceCodeCallback :: "(string \<Rightarrow> string \<Rightarrow> string \<Rightarrow> 'u \<Rightarrow> 'u) option"

record TokenOptions =
  tko_Scope :: string
  tko_MinValidFor :: duration
  tko_ForceRefresh :: bool
  tko_ServerContext :: server_context
  tko_Assertion :: string
  tko_Caller :: caller_type
  tko_Hostname :: string

record Result =
  rs_Claims :: "Claims option"
  rs_ExpiresAt :: gotime

record 's TokenLister =
  tl_ListCachedTokens :: "ctx \<Rightarrow> 's \<Rightarrow> (goerror + CachedTokenInfo option list) \<times> 's"

record 's TokenPurger =
  tp_PurgeExpiredTokens :: "ctx \<Rightarrow> 's \<Rightarrow> (goerror + goint) \<times> 's"

section \<open>Handler metadata\<close>

record HandlerMetadata =
  hm_Claims :: "Claims option"
  hm_ExpiresAt :: gotime
  hm_Scopes :: "string list"
  hm_LastLoginFlow :: flow
  hm_SessionID :: string
  hm_LastRefresh :: gotime
  hm_ClientID :: string
  hm_Metadata :: "goval strmap option"

definition MetaString :: "HandlerMetadata \<Rightarrow> string \<Rightarrow> string" where
  "MetaString m key =
     (case as_string (index_any (hm_Metadata m) key) of None \<Rightarrow> '''' | Some s \<Rightarrow> s)"

definition SetMeta :: "string \<Rightarrow> goval \<Rightarrow> HandlerMetadata \<Rightarrow> HandlerMetadata" where
  "SetMeta key v m =
     (let md = (case hm_Metadata m of None \<Rightarrow> [] | Some md \<Rightarrow> md)
      in m\<lparr>hm_Metadata := Some (gm_put key v md)\<rparr>)"

section \<open>Lemmas\<close>

lemma HasCapability_iff [simp]: "HasCapability caps c \<longleftrightarrow> c \<in> set caps"
  by (auto simp: HasCapability_def list_ex_iff)

definition canonical_flows :: "flow list" where
  "canonical_flows = [FlowDeviceCode, FlowInteractive, FlowServicePrincipal, FlowWorkloadIdentity,
     FlowPAT, FlowMetadata, FlowGcloudADC, FlowGitHubApp, FlowClientCredentials]"

lemma flow_of_name_canonical: "flow_of_name s = Some f \<Longrightarrow> f \<in> set canonical_flows"
  by (auto simp: flow_of_name_def canonical_flows_def split: if_splits)

lemma canonical_flow_accepted: "f \<in> set canonical_flows \<Longrightarrow> f \<noteq> '''' \<and> flow_of_name (to_lower f) = Some f"
proof -
  assume f: "f \<in> set canonical_flows"
  have "list_all (\<lambda>f. f \<noteq> '''' \<and> flow_of_name (to_lower f) = Some f) canonical_flows"
    by code_simp
  with f show ?thesis by (simp add: list_all_iff)
qed

lemma ParseFlow_Inr:
  "ParseFlow s h = Inr f \<longleftrightarrow> (if s = '''' then f = '''' else flow_of_name (to_lower s) = Some f)"
  by (auto simp: ParseFlow_def split: option.split)

lemma sint_timeUntilExpiry:
  "sint (timeUntilExpiry now t) =
     (if time_is_zero t then 0 else max 0 (min max_duration (abs_ns t - abs_ns now)))"
  by (auto simp: timeUntilExpiry_def Let_def sint_time_sub max_duration_def min_duration_def)

lemma IsValidFor_iff:
  "IsValidFor now (Some t) d \<longleftrightarrow>
     tk_AccessToken t \<noteq> '''' \<and> abs_ns (tk_ExpiresAt t) \<noteq> 0 \<and>
     abs_ns now + sint d < abs_ns (tk_ExpiresAt t)"
  by (cases "tk_ExpiresAt t") (auto simp: IsValidFor_def time_is_zero_def time_add_def)


lemma MetaString_SetMeta:
  "MetaString (SetMeta k v m) k' =
     (if k' = k then (case as_string v of None \<Rightarrow> '''' | Some s \<Rightarrow> s) else MetaString m k')"
  by (cases "hm_Metadata m") (simp_all add: MetaString_def SetMeta_def index_any_def gm.get_put)

section \<open>Properties\<close>

text \<open>
  A session has an identity to display exactly when its claims are not empty.
\<close>

theorem display_identity_iff: "DisplayIdentity c = '''' \<longleftrightarrow> Claims_IsEmpty c"
  by (auto simp: DisplayIdentity_def Claims_IsEmpty_def split: option.split)

text \<open>
  The two views of a token's life agree: it is valid for a duration exactly when it has
  an access token and more than that duration is left until its expiry. The duration must be
  non-negative and below the largest Duration, at which \<open>time.Until\<close> saturates.
\<close>

theorem token_validity_agrees:
  assumes "0 \<le> sint d" and "sint d < max_duration"
  shows "IsValidFor now (Some t) d \<longleftrightarrow>
    tk_AccessToken t \<noteq> '''' \<and> sint d < sint (Token_TimeUntilExpiry now (Some t))"
  using assms
  by (auto simp: IsValidFor_iff Token_TimeUntilExpiry_def sint_timeUntilExpiry time_is_zero_def)

text \<open>A token that expires two minutes from now is valid for the default minimum.\<close>

definition sample_token :: "gotime \<Rightarrow> Token" where
  "sample_token t = \<lparr>tk_AccessToken = ''tok'', tk_TokenType = ''Bearer'', tk_ExpiresAt = t,
     tk_Scope = '''', tk_CachedAt = zero_time, tk_Flow = FlowPAT, tk_SessionID = ''''\<rparr>"

theorem token_validity_agrees_witness:
  "IsValidFor (GoTime 1000) (Some (sample_token (GoTime 120000001000))) DefaultMinValidFor \<longleftrightarrow>
     tk_AccessToken (sample_token (GoTime 120000001000)) \<noteq> '''' \<and>
     sint DefaultMinValidFor <
       sint (Token_TimeUntilExpiry (GoTime 1000) (Some (sample_token (GoTime 120000001000))))"
  by (rule token_validity_agrees)
    (simp_all add: DefaultMinValidFor_def second_def max_duration_def)


end
