(* ===== verification/Plugin_Interface.thy ===== *)
theory Plugin_Interface
  imports Streams Auth_Types
begin

text \<open>
  The contract between host and plugin, \<open>plugin/interface.go\<close>, with the
  handshake data; \<open>Serving\<close> has the functions that serve a plugin.

  A plugin implements a Go interface. Here it is a record of functions that pass the
  plugin's own state (a type parameter \<open>'s\<close>), so a theorem about a server holds for every
  plugin. A call that gets a callback returns the list of the items it passed to it.
\<close>

section \<open>Configuration\<close>

record HostCapabilities =
  hc_PromptAuthResponse :: bool

record ProviderConfig =
  cf_Quiet :: bool
  cf_NoColor :: bool
  cf_BinaryName :: string
  cf_HostServiceID :: uint32
  cf_Profile :: string
  cf_Settings :: "bytes strmap"
  cf_HostCapabilities :: "HostCapabilities option"

definition SupportsPromptAuthResponse :: "ProviderConfig \<Rightarrow> bool" where
  "SupportsPromptAuthResponse cfg =
     (case cf_HostCapabilities cfg of None \<Rightarrow> False | Some hc \<Rightarrow> hc_PromptAuthResponse hc)"

section \<open>Provider plugins\<close>

record ('s, 'v) ProviderPlugin =
  pp_GetProviders :: "ctx \<Rightarrow> 's \<Rightarrow> (goerror + string list) \<times> 's"
  pp_GetProviderDescriptor :: "ctx \<Rightarrow> string \<Rightarrow> 's \<Rightarrow> (goerror + 'v Descriptor option) \<times> 's"
  pp_ConfigureProvider :: "ctx \<Rightarrow> string \<Rightarrow> ProviderConfig \<Rightarrow> 's \<Rightarrow> goerror option \<times> 's"
  pp_ExecuteProvider ::
    "ctx \<Rightarrow> string \<Rightarrow> goval strmap option \<Rightarrow> 's \<Rightarrow> (goerror + Output option) \<times> 's"
  pp_ExecuteProviderStream ::
    "ctx \<Rightarrow> string \<Rightarrow> goval strmap option \<Rightarrow> 's \<Rightarrow> (StreamChunk list \<times> goerror option) \<times> 's"
  pp_DescribeWhatIf :: "ctx \<Rightarrow> string \<Rightarrow> goval strmap option \<Rightarrow> 's \<Rightarrow> (goerror + string) \<times> 's"
  pp_ExtractDependencies ::
    "ctx \<Rightarrow> string \<Rightarrow> goval strmap option \<Rightarrow> 's \<Rightarrow> (goerror + string list) \<times> 's"
  pp_StopProvider :: "ctx \<Rightarrow> string \<Rightarrow> 's \<Rightarrow> goerror option \<times> 's"

section \<open>Auth handler plugins\<close>

record AuthHandlerInfo =
  ah_Name :: string
  ah_DisplayName :: string
  ah_Flows :: "flow list"
  ah_Capabilities :: "auth_capability list"

record LoginRequest =
  lq_TenantID :: string
  lq_Scopes :: "string list"
  lq_Flow :: flow
  lq_Timeout :: duration
  lq_Hostname :: string
  lq_CallbackPort :: goint

record LoginResponse =
  lp_Claims :: "Claims option"
  lp_ExpiresAt :: gotime

record DeviceCodePrompt =
  dp_UserCode :: string
  dp_VerificationURI :: string
  dp_Message :: string

record LoginStreamMessage =
  lm_DeviceCodePrompt :: "DeviceCodePrompt option"
  lm_Result :: "LoginResponse option"
  lm_Error :: string

record TokenRequest =
  tq_Scope :: string
  tq_MinValidFor :: duration
  tq_ForceRefresh :: bool
  tq_ServerContext :: server_context
  tq_Caller :: caller_type
  tq_Assertion :: string
  tq_Hostname :: string

record TokenResponse =
  tr_AccessToken :: string
  tr_TokenType :: string
  tr_ExpiresAt :: gotime
  tr_Scope :: string
  tr_CachedAt :: gotime
  tr_Flow :: flow
  tr_SessionID :: string

record StatusRequest =
  sq_Hostname :: string

record LogoutRequest =
  oq_Hostname :: string

record FlowAvailability =
  fa_Flow :: flow
  fa_Available :: bool
  fa_Reason :: string

text \<open>The optional interface of a handler that can become a server of tokens.\<close>

type_synonym 's server_mode = "ctx \<Rightarrow> bytes \<Rightarrow> 's \<Rightarrow> goerror option \<times> 's"

text \<open>
  The last field is the optional interface \<open>ServerMode\<close>: \<open>None\<close> when the type assertion
  on the plugin fails.
\<close>

record 's AuthHandlerPlugin =
  ap_GetAuthHandlers :: "ctx \<Rightarrow> 's \<Rightarrow> (goerror + AuthHandlerInfo list) \<times> 's"
  ap_ConfigureAuthHandler :: "ctx \<Rightarrow> string \<Rightarrow> ProviderConfig \<Rightarrow> 's \<Rightarrow> goerror option \<times> 's"
  ap_Login :: "ctx \<Rightarrow> string \<Rightarrow> LoginRequest \<Rightarrow> 's \<Rightarrow>
    (DeviceCodePrompt list \<times> (goerror + LoginResponse option)) \<times> 's"
  ap_Logout :: "ctx \<Rightarrow> string \<Rightarrow> LogoutRequest \<Rightarrow> 's \<Rightarrow> goerror option \<times> 's"
  ap_GetStatus :: "ctx \<Rightarrow> string \<Rightarrow> StatusRequest \<Rightarrow> 's \<Rightarrow> (goerror + Status option) \<times> 's"
  ap_GetToken :: "ctx \<Rightarrow> string \<Rightarrow> TokenRequest \<Rightarrow> 's \<Rightarrow> (goerror + TokenResponse option) \<times> 's"
  ap_ListCachedTokens :: "ctx \<Rightarrow> string \<Rightarrow> 's \<Rightarrow> (goerror + CachedTokenInfo option list) \<times> 's"
  ap_PurgeExpiredTokens :: "ctx \<Rightarrow> string \<Rightarrow> 's \<Rightarrow> (goerror + goint) \<times> 's"
  ap_DetectAvailableFlows :: "ctx \<Rightarrow> string \<Rightarrow> 's \<Rightarrow> (goerror + FlowAvailability list) \<times> 's"
  ap_StopAuthHandler :: "ctx \<Rightarrow> string \<Rightarrow> 's \<Rightarrow> goerror option \<times> 's"
  ap_ActivateServerMode :: "'s server_mode option"

section \<open>Handshake and serving\<close>

record HandshakeConfigData =
  hk_ProtocolVersion :: nat
  hk_MagicCookieKey :: string
  hk_MagicCookieValue :: string

definition handshakeConfig :: HandshakeConfigData where
  "handshakeConfig = \<lparr>hk_ProtocolVersion = 1, hk_MagicCookieKey = ''SCAFCTL_PLUGIN'',
     hk_MagicCookieValue = ''scafctl_provider_plugin''\<rparr>"

definition HandshakeConfig :: HandshakeConfigData where
  "HandshakeConfig = handshakeConfig"

definition PluginProtocolVersion :: int32 where "PluginProtocolVersion = 3"
definition AuthHandlerPluginProtocolVersion :: int32 where "AuthHandlerPluginProtocolVersion = 2"

definition authHandlerHandshakeConfig :: HandshakeConfigData where
  "authHandlerHandshakeConfig = \<lparr>hk_ProtocolVersion = 2, hk_MagicCookieKey = ''SCAFCTL_AUTH_PLUGIN'',
     hk_MagicCookieValue = ''scafctl_auth_handler_plugin''\<rparr>"

definition AuthHandlerHandshakeConfig :: HandshakeConfigData where
  "AuthHandlerHandshakeConfig = authHandlerHandshakeConfig"

definition PluginName :: string where "PluginName = ''provider''"
definition AuthHandlerPluginName :: string where "AuthHandlerPluginName = ''auth-handler''"

end
