(* ===== verification/Mock.thy ===== *)
theory Mock
  imports Plugin_Interface
begin

text \<open>
  The configurable plugin of \<open>testutil/mock.go\<close>: a record of optional functions, and the
  plugin it makes. The mock without any function, \<open>bare_mock\<close>, is the plugin on which
  witnesses about the provider server run.
\<close>

record ('s, 'v) MockProviderPlugin =
  mk_GetProvidersFunc :: "(ctx \<Rightarrow> 's \<Rightarrow> (goerror + string list) \<times> 's) option"
  mk_GetProviderDescriptorFunc ::
    "(ctx \<Rightarrow> string \<Rightarrow> 's \<Rightarrow> (goerror + 'v Descriptor option) \<times> 's) option"
  mk_ConfigureProviderFunc :: "(ctx \<Rightarrow> string \<Rightarrow> ProviderConfig \<Rightarrow> 's \<Rightarrow> goerror option \<times> 's) option"
  mk_ExecuteProviderFunc ::
    "(ctx \<Rightarrow> string \<Rightarrow> goval strmap option \<Rightarrow> 's \<Rightarrow> (goerror + Output option) \<times> 's) option"
  mk_ExecuteProviderStreamFunc ::
    "(ctx \<Rightarrow> string \<Rightarrow> goval strmap option \<Rightarrow> 's \<Rightarrow> (StreamChunk list \<times> goerror option) \<times> 's) option"
  mk_DescribeWhatIfFunc ::
    "(ctx \<Rightarrow> string \<Rightarrow> goval strmap option \<Rightarrow> 's \<Rightarrow> (goerror + string) \<times> 's) option"
  mk_ExtractDependenciesFunc ::
    "(ctx \<Rightarrow> string \<Rightarrow> goval strmap option \<Rightarrow> 's \<Rightarrow> (goerror + string list) \<times> 's) option"
  mk_StopProviderFunc :: "(ctx \<Rightarrow> string \<Rightarrow> 's \<Rightarrow> goerror option \<times> 's) option"

definition mock_GetProviders where
  "mock_GetProviders m c s =
     (case mk_GetProvidersFunc m of Some f \<Rightarrow> f c s | None \<Rightarrow> (Inr [], s))"

definition mock_GetProviderDescriptor where
  "mock_GetProviderDescriptor m c name s =
     (case mk_GetProviderDescriptorFunc m of
        Some f \<Rightarrow> f c name s
      | None \<Rightarrow> (Inl (Errorf [Lit ''unknown provider: '', Str name]), s))"

definition mock_ConfigureProvider where
  "mock_ConfigureProvider m c name cfg s =
     (case mk_ConfigureProviderFunc m of Some f \<Rightarrow> f c name cfg s | None \<Rightarrow> (None, s))"

definition mock_ExecuteProvider where
  "mock_ExecuteProvider m c name input s =
     (case mk_ExecuteProviderFunc m of
        Some f \<Rightarrow> f c name input s
      | None \<Rightarrow> (Inl (Errorf [Lit ''not implemented'']), s))"

definition mock_ExecuteProviderStream where
  "mock_ExecuteProviderStream m c name input s =
     (case mk_ExecuteProviderStreamFunc m of
        Some f \<Rightarrow> f c name input s
      | None \<Rightarrow> (([], Some ErrStreamingNotSupported), s))"

definition mock_DescribeWhatIf where
  "mock_DescribeWhatIf m c name input s =
     (case mk_DescribeWhatIfFunc m of Some f \<Rightarrow> f c name input s | None \<Rightarrow> (Inr '''', s))"

definition mock_ExtractDependencies where
  "mock_ExtractDependencies m c name inputs s =
     (case mk_ExtractDependenciesFunc m of Some f \<Rightarrow> f c name inputs s | None \<Rightarrow> (Inr [], s))"

definition mock_StopProvider where
  "mock_StopProvider m c name s =
     (case mk_StopProviderFunc m of Some f \<Rightarrow> f c name s | None \<Rightarrow> (None, s))"

definition mock_plugin :: "('s, 'v) MockProviderPlugin \<Rightarrow> ('s, 'v) ProviderPlugin" where
  "mock_plugin m =
     \<lparr>pp_GetProviders = mock_GetProviders m,
      pp_GetProviderDescriptor = mock_GetProviderDescriptor m,
      pp_ConfigureProvider = mock_ConfigureProvider m,
      pp_ExecuteProvider = mock_ExecuteProvider m,
      pp_ExecuteProviderStream = mock_ExecuteProviderStream m,
      pp_DescribeWhatIf = mock_DescribeWhatIf m,
      pp_ExtractDependencies = mock_ExtractDependencies m,
      pp_StopProvider = mock_StopProvider m\<rparr>"

lemmas mock_defs = mock_GetProviders_def mock_GetProviderDescriptor_def mock_ConfigureProvider_def
  mock_ExecuteProvider_def mock_ExecuteProviderStream_def mock_DescribeWhatIf_def
  mock_ExtractDependencies_def mock_StopProvider_def mock_plugin_def

definition bare_mock :: "(unit, unit) MockProviderPlugin" where
  "bare_mock =
     \<lparr>mk_GetProvidersFunc = None, mk_GetProviderDescriptorFunc = None,
      mk_ConfigureProviderFunc = None, mk_ExecuteProviderFunc = None,
      mk_ExecuteProviderStreamFunc = None, mk_DescribeWhatIfFunc = None,
      mk_ExtractDependenciesFunc = None, mk_StopProviderFunc = None\<rparr>"

end
