(* ===== verification/Host_Link.thy ===== *)
theory Host_Link
  imports Go_Context
begin

text \<open>
  The connection a plugin server keeps to the host service.

  Dialling is go-plugin's and gRPC's work. A dial function is a parameter: for an id and the
  number of dials before, it gives the error of this dial, or none. The ledger \<open>net\<close> records
  the connections opened and not yet closed, each with a number of its own. Both servers
  keep a connection and the client made from it; the locale \<open>host_link\<close> is what their
  operations promise about the pair and the ledger, and its clients' facts hold for every
  run of either server.
\<close>

section \<open>The ledger of connections\<close>

record net =
  nt_next :: nat
  nt_open :: "conn_id list"

definition no_net :: net where
  "no_net = \<lparr>nt_next = 0, nt_open = []\<rparr>"

type_synonym dial_fun = "uint32 \<Rightarrow> nat \<Rightarrow> goerror option"

definition run_dial :: "dial_fun \<Rightarrow> uint32 \<Rightarrow> net \<Rightarrow> (goerror + conn_id) \<times> net" where
  "run_dial dial i net =
     (let n = nt_next net in
      case dial i n of
        Some e \<Rightarrow> (Inl e, net\<lparr>nt_next := Suc n\<rparr>)
      | None \<Rightarrow> (Inr n, \<lparr>nt_next = Suc n, nt_open = n # nt_open net\<rparr>))"

definition close_conn :: "conn_id \<Rightarrow> net \<Rightarrow> net" where
  "close_conn c net = net\<lparr>nt_open := filter (\<lambda>c'. c' \<noteq> c) (nt_open net)\<rparr>"

text \<open>Every open connection was numbered before the next, so a new number is fresh.\<close>

definition net_wf :: "net \<Rightarrow> bool" where
  "net_wf net \<longleftrightarrow> distinct (nt_open net) \<and> list_all (\<lambda>c. c < nt_next net) (nt_open net)"

lemma net_wf_no_net [simp]: "net_wf no_net"
  by (simp add: net_wf_def no_net_def)

lemma net_wf_dial: "net_wf net \<Longrightarrow> net_wf (snd (run_dial dial i net))"
  by (auto simp: net_wf_def run_dial_def Let_def list_all_iff less_SucI split: option.split)

lemma net_wf_close [simp]: "net_wf net \<Longrightarrow> net_wf (close_conn c net)"
  by (auto simp: net_wf_def close_conn_def list_all_iff)

lemma run_dial_Inl: "fst (run_dial dial i net) = Inl e \<Longrightarrow> nt_open (snd (run_dial dial i net)) = nt_open net"
  by (auto simp: run_dial_def Let_def split: option.splits)

lemma run_dial_Inr:
  "fst (run_dial dial i net) = Inr c \<Longrightarrow>
     nt_open (snd (run_dial dial i net)) = c # nt_open net \<and> c = nt_next net"
  by (auto simp: run_dial_def Let_def split: option.splits)

section \<open>The link of a server\<close>

record link =
  lk_conn :: "conn_id option"
  lk_host :: "conn_id option"
  lk_net :: net

definition new_link :: link where
  "new_link = \<lparr>lk_conn = None, lk_host = None, lk_net = no_net\<rparr>"

definition link_ok :: "link \<Rightarrow> bool" where
  "link_ok l \<longleftrightarrow>
     lk_host l = lk_conn l \<and> net_wf (lk_net l) \<and>
     nt_open (lk_net l) = (case lk_conn l of None \<Rightarrow> [] | Some c \<Rightarrow> [c])"

text \<open>What one operation may do to the link.\<close>

inductive link_step :: "link \<Rightarrow> link \<Rightarrow> bool" where
  keep: "link_step l l"
| dial_failed: "lk_host l = None \<Longrightarrow> run_dial dial i (lk_net l) = (Inl e, net) \<Longrightarrow>
    link_step l (l\<lparr>lk_net := net\<rparr>)"
| connect: "lk_host l = None \<Longrightarrow> run_dial dial i (lk_net l) = (Inr c, net) \<Longrightarrow>
    link_step l \<lparr>lk_conn = Some c, lk_host = Some c, lk_net = net\<rparr>"
| disconnect: "link_step l
    \<lparr>lk_conn = None, lk_host = None,
     lk_net = (case lk_conn l of None \<Rightarrow> lk_net l | Some c \<Rightarrow> close_conn c (lk_net l))\<rparr>"

lemma link_ok_new [simp]: "link_ok new_link"
  by (simp add: link_ok_def new_link_def) (simp add: no_net_def)

lemma link_step_ok: "link_step l l' \<Longrightarrow> link_ok l \<Longrightarrow> link_ok l'"
proof (induction rule: link_step.induct)
  case (dial_failed l dial i e net)
  then show ?case
    using net_wf_dial [of "lk_net l" dial i] run_dial_Inl [of dial i "lk_net l" e]
    by (simp add: link_ok_def)
next
  case (connect l dial i c net)
  then show ?case
    using net_wf_dial [of "lk_net l" dial i] run_dial_Inr [of dial i "lk_net l" c]
    by (simp add: link_ok_def)
next
  case (disconnect l)
  then show ?case
    by (cases "lk_conn l") (auto simp: link_ok_def close_conn_def net_wf_def)
qed simp

lemma link_steps_ok: "link_step\<^sup>*\<^sup>* l l' \<Longrightarrow> link_ok l \<Longrightarrow> link_ok l'"
  by (induction rule: rtranclp_induct) (auto dest: link_step_ok)

locale host_link =
  fixes step :: "'st \<Rightarrow> 'st \<Rightarrow> bool"
    and link_of :: "'st \<Rightarrow> link"
  assumes step_link: "step st st' \<Longrightarrow> link_step\<^sup>*\<^sup>* (link_of st) (link_of st')"
begin

lemma steps_link: "step\<^sup>*\<^sup>* st st' \<Longrightarrow> link_step\<^sup>*\<^sup>* (link_of st) (link_of st')"
  by (induction rule: rtranclp_induct) (auto dest: step_link)

lemma run_ok: "step\<^sup>*\<^sup>* st st' \<Longrightarrow> link_ok (link_of st) \<Longrightarrow> link_ok (link_of st')"
  using steps_link link_steps_ok by blast

text \<open>A run from a fresh server holds at most one connection, and its client uses it.\<close>

lemma run_one_connection:
  assumes "step\<^sup>*\<^sup>* st st'" and "link_of st = new_link"
  shows "lk_host (link_of st') = lk_conn (link_of st') \<and>
    nt_open (lk_net (link_of st')) = (case lk_host (link_of st') of None \<Rightarrow> [] | Some c \<Rightarrow> [c])"
proof -
  from assms(2) have "link_ok (link_of st)" by simp
  from run_ok [OF assms(1) this] show ?thesis by (simp add: link_ok_def)
qed

end

end
