(* ===== verification/Provider_Server.thy ===== *)
theory Provider_Server
  imports Conversion Mock Host_Link
begin

text \<open>
  The gRPC server of a provider plugin, \<open>GRPCServer\<close> in \<open>plugin/grpc_server.go\<close>: its state
  and one function per RPC handler. A handler takes the request, the RPC's context and the
  state, and returns its response (or the RPC error, \<open>Inl\<close>) with the new state. The plugin
  is the record \<open>sv_Impl\<close> with its own state \<open>sv_plugin\<close>.

  Handlers run under the server's lock where they touch its fields; here a handler is one
  step. The settings are values here; who can write to their bytes is the subject of
  \<open>Settings_Store\<close>.
\<close>

section \<open>State\<close>

record ('s, 'v) GRPCServer =
  sv_Impl :: "('s, 'v) ProviderPlugin"
  sv_plugin :: 's
  sv_broker :: "dial_fun option"
  sv_dialFunc :: "dial_fun option"
  sv_conn :: "conn_id option"
  sv_hostClient :: "conn_id option"
  sv_configureSettings :: "bytes strmap strmap option"
  sv_net :: net

definition new_GRPCServer ::
  "('s, 'v) ProviderPlugin \<Rightarrow> 's \<Rightarrow> dial_fun option \<Rightarrow> ('s, 'v) GRPCServer" where
  "new_GRPCServer impl s broker =
     \<lparr>sv_Impl = impl, sv_plugin = s, sv_broker = broker, sv_dialFunc = None, sv_conn = None,
      sv_hostClient = None, sv_configureSettings = None, sv_net = no_net\<rparr>"

section \<open>Context helpers\<close>

definition injectHostClient :: "('s, 'v) GRPCServer \<Rightarrow> ctx \<Rightarrow> ctx" where
  "injectHostClient sv c =
     (case sv_hostClient sv of Some hc \<Rightarrow> WithHostClient c (Some hc) | None \<Rightarrow> c)"

definition configured_settings :: "('s, 'v) GRPCServer \<Rightarrow> string \<Rightarrow> bytes strmap" where
  "configured_settings sv name =
     (case gm_get (gm_of (sv_configureSettings sv)) name of None \<Rightarrow> [] | Some m \<Rightarrow> m)"

definition withSettings :: "('s, 'v) GRPCServer \<Rightarrow> ctx \<Rightarrow> string \<Rightarrow> bytes strmap \<Rightarrow> ctx" where
  "withSettings sv c name execute =
     (let configure = configured_settings sv name in
      if configure = [] \<and> execute = [] then c
      else (let merged = gm_copy (\<lambda>v. v) configure [];
                merged = gm_copy (\<lambda>v. v) execute merged
            in WithSettings c (Some merged)))"

definition pickDialFunc :: "('s, 'v) GRPCServer \<Rightarrow> dial_fun option" where
  "pickDialFunc sv =
     (case sv_dialFunc sv of Some f \<Rightarrow> Some f | None \<Rightarrow> sv_broker sv)"

definition unmarshalIterationContext ::
  "json_lib \<Rightarrow> ctx \<Rightarrow> PIterationContext option \<Rightarrow> goerror + ctx" where
  "unmarshalIterationContext J c iter =
     (case iter of
        None \<Rightarrow> Inr c
      | Some it \<Rightarrow>
          (case (if pi_Item it \<noteq> [] then unmarshal_any J (pi_Item it) else Inr VNil) of
             Inl err \<Rightarrow> Inl (wrap_with ''failed to decode iteration item'' err)
           | Inr item \<Rightarrow>
               Inr (WithIterationContext c (Some
                 \<lparr>ic_Item = item, ic_Index = scast (pi_Index it), ic_ItemAlias = pi_ItemAlias it,
                  ic_IndexAlias = pi_IndexAlias it\<rparr>))))"

definition solution_meta_of :: "PSolutionMeta \<Rightarrow> SolutionMeta" where
  "solution_meta_of m =
     \<lparr>sm_Name = pm_Name m, sm_Version = pm_Version m, sm_DisplayName = pm_DisplayName m,
      sm_Description = pm_Description m, sm_Category = pm_Category m, sm_Tags = pm_Tags m,
      sm_Source = pm_Source m\<rparr>"

definition unmarshalSolutionMeta :: "ctx \<Rightarrow> PSolutionMeta option \<Rightarrow> ctx" where
  "unmarshalSolutionMeta c meta =
     (case meta of None \<Rightarrow> c
      | Some m \<Rightarrow> WithSolutionMetadata c (Some (solution_meta_of m)))"

text \<open>The three parts of \<open>applyRequestContext\<close>: the resolver data, the plain fields, the parameters.\<close>

definition apply_resolver_data :: "json_lib \<Rightarrow> ctx \<Rightarrow> ExecuteProviderRequest \<Rightarrow> goerror + ctx" where
  "apply_resolver_data J c req =
     (if er_Context req \<noteq> [] then
        (case unmarshal_map J (er_Context req) of
           Inl err \<Rightarrow> Inl (wrap_with ''failed to decode context'' err)
         | Inr data \<Rightarrow>
             Inr (case as_map (index_any data ''resolverContext'') of
                    Some m \<Rightarrow> WithResolverContext c m
                  | None \<Rightarrow> c))
      else Inr c)"

definition apply_fields :: "ExecuteProviderRequest \<Rightarrow> ctx \<Rightarrow> ctx" where
  "apply_fields req c1 =
     (let c2 = WithDryRun c1 (er_DryRun req);
          c3 = (if er_ExecutionMode req \<noteq> '''' then WithExecutionMode c2 (er_ExecutionMode req) else c2);
          c4 = (if er_WorkingDirectory req \<noteq> '''' then WithWorkingDirectory c3 (er_WorkingDirectory req) else c3);
          c5 = (if er_OutputDirectory req \<noteq> '''' then WithOutputDirectory c4 (er_OutputDirectory req) else c4);
          c6 = (if er_ConflictStrategy req \<noteq> '''' then WithConflictStrategy c5 (er_ConflictStrategy req) else c5)
      in (if er_Backup req then WithBackup c6 (er_Backup req) else c6))"

definition apply_parameters :: "json_lib \<Rightarrow> ctx \<Rightarrow> ExecuteProviderRequest \<Rightarrow> goerror + ctx" where
  "apply_parameters J c req =
     (if er_Parameters req \<noteq> [] then
        (case unmarshal_map J (er_Parameters req) of
           Inl err \<Rightarrow> Inl (wrap_with ''failed to decode parameters'' err)
         | Inr params \<Rightarrow> Inr (WithParameters c params))
      else Inr c)"

definition applyRequestContext :: "json_lib \<Rightarrow> ctx \<Rightarrow> ExecuteProviderRequest \<Rightarrow> goerror + ctx" where
  "applyRequestContext J c req =
     (case apply_resolver_data J c req of
        Inl err \<Rightarrow> Inl err
      | Inr c1 \<Rightarrow>
          (case unmarshalIterationContext J (apply_fields req c1) (er_IterationContext req) of
             Inl err \<Rightarrow> Inl err
           | Inr c2 \<Rightarrow>
               (case apply_parameters J c2 req of
                  Inl err \<Rightarrow> Inl err
                | Inr c3 \<Rightarrow>
                    (let c4 = unmarshalSolutionMeta c3 (er_SolutionMetadata req) in
                     Inr (if er_AuthProfile req \<noteq> '''' then WithProfile c4 (er_AuthProfile req)
                          else c4)))))"

section \<open>Handlers\<close>

text \<open>\<open>json.Unmarshal\<close> of an optional input map.\<close>

definition decode_input :: "json_lib \<Rightarrow> bytes \<Rightarrow> goerror + goval strmap option" where
  "decode_input J b = (if b \<noteq> [] then unmarshal_map J b else Inr None)"

definition GRPCServer_GetProviders ::
  "ctx \<Rightarrow> ('s, 'v) GRPCServer \<Rightarrow> (goerror + string list) \<times> ('s, 'v) GRPCServer" where
  "GRPCServer_GetProviders c sv =
     (case pp_GetProviders (sv_Impl sv) c (sv_plugin sv) of
        (Inl err, s) \<Rightarrow> (Inl (wrap_with ''GetProviders'' err), sv\<lparr>sv_plugin := s\<rparr>)
      | (Inr providers, s) \<Rightarrow> (Inr providers, sv\<lparr>sv_plugin := s\<rparr>))"

definition GRPCServer_GetProviderDescriptor ::
  "json_lib \<Rightarrow> ('v \<Rightarrow> string) \<Rightarrow> ctx \<Rightarrow> string \<Rightarrow> ('s, 'v) GRPCServer \<Rightarrow>
   ((goerror + PDescriptor) \<times> ('s, 'v) GRPCServer) outcome" where
  "GRPCServer_GetProviderDescriptor J sv_string c name sv =
     (case pp_GetProviderDescriptor (sv_Impl sv) c name (sv_plugin sv) of
        (Inl err, s) \<Rightarrow>
          Ret (Inl (Errorf [Lit ''GetProviderDescriptor '', Quo name, Lit '': '', Wrap err]),
               sv\<lparr>sv_plugin := s\<rparr>)
      | (Inr desc, s) \<Rightarrow>
          out_bind (descriptorToProto J sv_string desc) (\<lambda>pd. Ret (Inr pd, sv\<lparr>sv_plugin := s\<rparr>)))"

definition result_error :: "string \<Rightarrow> ExecuteProviderResponse" where
  "result_error msg = \<lparr>es_Output = '''', es_Error = msg\<rparr>"

definition decode_failed :: "string \<Rightarrow> goerror \<Rightarrow> string" where
  "decode_failed what err = ''failed to decode '' @ what @ '': '' @ error_text err"

text \<open>What both execute handlers do first: the input and the context of the call.\<close>

definition execute_setup :: "json_lib \<Rightarrow> ctx \<Rightarrow> ExecuteProviderRequest \<Rightarrow> ('s, 'v) GRPCServer \<Rightarrow>
    string + (goval strmap option \<times> ctx)" where
  "execute_setup J c req sv =
     (case decode_input J (er_Input req) of
        Inl err \<Rightarrow> Inl (decode_failed ''input'' err)
      | Inr input \<Rightarrow>
          (case applyRequestContext J c req of
             Inl err \<Rightarrow> Inl (error_text err)
           | Inr c1 \<Rightarrow>
               Inr (input, injectHostClient sv
                             (withSettings sv c1 (er_ProviderName req) (er_Settings req)))))"

definition GRPCServer_ExecuteProvider ::
  "json_lib \<Rightarrow> ctx \<Rightarrow> ExecuteProviderRequest \<Rightarrow> ('s, 'v) GRPCServer \<Rightarrow>
   ExecuteProviderResponse \<times> ('s, 'v) GRPCServer" where
  "GRPCServer_ExecuteProvider J c req sv =
     (case execute_setup J c req sv of
        Inl msg \<Rightarrow> (result_error msg, sv)
      | Inr (input, c1) \<Rightarrow>
          (case pp_ExecuteProvider (sv_Impl sv) c1 (er_ProviderName req) input (sv_plugin sv) of
             (Inl err, s) \<Rightarrow> (result_error (error_text err), sv\<lparr>sv_plugin := s\<rparr>)
           | (Inr output, s) \<Rightarrow>
               (case marshal_output J output of
                  Inl err \<Rightarrow> (result_error (encode_failed err), sv\<lparr>sv_plugin := s\<rparr>)
                | Inr b \<Rightarrow> (\<lparr>es_Output = b, es_Error = ''''\<rparr>, sv\<lparr>sv_plugin := s\<rparr>))))"

definition configure_error :: "string \<Rightarrow> ConfigureProviderResponse" where
  "configure_error msg = \<lparr>cs_Error = msg, cs_ProtocolVersion = 0\<rparr>"

text \<open>The captured settings: last write wins, whatever happens afterwards.\<close>

definition store_settings :: "string \<Rightarrow> bytes strmap \<Rightarrow> ('s, 'v) GRPCServer \<Rightarrow> ('s, 'v) GRPCServer" where
  "store_settings name req_settings sv =
     (let settings = gm_copy (\<lambda>v. v) req_settings [];
          stored = gm_copy (\<lambda>v. v) settings []
      in sv\<lparr>sv_configureSettings := Some (gm_put name stored (gm_of (sv_configureSettings sv)))\<rparr>)"

definition dial_host :: "uint32 \<Rightarrow> ('s, 'v) GRPCServer \<Rightarrow> goerror option \<times> ('s, 'v) GRPCServer" where
  "dial_host i sv =
     (if i \<noteq> 0 then
        (case pickDialFunc sv of
           None \<Rightarrow> (None, sv)
         | Some dial \<Rightarrow>
             if sv_hostClient sv = None then
               (case run_dial dial i (sv_net sv) of
                  (Inl err, net) \<Rightarrow> (Some err, sv\<lparr>sv_net := net\<rparr>)
                | (Inr conn, net) \<Rightarrow>
                    (None, sv\<lparr>sv_conn := Some conn, sv_hostClient := Some conn, sv_net := net\<rparr>))
             else (None, sv))
      else (None, sv))"

definition config_of_request :: "ConfigureProviderRequest \<Rightarrow> ProviderConfig" where
  "config_of_request req =
     \<lparr>cf_Quiet = cr_Quiet req, cf_NoColor = cr_NoColor req, cf_BinaryName = cr_BinaryName req,
      cf_HostServiceID = cr_HostServiceId req, cf_Profile = cr_Profile req,
      cf_Settings = gm_copy (\<lambda>v. v) (cr_Settings req) [], cf_HostCapabilities = None\<rparr>"

definition GRPCServer_ConfigureProvider ::
  "ctx \<Rightarrow> ConfigureProviderRequest \<Rightarrow> ('s, 'v) GRPCServer \<Rightarrow>
   ConfigureProviderResponse \<times> ('s, 'v) GRPCServer" where
  "GRPCServer_ConfigureProvider c req sv =
     (let sv1 = store_settings (cr_ProviderName req) (cr_Settings req) sv in
      case dial_host (cr_HostServiceId req) sv1 of
        (Some err, sv2) \<Rightarrow> (configure_error (''failed to dial host service: '' @ error_text err), sv2)
      | (None, sv2) \<Rightarrow>
          (case pp_ConfigureProvider (sv_Impl sv2)
                  (WithProfile (injectHostClient sv2 c) (cr_Profile req))
                  (cr_ProviderName req) (config_of_request req) (sv_plugin sv2) of
             (Some err, s) \<Rightarrow> (configure_error (error_text err), sv2\<lparr>sv_plugin := s\<rparr>)
           | (None, s) \<Rightarrow>
               (\<lparr>cs_Error = '''', cs_ProtocolVersion = PluginProtocolVersion\<rparr>, sv2\<lparr>sv_plugin := s\<rparr>)))"

text \<open>A streaming call returns the RPC error, the stream and the state.\<close>

definition GRPCServer_ExecuteProviderStream ::
  "json_lib \<Rightarrow> ExecuteProviderRequest \<Rightarrow> ExecuteProviderStreamChunk stream \<Rightarrow> ('s, 'v) GRPCServer \<Rightarrow>
   (goerror option \<times> ExecuteProviderStreamChunk stream) \<times> ('s, 'v) GRPCServer" where
  "GRPCServer_ExecuteProviderStream J req st sv =
     (case execute_setup J (st_ctx st) req sv of
        Inl msg \<Rightarrow> (stream_send (ChunkResult (result_error msg)) st, sv)
      | Inr (input, c1) \<Rightarrow>
          (case pp_ExecuteProviderStream (sv_Impl sv) c1 (er_ProviderName req) input (sv_plugin sv) of
             ((chunks, err), s) \<Rightarrow>
               (let f = fold (forward J) chunks (newStreamForwarder st) in
                case err of
                  Some e \<Rightarrow>
                    if errors_is_streaming e
                    then ((Some (StatusErr CodeUnimplemented (error_text e)), fw_stream f),
                          sv\<lparr>sv_plugin := s\<rparr>)
                    else (stream_send (ChunkResult (result_error (error_text e))) (fw_stream f),
                          sv\<lparr>sv_plugin := s\<rparr>)
                | None \<Rightarrow> ((None, fw_stream f), sv\<lparr>sv_plugin := s\<rparr>))))"

definition GRPCServer_DescribeWhatIf ::
  "json_lib \<Rightarrow> ctx \<Rightarrow> DescribeWhatIfRequest \<Rightarrow> ('s, 'v) GRPCServer \<Rightarrow>
   DescribeWhatIfResponse \<times> ('s, 'v) GRPCServer" where
  "GRPCServer_DescribeWhatIf J c req sv =
     (case decode_input J (wr_Input req) of
        Inl err \<Rightarrow> (\<lparr>ws_Description = '''', ws_Error = decode_failed ''input'' err\<rparr>, sv)
      | Inr input \<Rightarrow>
          (case pp_DescribeWhatIf (sv_Impl sv) (injectHostClient sv c) (wr_ProviderName req) input
                  (sv_plugin sv) of
             (Inl err, s) \<Rightarrow> (\<lparr>ws_Description = '''', ws_Error = error_text err\<rparr>, sv\<lparr>sv_plugin := s\<rparr>)
           | (Inr d, s) \<Rightarrow> (\<lparr>ws_Description = d, ws_Error = ''''\<rparr>, sv\<lparr>sv_plugin := s\<rparr>)))"

definition GRPCServer_ExtractDependencies ::
  "json_lib \<Rightarrow> ctx \<Rightarrow> ExtractDependenciesRequest \<Rightarrow> ('s, 'v) GRPCServer \<Rightarrow>
   ExtractDependenciesResponse \<times> ('s, 'v) GRPCServer" where
  "GRPCServer_ExtractDependencies J c req sv =
     (case decode_input J (xr_Inputs req) of
        Inl err \<Rightarrow> (\<lparr>xs_Dependencies = [], xs_Error = decode_failed ''inputs'' err\<rparr>, sv)
      | Inr inputs \<Rightarrow>
          (case pp_ExtractDependencies (sv_Impl sv) (injectHostClient sv c) (xr_ProviderName req) inputs
                  (sv_plugin sv) of
             (Inl err, s) \<Rightarrow> (\<lparr>xs_Dependencies = [], xs_Error = error_text err\<rparr>, sv\<lparr>sv_plugin := s\<rparr>)
           | (Inr deps, s) \<Rightarrow> (\<lparr>xs_Dependencies = deps, xs_Error = ''''\<rparr>, sv\<lparr>sv_plugin := s\<rparr>)))"

text \<open>The response is its \<open>Error\<close> field.\<close>

definition GRPCServer_StopProvider ::
  "ctx \<Rightarrow> string \<Rightarrow> ('s, 'v) GRPCServer \<Rightarrow> string \<times> ('s, 'v) GRPCServer" where
  "GRPCServer_StopProvider c name sv =
     (case pp_StopProvider (sv_Impl sv) c name (sv_plugin sv) of
        (Some err, s) \<Rightarrow> (error_text err, sv\<lparr>sv_plugin := s\<rparr>)
      | (None, s) \<Rightarrow>
          (let sv1 = sv\<lparr>sv_plugin := s\<rparr>;
               sv2 = (case sv_conn sv1 of
                        Some conn \<Rightarrow> sv1\<lparr>sv_net := close_conn conn (sv_net sv1), sv_conn := None\<rparr>
                      | None \<Rightarrow> sv1)
           in ('''', sv2\<lparr>sv_hostClient := None\<rparr>)))"


section \<open>What the context of a call holds\<close>

text \<open>Conditional writes, read back without a case split per field.\<close>

lemma ctx_value_if:
  "ctx_value (if b then with_value c k v else c) k' = (if b \<and> k' = k then Some v else ctx_value c k')"
  by (simp add: ctx_simps)

text \<open>What each part leaves in a slot: its own value, or what was there.\<close>

lemma apply_fields_value:
  "ctx_value (apply_fields req c) k =
     (if k = dryRunKey then Some (CtxBool (er_DryRun req))
      else if k = executionModeKey \<and> er_ExecutionMode req \<noteq> '''' then Some (CtxCap (er_ExecutionMode req))
      else if k = workingDirectoryKey \<and> er_WorkingDirectory req \<noteq> '''' then Some (CtxStr (er_WorkingDirectory req))
      else if k = outputDirectoryKey \<and> er_OutputDirectory req \<noteq> '''' then Some (CtxStr (er_OutputDirectory req))
      else if k = conflictStrategyKey \<and> er_ConflictStrategy req \<noteq> '''' then Some (CtxStr (er_ConflictStrategy req))
      else if k = backupKey \<and> er_Backup req then Some (CtxBool True)
      else ctx_value c k)"
  unfolding apply_fields_def Let_def with_defs ctx_value_if by (simp add: ctx_simps)

lemma apply_resolver_value:
  "apply_resolver_data J c req = Inr c' \<Longrightarrow> k \<noteq> resolverContextKey \<Longrightarrow> ctx_value c' k = ctx_value c k"
  by (auto simp: apply_resolver_data_def with_defs ctx_simps split: if_splits sum.splits option.splits)

lemma apply_parameters_value:
  "apply_parameters J c req = Inr c' \<Longrightarrow> k \<noteq> parametersKey \<Longrightarrow> ctx_value c' k = ctx_value c k"
  by (auto simp: apply_parameters_def with_defs ctx_simps split: if_splits sum.splits)

lemma iteration_value:
  "unmarshalIterationContext J c it = Inr c' \<Longrightarrow> k \<noteq> iterationContextKey \<Longrightarrow> ctx_value c' k = ctx_value c k"
  by (auto simp: unmarshalIterationContext_def with_defs ctx_simps split: option.splits sum.splits)

lemma solution_value:
  "ctx_value (unmarshalSolutionMeta c meta) k =
     (if k = solutionMetadataKey \<and> meta \<noteq> None then Some (CtxSolution (map_option solution_meta_of meta))
      else ctx_value c k)"
  by (cases meta) (simp_all add: unmarshalSolutionMeta_def with_defs ctx_simps)


lemma apply_request_parts:
  assumes "applyRequestContext J c req = Inr c'"
  obtains c1 c2 c3 where "apply_resolver_data J c req = Inr c1"
    and "unmarshalIterationContext J (apply_fields req c1) (er_IterationContext req) = Inr c2"
    and "apply_parameters J c2 req = Inr c3"
    and "c' = (if er_AuthProfile req \<noteq> ''''
               then WithProfile (unmarshalSolutionMeta c3 (er_SolutionMetadata req)) (er_AuthProfile req)
               else unmarshalSolutionMeta c3 (er_SolutionMetadata req))"
  using assms by (auto simp: applyRequestContext_def Let_def split: sum.splits)

text \<open>What the request puts into a slot. \<open>None\<close>: the slot is inherited.\<close>

definition request_value :: "json_lib \<Rightarrow> ExecuteProviderRequest \<Rightarrow> ctx_key \<Rightarrow> ctx_val option" where
  "request_value J req k =
     (if k = dryRunKey then Some (CtxBool (er_DryRun req))
      else if k = executionModeKey then
        (if er_ExecutionMode req \<noteq> '''' then Some (CtxCap (er_ExecutionMode req)) else None)
      else if k = workingDirectoryKey then
        (if er_WorkingDirectory req \<noteq> '''' then Some (CtxStr (er_WorkingDirectory req)) else None)
      else if k = outputDirectoryKey then
        (if er_OutputDirectory req \<noteq> '''' then Some (CtxStr (er_OutputDirectory req)) else None)
      else if k = conflictStrategyKey then
        (if er_ConflictStrategy req \<noteq> '''' then Some (CtxStr (er_ConflictStrategy req)) else None)
      else if k = backupKey then (if er_Backup req then Some (CtxBool True) else None)
      else if k = solutionMetadataKey then
        map_option (\<lambda>m. CtxSolution (Some (solution_meta_of m))) (er_SolutionMetadata req)
      else if k = profileKey then
        (if er_AuthProfile req \<noteq> '''' then Some (CtxStr (er_AuthProfile req)) else None)
      else if k = resolverContextKey then
        (if er_Context req \<noteq> [] then
           (case unmarshal_map J (er_Context req) of
              Inl e \<Rightarrow> None
            | Inr data \<Rightarrow> map_option CtxMap (as_map (index_any data ''resolverContext'')))
         else None)
      else if k = parametersKey then
        (if er_Parameters req \<noteq> [] then
           (case unmarshal_map J (er_Parameters req) of Inl e \<Rightarrow> None | Inr ps \<Rightarrow> Some (CtxMap ps))
         else None)
      else if k = iterationContextKey then
        (case er_IterationContext req of
           None \<Rightarrow> None
         | Some it \<Rightarrow>
             (case (if pi_Item it \<noteq> [] then unmarshal_any J (pi_Item it) else Inr VNil) of
                Inl e \<Rightarrow> None
              | Inr item \<Rightarrow> Some (CtxIteration (Some
                  \<lparr>ic_Item = item, ic_Index = scast (pi_Index it), ic_ItemAlias = pi_ItemAlias it,
                   ic_IndexAlias = pi_IndexAlias it\<rparr>))))
      else None)"

lemma apply_resolver_slot:
  "apply_resolver_data J c req = Inr c' \<Longrightarrow>
     ctx_value c' resolverContextKey =
       (case request_value J req resolverContextKey of None \<Rightarrow> ctx_value c resolverContextKey | Some v \<Rightarrow> Some v)"
  by (auto simp: apply_resolver_data_def request_value_def with_defs ctx_simps
      split: if_splits sum.splits option.splits)

lemma apply_parameters_slot:
  "apply_parameters J c req = Inr c' \<Longrightarrow>
     ctx_value c' parametersKey =
       (case request_value J req parametersKey of None \<Rightarrow> ctx_value c parametersKey | Some v \<Rightarrow> Some v)"
  by (auto simp: apply_parameters_def request_value_def with_defs ctx_simps split: if_splits sum.splits)

lemma iteration_slot_value:
  "unmarshalIterationContext J c (er_IterationContext req) = Inr c' \<Longrightarrow>
     ctx_value c' iterationContextKey =
       (case request_value J req iterationContextKey of None \<Rightarrow> ctx_value c iterationContextKey | Some v \<Rightarrow> Some v)"
  by (auto simp: unmarshalIterationContext_def request_value_def with_defs ctx_simps
      split: option.splits sum.splits if_splits)

text \<open>The whole function: every slot holds the request's value, or is inherited.\<close>

lemma apply_request_value:
  assumes "applyRequestContext J c req = Inr c'"
  shows "ctx_value c' k =
    (case request_value J req k of None \<Rightarrow> ctx_value c k | Some v \<Rightarrow> Some v)"
proof -
  from assms obtain c1 c2 c3 where parts: "apply_resolver_data J c req = Inr c1"
    "unmarshalIterationContext J (apply_fields req c1) (er_IterationContext req) = Inr c2"
    "apply_parameters J c2 req = Inr c3"
    and c': "c' = (if er_AuthProfile req \<noteq> ''''
               then WithProfile (unmarshalSolutionMeta c3 (er_SolutionMetadata req)) (er_AuthProfile req)
               else unmarshalSolutionMeta c3 (er_SolutionMetadata req))"
    by (rule apply_request_parts)
  have profile: "ctx_value c' k = (if er_AuthProfile req \<noteq> '''' \<and> k = profileKey
      then Some (CtxStr (er_AuthProfile req)) else ctx_value (unmarshalSolutionMeta c3 (er_SolutionMetadata req)) k)"
    unfolding c' WithProfile_def ctx_value_if by simp
  consider "k = resolverContextKey" | "k = parametersKey" | "k = iterationContextKey"
    | "k \<noteq> resolverContextKey" "k \<noteq> parametersKey" "k \<noteq> iterationContextKey" by blast
  then show ?thesis
  proof cases
    case 1
    with profile parts apply_resolver_slot [OF parts(1)] show ?thesis
      by (simp add: solution_value apply_parameters_value iteration_value apply_fields_value
          cong: option.case_cong)
  next
    case 2
    with profile parts apply_parameters_slot [OF parts(3)] show ?thesis
      by (simp add: solution_value iteration_value apply_fields_value apply_resolver_value
          cong: option.case_cong)
  next
    case 3
    with profile parts iteration_slot_value [OF parts(2)] show ?thesis
      by (simp add: solution_value apply_parameters_value apply_fields_value apply_resolver_value
          cong: option.case_cong)
  next
    case 4
    with parts have "ctx_value c3 k = ctx_value (apply_fields req c1) k" and "ctx_value c1 k = ctx_value c k"
      by (simp_all add: apply_parameters_value iteration_value apply_resolver_value)
    with 4 profile show ?thesis
      by (cases "er_SolutionMetadata req") (simp_all add: solution_value apply_fields_value request_value_def)
  qed
qed

section \<open>Histories of calls\<close>

text \<open>A call of the service, and what it does to the server; \<open>Panic\<close> ends the process.\<close>

datatype provider_call =
    CallGetProviders ctx
  | CallGetDescriptor ctx string
  | CallConfigure ctx ConfigureProviderRequest
  | CallExecute ctx ExecuteProviderRequest
  | CallExecuteStream ExecuteProviderRequest "ExecuteProviderStreamChunk stream"
  | CallDescribeWhatIf ctx DescribeWhatIfRequest
  | CallExtractDependencies ctx ExtractDependenciesRequest
  | CallStop ctx string

fun serve_call ::
  "json_lib \<Rightarrow> ('v \<Rightarrow> string) \<Rightarrow> provider_call \<Rightarrow> ('s, 'v) GRPCServer \<Rightarrow> ('s, 'v) GRPCServer outcome" where
  "serve_call J sv_string (CallGetProviders c) sv = Ret (snd (GRPCServer_GetProviders c sv))"
| "serve_call J sv_string (CallGetDescriptor c name) sv =
     out_bind (GRPCServer_GetProviderDescriptor J sv_string c name sv) (\<lambda>(r, sv'). Ret sv')"
| "serve_call J sv_string (CallConfigure c req) sv = Ret (snd (GRPCServer_ConfigureProvider c req sv))"
| "serve_call J sv_string (CallExecute c req) sv = Ret (snd (GRPCServer_ExecuteProvider J c req sv))"
| "serve_call J sv_string (CallExecuteStream req st) sv =
     Ret (snd (GRPCServer_ExecuteProviderStream J req st sv))"
| "serve_call J sv_string (CallDescribeWhatIf c req) sv = Ret (snd (GRPCServer_DescribeWhatIf J c req sv))"
| "serve_call J sv_string (CallExtractDependencies c req) sv =
     Ret (snd (GRPCServer_ExtractDependencies J c req sv))"
| "serve_call J sv_string (CallStop c name) sv = Ret (snd (GRPCServer_StopProvider c name sv))"

fun serve_calls ::
  "json_lib \<Rightarrow> ('v \<Rightarrow> string) \<Rightarrow> provider_call list \<Rightarrow> ('s, 'v) GRPCServer \<Rightarrow> ('s, 'v) GRPCServer outcome" where
  "serve_calls J sv_string [] sv = Ret sv"
| "serve_calls J sv_string (call # calls) sv =
     out_bind (serve_call J sv_string call sv) (serve_calls J sv_string calls)"

inductive provider_step ::
  "json_lib \<Rightarrow> ('v \<Rightarrow> string) \<Rightarrow> ('s, 'v) GRPCServer \<Rightarrow> ('s, 'v) GRPCServer \<Rightarrow> bool"
  for J sv_string where
  call: "serve_call J sv_string c sv = Ret sv' \<Longrightarrow> provider_step J sv_string sv sv'"

inductive_cases provider_stepE: "provider_step J sv_string sv sv'"

lemma serve_calls_steps:
  "serve_calls J f calls sv = Ret sv' \<Longrightarrow> (provider_step J f)\<^sup>*\<^sup>* sv sv'"
proof (induction calls arbitrary: sv)
  case (Cons c calls)
  then obtain sv1 where "serve_call J f c sv = Ret sv1" "serve_calls J f calls sv1 = Ret sv'"
    by (auto simp: out_bind_eq_Ret)
  with Cons.IH show ?case
    by (meson call converse_rtranclp_into_rtranclp)
qed simp

subsection \<open>The connection\<close>

definition link_of :: "('s, 'v) GRPCServer \<Rightarrow> link" where
  "link_of sv = \<lparr>lk_conn = sv_conn sv, lk_host = sv_hostClient sv, lk_net = sv_net sv\<rparr>"

lemma link_of_plugin [simp]: "link_of (sv\<lparr>sv_plugin := s\<rparr>) = link_of sv"
  by (simp add: link_of_def)

lemma link_of_store [simp]: "link_of (store_settings name m sv) = link_of sv"
  by (simp add: link_of_def store_settings_def Let_def)

lemma link_of_new [simp]: "link_of (new_GRPCServer impl s broker) = new_link"
  by (simp add: link_of_def new_GRPCServer_def new_link_def)

lemma dial_host_link: "link_step (link_of sv) (link_of (snd (dial_host i sv)))"
proof (cases "i = 0 \<or> pickDialFunc sv = None \<or> sv_hostClient sv \<noteq> None")
  case True
  then have "snd (dial_host i sv) = sv"
    by (auto simp: dial_host_def split: option.split)
  then show ?thesis by (simp add: link_step.keep)
next
  case False
  then obtain dial where d: "pickDialFunc sv = Some dial" "i \<noteq> 0" "sv_hostClient sv = None" by auto
  show ?thesis
  proof (cases "run_dial dial i (sv_net sv)")
    case (Pair r net)
    show ?thesis
    proof (cases r)
      case (Inl e)
      with d Pair show ?thesis
        using link_step.dial_failed [of "link_of sv" dial i e net]
        by (simp add: dial_host_def link_of_def)
    next
      case (Inr c)
      with d Pair show ?thesis
        using link_step.connect [of "link_of sv" dial i c net]
        by (simp add: dial_host_def link_of_def)
    qed
  qed
qed

lemma configure_link: "link_step (link_of sv) (link_of (snd (GRPCServer_ConfigureProvider c req sv)))"
  using dial_host_link [of "store_settings (cr_ProviderName req) (cr_Settings req) sv" "cr_HostServiceId req"]
  by (auto simp: GRPCServer_ConfigureProvider_def Let_def split: prod.split option.split)

lemma stop_link: "link_step (link_of sv) (link_of (snd (GRPCServer_StopProvider c name sv)))"
proof (cases "pp_StopProvider (sv_Impl sv) c name (sv_plugin sv)")
  case (Pair err s)
  show ?thesis
  proof (cases err)
    case (Some e)
    with Pair show ?thesis by (simp add: GRPCServer_StopProvider_def link_step.keep)
  next
    case None
    with Pair show ?thesis
      using link_step.disconnect [of "link_of sv"]
      by (cases "sv_conn sv") (simp_all add: GRPCServer_StopProvider_def link_of_def)
  qed
qed

text \<open>Every other handler only passes the plugin's state on.\<close>

lemma other_calls_plugin:
  "\<exists>s. snd (GRPCServer_GetProviders c sv) = sv\<lparr>sv_plugin := s\<rparr>"
  "\<exists>s. snd (GRPCServer_ExecuteProvider J c ereq sv) = sv\<lparr>sv_plugin := s\<rparr>"
  "\<exists>s. snd (GRPCServer_ExecuteProviderStream J ereq st sv) = sv\<lparr>sv_plugin := s\<rparr>"
  "\<exists>s. snd (GRPCServer_DescribeWhatIf J c wreq sv) = sv\<lparr>sv_plugin := s\<rparr>"
  "\<exists>s. snd (GRPCServer_ExtractDependencies J c xreq sv) = sv\<lparr>sv_plugin := s\<rparr>"
proof -
  have keep: "\<exists>s. sv = sv\<lparr>sv_plugin := s\<rparr>"
    by (rule exI [of _ "sv_plugin sv"]) simp
  show "\<exists>s. snd (GRPCServer_GetProviders c sv) = sv\<lparr>sv_plugin := s\<rparr>"
    by (auto simp: GRPCServer_GetProviders_def split: prod.split sum.split)
  show "\<exists>s. snd (GRPCServer_ExecuteProvider J c ereq sv) = sv\<lparr>sv_plugin := s\<rparr>"
    using keep by (auto simp: GRPCServer_ExecuteProvider_def split: prod.split sum.split)
  show "\<exists>s. snd (GRPCServer_ExecuteProviderStream J ereq st sv) = sv\<lparr>sv_plugin := s\<rparr>"
    using keep by (auto simp: GRPCServer_ExecuteProviderStream_def Let_def
        split: prod.split sum.split option.split)
  show "\<exists>s. snd (GRPCServer_DescribeWhatIf J c wreq sv) = sv\<lparr>sv_plugin := s\<rparr>"
    using keep by (auto simp: GRPCServer_DescribeWhatIf_def split: prod.split sum.split)
  show "\<exists>s. snd (GRPCServer_ExtractDependencies J c xreq sv) = sv\<lparr>sv_plugin := s\<rparr>"
    using keep by (auto simp: GRPCServer_ExtractDependencies_def split: prod.split sum.split)
qed

lemma descriptor_call_plugin:
  "GRPCServer_GetProviderDescriptor J f c name sv = Ret (r, sv') \<Longrightarrow> \<exists>s. sv' = sv\<lparr>sv_plugin := s\<rparr>"
  by (auto simp: GRPCServer_GetProviderDescriptor_def out_bind_eq_Ret split: prod.splits sum.splits)

lemma serve_call_cases:
  assumes "serve_call J f call sv = Ret sv'"
  obtains (plugin) s where "sv' = sv\<lparr>sv_plugin := s\<rparr>" "\<And>c req. call \<noteq> CallConfigure c req"
  | (configure) c req where "call = CallConfigure c req" "sv' = snd (GRPCServer_ConfigureProvider c req sv)"
  | (stop) c name where "call = CallStop c name" "sv' = snd (GRPCServer_StopProvider c name sv)"
proof (cases call)
  case (CallGetProviders c)
  with assms other_calls_plugin(1) [of c sv] show ?thesis by (auto intro: plugin)
next
  case (CallGetDescriptor c name)
  with assms show ?thesis
    by (auto simp: out_bind_eq_Ret dest!: descriptor_call_plugin intro: plugin)
next
  case (CallExecute c req)
  with assms other_calls_plugin(2) [of J c req sv] show ?thesis by (auto intro: plugin)
next
  case (CallExecuteStream req st)
  with assms other_calls_plugin(3) [of J req st sv] show ?thesis by (auto intro: plugin)
next
  case (CallDescribeWhatIf c req)
  with assms other_calls_plugin(4) [of J c req sv] show ?thesis by (auto intro: plugin)
next
  case (CallExtractDependencies c req)
  with assms other_calls_plugin(5) [of J c req sv] show ?thesis by (auto intro: plugin)
qed (use assms in \<open>auto intro: configure stop\<close>)

interpretation provider_link: host_link "provider_step J f" link_of
proof unfold_locales
  fix st st'
  assume "provider_step J f st st'"
  then obtain c where "serve_call J f c st = Ret st'" by (auto elim: provider_stepE)
  then show "link_step\<^sup>*\<^sup>* (link_of st) (link_of st')"
    by (cases rule: serve_call_cases) (auto intro: configure_link stop_link)
qed


subsection \<open>The settings\<close>

lemma configured_store:
  "gm_wf m \<Longrightarrow> configured_settings (store_settings n m sv) name =
     (if name = n then m else configured_settings sv name)"
  by (simp add: configured_settings_def store_settings_def Let_def gm_copy_id gm.get_put)

lemma configured_plugin [simp]: "configured_settings (sv\<lparr>sv_plugin := s\<rparr>) name = configured_settings sv name"
  by (simp add: configured_settings_def)

lemma configured_dial [simp]:
  "configured_settings (snd (dial_host i sv)) name = configured_settings sv name"
  by (auto simp: dial_host_def configured_settings_def split: option.split prod.split sum.split)

lemma configured_configure:
  assumes "gm_wf (cr_Settings req)"
  shows "configured_settings (snd (GRPCServer_ConfigureProvider c req sv)) name =
    (if name = cr_ProviderName req then cr_Settings req else configured_settings sv name)"
proof -
  let ?sv1 = "store_settings (cr_ProviderName req) (cr_Settings req) sv"
  have "configured_settings (snd (GRPCServer_ConfigureProvider c req sv)) name =
      configured_settings (snd (dial_host (cr_HostServiceId req) ?sv1)) name"
    by (auto simp: GRPCServer_ConfigureProvider_def Let_def simp del: configured_dial
        split: prod.split option.split)
  with assms show ?thesis by (simp add: configured_store)
qed

lemma configured_stop [simp]:
  "configured_settings (snd (GRPCServer_StopProvider c n sv)) name = configured_settings sv name"
  by (auto simp: GRPCServer_StopProvider_def Let_def configured_settings_def split: prod.split option.split)

text \<open>The settings of the last ConfigureProvider call for a provider, whether or not it succeeded.\<close>

fun last_configured :: "string \<Rightarrow> provider_call list \<Rightarrow> bytes strmap \<Rightarrow> bytes strmap" where
  "last_configured name [] m = m"
| "last_configured name (CallConfigure c req # calls) m =
     last_configured name calls (if name = cr_ProviderName req then cr_Settings req else m)"
| "last_configured name (_ # calls) m = last_configured name calls m"

text \<open>A request's Settings is a Go map, so its keys are distinct.\<close>

fun call_wf :: "provider_call \<Rightarrow> bool" where
  "call_wf (CallConfigure c req) = gm_wf (cr_Settings req)"
| "call_wf _ = True"

lemma configured_history:
  assumes "serve_calls J f calls sv = Ret sv'" and "list_all call_wf calls"
  shows "configured_settings sv' name = last_configured name calls (configured_settings sv name)"
  using assms
proof (induction calls arbitrary: sv)
  case (Cons call calls)
  then obtain sv1 where call: "serve_call J f call sv = Ret sv1" and rest: "serve_calls J f calls sv1 = Ret sv'"
    by (auto simp: out_bind_eq_Ret)
  note IH = Cons.IH [OF rest]
  from call show ?case
  proof (cases rule: serve_call_cases)
    case (plugin s)
    then have "last_configured name (call # calls) m = last_configured name calls m" for m
      by (cases call) auto
    with plugin IH Cons.prems show ?thesis by simp
  next
    case (configure c req)
    with IH Cons.prems show ?thesis by (simp add: configured_configure)
  next
    case (stop c n)
    with IH Cons.prems show ?thesis by simp
  qed
qed simp

lemma last_configured_wf: "list_all call_wf calls \<Longrightarrow> gm_wf m \<Longrightarrow> gm_wf (last_configured name calls m)"
  by (induction name calls m rule: last_configured.induct) auto

text \<open>What a plugin finds for a setting: its effective per-execution settings.\<close>

definition settings_seen :: "ctx \<Rightarrow> string \<Rightarrow> bytes option" where
  "settings_seen c k =
     (case SettingsFromContext c of Some m \<Rightarrow> gm_get (gm_of m) k | None \<Rightarrow> None)"

lemma withSettings_seen:
  assumes "gm_wf (configured_settings sv name)" and "gm_wf execute" and "SettingsFromContext c = None"
  shows "settings_seen (withSettings sv c name execute) =
    gm_get (configured_settings sv name) ++ gm_get execute"
proof (cases "configured_settings sv name = [] \<and> execute = []")
  case True
  with assms show ?thesis by (simp add: withSettings_def settings_seen_def fun_eq_iff)
next
  case False
  have "settings_seen (withSettings sv c name execute) =
      gm_get (gm_copy (\<lambda>v. v) execute (gm_copy (\<lambda>v. v) (configured_settings sv name) []))"
    using False by (auto simp: withSettings_def settings_seen_def settings_slot.fetch_store Let_def)
  with assms show ?thesis
    by (simp add: gm_get_copy option.map_id0 [unfolded id_def] comp_def gm_copy_id option.map_ident)
qed

lemma settings_seen_inject: "settings_seen (injectHostClient sv c) = settings_seen c"
  by (auto simp: settings_seen_def injectHostClient_def settings_host.fetch1_store2 split: option.split)

lemma apply_request_settings:
  "applyRequestContext J c req = Inr c' \<Longrightarrow> SettingsFromContext c' = SettingsFromContext c"
  by (rule settings_slot.fetch_local) (simp add: apply_request_value request_value_def)

lemma execute_setup_Inr:
  assumes "execute_setup J c req sv = Inr (input, c')"
  obtains c1 where "decode_input J (er_Input req) = Inr input" "applyRequestContext J c req = Inr c1"
    and "c' = injectHostClient sv (withSettings sv c1 (er_ProviderName req) (er_Settings req))"
  using assms by (auto simp: execute_setup_def split: sum.splits)

text \<open>
  C3. The settings a plugin sees in an execution, after any history of calls to a fresh
  server, are those of the request merged over those of the last ConfigureProvider call for
  the same provider, key by key; the settings of other providers play no part. The RPC's own
  context carries no settings, and the settings of the requests are maps.
\<close>

theorem effective_settings:
  assumes "serve_calls J sv_string calls (new_GRPCServer impl s broker) = Ret sv"
    and "list_all call_wf calls" and "gm_wf (er_Settings req)"
    and "SettingsFromContext c = None"
    and "execute_setup J c req sv = Inr (input, c')"
  shows "settings_seen c' =
    gm_get (last_configured (er_ProviderName req) calls []) ++ gm_get (er_Settings req)"
proof -
  from assms(5) obtain c1 where c1: "applyRequestContext J c req = Inr c1"
    and c': "c' = injectHostClient sv (withSettings sv c1 (er_ProviderName req) (er_Settings req))"
    by (rule execute_setup_Inr)
  have conf: "configured_settings sv (er_ProviderName req) = last_configured (er_ProviderName req) calls []"
    using configured_history [OF assms(1,2)] by (simp add: new_GRPCServer_def configured_settings_def)
  with last_configured_wf [OF assms(2)] have "gm_wf (configured_settings sv (er_ProviderName req))"
    by simp
  with assms(3,4) c1 show ?thesis
    by (simp add: c' settings_seen_inject withSettings_seen apply_request_settings conf)
qed


text \<open>The bare mock, configured for the provider p with two settings, then executed with one.\<close>

definition sample_configure :: ConfigureProviderRequest where
  "sample_configure = \<lparr>cr_ProviderName = ''p'', cr_Quiet = False, cr_NoColor = False,
     cr_BinaryName = ''scafctl'', cr_HostServiceId = 0,
     cr_Settings = [(''a'', ''1''), (''b'', ''2'')], cr_ProtocolVersion = 3, cr_Profile = ''''\<rparr>"

definition sample_execute :: ExecuteProviderRequest where
  "sample_execute = \<lparr>er_ProviderName = ''p'', er_Input = '''', er_Context = '''', er_DryRun = True,
     er_ExecutionMode = ''action'', er_WorkingDirectory = ''/w'', er_OutputDirectory = '''',
     er_ConflictStrategy = '''', er_Backup = False, er_IterationContext = None,
     er_Parameters = ''null'', er_SolutionMetadata = None, er_AuthProfile = ''work'',
     er_Settings = [(''b'', ''3'')]\<rparr>"

definition sample_server :: "(unit, unit) GRPCServer" where
  "sample_server = snd (GRPCServer_ConfigureProvider background sample_configure
     (new_GRPCServer (mock_plugin bare_mock) () None))"

definition sample_context :: ctx where
  "sample_context = (case execute_setup sample_json background sample_execute sample_server of
     Inl e \<Rightarrow> background | Inr (input, c) \<Rightarrow> c)"

lemma sample_setup:
  "execute_setup sample_json background sample_execute sample_server = Inr (None, sample_context)"
  by (simp add: sample_context_def execute_setup_def sample_execute_def decode_input_def
      applyRequestContext_def apply_resolver_data_def unmarshalIterationContext_def
      apply_parameters_def sample_json_def sample_unmarshal_map_def)

theorem effective_settings_witness:
  "settings_seen sample_context =
     gm_get (last_configured (er_ProviderName sample_execute)
       [CallConfigure background sample_configure] []) ++ gm_get (er_Settings sample_execute)"
proof (rule effective_settings)
  show "serve_calls sample_json (\<lambda>_. '''') [CallConfigure background sample_configure]
      (new_GRPCServer (mock_plugin bare_mock) () None) = Ret sample_server"
    by (simp add: sample_server_def)
  show "list_all call_wf [CallConfigure background sample_configure]"
    by (simp add: sample_configure_def gm_wf_def)
  show "gm_wf (er_Settings sample_execute)" by (simp add: sample_execute_def gm_wf_def)
  show "SettingsFromContext background = None" by (simp add: SettingsFromContext_def)
qed (rule sample_setup)

section \<open>Streaming executions\<close>

text \<open>
  What a streaming execution means to send: the forwarded chunks, then the handler's own
  result message, and the RPC status.
\<close>

definition stream_plan ::
  "json_lib \<Rightarrow> ctx \<Rightarrow> ExecuteProviderRequest \<Rightarrow> ('s, 'v) GRPCServer \<Rightarrow>
   ExecuteProviderStreamChunk list \<times> ExecuteProviderStreamChunk option \<times> goerror option" where
  "stream_plan J c req sv =
     (case execute_setup J c req sv of
        Inl msg \<Rightarrow> ([], Some (ChunkResult (result_error msg)), None)
      | Inr (input, c1) \<Rightarrow>
          (case fst (pp_ExecuteProviderStream (sv_Impl sv) c1 (er_ProviderName req) input (sv_plugin sv)) of
             (chunks, None) \<Rightarrow> (List.map_filter (chunk_to_proto J) chunks, None, None)
           | (chunks, Some e) \<Rightarrow>
               if errors_is_streaming e
               then (List.map_filter (chunk_to_proto J) chunks, None,
                     Some (StatusErr CodeUnimplemented (error_text e)))
               else (List.map_filter (chunk_to_proto J) chunks,
                     Some (ChunkResult (result_error (error_text e))), None)))"

definition opt_list :: "'a option \<Rightarrow> 'a list" where
  "opt_list x = (case x of None \<Rightarrow> [] | Some y \<Rightarrow> [y])"

lemma fold_forward_breaks:
  fixes J :: json_lib and c :: ctx and k :: nat and e :: goerror
  defines "ms \<equiv> \<lambda>chunks. List.map_filter (chunk_to_proto J) chunks"
  defines "f \<equiv> \<lambda>chunks. fold (forward J) chunks (newStreamForwarder (new_stream c (breaks_after k e)))"
  shows "st_sent (fw_stream (f chunks)) = take k (ms chunks)"
    and "st_attempts (fw_stream (f chunks)) < k \<longleftrightarrow> length (ms chunks) < k"
    and "st_results (fw_stream (f chunks)) = breaks_after k e"
proof -
  let ?s = "newStreamForwarder (new_stream c (breaks_after k e))"
  have s: "\<not> fw_err ?s \<noteq> None" by (simp add: newStreamForwarder_def)
  obtain k' where k': "k' \<le> length (ms chunks)" "st_sent (fw_stream (f chunks)) = take k' (ms chunks)"
      "fw_err (f chunks) \<noteq> None \<longleftrightarrow> k' < length (ms chunks)"
      "st_attempts (fw_stream (f chunks)) = k' + (if fw_err (f chunks) \<noteq> None then 1 else 0)"
      "\<forall>j < k'. breaks_after k e j = None"
      "fw_err (f chunks) \<noteq> None \<longrightarrow> breaks_after k e k' \<noteq> None"
    using fwd.run [OF s, of J chunks]
    by (auto simp: newStreamForwarder_def new_stream_def f_def ms_def)
  have le: "k' \<le> k" using k'(5) by (auto simp: breaks_after_def not_less [symmetric])
  show "st_sent (fw_stream (f chunks)) = take k (ms chunks)"
    and "st_attempts (fw_stream (f chunks)) < k \<longleftrightarrow> length (ms chunks) < k"
    using le k' by (auto simp: breaks_after_def split: if_splits)
  show "st_results (fw_stream (f chunks)) = breaks_after k e"
    using fwd.frame [of J chunks ?s] by (simp add: f_def newStreamForwarder_def new_stream_def)
qed

text \<open>
  C12. A streaming execution on a stream that breaks after k messages delivers the first k
  messages of its plan: the plugin's chunks in order, and then the error result when the
  plugin failed or the request did not decode. The RPC status is Unimplemented exactly for a
  plugin without streaming; otherwise it is an error only if the handler's own result could
  not be sent. A plugin that succeeds on a broken stream ends the RPC without an error.
\<close>

theorem stream_execution:
  "let (forwarded, final, status) = stream_plan J c req sv;
       ((err, st), sv') = GRPCServer_ExecuteProviderStream J req (new_stream c (breaks_after k e)) sv
   in st_sent st = take k (forwarded @ opt_list final) \<and>
      err = (case status of Some s \<Rightarrow> Some s
             | None \<Rightarrow> if final \<noteq> None \<and> k \<le> length forwarded then Some e else None)"
proof (cases "execute_setup J c req sv")
  case (Inl msg)
  then show ?thesis
    by (simp add: stream_plan_def GRPCServer_ExecuteProviderStream_def new_stream_def stream_send_def
        breaks_after_def opt_list_def)
next
  case (Inr p)
  obtain input c1 where p: "p = (input, c1)" by (cases p)
  obtain chunks err s where run:
    "pp_ExecuteProviderStream (sv_Impl sv) c1 (er_ProviderName req) input (sv_plugin sv) = ((chunks, err), s)"
    by (cases "pp_ExecuteProviderStream (sv_Impl sv) c1 (er_ProviderName req) input (sv_plugin sv)") auto
  note fwd_facts = fold_forward_breaks [where c = c and k = k and e = e and J = J and chunks = chunks]
  have ctx: "st_ctx (new_stream c (breaks_after k e)) = c" by (simp add: new_stream_def)
  show ?thesis
  proof (cases err)
    case None
    with Inr p run fwd_facts(1) show ?thesis
      by (simp add: stream_plan_def GRPCServer_ExecuteProviderStream_def ctx opt_list_def Let_def)
  next
    case (Some e')
    with Inr p run fwd_facts show ?thesis
      by (cases "errors_is_streaming e'")
        (auto simp: stream_plan_def GRPCServer_ExecuteProviderStream_def ctx opt_list_def Let_def
          stream_send_def breaks_after_def not_less)
  qed
qed


section \<open>Properties of the context, the connection and the descriptor call\<close>


lemma sample_request_context: "\<exists>c. applyRequestContext sample_json background sample_execute = Inr c"
  by (simp add: sample_execute_def applyRequestContext_def apply_resolver_data_def
      unmarshalIterationContext_def apply_parameters_def sample_json_def sample_unmarshal_map_def)


text \<open>
  C23. After any run of calls, a provider server holds at most one open connection to the
  host: the one its host client uses. Nothing it ever dialled is left open.
\<close>

theorem provider_server_connection:
  assumes "(provider_step J sv_string)\<^sup>*\<^sup>* (new_GRPCServer impl s broker) sv"
  shows "sv_hostClient sv = sv_conn sv \<and>
    nt_open (sv_net sv) = (case sv_hostClient sv of None \<Rightarrow> [] | Some c \<Rightarrow> [c])"
  using provider_link.run_one_connection [OF assms link_of_new] by (simp add: link_of_def)

text \<open>A server that dialled the host service with number 7.\<close>

definition sample_dialled :: "(unit, unit) GRPCServer" where
  "sample_dialled = snd (GRPCServer_ConfigureProvider background
     (sample_configure\<lparr>cr_HostServiceId := 7\<rparr>)
     (new_GRPCServer (mock_plugin bare_mock) () (Some (\<lambda>i n. None))))"

theorem provider_server_connection_witness:
  "sv_hostClient sample_dialled = Some 0 \<and> sv_hostClient sample_dialled = sv_conn sample_dialled \<and>
   nt_open (sv_net sample_dialled) = [0]"
proof -
  have "provider_step sample_json (\<lambda>_. '''')
      (new_GRPCServer (mock_plugin bare_mock) () (Some (\<lambda>i n. None))) sample_dialled"
    by (rule provider_step.call [where c = "CallConfigure background (sample_configure\<lparr>cr_HostServiceId := 7\<rparr>)"])
      (simp add: sample_dialled_def)
  note ok = provider_server_connection [OF r_into_rtranclp [of "provider_step sample_json (\<lambda>_. '''')", OF this]]
  have "sv_hostClient sample_dialled = Some 0"
    by (simp add: sample_dialled_def GRPCServer_ConfigureProvider_def store_settings_def dial_host_def
        new_GRPCServer_def pickDialFunc_def run_dial_def no_net_def sample_configure_def mock_defs
        bare_mock_def Let_def)
  with ok show ?thesis by simp
qed

text \<open>
  C32. The descriptor call ends the plugin process exactly when the plugin returns, without an
  error, no descriptor at all or one whose schemas have a nil property.
\<close>

theorem descriptor_call_panics:
  "GRPCServer_GetProviderDescriptor J sv_string c name sv = Panic \<longleftrightarrow>
     (case fst (pp_GetProviderDescriptor (sv_Impl sv) c name (sv_plugin sv)) of
        Inl e \<Rightarrow> False | Inr desc \<Rightarrow> \<not> sendable desc)"
proof (cases "pp_GetProviderDescriptor (sv_Impl sv) c name (sv_plugin sv)")
  case (Pair r s)
  show ?thesis
  proof (cases r)
    case (Inl e)
    with Pair show ?thesis by (simp add: GRPCServer_GetProviderDescriptor_def)
  next
    case (Inr desc)
    with Pair descriptorToProto_Panic [of J sv_string desc] show ?thesis
      by (cases "descriptorToProto J sv_string desc") (auto simp: GRPCServer_GetProviderDescriptor_def)
  qed
qed

end
