(* ===== verification/Auth_Server.thy ===== *)
theory Auth_Server
  imports Plugin_Interface Host_Link
begin

text \<open>
  The gRPC server of an auth handler plugin, \<open>AuthHandlerGRPCServer\<close> in
  \<open>plugin/grpc_auth_server.go\<close>: the conversions of its messages, its state, and one function
  per RPC handler. Each handler is one step here; the connection set-up, which dials outside
  the lock, is also modelled at the level of its lock sections in \<open>Auth_Concurrency\<close>.
\<close>

section \<open>Conversions\<close>

definition hostCapabilitiesFromProto :: "PHostCapabilities option \<Rightarrow> HostCapabilities option" where
  "hostCapabilitiesFromProto hc =
     (case hc of None \<Rightarrow> None
      | Some h \<Rightarrow> Some \<lparr>hc_PromptAuthResponse = phc_PromptAuthResponse h\<rparr>)"

definition claimsToProto :: "Claims option \<Rightarrow> PClaims option" where
  "claimsToProto c =
     (case c of
        None \<Rightarrow> None
      | Some k \<Rightarrow> Some
          \<lparr>pcl_Issuer = cl_Issuer k, pcl_Subject = cl_Subject k, pcl_TenantId = cl_TenantID k,
           pcl_ObjectId = cl_ObjectID k, pcl_ClientId = cl_ClientID k, pcl_Email = cl_Email k,
           pcl_Name = cl_Name k, pcl_Username = cl_Username k,
           pcl_IssuedAtUnix = time_unix (cl_IssuedAt k),
           pcl_ExpiresAtUnix = time_unix (cl_ExpiresAt k)\<rparr>)"

definition safeUnix :: "gotime \<Rightarrow> int64" where
  "safeUnix t = (if time_is_zero t then 0 else time_unix t)"

text \<open>The zero response, for a nil status, token or cached token.\<close>

definition zero_status_response :: PGetStatusResponse where
  "zero_status_response =
     \<lparr>gsr_Authenticated = False, gsr_Claims = None, gsr_ExpiresAtUnix = 0, gsr_LastRefreshUnix = 0,
      gsr_TenantId = '''', gsr_IdentityType = '''', gsr_ClientId = '''', gsr_TokenFile = '''',
      gsr_Scopes = [], gsr_Reason = '''', gsr_Flow = '''', gsr_Hostname = ''''\<rparr>"

definition statusToProto :: "Status option \<Rightarrow> PGetStatusResponse" where
  "statusToProto s =
     (case s of
        None \<Rightarrow> zero_status_response
      | Some st \<Rightarrow>
          \<lparr>gsr_Authenticated = su_Authenticated st, gsr_Claims = claimsToProto (su_Claims st),
           gsr_ExpiresAtUnix = safeUnix (su_ExpiresAt st),
           gsr_LastRefreshUnix = safeUnix (su_LastRefresh st),
           gsr_TenantId = su_TenantID st, gsr_IdentityType = su_IdentityType st,
           gsr_ClientId = su_ClientID st, gsr_TokenFile = su_TokenFile st,
           gsr_Scopes = su_Scopes st, gsr_Reason = su_Reason st, gsr_Flow = su_Flow st,
           gsr_Hostname = su_Hostname st\<rparr>)"

definition tokenResponseToProto :: "TokenResponse option \<Rightarrow> PGetTokenResponse" where
  "tokenResponseToProto t =
     (case t of
        None \<Rightarrow> \<lparr>gtr_AccessToken = '''', gtr_TokenType = '''', gtr_ExpiresAtUnix = 0, gtr_Scope = '''',
                  gtr_CachedAtUnix = 0, gtr_Flow = '''', gtr_SessionId = ''''\<rparr>
      | Some r \<Rightarrow>
          \<lparr>gtr_AccessToken = tr_AccessToken r, gtr_TokenType = tr_TokenType r,
           gtr_ExpiresAtUnix = safeUnix (tr_ExpiresAt r), gtr_Scope = tr_Scope r,
           gtr_CachedAtUnix = safeUnix (tr_CachedAt r), gtr_Flow = tr_Flow r,
           gtr_SessionId = tr_SessionID r\<rparr>)"

definition cachedTokenInfoToProto :: "CachedTokenInfo option \<Rightarrow> PCachedTokenInfo" where
  "cachedTokenInfoToProto t =
     (case t of
        None \<Rightarrow> \<lparr>pct_Handler = '''', pct_TokenKind = '''', pct_Scope = '''', pct_TokenType = '''',
                  pct_Flow = '''', pct_ExpiresAtUnix = 0, pct_CachedAtUnix = 0, pct_IsExpired = False,
                  pct_SessionId = '''', pct_Fingerprint = '''', pct_Hostname = ''''\<rparr>
      | Some i \<Rightarrow>
          \<lparr>pct_Handler = ct_Handler i, pct_TokenKind = ct_TokenKind i, pct_Scope = ct_Scope i,
           pct_TokenType = ct_TokenType i, pct_Flow = ct_Flow i,
           pct_ExpiresAtUnix = safeUnix (ct_ExpiresAt i), pct_CachedAtUnix = safeUnix (ct_CachedAt i),
           pct_IsExpired = ct_IsExpired i, pct_SessionId = ct_SessionID i,
           pct_Fingerprint = ct_Fingerprint i, pct_Hostname = ct_Hostname i\<rparr>)"

section \<open>State and connection\<close>

record 's AuthHandlerGRPCServer =
  au_Impl :: "'s AuthHandlerPlugin"
  au_plugin :: 's
  au_broker :: "dial_fun option"
  au_dialFunc :: "dial_fun option"
  au_conn :: "conn_id option"
  au_hostClient :: "conn_id option"
  au_closed :: bool
  au_net :: net

definition new_AuthHandlerGRPCServer ::
  "'s AuthHandlerPlugin \<Rightarrow> 's \<Rightarrow> dial_fun option \<Rightarrow> 's AuthHandlerGRPCServer" where
  "new_AuthHandlerGRPCServer impl s broker =
     \<lparr>au_Impl = impl, au_plugin = s, au_broker = broker, au_dialFunc = None, au_conn = None,
      au_hostClient = None, au_closed = False, au_net = no_net\<rparr>"

definition auth_injectHostClient :: "'s AuthHandlerGRPCServer \<Rightarrow> ctx \<Rightarrow> ctx" where
  "auth_injectHostClient sv c =
     (case au_hostClient sv of Some hc \<Rightarrow> WithHostClient c (Some hc) | None \<Rightarrow> c)"

definition auth_pickDialFunc :: "'s AuthHandlerGRPCServer \<Rightarrow> dial_fun option" where
  "auth_pickDialFunc sv =
     (case au_dialFunc sv of Some f \<Rightarrow> Some f | None \<Rightarrow> au_broker sv)"

definition closeHostClient :: "'s AuthHandlerGRPCServer \<Rightarrow> 's AuthHandlerGRPCServer" where
  "closeHostClient sv =
     (let sv1 = sv\<lparr>au_closed := True\<rparr>;
          sv2 = (case au_conn sv1 of
                   Some c \<Rightarrow> sv1\<lparr>au_net := close_conn c (au_net sv1), au_conn := None\<rparr>
                 | None \<Rightarrow> sv1)
      in sv2\<lparr>au_hostClient := None\<rparr>)"

text \<open>The second lock section of \<open>ensureHostClient\<close>, after the dial.\<close>

definition commit_conn :: "conn_id \<Rightarrow> 's AuthHandlerGRPCServer \<Rightarrow> 's AuthHandlerGRPCServer" where
  "commit_conn c sv =
     (if au_hostClient sv \<noteq> None \<or> au_closed sv then sv\<lparr>au_net := close_conn c (au_net sv)\<rparr>
      else sv\<lparr>au_conn := Some c, au_hostClient := Some c\<rparr>)"

definition ensureHostClient ::
  "uint32 \<Rightarrow> 's AuthHandlerGRPCServer \<Rightarrow> goerror option \<times> 's AuthHandlerGRPCServer" where
  "ensureHostClient i sv =
     (case auth_pickDialFunc sv of
        None \<Rightarrow> (None, sv)
      | Some dial \<Rightarrow>
          if au_hostClient sv \<noteq> None then (None, sv)
          else (case run_dial dial i (au_net sv) of
                  (Inl err, net) \<Rightarrow> (Some err, sv\<lparr>au_net := net\<rparr>)
                | (Inr c, net) \<Rightarrow> (None, commit_conn c (sv\<lparr>au_net := net\<rparr>))))"

text \<open>The context of every call but two: the host client, then the profile.\<close>

definition call_ctx :: "'s AuthHandlerGRPCServer \<Rightarrow> ctx \<Rightarrow> string \<Rightarrow> ctx" where
  "call_ctx sv c profile = WithProfile (auth_injectHostClient sv c) profile"

text \<open>\<open>fmt.Errorf("<method> %q: %w", handler, err)\<close>.\<close>

definition call_error :: "string \<Rightarrow> string \<Rightarrow> goerror \<Rightarrow> goerror" where
  "call_error m handler err = Errorf [Lit (m @ '' ''), Quo handler, Lit '': '', Wrap err]"

section \<open>Login\<close>

text \<open>The device code callback: its stream and the flag that stops it.\<close>

record login_cb =
  lb_stream :: "PLoginStreamMessage stream"
  lb_sendFailed :: bool

definition prompt_message :: "DeviceCodePrompt \<Rightarrow> PLoginStreamMessage" where
  "prompt_message p = MsgDeviceCodePrompt
     \<lparr>pdp_UserCode = dp_UserCode p, pdp_VerificationUri = dp_VerificationURI p, pdp_Message = dp_Message p\<rparr>"

definition deviceCodeCb :: "DeviceCodePrompt \<Rightarrow> login_cb \<Rightarrow> login_cb" where
  "deviceCodeCb p cb =
     (if lb_sendFailed cb then cb
      else (case stream_send (prompt_message p) (lb_stream cb) of
              (None, st) \<Rightarrow> cb\<lparr>lb_stream := st\<rparr>
            | (Some err, st) \<Rightarrow> cb\<lparr>lb_stream := st, lb_sendFailed := True\<rparr>))"

interpretation login_sender: sticky_sender deviceCodeCb "\<lambda>p. Some (prompt_message p)" lb_sendFailed lb_stream
  by unfold_locales (auto simp: deviceCodeCb_def split: prod.split option.split)

definition seconds :: "int64 \<Rightarrow> duration" where
  "seconds n = n * second"

definition login_request_of :: "PLoginRequest \<Rightarrow> LoginRequest" where
  "login_request_of req =
     \<lparr>lq_TenantID = lr_TenantId req, lq_Scopes = lr_Scopes req, lq_Flow = lr_Flow req,
      lq_Timeout = seconds (lr_TimeoutSeconds req), lq_Hostname = lr_Hostname req,
      lq_CallbackPort = scast (lr_CallbackPort req)\<rparr>"

definition Auth_Login ::
  "PLoginRequest \<Rightarrow> PLoginStreamMessage stream \<Rightarrow> 's AuthHandlerGRPCServer \<Rightarrow>
   (goerror option \<times> PLoginStreamMessage stream) \<times> 's AuthHandlerGRPCServer" where
  "Auth_Login req st sv =
     (case ap_Login (au_Impl sv) (call_ctx sv (st_ctx st) (lr_Profile req)) (lr_HandlerName req)
             (login_request_of req) (au_plugin sv) of
        ((prompts, result), s) \<Rightarrow>
          (let sv1 = sv\<lparr>au_plugin := s\<rparr>;
               cb = fold deviceCodeCb prompts \<lparr>lb_stream = st, lb_sendFailed = False\<rparr>
           in
           (case result of
              Inl err \<Rightarrow>
                (case stream_send (MsgError (error_text err)) (lb_stream cb) of
                   (Some se, st1) \<Rightarrow>
                     ((Some (Errorf [Lit ''Login '', Quo (lr_HandlerName req),
                        Lit '' failed and could not send error to host: '', Wrap se]), st1), sv1)
                 | (None, st1) \<Rightarrow> ((None, st1), sv1))
            | Inr None \<Rightarrow>
                (case stream_send (MsgError ''plugin returned nil login result'') (lb_stream cb) of
                   (Some se, st1) \<Rightarrow>
                     ((Some (Errorf [Lit ''Login '', Quo (lr_HandlerName req),
                        Lit '': nil result and could not send error to host: '', Wrap se]), st1), sv1)
                 | (None, st1) \<Rightarrow> ((None, st1), sv1))
            | Inr (Some r) \<Rightarrow>
                (stream_send (MsgResult \<lparr>plr_Claims = claimsToProto (lp_Claims r),
                   plr_ExpiresAtUnix = time_unix (lp_ExpiresAt r)\<rparr>) (lb_stream cb), sv1))))"


section \<open>The other handlers\<close>

definition handler_info_to_proto :: "AuthHandlerInfo \<Rightarrow> PAuthHandlerInfo" where
  "handler_info_to_proto h =
     \<lparr>pah_Name = ah_Name h, pah_DisplayName = ah_DisplayName h, pah_Flows = ah_Flows h,
      pah_Capabilities = ah_Capabilities h\<rparr>"

definition Auth_GetAuthHandlers ::
  "ctx \<Rightarrow> 's AuthHandlerGRPCServer \<Rightarrow> (goerror + PAuthHandlerInfo list) \<times> 's AuthHandlerGRPCServer" where
  "Auth_GetAuthHandlers c sv =
     (case ap_GetAuthHandlers (au_Impl sv) c (au_plugin sv) of
        (Inl err, s) \<Rightarrow> (Inl (wrap_with ''GetAuthHandlers'' err), sv\<lparr>au_plugin := s\<rparr>)
      | (Inr hs, s) \<Rightarrow> (Inr (map handler_info_to_proto hs), sv\<lparr>au_plugin := s\<rparr>))"

definition Auth_Logout ::
  "ctx \<Rightarrow> PLogoutRequest \<Rightarrow> 's AuthHandlerGRPCServer \<Rightarrow> (goerror + unit) \<times> 's AuthHandlerGRPCServer" where
  "Auth_Logout c req sv =
     (case ap_Logout (au_Impl sv) (call_ctx sv c (lo_Profile req)) (lo_HandlerName req)
             \<lparr>oq_Hostname = lo_Hostname req\<rparr> (au_plugin sv) of
        (Some err, s) \<Rightarrow> (Inl (call_error ''Logout'' (lo_HandlerName req) err), sv\<lparr>au_plugin := s\<rparr>)
      | (None, s) \<Rightarrow> (Inr (), sv\<lparr>au_plugin := s\<rparr>))"

definition Auth_GetStatus ::
  "ctx \<Rightarrow> PGetStatusRequest \<Rightarrow> 's AuthHandlerGRPCServer \<Rightarrow>
   (goerror + PGetStatusResponse) \<times> 's AuthHandlerGRPCServer" where
  "Auth_GetStatus c req sv =
     (case ap_GetStatus (au_Impl sv) (call_ctx sv c (gs_Profile req)) (gs_HandlerName req)
             \<lparr>sq_Hostname = gs_Hostname req\<rparr> (au_plugin sv) of
        (Inl err, s) \<Rightarrow> (Inl (call_error ''GetStatus'' (gs_HandlerName req) err), sv\<lparr>au_plugin := s\<rparr>)
      | (Inr st, s) \<Rightarrow> (Inr (statusToProto st), sv\<lparr>au_plugin := s\<rparr>))"

definition token_request_of :: "PGetTokenRequest \<Rightarrow> TokenRequest" where
  "token_request_of req =
     \<lparr>tq_Scope = gt_Scope req, tq_MinValidFor = seconds (gt_MinValidForSeconds req),
      tq_ForceRefresh = gt_ForceRefresh req, tq_ServerContext = gt_ServerContext req,
      tq_Caller = gt_Caller req, tq_Assertion = gt_Assertion req, tq_Hostname = gt_Hostname req\<rparr>"

definition Auth_GetToken ::
  "ctx \<Rightarrow> PGetTokenRequest \<Rightarrow> 's AuthHandlerGRPCServer \<Rightarrow>
   (goerror + PGetTokenResponse) \<times> 's AuthHandlerGRPCServer" where
  "Auth_GetToken c req sv =
     (case ap_GetToken (au_Impl sv) (call_ctx sv c (gt_Profile req)) (gt_HandlerName req)
             (token_request_of req) (au_plugin sv) of
        (Inl err, s) \<Rightarrow> (Inl (call_error ''GetToken'' (gt_HandlerName req) err), sv\<lparr>au_plugin := s\<rparr>)
      | (Inr t, s) \<Rightarrow> (Inr (tokenResponseToProto t), sv\<lparr>au_plugin := s\<rparr>))"

definition Auth_ListCachedTokens ::
  "ctx \<Rightarrow> PListCachedTokensRequest \<Rightarrow> 's AuthHandlerGRPCServer \<Rightarrow>
   (goerror + PCachedTokenInfo list) \<times> 's AuthHandlerGRPCServer" where
  "Auth_ListCachedTokens c req sv =
     (case ap_ListCachedTokens (au_Impl sv) (call_ctx sv c (lc_Profile req)) (lc_HandlerName req)
             (au_plugin sv) of
        (Inl err, s) \<Rightarrow> (Inl (call_error ''ListCachedTokens'' (lc_HandlerName req) err), sv\<lparr>au_plugin := s\<rparr>)
      | (Inr ts, s) \<Rightarrow> (Inr (map cachedTokenInfoToProto ts), sv\<lparr>au_plugin := s\<rparr>))"

definition max_int32 :: goint where "max_int32 = 2 ^ 31 - 1"

definition purged_count :: "goint \<Rightarrow> int32" where
  "purged_count count =
     (let count = (if sint count > sint max_int32 then max_int32 else count) in ucast count)"

definition Auth_PurgeExpiredTokens ::
  "ctx \<Rightarrow> PPurgeExpiredTokensRequest \<Rightarrow> 's AuthHandlerGRPCServer \<Rightarrow>
   (goerror + int32) \<times> 's AuthHandlerGRPCServer" where
  "Auth_PurgeExpiredTokens c req sv =
     (case ap_PurgeExpiredTokens (au_Impl sv) (call_ctx sv c (pe_Profile req)) (pe_HandlerName req)
             (au_plugin sv) of
        (Inl err, s) \<Rightarrow> (Inl (call_error ''PurgeExpiredTokens'' (pe_HandlerName req) err), sv\<lparr>au_plugin := s\<rparr>)
      | (Inr count, s) \<Rightarrow> (Inr (purged_count count), sv\<lparr>au_plugin := s\<rparr>))"

definition auth_config_of_request :: "PConfigureAuthHandlerRequest \<Rightarrow> ProviderConfig" where
  "auth_config_of_request req =
     \<lparr>cf_Quiet = ca_Quiet req, cf_NoColor = ca_NoColor req, cf_BinaryName = ca_BinaryName req,
      cf_HostServiceID = ca_HostServiceId req, cf_Profile = ca_Profile req,
      cf_Settings = gm_copy (\<lambda>v. v) (ca_Settings req) [],
      cf_HostCapabilities = hostCapabilitiesFromProto (ca_HostCapabilities req)\<rparr>"

definition Auth_ConfigureAuthHandler ::
  "ctx \<Rightarrow> PConfigureAuthHandlerRequest \<Rightarrow> 's AuthHandlerGRPCServer \<Rightarrow>
   PConfigureAuthHandlerResponse \<times> 's AuthHandlerGRPCServer" where
  "Auth_ConfigureAuthHandler c req sv =
     (case (if ca_HostServiceId req \<noteq> 0
            then ensureHostClient (ca_HostServiceId req) (sv\<lparr>au_closed := False\<rparr>)
            else (None, sv)) of
        (Some err, sv1) \<Rightarrow>
          (\<lparr>cas_Error = ''failed to dial host service: '' @ error_text err, cas_ProtocolVersion = 0\<rparr>, sv1)
      | (None, sv1) \<Rightarrow>
          (case ap_ConfigureAuthHandler (au_Impl sv1) (call_ctx sv1 c (ca_Profile req))
                  (ca_HandlerName req) (auth_config_of_request req) (au_plugin sv1) of
             (Some err, s) \<Rightarrow>
               (\<lparr>cas_Error = error_text err, cas_ProtocolVersion = 0\<rparr>,
                closeHostClient (sv1\<lparr>au_plugin := s\<rparr>))
           | (None, s) \<Rightarrow>
               (\<lparr>cas_Error = '''', cas_ProtocolVersion = PluginProtocolVersion\<rparr>, sv1\<lparr>au_plugin := s\<rparr>)))"

text \<open>The responses of the next two are their \<open>Error\<close> fields.\<close>

definition Auth_StopAuthHandler ::
  "ctx \<Rightarrow> string \<Rightarrow> 's AuthHandlerGRPCServer \<Rightarrow> string \<times> 's AuthHandlerGRPCServer" where
  "Auth_StopAuthHandler c name sv =
     (case ap_StopAuthHandler (au_Impl sv) c name (au_plugin sv) of
        (Some err, s) \<Rightarrow> (error_text err, sv\<lparr>au_plugin := s\<rparr>)
      | (None, s) \<Rightarrow> ('''', closeHostClient (sv\<lparr>au_plugin := s\<rparr>)))"

definition Auth_ActivateServerMode ::
  "ctx \<Rightarrow> bytes \<Rightarrow> 's AuthHandlerGRPCServer \<Rightarrow> string \<times> 's AuthHandlerGRPCServer" where
  "Auth_ActivateServerMode c settings sv =
     (case ap_ActivateServerMode (au_Impl sv) of
        None \<Rightarrow> (''plugin does not support server mode'', sv)
      | Some activate \<Rightarrow>
          (case activate (auth_injectHostClient sv c) settings (au_plugin sv) of
             (Some err, s) \<Rightarrow> (error_text err, sv\<lparr>au_plugin := s\<rparr>)
           | (None, s) \<Rightarrow> ('''', sv\<lparr>au_plugin := s\<rparr>)))"

definition flow_availability_to_proto :: "FlowAvailability \<Rightarrow> PFlowAvailability" where
  "flow_availability_to_proto f =
     \<lparr>pfa_Flow = fa_Flow f, pfa_Available = fa_Available f, pfa_Reason = fa_Reason f\<rparr>"

definition Auth_DetectAvailableFlows ::
  "ctx \<Rightarrow> string \<Rightarrow> 's AuthHandlerGRPCServer \<Rightarrow>
   PDetectAvailableFlowsResponse \<times> 's AuthHandlerGRPCServer" where
  "Auth_DetectAvailableFlows c name sv =
     (case ap_DetectAvailableFlows (au_Impl sv) (auth_injectHostClient sv c) name (au_plugin sv) of
        (Inl err, s) \<Rightarrow> (\<lparr>df_Flows = [], df_Error = error_text err\<rparr>, sv\<lparr>au_plugin := s\<rparr>)
      | (Inr fs, s) \<Rightarrow>
          (\<lparr>df_Flows = map flow_availability_to_proto fs, df_Error = ''''\<rparr>, sv\<lparr>au_plugin := s\<rparr>))"


section \<open>The connection over any history\<close>

definition auth_link_of :: "'s AuthHandlerGRPCServer \<Rightarrow> link" where
  "auth_link_of sv = \<lparr>lk_conn = au_conn sv, lk_host = au_hostClient sv, lk_net = au_net sv\<rparr>"

text \<open>One handler call; the handlers that only pass the plugin's state on are one rule.\<close>

inductive auth_step :: "'s AuthHandlerGRPCServer \<Rightarrow> 's AuthHandlerGRPCServer \<Rightarrow> bool" where
  handlers: "auth_step sv (snd (Auth_GetAuthHandlers c sv))"
| login: "auth_step sv (snd (Auth_Login lreq st sv))"
| logout: "auth_step sv (snd (Auth_Logout c oreq sv))"
| status: "auth_step sv (snd (Auth_GetStatus c sreq sv))"
| token: "auth_step sv (snd (Auth_GetToken c treq sv))"
| cached: "auth_step sv (snd (Auth_ListCachedTokens c kreq sv))"
| purge: "auth_step sv (snd (Auth_PurgeExpiredTokens c preq sv))"
| configure: "auth_step sv (snd (Auth_ConfigureAuthHandler c creq sv))"
| stop: "auth_step sv (snd (Auth_StopAuthHandler c name sv))"
| server_mode: "auth_step sv (snd (Auth_ActivateServerMode c settings sv))"
| detect: "auth_step sv (snd (Auth_DetectAvailableFlows c name sv))"

lemma auth_link_fields [simp]:
  "auth_link_of (sv\<lparr>au_plugin := s\<rparr>) = auth_link_of sv"
  "auth_link_of (sv\<lparr>au_closed := b\<rparr>) = auth_link_of sv"
  "auth_link_of (new_AuthHandlerGRPCServer impl s broker) = new_link"
  by (simp_all add: auth_link_of_def new_AuthHandlerGRPCServer_def new_link_def)

lemma close_link: "link_step (auth_link_of sv) (auth_link_of (closeHostClient sv))"
  using link_step.disconnect [of "auth_link_of sv"]
  by (cases "au_conn sv") (simp_all add: closeHostClient_def auth_link_of_def Let_def)

lemma close_state [simp]:
  "au_closed (closeHostClient sv)" "au_hostClient (closeHostClient sv) = None"
  "au_conn (closeHostClient sv) = None"
  by (simp_all add: closeHostClient_def Let_def split: option.split)

text \<open>
  When no other call runs in between, the connection opened by \<open>ensureHostClient\<close> is
  committed, provided the server is not closed, as after the reset in Configure.
\<close>

lemma ensure_link:
  assumes "\<not> au_closed sv"
  shows "link_step (auth_link_of sv) (auth_link_of (snd (ensureHostClient i sv)))"
proof (cases "auth_pickDialFunc sv = None \<or> au_hostClient sv \<noteq> None")
  case True
  then have "snd (ensureHostClient i sv) = sv" by (auto simp: ensureHostClient_def split: option.split)
  then show ?thesis by (simp add: link_step.keep)
next
  case False
  then obtain dial where d: "auth_pickDialFunc sv = Some dial" "au_hostClient sv = None" by auto
  obtain r net where run: "run_dial dial i (au_net sv) = (r, net)" by (cases "run_dial dial i (au_net sv)")
  show ?thesis
  proof (cases r)
    case (Inl e)
    with d run show ?thesis
      using link_step.dial_failed [of "auth_link_of sv" dial i e net]
      by (simp add: ensureHostClient_def auth_link_of_def)
  next
    case (Inr c)
    with d run assms show ?thesis
      using link_step.connect [of "auth_link_of sv" dial i c net]
      by (simp add: ensureHostClient_def commit_conn_def auth_link_of_def)
  qed
qed

lemma ensure_closed [simp]: "au_closed (snd (ensureHostClient i sv)) = au_closed sv"
  by (auto simp: ensureHostClient_def commit_conn_def split: option.split prod.split sum.split)

lemma configure_steps:
  "link_step\<^sup>*\<^sup>* (auth_link_of sv) (auth_link_of (snd (Auth_ConfigureAuthHandler c req sv)))"
proof -
  define r where "r = (if ca_HostServiceId req \<noteq> 0
    then ensureHostClient (ca_HostServiceId req) (sv\<lparr>au_closed := False\<rparr>) else (None, sv))"
  have 1: "link_step (auth_link_of sv) (auth_link_of (snd r))"
    using ensure_link [of "sv\<lparr>au_closed := False\<rparr>" "ca_HostServiceId req"]
    by (auto simp: r_def link_step.keep)
  have "snd (Auth_ConfigureAuthHandler c req sv) = snd r \<or>
    (\<exists>s. snd (Auth_ConfigureAuthHandler c req sv) = (snd r)\<lparr>au_plugin := s\<rparr>) \<or>
    (\<exists>s. snd (Auth_ConfigureAuthHandler c req sv) = closeHostClient ((snd r)\<lparr>au_plugin := s\<rparr>))"
    unfolding Auth_ConfigureAuthHandler_def r_def [symmetric]
    by (auto split: prod.split option.split)
  then show ?thesis
  proof (elim disjE exE)
    fix s assume "snd (Auth_ConfigureAuthHandler c req sv) = closeHostClient ((snd r)\<lparr>au_plugin := s\<rparr>)"
    with 1 close_link [of "(snd r)\<lparr>au_plugin := s\<rparr>"] show ?thesis
      by (simp add: converse_rtranclp_into_rtranclp r_into_rtranclp)
  qed (use 1 in auto)
qed

lemma auth_step_link: "auth_step sv sv' \<Longrightarrow> link_step\<^sup>*\<^sup>* (auth_link_of sv) (auth_link_of sv')"
proof (induction rule: auth_step.induct)
  case (login sv lreq st)
  have "auth_link_of (snd (Auth_Login lreq st sv)) = auth_link_of sv"
    by (simp add: Auth_Login_def Let_def split: prod.split sum.split option.split)
  then show ?case by simp
next
  case (configure sv c creq)
  show ?case by (rule configure_steps)
next
  case (stop sv c name)
  then show ?case
    using close_link [of "sv\<lparr>au_plugin := snd (ap_StopAuthHandler (au_Impl sv) c name (au_plugin sv))\<rparr>"]
    by (auto simp: Auth_StopAuthHandler_def split: prod.split option.split)
qed (auto simp: Auth_GetAuthHandlers_def Auth_Logout_def Auth_GetStatus_def Auth_GetToken_def
    Auth_ListCachedTokens_def Auth_PurgeExpiredTokens_def Auth_ActivateServerMode_def
    Auth_DetectAvailableFlows_def split: prod.split sum.split option.split)

interpretation auth_link: host_link auth_step auth_link_of
  by unfold_locales (rule auth_step_link)

section \<open>Login\<close>

text \<open>The message that ends a login stream.\<close>

definition login_terminal :: "(goerror + LoginResponse option) \<Rightarrow> PLoginStreamMessage" where
  "login_terminal result =
     (case result of
        Inl err \<Rightarrow> MsgError (error_text err)
      | Inr None \<Rightarrow> MsgError ''plugin returned nil login result''
      | Inr (Some r) \<Rightarrow> MsgResult \<lparr>plr_Claims = claimsToProto (lp_Claims r),
          plr_ExpiresAtUnix = time_unix (lp_ExpiresAt r)\<rparr>)"

definition login_run :: "'s AuthHandlerGRPCServer \<Rightarrow> ctx \<Rightarrow> PLoginRequest \<Rightarrow>
    DeviceCodePrompt list \<times> (goerror + LoginResponse option)" where
  "login_run sv c req =
     fst (ap_Login (au_Impl sv) (call_ctx sv c (lr_Profile req)) (lr_HandlerName req)
            (login_request_of req) (au_plugin sv))"

lemma map_filter_Some: "List.map_filter (\<lambda>x. Some (f x)) xs = map f xs"
  by (induction xs) (simp_all add: map_filter_simps)

lemma prompts_run:
  fixes results :: "nat \<Rightarrow> goerror option" and prompts :: "DeviceCodePrompt list" and c :: ctx
  defines "cb \<equiv> fold deviceCodeCb prompts \<lparr>lb_stream = new_stream c results, lb_sendFailed = False\<rparr>"
  obtains k where "k \<le> length prompts" "st_sent (lb_stream cb) = take k (map prompt_message prompts)"
    and "lb_sendFailed cb \<longleftrightarrow> k < length prompts"
    and "st_attempts (lb_stream cb) = k + (if lb_sendFailed cb then 1 else 0)"
    and "\<forall>j < k. results j = None" and "lb_sendFailed cb \<longrightarrow> results k \<noteq> None"
    and "st_results (lb_stream cb) = results"
proof -
  let ?s = "\<lparr>lb_stream = new_stream c results, lb_sendFailed = False\<rparr>"
  have s: "\<not> lb_sendFailed ?s" by simp
  from login_sender.run [OF s, of prompts] login_sender.frame [of prompts ?s] that show ?thesis
    by (auto simp: cb_def map_filter_Some new_stream_def)
qed

lemma login_unfold:
  fixes results :: "nat \<Rightarrow> goerror option" and prompts :: "DeviceCodePrompt list" and c :: ctx
  assumes "login_run sv c req = (prompts, result)"
  defines "cb \<equiv> fold deviceCodeCb prompts \<lparr>lb_stream = new_stream c results, lb_sendFailed = False\<rparr>"
  shows "st_sent (snd (fst (Auth_Login req (new_stream c results) sv))) =
      st_sent (snd (stream_send (login_terminal result) (lb_stream cb)))"
    and "fst (fst (Auth_Login req (new_stream c results) sv)) = None \<longleftrightarrow>
      fst (stream_send (login_terminal result) (lb_stream cb)) = None"
proof -
  obtain s where run: "ap_Login (au_Impl sv) (call_ctx sv c (lr_Profile req)) (lr_HandlerName req)
      (login_request_of req) (au_plugin sv) = ((prompts, result), s)"
    using assms(1) unfolding login_run_def by (metis prod.collapse)
  have ctx: "st_ctx (new_stream c results) = c" by (simp add: new_stream_def)
  show "st_sent (snd (fst (Auth_Login req (new_stream c results) sv))) =
      st_sent (snd (stream_send (login_terminal result) (lb_stream cb)))"
    and "fst (fst (Auth_Login req (new_stream c results) sv)) = None \<longleftrightarrow>
      fst (stream_send (login_terminal result) (lb_stream cb)) = None"
    by (auto simp: Auth_Login_def ctx run login_terminal_def cb_def Let_def
        split: sum.split option.split prod.split)
qed


section \<open>Properties\<close>

text \<open>
  C15. A login on a stream that breaks after k messages sends the first k of: the device code
  prompts in order, and then exactly one terminal message, the result or an error, also when
  the plugin returns neither. The RPC succeeds exactly when all of them were delivered.
\<close>

theorem login_stream:
  "let (prompts, result) = login_run sv c req;
       plan = map prompt_message prompts @ [login_terminal result];
       ((err, st), sv') = Auth_Login req (new_stream c (breaks_after k e)) sv
   in st_sent st = take k plan \<and> (err = None \<longleftrightarrow> length plan \<le> k)"
proof -
  obtain prompts result where run: "login_run sv c req = (prompts, result)"
    by (cases "login_run sv c req")
  let ?cb = "fold deviceCodeCb prompts \<lparr>lb_stream = new_stream c (breaks_after k e), lb_sendFailed = False\<rparr>"
  obtain j where j: "j \<le> length prompts" "st_sent (lb_stream ?cb) = take j (map prompt_message prompts)"
    "lb_sendFailed ?cb \<longleftrightarrow> j < length prompts"
    "st_attempts (lb_stream ?cb) = j + (if lb_sendFailed ?cb then 1 else 0)"
    "\<forall>i < j. breaks_after k e i = None" "lb_sendFailed ?cb \<longrightarrow> breaks_after k e j \<noteq> None"
    "st_results (lb_stream ?cb) = breaks_after k e"
    using prompts_run [of prompts c "breaks_after k e"] by blast
  have "j \<le> k" using j(5) by (auto simp: breaks_after_def not_less [symmetric])
  then have sent: "st_sent (lb_stream ?cb) = take k (map prompt_message prompts)"
    and tries: "st_attempts (lb_stream ?cb) < k \<longleftrightarrow> length prompts < k"
    using j by (auto simp: breaks_after_def split: if_splits)
  note u = login_unfold [OF run, of "breaks_after k e"]
  show ?thesis
    using u sent tries j(7)
    by (auto simp: run case_prod_beta Let_def rpc_simps breaks_after_def)
qed

text \<open>
  C24. After any history of calls, one at a time, an auth handler server holds at most one open
  connection to the host, the one its host client uses, and none once it is closed.
\<close>

theorem auth_server_connection:
  assumes "auth_step\<^sup>*\<^sup>* (new_AuthHandlerGRPCServer impl s broker) sv"
  shows "au_hostClient sv = au_conn sv \<and>
    nt_open (au_net sv) = (case au_hostClient sv of None \<Rightarrow> [] | Some c \<Rightarrow> [c]) \<and>
    (if au_closed sv then au_hostClient sv = None else True)"
proof -
  have "if au_closed sv then au_hostClient sv = None else True"
    using assms
  proof (induction rule: rtranclp_induct)
    case base
    then show ?case by (simp add: new_AuthHandlerGRPCServer_def)
  next
    case (step sv sv')
    from step(2,3) show ?case
      by (induction rule: auth_step.induct)
        (auto simp: Auth_GetAuthHandlers_def Auth_Login_def Auth_Logout_def Auth_GetStatus_def
          Auth_GetToken_def Auth_ListCachedTokens_def Auth_PurgeExpiredTokens_def Auth_ActivateServerMode_def
          Auth_DetectAvailableFlows_def Auth_ConfigureAuthHandler_def Auth_StopAuthHandler_def Let_def
          ensureHostClient_def commit_conn_def
          split: prod.splits sum.splits option.splits if_splits)
  qed
  with auth_link.run_one_connection [OF assms, simplified] show ?thesis
    by (simp add: auth_link_of_def)
qed

text \<open>A handler that accepts everything, configured with a host service to dial.\<close>

definition quiet_handler :: "unit AuthHandlerPlugin" where
  "quiet_handler = \<lparr>ap_GetAuthHandlers = (\<lambda>c s. (Inr [], s)),
     ap_ConfigureAuthHandler = (\<lambda>c h cfg s. (None, s)), ap_Login = (\<lambda>c h r s. (([], Inr None), s)),
     ap_Logout = (\<lambda>c h r s. (None, s)), ap_GetStatus = (\<lambda>c h r s. (Inr None, s)),
     ap_GetToken = (\<lambda>c h r s. (Inr None, s)), ap_ListCachedTokens = (\<lambda>c h s. (Inr [], s)),
     ap_PurgeExpiredTokens = (\<lambda>c h s. (Inr 0, s)), ap_DetectAvailableFlows = (\<lambda>c h s. (Inr [], s)),
     ap_StopAuthHandler = (\<lambda>c h s. (None, s)), ap_ActivateServerMode = None\<rparr>"

definition sample_auth_request :: PConfigureAuthHandlerRequest where
  "sample_auth_request = \<lparr>ca_HandlerName = ''h'', ca_Quiet = False, ca_NoColor = False,
     ca_BinaryName = ''scafctl'', ca_Settings = [], ca_HostServiceId = 7, ca_ProtocolVersion = 2,
     ca_Profile = '''', ca_HostCapabilities = None\<rparr>"

definition sample_auth_server :: "unit AuthHandlerGRPCServer" where
  "sample_auth_server = snd (Auth_ConfigureAuthHandler background sample_auth_request
     (new_AuthHandlerGRPCServer quiet_handler () (Some (\<lambda>i n. None))))"

theorem auth_server_connection_witness:
  "au_hostClient sample_auth_server = Some 0 \<and> au_hostClient sample_auth_server = au_conn sample_auth_server \<and>
   nt_open (au_net sample_auth_server) = [0]"
proof -
  have "auth_step (new_AuthHandlerGRPCServer quiet_handler () (Some (\<lambda>i n. None))) sample_auth_server"
    unfolding sample_auth_server_def by (rule auth_step.configure)
  note ok = auth_server_connection [OF r_into_rtranclp [of auth_step, OF this]]
  have "au_hostClient sample_auth_server = Some 0"
    by (simp add: sample_auth_server_def Auth_ConfigureAuthHandler_def sample_auth_request_def
        new_AuthHandlerGRPCServer_def ensureHostClient_def auth_pickDialFunc_def run_dial_def no_net_def
        commit_conn_def quiet_handler_def Let_def)
  with ok show ?thesis by simp
qed

text \<open>
  The purged count saturates at the largest int32, and is exact below it, for every count
  that is not below the smallest int32; a smaller count wraps.
\<close>

theorem purged_count_exact:
  "sint (purged_count n) = min (2 ^ 31 - 1) (sint n) \<longleftrightarrow> - (2 ^ 31) \<le> sint n"
proof -
  have trunc: "sint (ucast m :: 32 word) = sint m" if "- (2 ^ 31) \<le> sint m" "sint m < 2 ^ 31" for m :: "64 word"
  proof -
    have "sint (ucast (word_of_int k :: 64 word) :: 32 word) = k"
      if "- (2 ^ 31) \<le> k" "k < 2 ^ 31" for k
    proof -
      have "(ucast (word_of_int k :: 64 word) :: 32 word) = word_of_int k" by transfer simp
      with that show ?thesis by (simp only: sint_word_of_int_32)
    qed
    from this [OF that] show ?thesis by simp
  qed
  show ?thesis
    using trunc [of n] trunc [of max_int32] sint_32_range [of "purged_count n"]
    by (auto simp: purged_count_def Let_def max_int32_def min_def)
qed

text \<open>
  A timeout or a minimum validity given in seconds becomes that many nanoseconds exactly
  when it is at most 9223372036 seconds (about 292 years) either way; beyond, the product
  wraps around.
\<close>

theorem seconds_exact:
  "sint (lq_Timeout (login_request_of req)) = sint (lr_TimeoutSeconds req) * 1000000000 \<longleftrightarrow>
     \<bar>sint (lr_TimeoutSeconds req)\<bar> \<le> 9223372036"
proof -
  let ?n = "sint (lr_TimeoutSeconds req)"
  have "seconds (word_of_int k) = word_of_int (k * 1000000000)" for k
    by (simp add: seconds_def second_def)
  from this [of ?n] have s: "seconds (lr_TimeoutSeconds req) = word_of_int (?n * 1000000000)" by simp
  have "sint (seconds (lr_TimeoutSeconds req)) = ?n * 1000000000" if "\<bar>?n\<bar> \<le> 9223372036"
    unfolding s using that by (intro sint_word_of_int_64) (simp_all add: abs_le_iff)
  moreover have "\<bar>?n\<bar> \<le> 9223372036" if "sint (seconds (lr_TimeoutSeconds req)) = ?n * 1000000000"
    using sint_64_range [of "seconds (lr_TimeoutSeconds req)"] that by simp
  ultimately show ?thesis by (auto simp: login_request_of_def)
qed

text \<open>
  An unset time is sent as 0 in a status, a token and a cached token, and every other time
  as its Unix time; the claims do not follow: an unset expiry is sent as -62135596800, the
  Unix time of Go's zero time.
\<close>

theorem unset_times:
  "gsr_ExpiresAtUnix (statusToProto (Some (st\<lparr>su_ExpiresAt := zero_time\<rparr>))) = 0 \<and>
   gtr_ExpiresAtUnix (tokenResponseToProto (Some (t\<lparr>tr_ExpiresAt := zero_time\<rparr>))) = 0 \<and>
   pct_ExpiresAtUnix (cachedTokenInfoToProto (Some (i\<lparr>ct_ExpiresAt := zero_time\<rparr>))) = 0 \<and>
   map_option (\<lambda>p. sint (pcl_ExpiresAtUnix p)) (claimsToProto (Some (c\<lparr>cl_ExpiresAt := zero_time\<rparr>))) =
     Some (- 62135596800) \<and>
   gtr_ExpiresAtUnix (tokenResponseToProto (Some (t\<lparr>tr_ExpiresAt := GoTime n\<rparr>))) =
     (if n = 0 then 0 else word_of_int (n div 1000000000 - 62135596800))"
proof -
  have "sint (word_of_int (- 62135596800) :: 64 word) = - 62135596800"
    by (rule sint_word_of_int_64) simp_all
  then show ?thesis
    by (simp add: statusToProto_def tokenResponseToProto_def cachedTokenInfoToProto_def claimsToProto_def
        safeUnix_def time_is_zero_def zero_time_def time_unix_def unix_epoch_s_def)
qed

end
