(* ===== verification/Auth_Concurrency.thy ===== *)
theory Auth_Concurrency
  imports Auth_Server
begin

text \<open>
  The connection set-up of the auth handler server under concurrent RPCs.

  \<open>ensureHostClient\<close> dials outside the lock, so ConfigureAuthHandler and StopAuthHandler calls
  interleave between its lock sections. A thread serves one RPC at a time; its program point
  says which section comes next. Each rule of \<open>conc_step\<close> is one lock section, or one action
  between two, of one thread: \<open>reset\<close>, \<open>check\<close>, \<open>dial\<close> and \<open>commit\<close> are the sections of
  a ConfigureAuthHandler call, \<open>inject\<close> reads the host client for the plugin, \<open>impl_ok\<close> and
  \<open>impl_failed\<close> are the outcomes of the plugin's part; \<open>stopping\<close> is the plugin's part of a
  StopAuthHandler call, and \<open>closing\<close> the lock section that ends a stop and a failed
  configuration; \<open>serve\<close> reads the host client for any other RPC, Login say, and \<open>served\<close> is
  the end of that. Any number of threads run; a plugin call may leave the plugin in any state.
\<close>

section \<open>Threads\<close>

datatype auth_pc =
    Idle
  | Reset uint32         \<comment> \<open>closed is reset; ensureHostClient comes next\<close>
  | Dialling uint32      \<comment> \<open>found no client; about to dial, without the lock\<close>
  | Holding conn_id      \<comment> \<open>dialled; about to commit the connection\<close>
  | Ready                \<comment> \<open>about to read the host client\<close>
  | Configuring "conn_id option"   \<comment> \<open>in the plugin's ConfigureAuthHandler, with this host client\<close>
  | Closing              \<comment> \<open>the plugin has stopped, or failed; about to close the connection\<close>
  | Serving "conn_id option"   \<comment> \<open>in the plugin for another RPC, with this host client\<close>

record 's conc =
  cs_server :: "'s AuthHandlerGRPCServer"
  cs_pc :: "nat \<Rightarrow> auth_pc"

definition with_thread :: "'s conc \<Rightarrow> 's AuthHandlerGRPCServer \<Rightarrow> nat \<Rightarrow> auth_pc \<Rightarrow> 's conc" where
  "with_thread st sv t p = \<lparr>cs_server = sv, cs_pc = (cs_pc st)(t := p)\<rparr>"

text \<open>The read section of \<open>ensureHostClient\<close>: whether to dial.\<close>

definition must_dial :: "'s AuthHandlerGRPCServer \<Rightarrow> bool" where
  "must_dial sv \<longleftrightarrow> auth_pickDialFunc sv \<noteq> None \<and> au_hostClient sv = None"

inductive conc_step :: "'s conc \<Rightarrow> 's conc \<Rightarrow> bool" where
  reset: "cs_pc st t = Idle \<Longrightarrow> i \<noteq> 0 \<Longrightarrow>
    conc_step st (with_thread st ((cs_server st)\<lparr>au_closed := False\<rparr>) t (Reset i))"
| no_host: "cs_pc st t = Idle \<Longrightarrow> conc_step st (with_thread st (cs_server st) t Ready)"
| check: "cs_pc st t = Reset i \<Longrightarrow>
    conc_step st (with_thread st (cs_server st) t (if must_dial (cs_server st) then Dialling i else Ready))"
| dial_failed: "cs_pc st t = Dialling i \<Longrightarrow> auth_pickDialFunc (cs_server st) = Some dial \<Longrightarrow>
    run_dial dial i (au_net (cs_server st)) = (Inl e, net) \<Longrightarrow>
    conc_step st (with_thread st ((cs_server st)\<lparr>au_net := net\<rparr>) t Idle)"
| dialled: "cs_pc st t = Dialling i \<Longrightarrow> auth_pickDialFunc (cs_server st) = Some dial \<Longrightarrow>
    run_dial dial i (au_net (cs_server st)) = (Inr c, net) \<Longrightarrow>
    conc_step st (with_thread st ((cs_server st)\<lparr>au_net := net\<rparr>) t (Holding c))"
| commit: "cs_pc st t = Holding c \<Longrightarrow>
    conc_step st (with_thread st (commit_conn c (cs_server st)) t Ready)"
| inject: "cs_pc st t = Ready \<Longrightarrow>
    conc_step st (with_thread st (cs_server st) t (Configuring (au_hostClient (cs_server st))))"
| impl_ok: "cs_pc st t = Configuring hc \<Longrightarrow>
    conc_step st (with_thread st ((cs_server st)\<lparr>au_plugin := s\<rparr>) t Idle)"
| impl_failed: "cs_pc st t = Configuring hc \<Longrightarrow>
    conc_step st (with_thread st ((cs_server st)\<lparr>au_plugin := s\<rparr>) t Closing)"
| stopping: "cs_pc st t = Idle \<Longrightarrow>
    conc_step st (with_thread st ((cs_server st)\<lparr>au_plugin := s\<rparr>) t Closing)"
| closing: "cs_pc st t = Closing \<Longrightarrow>
    conc_step st (with_thread st (closeHostClient (cs_server st)) t Idle)"
| serve: "cs_pc st t = Idle \<Longrightarrow>
    conc_step st (with_thread st (cs_server st) t (Serving (au_hostClient (cs_server st))))"
| served: "cs_pc st t = Serving hc \<Longrightarrow>
    conc_step st (with_thread st ((cs_server st)\<lparr>au_plugin := s\<rparr>) t Idle)"

inductive_cases conc_stepE: "conc_step st st'"

definition conc_start :: "'s AuthHandlerGRPCServer \<Rightarrow> 's conc" where
  "conc_start sv = \<lparr>cs_server = sv, cs_pc = (\<lambda>_. Idle)\<rparr>"

section \<open>The invariant\<close>

definition held :: "'s conc \<Rightarrow> conn_id set" where
  "held st = {c. \<exists>t. cs_pc st t = Holding c}"

definition held_once :: "'s conc \<Rightarrow> bool" where
  "held_once st \<longleftrightarrow> (\<forall>t t' c. cs_pc st t = Holding c \<longrightarrow> cs_pc st t' = Holding c \<longrightarrow> t = t')"

definition conc_ok :: "'s conc \<Rightarrow> bool" where
  "conc_ok st \<longleftrightarrow>
     (let sv = cs_server st in
      au_hostClient sv = au_conn sv \<and>
      (au_closed sv \<longrightarrow> au_hostClient sv = None) \<and>
      net_wf (au_net sv) \<and>
      set (nt_open (au_net sv)) = set_option (au_conn sv) \<union> held st \<and>
      set_option (au_conn sv) \<inter> held st = {} \<and> held_once st)"

lemma conc_ok_start: "conc_ok (conc_start (new_AuthHandlerGRPCServer impl s broker))"
  by (simp add: conc_ok_def conc_start_def new_AuthHandlerGRPCServer_def held_def held_once_def Let_def,
      simp add: no_net_def)

lemma pc_with_thread [simp]: "cs_pc (with_thread st sv t p) t' = (if t' = t then p else cs_pc st t')"
  by (simp add: with_thread_def)

lemma held_iff: "c \<in> held st \<longleftrightarrow> (\<exists>t. cs_pc st t = Holding c)"
  by (simp add: held_def)

text \<open>A thread that neither held a connection nor starts to hold one leaves \<open>held\<close> as it is.\<close>

lemma held_same:
  assumes "\<And>c. cs_pc st t \<noteq> Holding c" and "\<And>c. p \<noteq> Holding c"
  shows "held (with_thread st sv t p) = held st"
    and "held_once (with_thread st sv t p) = held_once st"
proof -
  show "held (with_thread st sv t p) = held st"
    using assms by (auto simp: set_eq_iff held_iff) metis+
  show "held_once (with_thread st sv t p) = held_once st"
    unfolding held_once_def pc_with_thread using assms by metis
qed

lemma held_add:
  assumes "\<And>c. cs_pc st t \<noteq> Holding c" and "c \<notin> held st" and "held_once st"
  shows "held (with_thread st sv t (Holding c)) = insert c (held st)"
    and "held_once (with_thread st sv t (Holding c))"
proof -
  show "held (with_thread st sv t (Holding c)) = insert c (held st)"
    using assms(1) by (auto simp: set_eq_iff held_iff) metis
  show "held_once (with_thread st sv t (Holding c))"
    using assms unfolding held_once_def held_iff pc_with_thread by (metis auth_pc.inject(3))
qed

lemma held_remove:
  assumes "cs_pc st t = Holding c" and "held_once st" and "\<And>c. p \<noteq> Holding c"
  shows "held (with_thread st sv t p) = held st - {c}"
    and "held_once (with_thread st sv t p)"
proof -
  show "held (with_thread st sv t p) = held st - {c}"
  proof (rule set_eqI)
    fix x
    have "(\<exists>t'. (if t' = t then p else cs_pc st t') = Holding x) \<longleftrightarrow>
        (\<exists>t'. cs_pc st t' = Holding x) \<and> x \<noteq> c"
      using assms unfolding held_once_def by (metis auth_pc.inject(3))
    then show "x \<in> held (with_thread st sv t p) \<longleftrightarrow> x \<in> held st - {c}"
      by (simp add: held_iff)
  qed
  show "held_once (with_thread st sv t p)"
    using assms unfolding held_once_def pc_with_thread by metis
qed

lemma server_with_thread [simp]: "cs_server (with_thread st sv t p) = sv"
  by (simp add: with_thread_def)

lemma nt_open_close: "set (nt_open (close_conn c net)) = set (nt_open net) - {c}"
  by (auto simp: close_conn_def)

lemma close_ok:
  assumes ok: "conc_ok st" and pc: "\<And>c. cs_pc st t \<noteq> Holding c"
  shows "conc_ok (with_thread st (closeHostClient (cs_server st)) t Idle)"
proof (cases "au_conn (cs_server st)")
  case None
  with ok show ?thesis
    by (simp add: conc_ok_def closeHostClient_def Let_def held_same [OF pc])
next
  case (Some c)
  with ok show ?thesis
    by (auto simp: conc_ok_def closeHostClient_def Let_def held_same [OF pc] nt_open_close)
qed

lemma dialled_ok:
  assumes ok: "conc_ok st" and pc: "cs_pc st t = Dialling i"
    and run: "run_dial dial i (au_net (cs_server st)) = (Inr c, net)"
  shows "conc_ok (with_thread st ((cs_server st)\<lparr>au_net := net\<rparr>) t (Holding c))"
proof -
  have nt: "nt_open net = c # nt_open (au_net (cs_server st))" "c = nt_next (au_net (cs_server st))"
    using run_dial_Inr [of dial i "au_net (cs_server st)" c] run by simp_all
  have wf: "net_wf net" using net_wf_dial [of "au_net (cs_server st)" dial i] ok run
    by (simp add: conc_ok_def Let_def)
  have "c \<notin> set (nt_open (au_net (cs_server st)))"
    using ok nt(2) by (auto simp: conc_ok_def Let_def net_wf_def list_all_iff)
  with ok have fresh: "c \<notin> held st" "c \<notin> set_option (au_conn (cs_server st))"
    by (auto simp: conc_ok_def Let_def)
  from pc have np: "\<And>c. cs_pc st t \<noteq> Holding c" by simp
  from ok fresh show ?thesis
    unfolding conc_ok_def Let_def server_with_thread
    using held_add [OF np fresh(1)] wf by (auto simp: nt(1))
qed

lemma commit_ok:
  assumes ok: "conc_ok st" and pc: "cs_pc st t = Holding c"
  shows "conc_ok (with_thread st (commit_conn c (cs_server st)) t Ready)"
proof -
  have once: "held_once st" using ok by (simp add: conc_ok_def Let_def)
  have "c \<in> held st" using pc by (auto simp: held_def)
  note h = held_remove [OF pc once, of Ready, simplified]
  show ?thesis
  proof (cases "au_hostClient (cs_server st) \<noteq> None \<or> au_closed (cs_server st)")
    case True
    with ok \<open>c \<in> held st\<close> show ?thesis
      by (auto simp: conc_ok_def Let_def commit_conn_def h nt_open_close)
  next
    case False
    with ok \<open>c \<in> held st\<close> show ?thesis
      by (auto simp: conc_ok_def Let_def commit_conn_def h)
  qed
qed

lemma conc_step_ok: "conc_step st st' \<Longrightarrow> conc_ok st \<Longrightarrow> conc_ok st'"
proof (induction rule: conc_step.induct)
  case (dial_failed st t i dial e net)
  then show ?case
    using net_wf_dial [of "au_net (cs_server st)" dial i] run_dial_Inl [of dial i "au_net (cs_server st)" e]
    by (auto simp: conc_ok_def Let_def held_same)
next
  case (dialled st t i dial c net)
  then show ?case by (intro dialled_ok)
next
  case (commit st t c)
  then show ?case by (intro commit_ok)
next
  case (closing st t)
  then show ?case by (intro close_ok) simp_all
qed (auto simp: conc_ok_def Let_def held_same)

lemma conc_steps_ok: "conc_step\<^sup>*\<^sup>* st st' \<Longrightarrow> conc_ok st \<Longrightarrow> conc_ok st'"
  by (induction rule: rtranclp_induct) (auto intro: conc_step_ok)

text \<open>The client an RPC in the plugin holds was dialled, and no thread is about to commit it.\<close>

fun client_at :: "auth_pc \<Rightarrow> conn_id option" where
  "client_at (Configuring hc) = hc"
| "client_at (Serving hc) = hc"
| "client_at _ = None"

definition serving_ok :: "'s conc \<Rightarrow> bool" where
  "serving_ok st \<longleftrightarrow>
     (\<forall>t c. client_at (cs_pc st t) = Some c \<longrightarrow> c < nt_next (au_net (cs_server st)) \<and> c \<notin> held st)"

lemma net_next_frame [simp]:
  "nt_next (au_net (closeHostClient sv)) = nt_next (au_net sv)"
  "nt_next (au_net (commit_conn c sv)) = nt_next (au_net sv)"
  by (auto simp: closeHostClient_def commit_conn_def close_conn_def Let_def split: option.split)

lemma run_dial_next: "run_dial dial i net = (r, net') \<Longrightarrow> nt_next net' = Suc (nt_next net)"
  by (auto simp: run_dial_def Let_def split: option.splits)

lemma serving_keep:
  assumes "serving_ok st" and "client_at p = None" and "\<And>c. p \<noteq> Holding c"
    and "nt_next (au_net (cs_server st)) \<le> nt_next (au_net sv)"
  shows "serving_ok (with_thread st sv t p)"
proof -
  have "held (with_thread st sv t p) \<subseteq> held st" using assms(3) by (auto simp: held_iff split: if_splits)
  with assms show ?thesis
    by (auto simp: serving_ok_def split: if_splits) (meson order_less_le_trans)
qed

text \<open>A thread reads the host client.\<close>

lemma serving_read:
  assumes "conc_ok st" and "serving_ok st" and "\<And>c. cs_pc st t \<noteq> Holding c" and "\<And>c. p \<noteq> Holding c"
    and "client_at p = au_hostClient (cs_server st)"
  shows "serving_ok (with_thread st (cs_server st) t p)"
proof -
  have "au_hostClient (cs_server st) = Some c \<Longrightarrow>
      c < nt_next (au_net (cs_server st)) \<and> c \<notin> held st" for c
    using assms(1)
    by (cases "au_conn (cs_server st)") (auto simp: conc_ok_def Let_def net_wf_def list_all_iff)
  with assms(2,5) held_same [OF assms(3,4)] show ?thesis by (auto simp: serving_ok_def)
qed

lemma serving_step: "conc_step st st' \<Longrightarrow> conc_ok st \<Longrightarrow> serving_ok st \<Longrightarrow> serving_ok st'"
proof (induction rule: conc_step.induct)
  case (dial_failed st t i dial e net)
  with run_dial_next [OF dial_failed(3)] show ?case by (intro serving_keep) simp_all
next
  case (dialled st t i dial c net)
  from run_dial_Inr [of dial i "au_net (cs_server st)" c] dialled(3)
  have "c = nt_next (au_net (cs_server st))" by simp
  with dialled(5) run_dial_next [OF dialled(3)] show ?case
    unfolding serving_ok_def held_iff server_with_thread pc_with_thread
    by (auto simp: less_Suc_eq split: if_splits)
next
  case (inject st t)
  then show ?case by (intro serving_read) simp_all
next
  case (serve st t)
  then show ?case by (intro serving_read) simp_all
qed (auto intro!: serving_keep)

lemma serving_steps: "conc_step\<^sup>*\<^sup>* st st' \<Longrightarrow> conc_ok st \<Longrightarrow> serving_ok st \<Longrightarrow> serving_ok st'"
proof (induction rule: rtranclp_induct)
  case (step y z)
  then show ?case using conc_steps_ok serving_step by blast
qed simp

lemma serving_start: "serving_ok (conc_start sv)"
  by (simp add: serving_ok_def conc_start_def)


section \<open>One thread alone\<close>

text \<open>
  A ConfigureAuthHandler call that is not interrupted goes through the sections in order, and
  ends in the state that the sequential handler computes; the same for StopAuthHandler.
\<close>

lemma with_thread_twice: "with_thread (with_thread st sv t p) sv' t p' = with_thread st sv' t p'"
  by (simp add: with_thread_def)

lemma with_thread_idle: "with_thread (conc_start sv) sv' t Idle = conc_start sv'"
  by (auto simp: with_thread_def conc_start_def)

lemma conc_start_sel [simp]: "cs_server (conc_start sv) = sv" "cs_pc (conc_start sv) t = Idle"
  by (simp_all add: conc_start_def)

abbreviation at_pc :: "'s AuthHandlerGRPCServer \<Rightarrow> 's AuthHandlerGRPCServer \<Rightarrow> auth_pc \<Rightarrow> 's conc" where
  "at_pc sv0 sv p \<equiv> with_thread (conc_start sv0) sv 0 p"

lemma ensure_section:
  assumes "ensureHostClient i sv = (err, sv')"
  shows "conc_step\<^sup>*\<^sup>* (at_pc sv0 sv (Reset i)) (at_pc sv0 sv' (if err = None then Ready else Idle))"
proof (cases "must_dial sv")
  case False
  with assms have "err = None" "sv' = sv"
    by (auto simp: ensureHostClient_def must_dial_def split: option.splits)
  with False conc_step.check [of "at_pc sv0 sv (Reset i)" 0 i] show ?thesis
    by (simp add: with_thread_twice r_into_rtranclp)
next
  case True
  then obtain dial where d: "auth_pickDialFunc sv = Some dial" "au_hostClient sv = None"
    by (auto simp: must_dial_def)
  have check: "conc_step (at_pc sv0 sv (Reset i)) (at_pc sv0 sv (Dialling i))"
    using conc_step.check [of "at_pc sv0 sv (Reset i)" 0 i] True by (simp add: with_thread_twice)
  obtain r net where run: "run_dial dial i (au_net sv) = (r, net)" by (cases "run_dial dial i (au_net sv)")
  show ?thesis
  proof (cases r)
    case (Inl e)
    with assms d run have "err = Some e" "sv' = sv\<lparr>au_net := net\<rparr>"
      by (simp_all add: ensureHostClient_def)
    with check conc_step.dial_failed [of "at_pc sv0 sv (Dialling i)" 0 i dial e net] d run Inl
    show ?thesis by (simp add: with_thread_twice)
  next
    case (Inr c)
    with assms d run have res: "err = None" "sv' = commit_conn c (sv\<lparr>au_net := net\<rparr>)"
      by (simp_all add: ensureHostClient_def)
    have dial: "conc_step (at_pc sv0 sv (Dialling i)) (at_pc sv0 (sv\<lparr>au_net := net\<rparr>) (Holding c))"
      using conc_step.dialled [of "at_pc sv0 sv (Dialling i)" 0 i dial c net] d run Inr
      by (simp add: with_thread_twice)
    have "conc_step (at_pc sv0 (sv\<lparr>au_net := net\<rparr>) (Holding c)) (at_pc sv0 sv' Ready)"
      using conc_step.commit [of "at_pc sv0 (sv\<lparr>au_net := net\<rparr>) (Holding c)" 0 c] res
      by (simp add: with_thread_twice)
    with check dial res show ?thesis
      by (auto intro: converse_rtranclp_into_rtranclp)
  qed
qed

lemma configure_to_ready:
  "\<exists>err sv1. (if ca_HostServiceId req \<noteq> 0
      then ensureHostClient (ca_HostServiceId req) (sv\<lparr>au_closed := False\<rparr>) else (None, sv)) = (err, sv1) \<and>
    conc_step\<^sup>*\<^sup>* (conc_start sv) (at_pc sv sv1 (if err = None then Ready else Idle))"
proof (cases "ca_HostServiceId req = 0")
  case True
  with conc_step.no_host [of "conc_start sv" 0] show ?thesis by (simp add: r_into_rtranclp)
next
  case False
  obtain err sv1 where e: "ensureHostClient (ca_HostServiceId req) (sv\<lparr>au_closed := False\<rparr>) = (err, sv1)"
    by (cases "ensureHostClient (ca_HostServiceId req) (sv\<lparr>au_closed := False\<rparr>)")
  have "conc_step (conc_start sv) (at_pc sv (sv\<lparr>au_closed := False\<rparr>) (Reset (ca_HostServiceId req)))"
    using conc_step.reset [of "conc_start sv" 0 "ca_HostServiceId req"] False by simp
  with ensure_section [OF e, of sv] False e show ?thesis
    by (auto intro: converse_rtranclp_into_rtranclp)
qed

lemma close_section_alone: "conc_step (at_pc sv0 sv Closing) (conc_start (closeHostClient sv))"
  using conc_step.closing [of "at_pc sv0 sv Closing" 0] by (simp add: with_thread_twice with_thread_idle)

lemma stop_handler_alone:
  "conc_step\<^sup>*\<^sup>* (conc_start sv) (conc_start (snd (Auth_StopAuthHandler c name sv)))"
proof -
  obtain err s where run: "ap_StopAuthHandler (au_Impl sv) c name (au_plugin sv) = (err, s)"
    by (cases "ap_StopAuthHandler (au_Impl sv) c name (au_plugin sv)")
  show ?thesis
  proof (cases err)
    case None
    have "conc_step (conc_start sv) (at_pc sv (sv\<lparr>au_plugin := s\<rparr>) Closing)"
      using conc_step.stopping [of "conc_start sv" 0 s] by simp
    with close_section_alone [of sv "sv\<lparr>au_plugin := s\<rparr>"] None show ?thesis
      by (simp add: Auth_StopAuthHandler_def run)
  next
    case (Some e)
    have "conc_step (conc_start sv) (at_pc sv sv (Serving (au_hostClient sv)))"
      using conc_step.serve [of "conc_start sv" 0] by simp
    moreover have "conc_step (at_pc sv sv (Serving (au_hostClient sv))) (conc_start (sv\<lparr>au_plugin := s\<rparr>))"
      using conc_step.served [of "at_pc sv sv (Serving (au_hostClient sv))" 0 _ s]
      by (simp add: with_thread_twice with_thread_idle)
    ultimately show ?thesis using Some by (simp add: Auth_StopAuthHandler_def run)
  qed
qed

lemma configure_alone:
  "conc_step\<^sup>*\<^sup>* (conc_start sv) (conc_start (snd (Auth_ConfigureAuthHandler c req sv)))"
proof -
  obtain err sv1 where e: "(if ca_HostServiceId req \<noteq> 0
      then ensureHostClient (ca_HostServiceId req) (sv\<lparr>au_closed := False\<rparr>) else (None, sv)) = (err, sv1)"
    and steps: "conc_step\<^sup>*\<^sup>* (conc_start sv) (at_pc sv sv1 (if err = None then Ready else Idle))"
    using configure_to_ready by blast
  show ?thesis
  proof (cases err)
    case (Some x)
    with e steps show ?thesis by (simp add: Auth_ConfigureAuthHandler_def with_thread_idle)
  next
    case None
    obtain ierr s where i: "ap_ConfigureAuthHandler (au_Impl sv1) (call_ctx sv1 c (ca_Profile req))
        (ca_HandlerName req) (auth_config_of_request req) (au_plugin sv1) = (ierr, s)"
      by (cases "ap_ConfigureAuthHandler (au_Impl sv1) (call_ctx sv1 c (ca_Profile req))
        (ca_HandlerName req) (auth_config_of_request req) (au_plugin sv1)")
    let ?in = "Configuring (au_hostClient sv1)"
    have "conc_step (at_pc sv sv1 Ready) (at_pc sv sv1 ?in)"
      using conc_step.inject [of "at_pc sv sv1 Ready" 0] by (simp add: with_thread_twice)
    moreover have "conc_step\<^sup>*\<^sup>* (at_pc sv sv1 ?in) (conc_start (snd (Auth_ConfigureAuthHandler c req sv)))"
    proof (cases ierr)
      case None
      with conc_step.impl_ok [of "at_pc sv sv1 ?in" 0 _ s] show ?thesis
        by (simp add: Auth_ConfigureAuthHandler_def e \<open>err = None\<close> i with_thread_twice with_thread_idle
            r_into_rtranclp)
    next
      case (Some x)
      then have res: "snd (Auth_ConfigureAuthHandler c req sv) = closeHostClient (sv1\<lparr>au_plugin := s\<rparr>)"
        by (simp add: Auth_ConfigureAuthHandler_def e \<open>err = None\<close> i)
      have "conc_step (at_pc sv sv1 ?in) (at_pc sv (sv1\<lparr>au_plugin := s\<rparr>) Closing)"
        using conc_step.impl_failed [of "at_pc sv sv1 ?in" 0 _ s] by (simp add: with_thread_twice)
      with close_section_alone [of sv "sv1\<lparr>au_plugin := s\<rparr>"] show ?thesis
        unfolding res by (meson converse_rtranclp_into_rtranclp r_into_rtranclp)
    qed
    ultimately show ?thesis using steps None by simp
  qed
qed

section \<open>Properties\<close>

text \<open>
  C5. However ConfigureAuthHandler and StopAuthHandler calls interleave, no connection leaks:
  at every moment the open connections are the one the host client uses and those some thread
  has just dialled and not yet committed, each held by one thread only. So once no thread is
  between its dial and its commit, at most one connection is open. A closed server has no
  host client, whatever a late dial brings. The connection of a host client that another RPC
  holds is open exactly while the server still keeps that client.
\<close>

theorem concurrent_connections:
  assumes "conc_step\<^sup>*\<^sup>* (conc_start (new_AuthHandlerGRPCServer impl s broker)) st"
  shows "set (nt_open (au_net (cs_server st))) =
      set_option (au_hostClient (cs_server st)) \<union> {c. \<exists>t. cs_pc st t = Holding c} \<and>
    distinct (nt_open (au_net (cs_server st))) \<and>
    au_hostClient (cs_server st) = au_conn (cs_server st) \<and>
    (if au_closed (cs_server st) then au_hostClient (cs_server st) = None else True) \<and>
    (case client_at (cs_pc st t) of
       None \<Rightarrow> True
     | Some c \<Rightarrow> c < nt_next (au_net (cs_server st)) \<and>
         (c \<in> set (nt_open (au_net (cs_server st))) \<longleftrightarrow> au_hostClient (cs_server st) = Some c))"
proof -
  from serving_steps [OF assms conc_ok_start serving_start]
  have "client_at (cs_pc st t) = Some c \<Longrightarrow> c < nt_next (au_net (cs_server st)) \<and> c \<notin> held st" for c
    by (simp add: serving_ok_def)
  with conc_steps_ok [OF assms conc_ok_start] show ?thesis
    by (auto simp: conc_ok_def Let_def net_wf_def held_def split: auth_pc.split option.split)
qed

section \<open>Two calls\<close>

text \<open>States with two threads.\<close>

definition two_calls :: "'s AuthHandlerGRPCServer \<Rightarrow> auth_pc \<Rightarrow> auth_pc \<Rightarrow> 's conc" where
  "two_calls sv p q = \<lparr>cs_server = sv, cs_pc = (\<lambda>_. Idle)(0 := p, 1 := q)\<rparr>"

lemma two_calls_sel [simp]:
  "cs_server (two_calls sv p q) = sv" "cs_pc (two_calls sv p q) 0 = p"
  "cs_pc (two_calls sv p q) (Suc 0) = q"
  by (simp_all add: two_calls_def)

lemma two_calls_move [simp]:
  "with_thread (two_calls sv p q) sv' 0 p' = two_calls sv' p' q"
  "with_thread (two_calls sv p q) sv' (Suc 0) q' = two_calls sv' p q'"
  by (simp_all add: two_calls_def with_thread_def fun_upd_twist)

lemma two_calls_start: "conc_start sv = two_calls sv Idle Idle"
  by (simp add: two_calls_def conc_start_def fun_eq_iff)

text \<open>A server whose dials succeed, after the first \<open>n\<close> of them.\<close>

definition race_net :: "nat \<Rightarrow> net" where
  "race_net n = \<lparr>nt_next = n, nt_open = rev [0..<n]\<rparr>"

definition race_server :: "nat \<Rightarrow> unit AuthHandlerGRPCServer" where
  "race_server n =
     (new_AuthHandlerGRPCServer quiet_handler () (Some (\<lambda>i n. None)))\<lparr>au_net := race_net n\<rparr>"

lemma race_server_new: "new_AuthHandlerGRPCServer quiet_handler () (Some (\<lambda>i n. None)) = race_server 0"
  by (simp add: race_server_def new_AuthHandlerGRPCServer_def race_net_def no_net_def)

lemma race_server_sel [simp]:
  "au_hostClient (race_server n) = None" "au_conn (race_server n) = None" "\<not> au_closed (race_server n)"
  "au_net (race_server n) = race_net n"
  by (simp_all add: race_server_def new_AuthHandlerGRPCServer_def)

lemma race_server_upd [simp]:
  "race_server n\<lparr>au_closed := False\<rparr> = race_server n" "race_server n\<lparr>au_plugin := s\<rparr> = race_server n"
  by (simp_all add: race_server_def new_AuthHandlerGRPCServer_def)

lemma race_server_dials: "must_dial (race_server n)" "auth_pickDialFunc (race_server n) = Some (\<lambda>i n. None)"
  "run_dial (\<lambda>i n. None) i (race_net n) = (Inr n, race_net (Suc n))"
  "race_server n\<lparr>au_net := race_net m\<rparr> = race_server m"
  by (simp_all add: must_dial_def race_server_def new_AuthHandlerGRPCServer_def auth_pickDialFunc_def
      run_dial_def race_net_def Let_def)

text \<open>A configure call on its way, beside another call.\<close>

lemma race_dial:
  "conc_step\<^sup>*\<^sup>* (two_calls (race_server n) Idle q) (two_calls (race_server (Suc n)) (Holding n) q)"
  "conc_step\<^sup>*\<^sup>* (two_calls (race_server n) p Idle) (two_calls (race_server (Suc n)) p (Holding n))"
proof -
  have "conc_step (two_calls (race_server n) Idle q) (two_calls (race_server n) (Reset 7) q)"
    using conc_step.reset [of "two_calls (race_server n) Idle q" 0 7] by simp
  moreover have "conc_step (two_calls (race_server n) (Reset 7) q) (two_calls (race_server n) (Dialling 7) q)"
    using conc_step.check [of "two_calls (race_server n) (Reset 7) q" 0 7] by (simp add: race_server_dials)
  moreover have "conc_step (two_calls (race_server n) (Dialling 7) q)
      (two_calls (race_server (Suc n)) (Holding n) q)"
    using conc_step.dialled [of "two_calls (race_server n) (Dialling 7) q" 0 7 "\<lambda>i n. None" n "race_net (Suc n)"]
    by (simp add: race_server_dials)
  ultimately show "conc_step\<^sup>*\<^sup>* (two_calls (race_server n) Idle q)
      (two_calls (race_server (Suc n)) (Holding n) q)" by simp
  have "conc_step (two_calls (race_server n) p Idle) (two_calls (race_server n) p (Reset 7))"
    using conc_step.reset [of "two_calls (race_server n) p Idle" 1 7] by simp
  moreover have "conc_step (two_calls (race_server n) p (Reset 7)) (two_calls (race_server n) p (Dialling 7))"
    using conc_step.check [of "two_calls (race_server n) p (Reset 7)" 1 7] by (simp add: race_server_dials)
  moreover have "conc_step (two_calls (race_server n) p (Dialling 7))
      (two_calls (race_server (Suc n)) p (Holding n))"
    using conc_step.dialled [of "two_calls (race_server n) p (Dialling 7)" 1 7 "\<lambda>i n. None" n "race_net (Suc n)"]
    by (simp add: race_server_dials)
  ultimately show "conc_step\<^sup>*\<^sup>* (two_calls (race_server n) p Idle)
      (two_calls (race_server (Suc n)) p (Holding n))" by simp
qed

text \<open>Two threads dial at once; the second to commit finds the client in place and closes its own.\<close>

definition race_end :: "unit conc" where
  "race_end = two_calls (commit_conn 1 (commit_conn 0 (race_server 2))) Ready Ready"

lemma race_run: "conc_step\<^sup>*\<^sup>* (conc_start (race_server 0)) race_end"
proof -
  have "conc_step\<^sup>*\<^sup>* (conc_start (race_server 0)) (two_calls (race_server 2) (Holding 0) (Holding 1))"
    using race_dial(1) [of 0 Idle] race_dial(2) [of 1 "Holding 0"]
    by (simp add: two_calls_start numeral_2_eq_2)
  moreover have "conc_step (two_calls (race_server 2) (Holding 0) (Holding 1))
      (two_calls (commit_conn 0 (race_server 2)) Ready (Holding 1))"
    using conc_step.commit [of "two_calls (race_server 2) (Holding 0) (Holding 1)" 0 0] by simp
  moreover have "conc_step (two_calls (commit_conn 0 (race_server 2)) Ready (Holding 1)) race_end"
    using conc_step.commit [of "two_calls (commit_conn 0 (race_server 2)) Ready (Holding 1)" 1 1]
    by (simp add: race_end_def)
  ultimately show ?thesis by (meson rtranclp.rtrancl_into_rtrancl)
qed

theorem concurrent_connections_witness:
  "au_hostClient (cs_server race_end) = Some 0 \<and>
   set (nt_open (au_net (cs_server race_end))) = {0} \<union> {c. \<exists>t. cs_pc race_end t = Holding c} \<and>
   cs_pc race_end 0 = Ready \<and> cs_pc race_end 1 = Ready"
proof -
  have host: "au_hostClient (cs_server race_end) = Some 0" "cs_pc race_end 0 = Ready" "cs_pc race_end 1 = Ready"
    by (simp_all add: race_end_def commit_conn_def)
  from concurrent_connections [OF race_run [folded race_server_new]] host show ?thesis by simp
qed


section \<open>A dial that a stop overtakes\<close>

text \<open>
  C6. A connection dialled before a stop can become the server's connection after it: while one
  configure call is between its dial and its commit, another call stops the handler, and a
  third, for any handler of the plugin, resets the flag \<open>closed\<close>; when the first call commits,
  the flag no longer tells it that it was stopped.
\<close>

theorem stopped_dial_committed:
  "\<exists>st1 st2 st3.
     conc_step\<^sup>*\<^sup>* (conc_start (new_AuthHandlerGRPCServer quiet_handler () (Some (\<lambda>i n. None)))) st1 \<and>
     cs_pc st1 0 = Holding 0 \<and>
     conc_step\<^sup>*\<^sup>* st1 st2 \<and> au_closed (cs_server st2) \<and> cs_pc st2 0 = Holding 0 \<and>
     conc_step\<^sup>*\<^sup>* st2 st3 \<and>
     au_hostClient (cs_server st3) = Some 0 \<and> nt_open (au_net (cs_server st3)) = [0]"
proof (intro exI conjI)
  let ?stopped = "closeHostClient (race_server 1)"
  let ?reset = "?stopped\<lparr>au_closed := False\<rparr>"
  show "conc_step\<^sup>*\<^sup>* (conc_start (new_AuthHandlerGRPCServer quiet_handler () (Some (\<lambda>i n. None))))
      (two_calls (race_server 1) (Holding 0) Idle)"
    using race_dial(1) [of 0 Idle] by (simp add: race_server_new two_calls_start)
  have "conc_step (two_calls (race_server 1) (Holding 0) Idle) (two_calls (race_server 1) (Holding 0) Closing)"
    using conc_step.stopping [of "two_calls (race_server 1) (Holding 0) Idle" 1 "()"] by simp
  moreover have "conc_step (two_calls (race_server 1) (Holding 0) Closing) (two_calls ?stopped (Holding 0) Idle)"
    using conc_step.closing [of "two_calls (race_server 1) (Holding 0) Closing" 1] by simp
  ultimately show "conc_step\<^sup>*\<^sup>* (two_calls (race_server 1) (Holding 0) Idle)
      (two_calls ?stopped (Holding 0) Idle)" by simp
  have "conc_step (two_calls ?stopped (Holding 0) Idle) (two_calls ?reset (Holding 0) (Reset 7))"
    using conc_step.reset [of "two_calls ?stopped (Holding 0) Idle" 1 7] by simp
  moreover have "conc_step (two_calls ?reset (Holding 0) (Reset 7)) (two_calls (commit_conn 0 ?reset) Ready (Reset 7))"
    using conc_step.commit [of "two_calls ?reset (Holding 0) (Reset 7)" 0 0] by simp
  ultimately show "conc_step\<^sup>*\<^sup>* (two_calls ?stopped (Holding 0) Idle)
      (two_calls (commit_conn 0 ?reset) Ready (Reset 7))" by simp
qed (simp_all add: closeHostClient_def commit_conn_def Let_def race_net_def upt_rec)

end
