(* ===== verification/Host_Client.thy ===== *)
theory Host_Client
  imports Provider_Server Auth_Server
begin

text \<open>
  The client with which a plugin calls the host back, \<open>HostServiceClient\<close> in
  \<open>plugin/host_client.go\<close>.

  The host's side, and the transport, are a record \<open>HostService\<close> of functions on the host's
  state: a call gives the transport error (\<open>Inl\<close>) or the response. gRPC's
  \<open>status.FromError\<close> is a parameter \<open>from_error\<close>: the code of the status an error carries, or
  none. Its documented behaviour is \<open>status_law\<close>: it finds the first status in the error's
  tree; \<open>first_status\<close> is a function that behaves so.
\<close>

section \<open>The host's side\<close>

record 'h HostService =
  ho_GetSecret :: "ctx \<Rightarrow> string \<Rightarrow> 'h \<Rightarrow> (goerror + GetSecretResponse) \<times> 'h"
  ho_SetSecret :: "ctx \<Rightarrow> string \<Rightarrow> string \<Rightarrow> 'h \<Rightarrow> (goerror + string) \<times> 'h"
  ho_DeleteSecret :: "ctx \<Rightarrow> string \<Rightarrow> 'h \<Rightarrow> (goerror + string) \<times> 'h"
  ho_ListSecrets :: "ctx \<Rightarrow> string \<Rightarrow> 'h \<Rightarrow> (goerror + ListSecretsResponse) \<times> 'h"
  ho_GetAuthIdentity :: "ctx \<Rightarrow> string \<Rightarrow> string \<Rightarrow> 'h \<Rightarrow> (goerror + GetAuthIdentityResponse) \<times> 'h"
  ho_ListAuthHandlers :: "ctx \<Rightarrow> 'h \<Rightarrow> (goerror + ListAuthHandlersResponse) \<times> 'h"
  ho_GetAuthToken :: "ctx \<Rightarrow> GetAuthTokenRequest \<Rightarrow> 'h \<Rightarrow> (goerror + GetAuthTokenResponse) \<times> 'h"
  ho_GetAuthGroups :: "ctx \<Rightarrow> string \<Rightarrow> 'h \<Rightarrow> (goerror + GetAuthGroupsResponse) \<times> 'h"
  ho_PromptAuthResponse :: "ctx \<Rightarrow> PromptAuthResponseRequest \<Rightarrow> 'h \<Rightarrow> (goerror + string) \<times> 'h"

text \<open>
  The client keeps the generated client of the connection; \<open>proto.NewHostServiceClient\<close>, which
  makes it, is an argument of the constructor.
\<close>

record 'h HostServiceClient =
  hcl_client :: "'h HostService"

definition NewHostServiceClient :: "('conn \<Rightarrow> 'h HostService) \<Rightarrow> 'conn \<Rightarrow> 'h HostServiceClient" where
  "NewHostServiceClient new_client conn = \<lparr>hcl_client = new_client conn\<rparr>"

text \<open>
  What every method does with the outcome of its RPC: a transport error is wrapped, an error
  in the response becomes an error by its text, and otherwise the result is read off.
\<close>

definition host_result :: "string \<Rightarrow> ('r \<Rightarrow> string) \<Rightarrow> ('r \<Rightarrow> 'a) \<Rightarrow> goerror + 'r \<Rightarrow> goerror + 'a" where
  "host_result what err_of value_of r =
     (case r of
        Inl err \<Rightarrow> Inl (wrap_with (''host '' @ what) err)
      | Inr resp \<Rightarrow>
          if err_of resp \<noteq> '''' then Inl (Errorf [Lit (''host '' @ what @ '': ''), Str (err_of resp)])
          else Inr (value_of resp))"

section \<open>The methods\<close>

definition GetSecret :: "'h HostServiceClient \<Rightarrow> ctx \<Rightarrow> string \<Rightarrow> 'h \<Rightarrow> (goerror + string \<times> bool) \<times> 'h" where
  "GetSecret H c name h =
     (case ho_GetSecret (hcl_client H) c name h of
        (r, h') \<Rightarrow> (host_result ''GetSecret'' hs_Error (\<lambda>resp. (hs_Value resp, hs_Found resp)) r, h'))"

definition SetSecret :: "'h HostServiceClient \<Rightarrow> ctx \<Rightarrow> string \<Rightarrow> string \<Rightarrow> 'h \<Rightarrow> (goerror + unit) \<times> 'h" where
  "SetSecret H c name val h =
     (case ho_SetSecret (hcl_client H) c name val h of
        (r, h') \<Rightarrow> (host_result ''SetSecret'' (\<lambda>e. e) (\<lambda>_. ()) r, h'))"

definition DeleteSecret :: "'h HostServiceClient \<Rightarrow> ctx \<Rightarrow> string \<Rightarrow> 'h \<Rightarrow> (goerror + unit) \<times> 'h" where
  "DeleteSecret H c name h =
     (case ho_DeleteSecret (hcl_client H) c name h of
        (r, h') \<Rightarrow> (host_result ''DeleteSecret'' (\<lambda>e. e) (\<lambda>_. ()) r, h'))"

definition ListSecrets :: "'h HostServiceClient \<Rightarrow> ctx \<Rightarrow> string \<Rightarrow> 'h \<Rightarrow> (goerror + string list) \<times> 'h" where
  "ListSecrets H c pattern h =
     (case ho_ListSecrets (hcl_client H) c pattern h of
        (r, h') \<Rightarrow> (host_result ''ListSecrets'' hl_Error hl_Names r, h'))"

definition GetAuthIdentity ::
  "'h HostServiceClient \<Rightarrow> ctx \<Rightarrow> string \<Rightarrow> string \<Rightarrow> 'h \<Rightarrow> (goerror + PClaims option) \<times> 'h" where
  "GetAuthIdentity H c handler scope h =
     (case ho_GetAuthIdentity (hcl_client H) c handler scope h of
        (r, h') \<Rightarrow> (host_result ''GetAuthIdentity'' hi_Error hi_Claims r, h'))"

text \<open>The response of ListAuthHandlers has no error field.\<close>

definition ListAuthHandlers ::
  "'h HostServiceClient \<Rightarrow> ctx \<Rightarrow> 'h \<Rightarrow> (goerror + string list \<times> string) \<times> 'h" where
  "ListAuthHandlers H c h =
     (case ho_ListAuthHandlers (hcl_client H) c h of
        (Inl err, h') \<Rightarrow> (Inl (wrap_with ''host ListAuthHandlers'' err), h')
      | (Inr resp, h') \<Rightarrow> (Inr (hh_HandlerNames resp, hh_DefaultHandler resp), h'))"

definition auth_token_request :: "ctx \<Rightarrow> string \<Rightarrow> string \<Rightarrow> int64 \<Rightarrow> bool \<Rightarrow> GetAuthTokenRequest" where
  "auth_token_request c handler scope minValidFor forceRefresh =
     \<lparr>ht_HandlerName = handler, ht_Scope = scope, ht_MinValidForSeconds = minValidFor,
      ht_ForceRefresh = forceRefresh, ht_Profile = ProfileFromContext c\<rparr>"

definition GetAuthToken :: "'h HostServiceClient \<Rightarrow> ctx \<Rightarrow> string \<Rightarrow> string \<Rightarrow> int64 \<Rightarrow> bool \<Rightarrow> 'h \<Rightarrow>
    (goerror + GetAuthTokenResponse) \<times> 'h" where
  "GetAuthToken H c handler scope minValidFor forceRefresh h =
     (case ho_GetAuthToken (hcl_client H) c (auth_token_request c handler scope minValidFor forceRefresh) h of
        (r, h') \<Rightarrow> (host_result ''GetAuthToken'' htr_Error (\<lambda>resp. resp) r, h'))"

text \<open>\<open>status.Code\<close>: Unknown for an error without a status.\<close>

definition status_code :: "(goerror \<Rightarrow> grpc_code option) \<Rightarrow> goerror \<Rightarrow> grpc_code" where
  "status_code from_error e = (case from_error e of None \<Rightarrow> CodeUnknown | Some c \<Rightarrow> c)"

text \<open>The result keeps Go's nil slice (\<open>None\<close>) apart from the empty one.\<close>

definition GetAuthGroups :: "(goerror \<Rightarrow> grpc_code option) \<Rightarrow> 'h HostServiceClient \<Rightarrow> ctx \<Rightarrow> string \<Rightarrow> 'h \<Rightarrow>
    (goerror + string list option) \<times> 'h" where
  "GetAuthGroups from_error H c handler h =
     (case ho_GetAuthGroups (hcl_client H) c handler h of
        (Inl err, h') \<Rightarrow>
          if status_code from_error err = CodeUnimplemented then (Inr (Some []), h')
          else (Inl (wrap_with ''host GetAuthGroups'' err), h')
      | (Inr resp, h') \<Rightarrow>
          if hg_Error resp \<noteq> '''' then
            (Inl (Errorf [Lit ''host GetAuthGroups: '', Str (hg_Error resp)]), h')
          else if hg_Groups resp = None then (Inr (Some []), h')
          else (Inr (hg_Groups resp), h'))"

definition PromptAuthResponse ::
  "'h HostServiceClient \<Rightarrow> ctx \<Rightarrow> string \<Rightarrow> string \<Rightarrow> string \<Rightarrow> 'h \<Rightarrow> (goerror + string) \<times> 'h" where
  "PromptAuthResponse H c handler authURL redirectURI h =
     (case ho_PromptAuthResponse (hcl_client H) c
             \<lparr>hp_HandlerName = handler, hp_AuthorizationUrl = authURL, hp_RedirectUri = redirectURI\<rparr> h of
        (Inl err, h') \<Rightarrow> (Inl (wrap_with ''host PromptAuthResponse'' err), h')
      | (Inr v, h') \<Rightarrow> (Inr v, h'))"

text \<open>
  \<open>IsUnimplemented\<close>, the loop as the code has it: it unwraps until the error is nil or carries
  the status. An error may have an \<open>Unwrap\<close> method of its own, so the loop need not end;
  \<open>None\<close> stands for a loop that does not. \<open>unw\<close> is \<open>errors.Unwrap\<close> on a type of errors.
\<close>

partial_function (option) unimplemented_loop ::
  "('e \<Rightarrow> grpc_code option) \<Rightarrow> ('e \<Rightarrow> 'e option) \<Rightarrow> 'e option \<Rightarrow> bool option" where
  "unimplemented_loop from_error unw err =
     (case err of
        None \<Rightarrow> Some False
      | Some e \<Rightarrow>
          if from_error e = Some CodeUnimplemented then Some True
          else unimplemented_loop from_error unw (unw e))"

text \<open>On the errors of this model, where the loop ends, it is this function.\<close>

function IsUnimplemented :: "(goerror \<Rightarrow> grpc_code option) \<Rightarrow> goerror option \<Rightarrow> bool" where
  "IsUnimplemented from_error None = False"
| "IsUnimplemented from_error (Some e) =
     (if from_error e = Some CodeUnimplemented then True else IsUnimplemented from_error (unwrap e))"
  by pat_completeness auto
termination
proof (relation "measure (\<lambda>(f, e). case e of None \<Rightarrow> 0 | Some e' \<Rightarrow> Suc (size e'))")
  fix from_error :: "goerror \<Rightarrow> grpc_code option" and e
  show "((from_error, unwrap e), from_error, Some e)
      \<in> measure (\<lambda>(f, e). case e of None \<Rightarrow> 0 | Some e' \<Rightarrow> Suc (size e'))"
    by (cases "unwrap e") (simp_all add: unwrap_size)
qed simp

section \<open>The status of an error\<close>

text \<open>The first status in an error's tree, depth first, as \<open>errors.As\<close> looks for it.\<close>

definition first_some :: "'a option list \<Rightarrow> 'a option" where
  "first_some xs = (case List.find (\<lambda>x. x \<noteq> None) xs of None \<Rightarrow> None | Some x \<Rightarrow> x)"

function first_status :: "goerror \<Rightarrow> grpc_code option" where
  "first_status (StatusErr c m) = Some c"
| "first_status (Errorf fs) = first_some (map first_status (wrapped_errs fs))"
| "first_status (Joined es) = first_some (map first_status es)"
| "first_status ErrStreamingNotSupported = None"
| "first_status (Foreign t) = None"
  by pat_completeness auto
termination
proof (relation "measure size")
  fix fs e
  assume "e \<in> set (wrapped_errs fs)"
  then show "(e, Errorf fs) \<in> measure size" by (auto dest: wrapped_errs_size)
next
  fix es and e :: goerror
  assume "e \<in> set es"
  then have "size e < Suc (size_list size es)"
    by (simp add: less_Suc_eq_le size_list_estimation')
  then show "(e, Joined es) \<in> measure size" by simp
qed simp

text \<open>The documented behaviour of \<open>status.FromError\<close> on the errors of this model.\<close>

definition status_law :: "(goerror \<Rightarrow> grpc_code option) \<Rightarrow> bool" where
  "status_law from_error \<longleftrightarrow>
     (\<forall>c m. from_error (StatusErr c m) = Some c) \<and>
     (\<forall>fs. from_error (Errorf fs) = first_some (map from_error (wrapped_errs fs))) \<and>
     (\<forall>es. from_error (Joined es) = first_some (map from_error es)) \<and>
     from_error ErrStreamingNotSupported = None \<and> (\<forall>t. from_error (Foreign t) = None)"

lemma first_status_law: "status_law first_status"
  by (simp add: status_law_def)

lemma first_some_single [simp]: "first_some [x] = x"
  by (simp add: first_some_def)

lemma status_of_unwrap:
  assumes "status_law from_error" and "unwrap e = Some e'"
  shows "from_error e = from_error e'"
  using assms by (cases e) (auto simp: unwrap_def status_law_def split: list.splits)

text \<open>The loop of \<open>IsUnimplemented\<close> finds nothing that its first test does not.\<close>

lemma IsUnimplemented_iff:
  assumes "status_law from_error"
  shows "IsUnimplemented from_error e \<longleftrightarrow> (\<exists>e'. e = Some e' \<and> from_error e' = Some CodeUnimplemented)"
  using assms
proof (induction from_error e rule: IsUnimplemented.induct)
  case (2 f e)
  then show ?case
    using status_of_unwrap [OF 2(2), of e] by (cases "unwrap e") auto
qed simp

lemma status_wrap: "status_law from_error \<Longrightarrow> from_error (wrap_with p e) = from_error e"
  using status_of_unwrap [of from_error "wrap_with p e" e] by simp


lemma host_result_Inr:
  "host_result what err_of value_of r = Inr x \<longleftrightarrow>
     (\<exists>resp. r = Inr resp \<and> err_of resp = '''' \<and> x = value_of resp)"
  by (auto simp: host_result_def split: sum.split)

section \<open>Termination of the loop\<close>

lemma unimplemented_loop_simps [simp]:
  "unimplemented_loop from_error unw None = Some False"
  "unimplemented_loop from_error unw (Some e) =
     (if from_error e = Some CodeUnimplemented then Some True
      else unimplemented_loop from_error unw (unw e))"
  by (simp_all add: unimplemented_loop.simps)

text \<open>The error after \<open>n\<close> rounds of unwrapping.\<close>

primrec unwrapped :: "('e \<Rightarrow> 'e option) \<Rightarrow> nat \<Rightarrow> 'e option \<Rightarrow> 'e option" where
  "unwrapped unw 0 err = err"
| "unwrapped unw (Suc n) err = unwrapped unw n (Option.bind err unw)"

text \<open>The test that ends the loop.\<close>

definition loop_exit :: "('e \<Rightarrow> grpc_code option) \<Rightarrow> 'e option \<Rightarrow> bool" where
  "loop_exit from_error err \<longleftrightarrow>
     (case err of None \<Rightarrow> True | Some e \<Rightarrow> from_error e = Some CodeUnimplemented)"

lemma loop_exit_simps [simp]:
  "loop_exit from_error None"
  "loop_exit from_error (Some e) \<longleftrightarrow> from_error e = Some CodeUnimplemented"
  by (simp_all add: loop_exit_def)

lemma loop_stops:
  "loop_exit from_error (unwrapped unw n err) \<Longrightarrow>
     \<exists>b. unimplemented_loop from_error unw err = Some b"
  by (induction n arbitrary: err) (auto simp: loop_exit_def split: option.splits bind_splits)

lemma loop_stopped:
  "unimplemented_loop from_error unw err = Some b \<Longrightarrow>
     \<exists>n. loop_exit from_error (unwrapped unw n err)"
proof (induction from_error unw err b
    rule: unimplemented_loop.raw_induct [rotated, consumes 1, case_names step])
  case (step loop from_error unw err b)
  show ?case
  proof (cases "loop_exit from_error err")
    case True
    then show ?thesis by (intro exI [of _ 0]) simp
  next
    case False
    then obtain e where e: "err = Some e" "from_error e \<noteq> Some CodeUnimplemented"
      by (cases err) auto
    with step(2) have "loop from_error unw (unw e) = Some b" by simp
    from step(1) [OF this] obtain n where "loop_exit from_error (unwrapped unw n (unw e))" by blast
    with e show ?thesis by (intro exI [of _ "Suc n"]) simp
  qed
qed

lemma unimplemented_loop_model:
  "unimplemented_loop from_error unwrap err = Some (IsUnimplemented from_error err)"
  by (induction from_error err rule: IsUnimplemented.induct) simp_all

text \<open>On the errors of the model each round makes the error smaller.\<close>

lemma unwrapped_ends: "size e < n \<Longrightarrow> unwrapped unwrap n (Some e) = None"
proof (induction n arbitrary: e)
  case (Suc n)
  have none: "unwrapped unwrap k None = None" for k by (induction k) simp_all
  show ?case
  proof (cases "unwrap e")
    case (Some e')
    from unwrap_size [OF Some] Suc.prems have "size e' < n" by simp
    with Suc.IH Some show ?thesis by simp
  qed (simp add: none)
qed simp

lemma IsUnimplemented_chain:
  "IsUnimplemented from_error err \<longleftrightarrow>
     (\<exists>n e'. unwrapped unwrap n err = Some e' \<and> from_error e' = Some CodeUnimplemented)"
proof (induction from_error err rule: IsUnimplemented.induct)
  case (1 from_error)
  have "unwrapped unwrap k None = None" for k by (induction k) simp_all
  then show ?case by simp
next
  case (2 from_error e)
  have "(\<exists>n e'. unwrapped unwrap n (Some e) = Some e' \<and> from_error e' = Some CodeUnimplemented) \<longleftrightarrow>
      from_error e = Some CodeUnimplemented \<or>
      (\<exists>n e'. unwrapped unwrap n (unwrap e) = Some e' \<and> from_error e' = Some CodeUnimplemented)"
    (is "?l \<longleftrightarrow> ?r")
  proof
    assume ?l
    then obtain n e' where "unwrapped unwrap n (Some e) = Some e'" "from_error e' = Some CodeUnimplemented"
      by blast
    then show ?r by (cases n) auto
  next
    assume ?r
    then show ?l by (metis Option.bind.simps(2) unwrapped.simps)
  qed
  with 2 show ?case by simp
qed

section \<open>Properties\<close>

text \<open>
  C39. A plugin can tell an old host from a failing one: when PromptAuthResponse fails,
  IsUnimplemented holds of its error exactly when the first status in the transport's error is
  Unimplemented, although the client has wrapped that error.
\<close>

theorem prompt_unimplemented:
  assumes "status_law from_error"
    and "PromptAuthResponse H c handler url uri h = (Inl err, h')"
  shows "\<exists>terr. fst (ho_PromptAuthResponse (hcl_client H) c
      \<lparr>hp_HandlerName = handler, hp_AuthorizationUrl = url, hp_RedirectUri = uri\<rparr> h) = Inl terr \<and>
    (IsUnimplemented from_error (Some err) \<longleftrightarrow> first_status terr = Some CodeUnimplemented)"
proof -
  from assms(2) obtain terr where t: "fst (ho_PromptAuthResponse (hcl_client H) c
      \<lparr>hp_HandlerName = handler, hp_AuthorizationUrl = url, hp_RedirectUri = uri\<rparr> h) = Inl terr"
    "err = wrap_with ''host PromptAuthResponse'' terr"
    by (auto simp: PromptAuthResponse_def split: prod.splits sum.splits)
  have "from_error e = first_status e" for e
    using assms(1)
  proof (induction e rule: first_status.induct)
    case (2 fs)
    then show ?case by (simp add: status_law_def cong: map_cong)
  next
    case (3 es)
    then show ?case by (simp add: status_law_def cong: map_cong)
  qed (simp_all add: status_law_def)
  then have "from_error = first_status" by (simp add: fun_eq_iff)
  with assms(1) t status_wrap [OF first_status_law] show ?thesis
    by (simp add: IsUnimplemented_iff del: IsUnimplemented.simps)
qed

text \<open>A host without the RPC, and one that is down.\<close>

definition refusing_host :: "grpc_code \<Rightarrow> unit HostService" where
  "refusing_host code = \<lparr>ho_GetSecret = (\<lambda>c n h. (Inl (StatusErr code ''x''), h)),
     ho_SetSecret = (\<lambda>c n v h. (Inl (StatusErr code ''x''), h)),
     ho_DeleteSecret = (\<lambda>c n h. (Inl (StatusErr code ''x''), h)),
     ho_ListSecrets = (\<lambda>c p h. (Inl (StatusErr code ''x''), h)),
     ho_GetAuthIdentity = (\<lambda>c n s h. (Inl (StatusErr code ''x''), h)),
     ho_ListAuthHandlers = (\<lambda>c h. (Inl (StatusErr code ''x''), h)),
     ho_GetAuthToken = (\<lambda>c r h. (Inl (StatusErr code ''x''), h)),
     ho_GetAuthGroups = (\<lambda>c n h. (Inl (StatusErr code ''x''), h)),
     ho_PromptAuthResponse = (\<lambda>c r h. (Inl (StatusErr code ''x''), h))\<rparr>"

theorem prompt_unimplemented_witness:
  "IsUnimplemented first_status
     (Some (wrap_with ''host PromptAuthResponse'' (StatusErr CodeUnimplemented ''x''))) \<and>
   \<not> IsUnimplemented first_status
     (Some (wrap_with ''host PromptAuthResponse'' (StatusErr CodeUnavailable ''x'')))"
proof -
  have run: "PromptAuthResponse \<lparr>hcl_client = refusing_host code\<rparr> background ''h'' ''u'' ''r'' () =
      (Inl (wrap_with ''host PromptAuthResponse'' (StatusErr code ''x'')), ())" for code
    by (simp add: PromptAuthResponse_def refusing_host_def)
  from prompt_unimplemented [OF first_status_law run [of CodeUnimplemented]]
    prompt_unimplemented [OF first_status_law run [of CodeUnavailable]]
  show ?thesis by (simp add: refusing_host_def del: IsUnimplemented.simps)
qed

text \<open>
  C25. IsUnimplemented returns. For any type of errors the loop ends exactly when unwrapping
  reaches nil or an Unimplemented status, so an error whose chain of Unwrap calls is a cycle
  without such a status makes it run forever. The errors the SDK and gRPC build are finite
  trees: for them it ends, after at most as many rounds as the error has nodes, with the
  answer the properties of this theory are about, and that answer is whether some error of the
  chain has the status.
\<close>

theorem unimplemented_loop_ends:
  "((\<exists>b. unimplemented_loop code unw err = Some b) \<longleftrightarrow> (\<exists>n. loop_exit code (unwrapped unw n err))) \<and>
   unimplemented_loop from_error unwrap (Some e) = Some (IsUnimplemented from_error (Some e)) \<and>
   (\<exists>n \<le> Suc (size e). loop_exit from_error (unwrapped unwrap n (Some e))) \<and>
   (IsUnimplemented from_error (Some e) \<longleftrightarrow>
     (\<exists>n e'. unwrapped unwrap n (Some e) = Some e' \<and> from_error e' = Some CodeUnimplemented))"
proof -
  have "loop_exit from_error (unwrapped unwrap (Suc (size e)) (Some e))"
    by (simp add: unwrapped_ends del: unwrapped.simps)
  then have "\<exists>n \<le> Suc (size e). loop_exit from_error (unwrapped unwrap n (Some e))" by blast
  moreover have "(\<exists>b. unimplemented_loop code unw err = Some b) \<longleftrightarrow>
      (\<exists>n. loop_exit code (unwrapped unw n err))"
    using loop_stops loop_stopped by blast
  ultimately show ?thesis
    using unimplemented_loop_model [of from_error "Some e"] IsUnimplemented_chain [of from_error "Some e"]
    by (simp del: IsUnimplemented.simps unimplemented_loop_simps)
qed

text \<open>
  A group query never yields Go's nil slice: it fails, or gives a list, which is the empty
  one for a host without the RPC and for a handler without groups.
\<close>

theorem auth_groups_not_nil:
  "fst (GetAuthGroups from_error H c handler h) \<noteq> Inr None \<and>
   (case fst (ho_GetAuthGroups (hcl_client H) c handler h) of
      Inl err \<Rightarrow> isl (fst (GetAuthGroups from_error H c handler h)) \<longleftrightarrow>
        from_error err \<noteq> Some CodeUnimplemented
    | Inr resp \<Rightarrow> isl (fst (GetAuthGroups from_error H c handler h)) \<longleftrightarrow> hg_Error resp \<noteq> '''')"
  by (auto simp: GetAuthGroups_def status_code_def split: prod.split sum.split option.splits)

text \<open>
  An error the host reports in a response, and only such an error or a transport error,
  makes a secret lookup fail; a lookup that succeeds reports exactly what the host found.
\<close>

theorem get_secret_faithful:
  "fst (GetSecret H c name h) = Inr (v, found) \<longleftrightarrow>
     (case fst (ho_GetSecret (hcl_client H) c name h) of
        Inl err \<Rightarrow> False
      | Inr resp \<Rightarrow> hs_Error resp = '''' \<and> hs_Value resp = v \<and> hs_Found resp = found)"
  by (auto simp: GetSecret_def host_result_Inr split: prod.split sum.split)

text \<open>
  The profile of an auth RPC reaches the host: when a handler asks the host for a token
  with the context of its call, the request the host gets names the profile of the RPC, and
  the host client in that context is the one the server holds.
\<close>

theorem profile_reaches_host:
  "ht_Profile (auth_token_request (call_ctx sv c profile) handler scope n force) = profile \<and>
   HostClientFromContext (call_ctx sv c profile) =
     (case au_hostClient sv of None \<Rightarrow> HostClientFromContext c | Some hc \<Rightarrow> Some hc)"
  by (auto simp: auth_token_request_def call_ctx_def auth_injectHostClient_def profile_slot.fetch_store
      host_profile.fetch1_store2 host_slot.fetch_store split: option.split)

end
