(* ===== verification/Secret_Ref.thy ===== *)
theory Secret_Ref
  imports Go_Errors
begin

text \<open>
  Secret references (\<open>plugin/secretref.go\<close>): a string with the scheme \<open>env://\<close> or
  \<open>file://\<close>. The environment (\<open>os.Getenv\<close>) and the file system (\<open>os.ReadFile\<close>) are
  parameters; nothing is assumed of them.
\<close>

type_synonym SecretRef = string

definition secretRefSchemeEnv :: string where "secretRefSchemeEnv = ''env://''"
definition secretRefSchemeFile :: string where "secretRefSchemeFile = ''file://''"

definition SecretRef_Validate :: "SecretRef \<Rightarrow> goerror option" where
  "SecretRef_Validate s =
     (if has_prefix s secretRefSchemeEnv then
        (if trim_prefix s secretRefSchemeEnv = '''' then
           Some (Errorf [Lit ''env:// scheme requires a variable name''])
         else None)
      else if has_prefix s secretRefSchemeFile then
        (if trim_prefix s secretRefSchemeFile = '''' then
           Some (Errorf [Lit ''file:// scheme requires a path''])
         else None)
      else Some (Errorf [Lit ''unsupported secret ref scheme '', Quo s,
                         Lit '', must start with env:// or file://'']))"

definition SecretRef_Resolve ::
  "(string \<Rightarrow> string) \<Rightarrow> (string \<Rightarrow> goerror + bytes) \<Rightarrow> SecretRef \<Rightarrow> goerror + string" where
  "SecretRef_Resolve getenv readfile s =
     (case SecretRef_Validate s of
        Some err \<Rightarrow> Inl err
      | None \<Rightarrow>
          if has_prefix s secretRefSchemeEnv then
            (let name = trim_prefix s secretRefSchemeEnv; val = getenv name in
             if val = '''' then
               Inl (Errorf [Lit ''environment variable '', Quo name, Lit '' is empty or not set''])
             else Inr val)
          else if has_prefix s secretRefSchemeFile then
            (let path = trim_prefix s secretRefSchemeFile in
             (case readfile path of
                Inl err \<Rightarrow> Inl (Errorf [Lit ''reading secret file '', Quo path, Lit '': '', Wrap err])
              | Inr data \<Rightarrow>
                  (let val = trim_space data in
                   if val = '''' then Inl (Errorf [Lit ''secret file '', Quo path, Lit '' is empty''])
                   else Inr val)))
          else Inl (Errorf [Lit ''unsupported secret ref scheme '', Quo s]))"

definition SecretRef_Scheme :: "SecretRef \<Rightarrow> string" where
  "SecretRef_Scheme s = (case str_index s ''://'' of Some idx \<Rightarrow> take idx s | None \<Rightarrow> '''')"

section \<open>Lemmas\<close>

lemma prefixes_exclude:
  "has_prefix s secretRefSchemeEnv \<Longrightarrow> \<not> has_prefix s secretRefSchemeFile"
  by (auto simp: has_prefix_iff secretRefSchemeEnv_def secretRefSchemeFile_def)

lemma secret_validate_iff:
  "SecretRef_Validate s = None \<longleftrightarrow>
     (\<exists>name. name \<noteq> [] \<and> (s = secretRefSchemeEnv @ name \<or> s = secretRefSchemeFile @ name))"
  using prefixes_exclude [of s]
  by (auto simp: SecretRef_Validate_def has_prefix_iff)

lemma scheme_env [simp]: "SecretRef_Scheme (secretRefSchemeEnv @ name) = ''env''"
  by (simp add: SecretRef_Scheme_def secretRefSchemeEnv_def has_prefix_def)

lemma scheme_file [simp]: "SecretRef_Scheme (secretRefSchemeFile @ name) = ''file''"
  by (simp add: SecretRef_Scheme_def secretRefSchemeFile_def has_prefix_def)

lemma scheme_rest:
  "SecretRef_Scheme (secretRefSchemeEnv @ name) @ ''://'' @ n = secretRefSchemeEnv @ n"
  "SecretRef_Scheme (secretRefSchemeFile @ name) @ ''://'' @ n = secretRefSchemeFile @ n"
  by (simp_all only: scheme_env scheme_file)
    (simp_all add: secretRefSchemeEnv_def secretRefSchemeFile_def)

lemma resolve_env [simp]:
  "SecretRef_Resolve getenv readfile (secretRefSchemeEnv @ name) =
     (if name = [] then Inl (Errorf [Lit ''env:// scheme requires a variable name''])
      else if getenv name = [] then
        Inl (Errorf [Lit ''environment variable '', Quo name, Lit '' is empty or not set''])
      else Inr (getenv name))"
  by (simp add: SecretRef_Resolve_def SecretRef_Validate_def Let_def)

lemma resolve_file [simp]:
  "SecretRef_Resolve getenv readfile (secretRefSchemeFile @ path) =
     (if path = [] then Inl (Errorf [Lit ''file:// scheme requires a path''])
      else (case readfile path of
              Inl err \<Rightarrow> Inl (Errorf [Lit ''reading secret file '', Quo path, Lit '': '', Wrap err])
            | Inr data \<Rightarrow> if trim_space data = [] then
                 Inl (Errorf [Lit ''secret file '', Quo path, Lit '' is empty''])
               else Inr (trim_space data)))"
proof -
  have "\<not> has_prefix (secretRefSchemeFile @ path) secretRefSchemeEnv"
    using prefixes_exclude [of "secretRefSchemeFile @ path"] by auto
  then show ?thesis
    by (simp add: SecretRef_Resolve_def SecretRef_Validate_def Let_def split: sum.split)
qed

section \<open>Properties\<close>

text \<open>
  The references that validate are those of the form scheme, \<open>://\<close>, non-empty rest,
  where the scheme, as \<open>Scheme\<close> reports it, is \<open>env\<close> or \<open>file\<close>; so validation and
  \<open>Scheme\<close>, which parse the string separately, agree.
\<close>

theorem secret_ref_valid_iff:
  "SecretRef_Validate s = None \<longleftrightarrow>
     SecretRef_Scheme s \<in> {''env'', ''file''} \<and>
     (\<exists>name. name \<noteq> [] \<and> s = SecretRef_Scheme s @ ''://'' @ name)"
proof
  assume "SecretRef_Validate s = None"
  then obtain name where "name \<noteq> []" "s = secretRefSchemeEnv @ name \<or> s = secretRefSchemeFile @ name"
    by (auto simp: secret_validate_iff)
  then show "SecretRef_Scheme s \<in> {''env'', ''file''} \<and>
     (\<exists>name. name \<noteq> [] \<and> s = SecretRef_Scheme s @ ''://'' @ name)"
    using scheme_env [of name] scheme_file [of name]
    by (auto simp: secretRefSchemeEnv_def secretRefSchemeFile_def)
next
  assume "SecretRef_Scheme s \<in> {''env'', ''file''} \<and>
     (\<exists>name. name \<noteq> [] \<and> s = SecretRef_Scheme s @ ''://'' @ name)"
  then obtain name where "SecretRef_Scheme s \<in> {''env'', ''file''}" "name \<noteq> []"
    "s = SecretRef_Scheme s @ ''://'' @ name"
    by blast
  then have "s = secretRefSchemeEnv @ name \<or> s = secretRefSchemeFile @ name"
    by (auto simp: secretRefSchemeEnv_def secretRefSchemeFile_def)
  with \<open>name \<noteq> []\<close> show "SecretRef_Validate s = None" by (auto simp: secret_validate_iff)
qed

text \<open>
  C40. What a reference resolves to: the value of the variable, if that is not empty, or the
  trimmed contents of the file, if that is not empty, and nothing else in any other case. A
  value from a file starts and ends with no white space.
\<close>

theorem secret_resolve_iff:
  "(SecretRef_Resolve getenv readfile s = Inr v \<longleftrightarrow>
     v \<noteq> [] \<and> SecretRef_Validate s = None \<and>
     (\<exists>name. s = SecretRef_Scheme s @ ''://'' @ name \<and>
        (if SecretRef_Scheme s = ''env'' then v = getenv name
         else \<exists>data. readfile name = Inr data \<and> v = trim_space data \<and>
           space_at space_seqs v = None \<and> space_at (map rev space_seqs) (rev v) = None)))"
proof (cases "SecretRef_Validate s")
  case None
  then obtain name where name: "name \<noteq> []"
    and "s = secretRefSchemeEnv @ name \<or> s = secretRefSchemeFile @ name"
    by (auto simp: secret_validate_iff)
  then consider "s = secretRefSchemeEnv @ name" | "s = secretRefSchemeFile @ name" by blast
  then show ?thesis
  proof cases
    case 1
    have rest: "s = SecretRef_Scheme s @ ''://'' @ n \<longleftrightarrow> n = name" for n
      unfolding 1 scheme_rest by auto
    have "SecretRef_Scheme s = ''env''" unfolding 1 by (rule scheme_env)
    moreover have "SecretRef_Resolve getenv readfile s = Inr v \<longleftrightarrow> v \<noteq> [] \<and> v = getenv name"
      unfolding 1 resolve_env using name by auto
    ultimately show ?thesis unfolding rest using None by simp
  next
    case 2
    have rest: "s = SecretRef_Scheme s @ ''://'' @ n \<longleftrightarrow> n = name" for n
      unfolding 2 scheme_rest by auto
    have "SecretRef_Scheme s = ''file''" unfolding 2 by (rule scheme_file)
    moreover have "SecretRef_Resolve getenv readfile s = Inr v \<longleftrightarrow>
        v \<noteq> [] \<and> (\<exists>data. readfile name = Inr data \<and> v = trim_space data)"
      unfolding 2 resolve_file using name by (cases "readfile name") auto
    ultimately show ?thesis
      unfolding rest using None trim_space_first trim_space_last by auto
  qed
next
  case (Some err)
  then show ?thesis by (simp add: SecretRef_Resolve_def)
qed

end
