(* ===== verification/Echo_Example.thy ===== *)
theory Echo_Example
  imports Provider_Server
begin

text \<open>
  The example provider plugin \<open>examples/echo/main.go\<close>. It keeps no state. The version
  \<open>semver.MustParse("1.0.0")\<close> is a parameter \<open>v1\<close>. \<open>strings.ToUpper\<close> is exact on ASCII; its
  action on a string with other bytes is the parameter \<open>upper\<close>.
\<close>

definition upper_byte :: "char \<Rightarrow> char" where
  "upper_byte c = (if CHR ''a'' \<le> c \<and> c \<le> CHR ''z'' then char_of (of_char c - 32 :: nat) else c)"

definition is_ascii :: "string \<Rightarrow> bool" where
  "is_ascii s \<longleftrightarrow> list_all (\<lambda>c. (of_char c :: nat) < 128) s"

definition to_upper :: "(string \<Rightarrow> string) \<Rightarrow> string \<Rightarrow> string" where
  "to_upper upper s = (if is_ascii s then map upper_byte s else upper s)"

definition echo_GetProviders :: "string list" where
  "echo_GetProviders = [''echo'']"

definition echo_operation :: OperationDescriptor where
  "echo_operation =
     \<lparr>op_Name = ''echo'', op_DisplayName = ''Echo'',
      op_Description = ''Returns the input message, optionally uppercased'',
      op_Capabilities = [CapabilityTransform], op_IsWrite = False,
      op_InputSchema = Some (ObjectSchema [''message'']
        (Some [(''message'', Some (StringProp ''The message to echo'' [])),
               (''uppercase'', Some (BoolProp ''Whether to convert the message to uppercase'' []))])),
      op_OutputSchema = Some (Schema (zero_core\<lparr>sc_Type := ''object''\<rparr>)
        (Some [(''echoed'', Some (StringProp ''The echoed message'' []))]) None None),
      op_Examples = [], op_Tags = [''utility'', ''demo''], op_IsDeprecated = False,
      op_DeprecationMessage = ''''\<rparr>"

definition echo_schema :: "json_lib \<Rightarrow> schema" where
  "echo_schema J = ObjectSchema [''message'']
     (Some [(''message'', Some (StringProp ''The message to echo''
               [WithExample [VStr ''Hello, World!''], WithMaxLength 1000])),
            (''uppercase'', Some (BoolProp ''Whether to convert the message to uppercase''
               [WithDefault J (VRaw ''false'')]))])"

text \<open>\<open>schemas[c].Properties[name] = prop\<close>, where the schema and its map are not nil.\<close>

definition set_property :: "string \<Rightarrow> schema \<Rightarrow> schema \<Rightarrow> schema" where
  "set_property name prop s =
     Schema (schema_core s) (Some (gm_put name (Some prop) (gm_of (Properties s)))) (Items s)
       (AdditionalProperties s)"

definition echo_output_schemas :: "(capability, schema option) gomap" where
  "echo_output_schemas =
     (let schemas = DefaultOutputSchemas [CapabilityTransform] in
      case gm_get schemas CapabilityTransform of
        Some (Some s) \<Rightarrow>
          gm_put CapabilityTransform (Some (set_property ''echoed'' (StringProp ''The echoed message'' []) s)) schemas
      | _ \<Rightarrow> schemas)"

definition echo_descriptor :: "json_lib \<Rightarrow> 'v \<Rightarrow> 'v Descriptor" where
  "echo_descriptor J v1 =
     \<lparr>d_Name = ''echo'', d_DisplayName = ''Echo Provider'', d_APIVersion = ''v1'', d_Version = Some v1,
      d_Description = ''A simple provider that echoes its input'',
      d_Schema = Some (echo_schema J), d_OutputSchemas = Some echo_output_schemas,
      d_SensitiveFields = [], d_Decode = None, d_ExtractDependencies = None, d_WhatIf = None,
      d_Capabilities = [CapabilityTransform], d_WriteOperations = None,
      d_Operations = [echo_operation], d_Category = ''utility'', d_Tags = [], d_Icon = '''',
      d_Links = [], d_Examples = [], d_IsDeprecated = False, d_Beta = False, d_Maintainers = []\<rparr>"

definition unknown_provider :: "string \<Rightarrow> goerror" where
  "unknown_provider name = Errorf [Lit ''unknown provider: '', Str name]"

definition echo_GetProviderDescriptor :: "json_lib \<Rightarrow> 'v \<Rightarrow> string \<Rightarrow> goerror + 'v Descriptor option" where
  "echo_GetProviderDescriptor J v1 name =
     (if name \<noteq> ''echo'' then Inl (unknown_provider name) else Inr (Some (echo_descriptor J v1)))"

definition echo_ExecuteProvider ::
  "(string \<Rightarrow> string) \<Rightarrow> string \<Rightarrow> goval strmap option \<Rightarrow> goerror + Output option" where
  "echo_ExecuteProvider upper name input =
     (if name \<noteq> ''echo'' then Inl (unknown_provider name)
      else (case as_string (index_any input ''message'') of
              None \<Rightarrow> Inl (Errorf [Lit ''message must be a string''])
            | Some message \<Rightarrow>
                (let uppercase = (case as_bool (index_any input ''uppercase'') of None \<Rightarrow> False | Some b \<Rightarrow> b);
                     result = (if uppercase then to_upper upper message else message)
                 in Inr (Some \<lparr>out_Data = VMap (Some [(''echoed'', VStr result)]), out_Warnings = [],
                               out_Metadata = None, out_Streamed = False\<rparr>))))"

definition echo_DescribeWhatIf :: "string \<Rightarrow> goval strmap option \<Rightarrow> goerror + string" where
  "echo_DescribeWhatIf name input =
     (if name \<noteq> ''echo'' then Inl (unknown_provider name)
      else (let message = (case as_string (index_any input ''message'') of None \<Rightarrow> '''' | Some m \<Rightarrow> m)
            in if message \<noteq> '''' then Inr (''Would echo '' @ go_quote message)
               else Inr ''Would echo message''))"

definition EchoPlugin :: "(string \<Rightarrow> string) \<Rightarrow> json_lib \<Rightarrow> 'v \<Rightarrow> (unit, 'v) ProviderPlugin" where
  "EchoPlugin upper J v1 =
     \<lparr>pp_GetProviders = (\<lambda>c s. (Inr echo_GetProviders, s)),
      pp_GetProviderDescriptor = (\<lambda>c name s. (echo_GetProviderDescriptor J v1 name, s)),
      pp_ConfigureProvider = (\<lambda>c name cfg s. (None, s)),
      pp_ExecuteProvider = (\<lambda>c name input s. (echo_ExecuteProvider upper name input, s)),
      pp_ExecuteProviderStream = (\<lambda>c name input s. (([], Some ErrStreamingNotSupported), s)),
      pp_DescribeWhatIf = (\<lambda>c name input s. (echo_DescribeWhatIf name input, s)),
      pp_ExtractDependencies = (\<lambda>c name inputs s. (Inr [], s)),
      pp_StopProvider = (\<lambda>c name s. (None, s))\<rparr>"

section \<open>The descriptor\<close>

lemma echo_output_get:
  "gm_get echo_output_schemas CapabilityTransform =
     Some (Some (set_property ''echoed'' (StringProp ''The echoed message'' [])
       (defaultSchemaForCapability CapabilityTransform)))"
  by (simp add: echo_output_schemas_def dict_simps Let_def)

lemma no_required_transform: "getCapabilityRequiredFields CapabilityTransform = None"
  by (simp add: getCapabilityRequiredFields_def capability_defs)

lemma echo_valid: "valid_descriptor (echo_descriptor J v1)"
  by (simp add: valid_descriptor_def echo_descriptor_def valid_output_def echo_output_get
      no_required_transform IsValid_def valid_write_ops_def valid_operations_def valid_operation_def
      echo_operation_def)

lemma echo_output_schemas_eq:
  "echo_output_schemas = [(CapabilityTransform, Some (set_property ''echoed''
     (StringProp ''The echoed message'' []) (defaultSchemaForCapability CapabilityTransform)))]"
  by (simp add: echo_output_schemas_def DefaultOutputSchemas_def Let_def)

lemma echo_sendable: "sendable (Some (echo_descriptor J v1))"
  by (simp add: sendable_def echo_descriptor_def echo_output_schemas_eq no_nil_props_def echo_schema_def
      set_property_def defaultSchemaForCapability_def no_required_transform)

text \<open>
  The example provider is correct against the SDK: its descriptor passes validation and
  is safe to send, so the descriptor call on a server that runs it returns, for any JSON
  library and any version.
\<close>

theorem echo_descriptor_accepted:
  "ValidateDescriptor (Some (echo_descriptor J v1)) = None \<and>
   GRPCServer_GetProviderDescriptor J sv_string c ''echo''
     (new_GRPCServer (EchoPlugin upper J v1) () broker) \<noteq> Panic"
proof -
  have "GRPCServer_GetProviderDescriptor J sv_string c ''echo''
      (new_GRPCServer (EchoPlugin upper J v1) () broker) = Panic \<longleftrightarrow> False"
    using descriptorToProto_Panic [of J sv_string "Some (echo_descriptor J v1)"] echo_sendable [of J v1]
    by (cases "descriptorToProto J sv_string (Some (echo_descriptor J v1))")
      (simp_all add: GRPCServer_GetProviderDescriptor_def new_GRPCServer_def EchoPlugin_def
        echo_GetProviderDescriptor_def)
  with echo_valid [of J v1] show ?thesis by (simp add: validate_iff)
qed

text \<open>
  Executing the example returns the message unchanged, or in upper case when asked: for an
  ASCII message the output has its length, no lower-case letter, and every other character as
  it was. Anything but a string as message is an error, and so is another provider's name.
\<close>

theorem echo_execute:
  "(case echo_ExecuteProvider upper name input of
      Inl e \<Rightarrow> \<not> (name = ''echo'' \<and> as_string (index_any input ''message'') \<noteq> None)
    | Inr out \<Rightarrow> name = ''echo'' \<and>
        (\<exists>m r. as_string (index_any input ''message'') = Some m \<and>
           map_option out_Data out = Some (VMap (Some [(''echoed'', VStr r)])) \<and>
           (if as_bool (index_any input ''uppercase'') = Some True \<and> is_ascii m
            then length r = length m \<and> list_all (\<lambda>c. c < CHR ''a'' \<or> CHR ''z'' < c) r \<and>
              list_all (\<lambda>(c, c'). c = c' \<or> CHR ''a'' \<le> c \<and> c \<le> CHR ''z'') (zip m r)
            else if as_bool (index_any input ''uppercase'') = Some True then r = upper m
            else r = m)))"
proof -
  have up: "upper_byte c < CHR ''a'' \<or> CHR ''z'' < upper_byte c" for c
    by (cases "CHR ''a'' \<le> c \<and> c \<le> CHR ''z''") (auto simp: upper_byte_def less_char_def less_eq_char_def not_le)
  have same: "c = upper_byte c \<or> CHR ''a'' \<le> c \<and> c \<le> CHR ''z''" for c
    by (auto simp: upper_byte_def)
  have "list_all (\<lambda>(c, c'). c = c' \<or> CHR ''a'' \<le> c \<and> c \<le> CHR ''z'') (zip m (map upper_byte m))" for m
    by (induction m) (use same in auto)
  with up have upper: "length (map upper_byte m) = length m"
    "list_all (\<lambda>c. c < CHR ''a'' \<or> CHR ''z'' < c) (map upper_byte m)"
    "list_all (\<lambda>(c, c'). c = c' \<or> CHR ''a'' \<le> c \<and> c \<le> CHR ''z'') (zip m (map upper_byte m))" for m
    by (simp_all add: list_all_iff)
  show ?thesis
  proof (cases "name = ''echo'' \<and> as_string (index_any input ''message'') \<noteq> None")
    case False
    then show ?thesis by (auto simp: echo_ExecuteProvider_def split: option.split)
  next
    case True
    then obtain m where m: "name = ''echo''" "as_string (index_any input ''message'') = Some m" by auto
    show ?thesis
    proof (cases "as_bool (index_any input ''uppercase'') = Some True")
      case False
      then have "(case as_bool (index_any input ''uppercase'') of None \<Rightarrow> False | Some b \<Rightarrow> b) = False"
        by (cases "as_bool (index_any input ''uppercase'')") auto
      with False m show ?thesis by (simp add: echo_ExecuteProvider_def)
    next
      case True
      with m upper [of m] show ?thesis
        by (cases "is_ascii m") (simp_all add: echo_ExecuteProvider_def to_upper_def)
    qed
  qed
qed

end
