(* ===== verification/Settings_Store.thy ===== *)
theory Settings_Store
  imports Provider_Server
begin

text \<open>
  Who can write to the settings of a provider (\<open>ConfigureProvider\<close> and \<open>withSettings\<close> in
  \<open>plugin/grpc_server.go\<close>).

  A \<open>json.RawMessage\<close> is a slice: copying the map that holds it shares its bytes. Here the
  byte buffers live on a heap, a list indexed by address, and the settings maps hold
  addresses. gRPC decodes each request into new buffers. The server passes buffers to the
  plugin in two ways: the merged settings of an execution, which \<open>withSettings\<close> clones, and
  \<open>cfg.Settings\<close> of ConfigureProvider, whose map is copied but whose buffers are not.
  A plugin may write to any buffer it was given, at any later time.

  The theory shows that the values of \<open>Provider_Server\<close> are right as long as plugins write
  only to the settings of executions, and that a write to \<open>cfg.Settings\<close> breaks them.
\<close>

section \<open>Byte buffers\<close>

type_synonym addr = nat
type_synonym heap = "bytes list"

definition buf_alloc :: "bytes \<Rightarrow> heap \<Rightarrow> addr \<times> heap" where
  "buf_alloc b h = (length h, h @ [b])"

text \<open>\<open>bytes.Clone\<close>.\<close>

definition buf_clone :: "addr \<Rightarrow> heap \<Rightarrow> addr \<times> heap" where
  "buf_clone a h = buf_alloc (h ! a) h"

text \<open>\<open>s[i] = c\<close>. Out of range Go panics and writes nothing.\<close>

definition buf_write :: "addr \<Rightarrow> nat \<Rightarrow> char \<Rightarrow> heap \<Rightarrow> heap" where
  "buf_write a i c h = (if i < length (h ! a) then h[a := (h ! a)[i := c]] else h)"

text \<open>The values of a map of slices.\<close>

definition view :: "heap \<Rightarrow> addr strmap \<Rightarrow> bytes strmap" where
  "view h m = map (\<lambda>(k, a). (k, h ! a)) m"

text \<open>A decoded request: a buffer of its own for each value.\<close>

fun load_settings :: "bytes strmap \<Rightarrow> heap \<Rightarrow> addr strmap \<times> heap" where
  "load_settings [] h = ([], h)"
| "load_settings ((k, b) # m) h =
     (case buf_alloc b h of (a, h1) \<Rightarrow>
      case load_settings m h1 of (r, h2) \<Rightarrow> ((k, a) # r, h2))"

text \<open>\<open>for k, v := range src { dst[k] = bytes.Clone(v) }\<close>\<close>

fun clone_into :: "addr strmap \<Rightarrow> addr strmap \<Rightarrow> heap \<Rightarrow> addr strmap \<times> heap" where
  "clone_into [] dst h = (dst, h)"
| "clone_into ((k, a) # src) dst h =
     (case buf_clone a h of (a', h1) \<Rightarrow> clone_into src (gm_put k a' dst) h1)"

section \<open>The server's settings on the heap\<close>

text \<open>
  \<open>ss_lent\<close> lists the buffers handed to executions, \<open>ss_given\<close> those handed out as
  \<open>cfg.Settings\<close>.
\<close>

record settings_store =
  ss_heap :: heap
  ss_configured :: "addr strmap strmap option"
  ss_lent :: "addr list"
  ss_given :: "addr list"

definition new_settings_store :: settings_store where
  "new_settings_store = \<lparr>ss_heap = [], ss_configured = None, ss_lent = [], ss_given = []\<rparr>"

definition configured_refs :: "settings_store \<Rightarrow> string \<Rightarrow> addr strmap" where
  "configured_refs st name =
     (case gm_get (gm_of (ss_configured st)) name of None \<Rightarrow> [] | Some m \<Rightarrow> m)"

definition heap_configure :: "string \<Rightarrow> addr strmap \<Rightarrow> settings_store \<Rightarrow> settings_store" where
  "heap_configure name req st =
     (let settings = gm_copy (\<lambda>v. v) req [];
          stored = gm_copy (\<lambda>v. v) settings []
      in st\<lparr>ss_configured := Some (gm_put name stored (gm_of (ss_configured st))),
            ss_given := map snd settings @ ss_given st\<rparr>)"

definition heap_withSettings ::
  "string \<Rightarrow> addr strmap \<Rightarrow> settings_store \<Rightarrow> addr strmap option \<times> settings_store" where
  "heap_withSettings name execute st =
     (let configure = configured_refs st name in
      if configure = [] \<and> execute = [] then (None, st)
      else (case clone_into configure [] (ss_heap st) of (merged, h1) \<Rightarrow>
            case clone_into execute merged h1 of (merged, h2) \<Rightarrow>
              (Some merged, st\<lparr>ss_heap := h2, ss_lent := map snd merged @ ss_lent st\<rparr>)))"

text \<open>The two calls, from the bytes of their requests.\<close>

definition settings_configured :: "string \<Rightarrow> bytes strmap \<Rightarrow> settings_store \<Rightarrow> settings_store" where
  "settings_configured name req st =
     (case load_settings req (ss_heap st) of (refs, h) \<Rightarrow>
        heap_configure name refs (st\<lparr>ss_heap := h\<rparr>))"

definition settings_executed ::
  "string \<Rightarrow> bytes strmap \<Rightarrow> settings_store \<Rightarrow> addr strmap option \<times> settings_store" where
  "settings_executed name req st =
     (case load_settings req (ss_heap st) of (refs, h) \<Rightarrow>
        heap_withSettings name refs (st\<lparr>ss_heap := h\<rparr>))"

text \<open>A plugin writes to the n-th buffer it was lent, or given.\<close>

definition lent_write :: "nat \<Rightarrow> nat \<Rightarrow> char \<Rightarrow> settings_store \<Rightarrow> settings_store" where
  "lent_write n i c st =
     (if n < length (ss_lent st) then st\<lparr>ss_heap := buf_write (ss_lent st ! n) i c (ss_heap st)\<rparr> else st)"

definition given_write :: "nat \<Rightarrow> nat \<Rightarrow> char \<Rightarrow> settings_store \<Rightarrow> settings_store" where
  "given_write n i c st =
     (if n < length (ss_given st) then st\<lparr>ss_heap := buf_write (ss_given st ! n) i c (ss_heap st)\<rparr> else st)"

datatype settings_event =
    Configured string "bytes strmap"
  | Executed string "bytes strmap"
  | Wrote nat nat char            \<comment> \<open>to a buffer lent to an execution\<close>

fun settings_run :: "settings_event \<Rightarrow> settings_store \<Rightarrow> settings_store" where
  "settings_run (Configured name req) st = settings_configured name req st"
| "settings_run (Executed name req) st = snd (settings_executed name req st)"
| "settings_run (Wrote n i c) st = lent_write n i c st"

text \<open>What the history means: the last settings configured for each provider.\<close>

fun last_settings :: "settings_event \<Rightarrow> (string \<Rightarrow> bytes strmap) \<Rightarrow> string \<Rightarrow> bytes strmap" where
  "last_settings (Configured name req) f = f(name := req)"
| "last_settings (Executed name req) f = f"
| "last_settings (Wrote n i c) f = f"

fun event_wf :: "settings_event \<Rightarrow> bool" where
  "event_wf (Configured name req) \<longleftrightarrow> gm_wf req"
| "event_wf (Executed name req) \<longleftrightarrow> gm_wf req"
| "event_wf (Wrote n i c) \<longleftrightarrow> True"

section \<open>Views\<close>

definition within :: "heap \<Rightarrow> addr strmap \<Rightarrow> bool" where
  "within h m \<longleftrightarrow> list_all (\<lambda>e. snd e < length h) m"

lemma view_Nil [simp]: "view h [] = []"
  by (simp add: view_def)

lemma view_eq_Nil [simp]: "view h m = [] \<longleftrightarrow> m = []"
  by (simp add: view_def)

lemma view_Cons [simp]: "view h ((k, a) # m) = (k, h ! a) # view h m"
  by (simp add: view_def)

lemma view_put: "view h (gm_put k a m) = gm_put k (h ! a) (view h m)"
  by (induction m) auto

lemma view_append [simp]: "within h m \<Longrightarrow> view (h @ d) m = view h m"
  by (induction m) (auto simp: within_def nth_append)

lemma within_append: "within h m \<Longrightarrow> within (h @ d) m"
  by (auto simp: within_def list_all_iff)

lemma set_gm_put: "set (gm_put k a m) \<subseteq> insert (k, a) (set m)"
proof (induction m)
  case (Cons e m)
  then show ?case by (cases e) (auto split: if_splits)
qed simp

lemma distinct_put: "distinct (map snd m) \<Longrightarrow> a \<notin> snd ` set m \<Longrightarrow> distinct (map snd (gm_put k a m))"
proof (induction m)
  case (Cons e m)
  then show ?case using set_gm_put [of k a m] by (cases e) (auto simp: image_iff)
qed simp

lemma gm_wf_view [simp]: "gm_wf (view h m) = gm_wf m"
  by (simp add: gm_wf_def view_def comp_def case_prod_beta)

lemma view_write: "a \<notin> snd ` set m \<Longrightarrow> view (buf_write a i c h) m = view h m"
  by (induction m) (auto simp: buf_write_def nth_list_update)

lemma length_write [simp]: "length (buf_write a i c h) = length h"
  by (simp add: buf_write_def)

lemma load_settings_result:
  "load_settings m h = (r, h') \<Longrightarrow>
     \<exists>d. h' = h @ d \<and> view h' r = m \<and> within h' r \<and> list_all (\<lambda>e. length h \<le> snd e) r"
proof (induction m h arbitrary: r h' rule: load_settings.induct)
  case (2 k b m h)
  obtain r1 where r1: "load_settings m (h @ [b]) = (r1, h')" and r: "r = (k, length h) # r1"
    using 2(2) by (auto simp: buf_alloc_def split: prod.splits)
  from 2(1) [of "length h" "h @ [b]", OF _ r1] obtain d where
    d: "h' = (h @ [b]) @ d" "view h' r1 = m" "within h' r1" "list_all (\<lambda>e. length (h @ [b]) \<le> snd e) r1"
    by (auto simp: buf_alloc_def)
  then have "list_all (\<lambda>e. length h \<le> snd e) r1" by (auto simp: list_all_iff)
  with d r show ?case by (auto simp: within_def nth_append)
qed (simp add: within_def)

text \<open>Cloning: the values are copied, the old heap is a prefix of the new, the buffers are new.\<close>

lemma clone_into_result:
  "clone_into src dst h = (r, h') \<Longrightarrow> within h src \<Longrightarrow> within h dst \<Longrightarrow> distinct (map snd dst) \<Longrightarrow>
     distinct (map snd r) \<and> (\<exists>d. h' = h @ d \<and> within h' r \<and> view h' r = gm_copy (\<lambda>v. v) (view h src) (view h dst) \<and>
       (\<forall>a \<in> snd ` set r. a \<in> snd ` set dst \<or> length h \<le> a))"
proof (induction src dst h arbitrary: r h' rule: clone_into.induct)
  case (2 k a src dst h)
  let ?h = "h @ [h ! a]" and ?dst = "gm_put k (length h) dst"
  have run: "clone_into src ?dst ?h = (r, h')"
    using 2(2) by (simp add: buf_clone_def buf_alloc_def)
  have src: "within h src" and w: "within ?h src" "within ?h ?dst"
    using 2(3,4) by (auto simp: within_def list_all_iff less_SucI dest!: subsetD [OF set_gm_put])
  have "length h \<notin> snd ` set dst" using 2(4) by (auto simp: within_def list_all_iff)
  then have dist: "distinct (map snd ?dst)" using 2(5) by (simp add: distinct_put)
  from 2(1) [of "length h" ?h, OF _ run w dist] obtain d where dr: "distinct (map snd r)"
    and d: "h' = ?h @ d" "within h' r"
    "view h' r = gm_copy (\<lambda>v. v) (view ?h src) (view ?h ?dst)"
    "\<forall>x \<in> snd ` set r. x \<in> snd ` set ?dst \<or> length ?h \<le> x"
    by (auto simp: buf_clone_def buf_alloc_def)
  have "view ?h ?dst = gm_put k (h ! a) (view h dst)"
    using 2(4) by (simp add: view_put)
  moreover have "\<forall>x \<in> snd ` set r. x \<in> snd ` set dst \<or> length h \<le> x"
    using d(4) set_gm_put [of k "length h" dst] by fastforce
  ultimately show ?case using d dr src by (auto intro!: exI [of _ "h ! a # d"])
qed simp

section \<open>The invariant\<close>

text \<open>
  Each stored map has distinct keys and buffers of the heap, none of which was lent to an
  execution; the lent buffers are distinct.
\<close>

definition refs_ok :: "settings_store \<Rightarrow> addr strmap \<Rightarrow> bool" where
  "refs_ok st m \<longleftrightarrow> gm_wf m \<and> within (ss_heap st) m \<and> set (map snd m) \<inter> set (ss_lent st) = {}"

definition settings_ok :: "settings_store \<Rightarrow> bool" where
  "settings_ok st \<longleftrightarrow>
     (\<forall>name. refs_ok st (configured_refs st name)) \<and>
     distinct (ss_lent st) \<and> list_all (\<lambda>a. a < length (ss_heap st)) (ss_lent st)"

definition configured_view :: "settings_store \<Rightarrow> string \<Rightarrow> bytes strmap" where
  "configured_view st name = view (ss_heap st) (configured_refs st name)"

lemma settings_ok_new: "settings_ok new_settings_store"
  by (simp add: settings_ok_def refs_ok_def configured_refs_def new_settings_store_def within_def)

lemma configured_put:
  "configured_refs (heap_configure name req st) n =
     (if n = name then gm_copy (\<lambda>v. v) (gm_copy (\<lambda>v. v) req []) [] else configured_refs st n)"
  by (simp add: configured_refs_def heap_configure_def Let_def gm.get_put)

lemma configured_ok:
  assumes ok: "settings_ok st" and wf: "gm_wf req"
  shows "settings_ok (settings_configured name req st) \<and>
    configured_view (settings_configured name req st) = (configured_view st)(name := req)"
proof -
  obtain refs h where load: "load_settings req (ss_heap st) = (refs, h)"
    by (cases "load_settings req (ss_heap st)")
  then obtain d where d: "h = ss_heap st @ d" "view h refs = req" "within h refs"
    "list_all (\<lambda>e. length (ss_heap st) \<le> snd e) refs"
    using load_settings_result by blast
  let ?st = "heap_configure name refs (st\<lparr>ss_heap := h\<rparr>)"
  have wfr: "gm_wf refs" using wf d(2) gm_wf_view [of h refs] by simp
  have old: "configured_refs (st\<lparr>ss_heap := h\<rparr>) n = configured_refs st n" for n
    by (simp add: configured_refs_def)
  have sel: "ss_heap ?st = h" "ss_lent ?st = ss_lent st"
    by (simp_all add: heap_configure_def Let_def)
  have refs: "configured_refs ?st n = (if n = name then refs else configured_refs st n)" for n
    by (simp add: configured_put gm_copy_id wfr old)
  have fresh: "set (map snd refs) \<inter> set (ss_lent st) = {}"
    using d(4) ok by (force simp: settings_ok_def list_all_iff)
  have keep: "refs_ok st (configured_refs st n)" for n using ok by (simp add: settings_ok_def)
  have "refs_ok ?st (configured_refs ?st n)" for n
    using keep [of n] fresh d(3) wfr unfolding refs_ok_def refs sel
    by (cases "n = name") (simp_all add: d(1) within_append)
  moreover have "list_all (\<lambda>a. a < length h) (ss_lent st)"
    using ok by (auto simp: settings_ok_def d(1) list_all_iff)
  ultimately have "settings_ok ?st"
    using ok unfolding settings_ok_def sel by simp
  moreover have "configured_view ?st = (configured_view st)(name := req)"
  proof
    fix n
    have "within (ss_heap st) (configured_refs st n)" using keep by (simp add: refs_ok_def)
    then have "view h (configured_refs st n) = configured_view st n"
      by (simp add: configured_view_def d(1))
    then show "configured_view ?st n = ((configured_view st)(name := req)) n"
      unfolding configured_view_def refs sel using d(2) by (simp add: configured_view_def)
  qed
  ultimately show ?thesis by (simp add: settings_configured_def load)
qed

text \<open>Both copies of \<open>withSettings\<close>: the merged values, in distinct new buffers.\<close>

lemma merge_result:
  assumes w: "within h a" "within h b"
    and c1: "clone_into a [] h = (m1, h1)" and c2: "clone_into b m1 h1 = (m2, h2)"
  shows "\<exists>d. h2 = h @ d \<and> distinct (map snd m2) \<and>
    list_all (\<lambda>x. length h \<le> x \<and> x < length h2) (map snd m2) \<and>
    view h2 m2 = gm_copy (\<lambda>v. v) (view h b) (gm_copy (\<lambda>v. v) (view h a) [])"
proof -
  from clone_into_result [OF c1 w(1)] obtain d1 where d1: "h1 = h @ d1" "within h1 m1"
    "view h1 m1 = gm_copy (\<lambda>v. v) (view h a) []" "distinct (map snd m1)"
    "\<forall>x \<in> snd ` set m1. length h \<le> x"
    by (auto simp: within_def)
  have b: "within h1 b" "view h1 b = view h b" using w(2) d1(1) by (simp_all add: within_append)
  from clone_into_result [OF c2 b(1) d1(2,4)] obtain d2 where d2: "h2 = h1 @ d2" "within h2 m2"
    "view h2 m2 = gm_copy (\<lambda>v. v) (view h1 b) (view h1 m1)" "distinct (map snd m2)"
    "\<forall>x \<in> snd ` set m2. x \<in> snd ` set m1 \<or> length h1 \<le> x"
    by blast
  have "\<forall>x \<in> snd ` set m2. length h \<le> x" using d2(5) d1(1,5) by fastforce
  with d2(2) have "list_all (\<lambda>x. length h \<le> x \<and> x < length h2) (map snd m2)"
    by (auto simp: within_def list_all_iff)
  with d1 d2 b show ?thesis by simp
qed

text \<open>Lending new buffers leaves what is stored alone.\<close>

lemma lent_ok:
  assumes ok: "settings_ok st" and l: "distinct l"
    "list_all (\<lambda>x. length (ss_heap st) \<le> x \<and> x < length (ss_heap st @ d)) l"
    and st': "st' = st\<lparr>ss_heap := ss_heap st @ d, ss_lent := l @ ss_lent st\<rparr>"
  shows "settings_ok st'" and "configured_view st' = configured_view st"
    and "set l \<inter> set (ss_lent st) = {}" and "set l \<inter> set (map snd (configured_refs st' n)) = {}"
proof -
  have same: "configured_refs st' n = configured_refs st n" for n
    by (simp add: st' configured_refs_def)
  have stored: "refs_ok st (configured_refs st n)" for n using ok by (simp add: settings_ok_def)
  show apart: "set l \<inter> set (map snd (configured_refs st' n)) = {}" for n
    using stored [of n] l(2) unfolding same by (fastforce simp: refs_ok_def within_def list_all_iff)
  show lent: "set l \<inter> set (ss_lent st) = {}"
    using ok l(2) by (fastforce simp: settings_ok_def list_all_iff)
  show "configured_view st' = configured_view st"
    using stored by (simp add: fun_eq_iff configured_view_def same) (simp add: st' refs_ok_def)
  have "refs_ok st' (configured_refs st' n)" for n
    using stored [of n] apart [of n] unfolding same by (auto simp: refs_ok_def st' within_append)
  moreover have "list_all (\<lambda>x. x < length (ss_heap st')) (ss_lent st')"
    using ok l(2) by (auto simp: settings_ok_def st' list_all_iff)
  moreover have "distinct (ss_lent st')" using ok l(1) lent by (simp add: settings_ok_def st')
  ultimately show "settings_ok st'" by (simp add: settings_ok_def)
qed

text \<open>An execution gets copies of the merged values, in buffers that nothing else holds.\<close>

lemma executed_ok:
  assumes ok: "settings_ok st" and wf: "gm_wf req"
    and run: "settings_executed name req st = (m, st')"
  shows "settings_ok st' \<and> configured_view st' = configured_view st \<and>
    (case m of
       None \<Rightarrow> configured_view st name = [] \<and> req = []
     | Some r \<Rightarrow> (configured_view st name \<noteq> [] \<or> req \<noteq> []) \<and>
         view (ss_heap st') r = gm_copy (\<lambda>v. v) req (gm_copy (\<lambda>v. v) (configured_view st name) []) \<and>
         distinct (map snd r) \<and> set (map snd r) \<inter> set (ss_lent st) = {} \<and>
         (\<forall>n. set (map snd r) \<inter> set (map snd (configured_refs st' n)) = {}))"
proof -
  obtain refs h where load: "load_settings req (ss_heap st) = (refs, h)"
    by (cases "load_settings req (ss_heap st)")
  then obtain d where d: "h = ss_heap st @ d" "view h refs = req" "within h refs"
    using load_settings_result by blast
  have same: "configured_refs (st\<lparr>ss_heap := x\<rparr>) name = configured_refs st name" for x
    by (simp add: configured_refs_def)
  have "within (ss_heap st) (configured_refs st name)"
    using ok by (simp add: settings_ok_def refs_ok_def)
  then have stored: "within h (configured_refs st name)"
    "view h (configured_refs st name) = configured_view st name"
    by (simp_all add: d(1) within_append configured_view_def)
  show ?thesis
  proof (cases "configured_refs st name = [] \<and> refs = []")
    case True
    with run load d(2) have "m = None" "st' = st\<lparr>ss_heap := h\<rparr>" "req = []"
      by (simp_all add: settings_executed_def heap_withSettings_def Let_def same)
    moreover have "st\<lparr>ss_heap := h\<rparr> = st\<lparr>ss_heap := ss_heap st @ d, ss_lent := [] @ ss_lent st\<rparr>"
      by (simp add: d(1))
    ultimately show ?thesis using lent_ok [OF ok, of "[]" d st'] True by (simp add: configured_view_def)
  next
    case False
    obtain m1 h1 where c1: "clone_into (configured_refs st name) [] h = (m1, h1)"
      by (cases "clone_into (configured_refs st name) [] h")
    obtain m2 h2 where c2: "clone_into refs m1 h1 = (m2, h2)" by (cases "clone_into refs m1 h1")
    from merge_result [OF stored(1) d(3) c1 c2] obtain d2 where d2: "h2 = h @ d2" "distinct (map snd m2)"
      "list_all (\<lambda>x. length h \<le> x \<and> x < length h2) (map snd m2)"
      "view h2 m2 = gm_copy (\<lambda>v. v) req (gm_copy (\<lambda>v. v) (configured_view st name) [])"
      by (auto simp: stored(2) d(2))
    have res: "m = Some m2" "st' = st\<lparr>ss_heap := ss_heap st @ d @ d2, ss_lent := map snd m2 @ ss_lent st\<rparr>"
      using run load False c1 c2 d(1) d2(1)
      by (auto simp: settings_executed_def heap_withSettings_def Let_def same)
    have "list_all (\<lambda>x. length (ss_heap st) \<le> x \<and> x < length (ss_heap st @ d @ d2)) (map snd m2)"
      using d2(3) by (auto simp: d(1) d2(1) list_all_iff)
    note lent_ok [OF ok d2(2) this res(2)]
    moreover have "view (ss_heap st') m2 = view h2 m2" by (simp add: res(2) d(1) d2(1))
    moreover have "configured_view st name \<noteq> [] \<or> req \<noteq> []"
      using False d(2) by (auto simp: configured_view_def)
    ultimately show ?thesis using d2(2,4) by (simp add: res(1))
  qed
qed

lemma lent_write_ok:
  assumes ok: "settings_ok st"
  shows "settings_ok (lent_write n i c st) \<and> configured_view (lent_write n i c st) = configured_view st"
proof (cases "n < length (ss_lent st)")
  case True
  then have lent: "ss_lent st ! n \<in> set (ss_lent st)" by simp
  have old: "configured_refs (st\<lparr>ss_heap := x\<rparr>) name = configured_refs st name" for name x
    by (simp add: configured_refs_def)
  have "ss_lent st ! n \<notin> snd ` set (configured_refs st name)" for name
    using ok lent by (auto simp: settings_ok_def refs_ok_def)
  with ok True show ?thesis
    by (simp add: lent_write_def settings_ok_def refs_ok_def old within_def configured_view_def
        view_write fun_eq_iff)
qed (use ok in \<open>simp add: lent_write_def\<close>)

lemma settings_run_ok:
  "settings_ok st \<Longrightarrow> event_wf e \<Longrightarrow>
     settings_ok (settings_run e st) \<and> configured_view (settings_run e st) = last_settings e (configured_view st)"
proof (cases e)
  case (Executed name req)
  assume "settings_ok st" "event_wf e"
  moreover obtain m st' where "settings_executed name req st = (m, st')"
    by (cases "settings_executed name req st")
  ultimately show ?thesis using executed_ok [of st req name m st'] Executed by simp
qed (simp_all add: configured_ok lent_write_ok)

lemma settings_history_ok:
  "list_all event_wf es \<Longrightarrow> settings_ok st \<Longrightarrow>
     settings_ok (fold settings_run es st) \<and>
     configured_view (fold settings_run es st) = fold last_settings es (configured_view st)"
proof (induction es arbitrary: st)
  case (Cons e es)
  then have "settings_ok (settings_run e st)"
    "configured_view (settings_run e st) = last_settings e (configured_view st)"
    using settings_run_ok [of st e] by simp_all
  with Cons show ?case by simp
qed simp


section \<open>Properties\<close>

text \<open>
  C4. Executions are isolated. After any history of configure calls, executions and writes of
  plugins to settings that executions were given, an execution sees the settings last
  configured for its provider, overlaid with its own, exactly as the server model on values
  says; and it sees them in buffers of its own, which neither the stored settings nor any
  earlier execution holds.
\<close>

theorem settings_isolated:
  assumes "list_all event_wf es" and "gm_wf req"
    and "settings_executed name req (fold settings_run es new_settings_store) = (m, st')"
    and "configured_settings sv name = fold last_settings es (\<lambda>_. []) name"
  shows "withSettings sv c name req =
      (case m of None \<Rightarrow> c | Some r \<Rightarrow> WithSettings c (Some (view (ss_heap st') r))) \<and>
    (case m of None \<Rightarrow> True | Some r \<Rightarrow>
       distinct (map snd r) \<and>
       set (map snd r) \<inter> set (ss_lent (fold settings_run es new_settings_store)) = {} \<and>
       (\<forall>n. set (map snd r) \<inter> set (map snd (configured_refs st' n)) = {}))"
proof -
  let ?st = "fold settings_run es new_settings_store"
  have "configured_view new_settings_store = (\<lambda>_. [])"
    by (simp add: configured_view_def configured_refs_def new_settings_store_def fun_eq_iff)
  with settings_history_ok [OF assms(1) settings_ok_new]
  have ok: "settings_ok ?st" and seen: "configured_view ?st = fold last_settings es (\<lambda>_. [])"
    by simp_all
  note ex = executed_ok [OF ok assms(2,3)]
  show ?thesis
  proof (cases m)
    case None
    with ex seen show ?thesis by (simp add: withSettings_def assms(4))
  next
    case (Some r)
    with ex seen show ?thesis by (auto simp: withSettings_def assms(4) Let_def)
  qed
qed

text \<open>
  A provider is configured, one execution overwrites the settings it got, and the next still
  gets the configured ones.
\<close>

definition scribbled :: settings_store where
  "scribbled = fold settings_run
     [Configured ''p'' [(''k'', ''v'')], Executed ''p'' [], Wrote 0 0 (CHR ''x'')] new_settings_store"

definition configured_server :: "(unit, unit) GRPCServer" where
  "configured_server = store_settings ''p'' [(''k'', ''v'')] (new_GRPCServer (mock_plugin bare_mock) () None)"

lemma scribbled_run:
  "settings_executed ''p'' [] scribbled = (Some [(''k'', 2)],
     \<lparr>ss_heap = [''v'', ''x'', ''v''], ss_configured = Some [(''p'', [(''k'', 0)])], ss_lent = [2, 1],
      ss_given = [0]\<rparr>)"
  by (simp add: scribbled_def new_settings_store_def settings_configured_def heap_configure_def Let_def
      buf_alloc_def settings_executed_def heap_withSettings_def configured_refs_def buf_clone_def
      lent_write_def buf_write_def)

theorem settings_isolated_witness:
  "withSettings configured_server background ''p'' [] =
     WithSettings background (Some [(''k'', ''v'')])"
proof -
  have "configured_settings configured_server ''p'' =
      fold last_settings [Configured ''p'' [(''k'', ''v'')], Executed ''p'' [], Wrote 0 0 (CHR ''x'')]
        (\<lambda>_. []) ''p''"
    by (simp add: configured_server_def configured_store gm_wf_def)
  from settings_isolated [OF _ _ scribbled_run [unfolded scribbled_def] this, of background]
  show ?thesis by (simp add: gm_wf_def)
qed

text \<open>
  C30. The settings a plugin gets in ConfigureProvider are not isolated: the server copies
  their map but not their bytes. A plugin that writes to a byte of \<open>cfg.Settings\<close> changes
  that byte in the stored settings, for every later execution: for each byte of each value
  in any reachable state.
\<close>

theorem configured_settings_shared:
  assumes "list_all event_wf es" and "gm_wf req" and "gm_get req k = Some b" and "i < length b"
  shows "\<exists>n. gm_get (configured_view (given_write n i x
      (settings_configured name req (fold settings_run es new_settings_store))) name) k = Some (b[i := x])"
proof -
  let ?old = "fold settings_run es new_settings_store"
  let ?st = "settings_configured name req ?old"
  have ok0: "settings_ok ?old" using settings_history_ok [OF assms(1) settings_ok_new] by blast
  have st: "configured_view ?st name = req" "refs_ok ?st (configured_refs ?st name)"
    using configured_ok [OF ok0 assms(2), of name] by (simp_all add: settings_ok_def)
  obtain refs h where load: "load_settings req (ss_heap ?old) = (refs, h)"
    by (cases "load_settings req (ss_heap ?old)")
  then have wfr: "gm_wf refs" using load_settings_result [OF load] assms(2) gm_wf_view [of h refs] by auto
  have refs: "configured_refs ?st name = refs" "ss_given ?st = map snd refs @ ss_given ?old"
    by (simp_all add: settings_configured_def load configured_put gm_copy_id wfr)
      (simp add: heap_configure_def Let_def gm_copy_id wfr)
  have get: "gm_get (view hp m) k = map_option ((!) hp) (gm_get m k)" for hp m
    by (simp add: view_def map_of_map)
  have "map_option ((!) (ss_heap ?st)) (gm_get refs k) = Some b"
    using assms(3) st(1) get [of "ss_heap ?st" refs] by (simp add: configured_view_def refs)
  then obtain a where a: "gm_get refs k = Some a" "ss_heap ?st ! a = b" by auto
  from a(1) have "a \<in> set (map snd refs)" by (force dest: map_of_SomeD)
  then obtain n where n: "n < length (map snd refs)" "map snd refs ! n = a" by (auto simp: in_set_conv_nth)
  have len: "a < length (ss_heap ?st)"
    using st(2) map_of_SomeD [OF a(1)] by (auto simp: refs_ok_def within_def list_all_iff refs)
  have at: "n < length (ss_given ?st)" "ss_given ?st ! n = a"
    using n by (simp_all add: refs nth_append)
  have keep: "configured_refs (?st\<lparr>ss_heap := hp\<rparr>) name = refs" for hp
    using refs(1) by (simp add: configured_refs_def)
  have "gm_get (configured_view (given_write n i x ?st) name) k = Some (b[i := x])"
    using at a len assms(4) by (simp add: given_write_def configured_view_def get keep buf_write_def)
  then show ?thesis by blast
qed

theorem configured_settings_shared_witness:
  "\<exists>n. gm_get (configured_view (given_write n 0 (CHR ''x'')
      (settings_configured ''p'' [(''k'', ''v'')] new_settings_store)) ''p'') ''k'' = Some ''x''"
  using configured_settings_shared [of "[]" "[(''k'', ''v'')]" "''k''" "''v''" 0 "CHR ''x''" "''p''"]
  by (simp add: gm_wf_def)

end
