(* ===== verification/Provider_Concurrency.thy ===== *)
theory Provider_Concurrency
  imports Provider_Server
begin

text \<open>
  The provider server under concurrent RPCs.

  \<open>GRPCServer\<close> guards its fields with a read-write lock, which each handler takes several times:
  ConfigureProvider stores the settings in one section, dials and commits in a second, and
  reads the host client in a third; an execution reads the stored settings in one section and
  the host client in another; StopProvider closes the connection in one, some time after the
  plugin has stopped. Each rule of \<open>pconc_step\<close> is one such section, or the plugin call between two, of
  one thread; any number of threads run. \<open>stop_failed\<close> is also any other call of the plugin,
  which changes only the plugin's state. \<open>pc_stored\<close> records the settings stored so far, in
  order; no operation reads it.
\<close>

section \<open>Threads\<close>

datatype call_pc =
    CIdle
  | CStored uint32                        \<comment> \<open>settings stored; about to dial the host\<close>
  | CDialled                              \<comment> \<open>about to read the host client\<close>
  | CConfiguring "conn_id option"         \<comment> \<open>in the plugin's ConfigureProvider, with this client\<close>
  | CRead string "bytes strmap" "bytes strmap"
      \<comment> \<open>execution for a provider, with its own settings and those it read\<close>
  | CExecuting string "bytes strmap" "bytes strmap" "conn_id option"
      \<comment> \<open>in the plugin's execution, with these settings and this client\<close>
  | CStopping                             \<comment> \<open>the plugin has stopped; about to close the connection\<close>

record ('s, 'v) pconc =
  pc_server :: "('s, 'v) GRPCServer"
  pc_at :: "nat \<Rightarrow> call_pc"
  pc_stored :: "(string \<times> bytes strmap) list"

text \<open>The lock section of \<open>StopProvider\<close>.\<close>

definition close_section :: "('s, 'v) GRPCServer \<Rightarrow> ('s, 'v) GRPCServer" where
  "close_section sv =
     (case sv_conn sv of
        Some conn \<Rightarrow> sv\<lparr>sv_net := close_conn conn (sv_net sv), sv_conn := None\<rparr>
      | None \<Rightarrow> sv)\<lparr>sv_hostClient := None\<rparr>"

definition goto :: "('s, 'v) pconc \<Rightarrow> ('s, 'v) GRPCServer \<Rightarrow> nat \<Rightarrow> call_pc \<Rightarrow> ('s, 'v) pconc" where
  "goto st sv t p = st\<lparr>pc_server := sv, pc_at := (pc_at st)(t := p)\<rparr>"

inductive pconc_step :: "('s, 'v) pconc \<Rightarrow> ('s, 'v) pconc \<Rightarrow> bool" where
  store: "pc_at st t = CIdle \<Longrightarrow> gm_wf m \<Longrightarrow>
    pconc_step st ((goto st (store_settings name m (pc_server st)) t (CStored i))
      \<lparr>pc_stored := pc_stored st @ [(name, m)]\<rparr>)"
| dial: "pc_at st t = CStored i \<Longrightarrow> dial_host i (pc_server st) = (None, sv) \<Longrightarrow>
    pconc_step st (goto st sv t CDialled)"
| dial_failed: "pc_at st t = CStored i \<Longrightarrow> dial_host i (pc_server st) = (Some e, sv) \<Longrightarrow>
    pconc_step st (goto st sv t CIdle)"
| configuring: "pc_at st t = CDialled \<Longrightarrow>
    pconc_step st (goto st (pc_server st) t (CConfiguring (sv_hostClient (pc_server st))))"
| configured: "pc_at st t = CConfiguring hc \<Longrightarrow>
    pconc_step st (goto st ((pc_server st)\<lparr>sv_plugin := s\<rparr>) t CIdle)"
| read_settings: "pc_at st t = CIdle \<Longrightarrow>
    pconc_step st (goto st (pc_server st) t (CRead name m (configured_settings (pc_server st) name)))"
| executing: "pc_at st t = CRead name m base \<Longrightarrow>
    pconc_step st (goto st (pc_server st) t (CExecuting name m base (sv_hostClient (pc_server st))))"
| executed: "pc_at st t = CExecuting name m base hc \<Longrightarrow>
    pconc_step st (goto st ((pc_server st)\<lparr>sv_plugin := s\<rparr>) t CIdle)"
| stopping: "pc_at st t = CIdle \<Longrightarrow>
    pconc_step st (goto st ((pc_server st)\<lparr>sv_plugin := s\<rparr>) t CStopping)"
| stopped: "pc_at st t = CStopping \<Longrightarrow>
    pconc_step st (goto st (close_section (pc_server st)) t CIdle)"
| stop_failed: "pc_at st t = CIdle \<Longrightarrow>
    pconc_step st (goto st ((pc_server st)\<lparr>sv_plugin := s\<rparr>) t CIdle)"

inductive_cases pconc_stepE: "pconc_step st st'"

definition pconc_start :: "('s, 'v) GRPCServer \<Rightarrow> ('s, 'v) pconc" where
  "pconc_start sv = \<lparr>pc_server = sv, pc_at = (\<lambda>_. CIdle), pc_stored = []\<rparr>"

lemma goto_sel [simp]:
  "pc_server (goto st sv t p) = sv" "pc_stored (goto st sv t p) = pc_stored st"
  "pc_at (goto st sv t p) t' = (if t' = t then p else pc_at st t')"
  by (simp_all add: goto_def)

section \<open>The connection\<close>

text \<open>
  Because the server dials while it holds the lock, each section is one step of the link, so
  the contract of the link holds for every interleaving.
\<close>

lemma close_section_link: "link_step (link_of sv) (link_of (close_section sv))"
proof (cases "sv_conn sv")
  case None
  with link_step.disconnect [of "link_of sv"] show ?thesis
    by (simp add: link_of_def close_section_def)
next
  case (Some c)
  with link_step.disconnect [of "link_of sv"] show ?thesis
    by (simp add: link_of_def close_section_def)
qed

lemma pconc_step_link: "pconc_step st st' \<Longrightarrow> link_step (link_of (pc_server st)) (link_of (pc_server st'))"
proof (induction rule: pconc_step.induct)
  case (dial st t i sv)
  with dial_host_link [of "pc_server st" i] show ?case by simp
next
  case (dial_failed st t i e sv)
  with dial_host_link [of "pc_server st" i] show ?case by simp
next
  case (stopped st t)
  with close_section_link [of "pc_server st"] show ?case by simp
qed (simp_all add: link_step.keep)

interpretation pconc_link: host_link pconc_step "\<lambda>st. link_of (pc_server st)"
  by unfold_locales (auto intro: pconc_step_link)

section \<open>The settings\<close>

text \<open>The settings stored last for a provider.\<close>

definition last_stored :: "string \<Rightarrow> (string \<times> bytes strmap) list \<Rightarrow> bytes strmap" where
  "last_stored name hist = fold (\<lambda>(n, m) cur. if n = name then m else cur) hist []"

definition seen_stored :: "(string \<times> bytes strmap) list \<Rightarrow> string \<Rightarrow> bytes strmap \<Rightarrow> bool" where
  "seen_stored hist name base \<longleftrightarrow> (\<exists>k \<le> length hist. base = last_stored name (take k hist))"

lemma seen_stored_append: "seen_stored hist name base \<Longrightarrow> seen_stored (hist @ d) name base"
proof -
  assume "seen_stored hist name base"
  then obtain k where "k \<le> length hist" "base = last_stored name (take k hist)"
    by (auto simp: seen_stored_def)
  then show ?thesis unfolding seen_stored_def by (intro exI [of _ k]) simp
qed

lemma seen_stored_now: "seen_stored hist name (last_stored name hist)"
  unfolding seen_stored_def by (intro exI [of _ "length hist"]) simp

text \<open>What a call in flight holds was true at some moment before.\<close>

fun snapshot_ok :: "(string \<times> bytes strmap) list \<Rightarrow> nat \<Rightarrow> call_pc \<Rightarrow> bool" where
  "snapshot_ok hist next (CConfiguring hc) \<longleftrightarrow> (case hc of None \<Rightarrow> True | Some c \<Rightarrow> c < next)"
| "snapshot_ok hist next (CRead name m base) \<longleftrightarrow> seen_stored hist name base"
| "snapshot_ok hist next (CExecuting name m base hc) \<longleftrightarrow>
     seen_stored hist name base \<and>
     (case hc of None \<Rightarrow> True | Some c \<Rightarrow> c < next)"
| "snapshot_ok hist next _ \<longleftrightarrow> True"

definition pconc_ok :: "('s, 'v) pconc \<Rightarrow> bool" where
  "pconc_ok st \<longleftrightarrow>
     link_ok (link_of (pc_server st)) \<and>
     (\<forall>name. configured_settings (pc_server st) name = last_stored name (pc_stored st)) \<and>
     (\<forall>t. snapshot_ok (pc_stored st) (nt_next (sv_net (pc_server st))) (pc_at st t))"

lemma snapshot_mono:
  "snapshot_ok hist n p \<Longrightarrow> n \<le> n' \<Longrightarrow> snapshot_ok (hist @ d) n' p"
  by (induction hist n p rule: snapshot_ok.induct)
    (auto split: option.splits intro: seen_stored_append)

lemma dial_host_next: "nt_next (sv_net sv) \<le> nt_next (sv_net (snd (dial_host i sv)))"
  by (auto simp: dial_host_def run_dial_def Let_def split: option.split)

lemma close_section_frame [simp]:
  "nt_next (sv_net (close_section sv)) = nt_next (sv_net sv)"
  "configured_settings (close_section sv) name = configured_settings sv name"
  by (auto simp: close_section_def configured_settings_def close_conn_def split: option.split)

lemma host_below:
  "link_ok (link_of sv) \<Longrightarrow> sv_hostClient sv = Some c \<Longrightarrow> c < nt_next (sv_net sv)"
  by (cases "sv_conn sv") (auto simp: link_ok_def link_of_def net_wf_def)

text \<open>A section that neither stores settings nor loses connection numbers, of one thread.\<close>

lemma pconc_ok_goto:
  assumes "pconc_ok st" and "link_ok (link_of sv)"
    and "\<And>name. configured_settings sv name = configured_settings (pc_server st) name"
    and "nt_next (sv_net (pc_server st)) \<le> nt_next (sv_net sv)"
    and "snapshot_ok (pc_stored st) (nt_next (sv_net sv)) p"
  shows "pconc_ok (goto st sv t p)"
proof -
  have "snapshot_ok (pc_stored st) (nt_next (sv_net sv)) (pc_at st t')" for t'
    using snapshot_mono [of "pc_stored st" "nt_next (sv_net (pc_server st))" "pc_at st t'"
      "nt_next (sv_net sv)" "[]"] assms(1,4) by (simp add: pconc_ok_def)
  with assms show ?thesis by (simp add: pconc_ok_def)
qed

lemma dial_ok:
  assumes "pconc_ok st" and "dial_host i (pc_server st) = (r, sv)"
    and "\<And>n. snapshot_ok (pc_stored st) n p"
  shows "pconc_ok (goto st sv t p)"
proof (rule pconc_ok_goto [OF assms(1)])
  show "link_ok (link_of sv)"
    using link_step_ok [OF dial_host_link [of "pc_server st" i]] assms by (simp add: pconc_ok_def)
  show "configured_settings sv name = configured_settings (pc_server st) name" for name
    using configured_dial [of i "pc_server st" name] assms(2) by simp
  show "nt_next (sv_net (pc_server st)) \<le> nt_next (sv_net sv)"
    using dial_host_next [of "pc_server st" i] assms(2) by simp
qed (rule assms(3))

lemma pconc_step_ok: "pconc_step st st' \<Longrightarrow> pconc_ok st \<Longrightarrow> pconc_ok st'"
proof (induction rule: pconc_step.induct)
  case (store st t m name i)
  have net: "sv_net (store_settings name m sv) = sv_net sv" for sv :: "('a, 'b) GRPCServer"
    by (simp add: store_settings_def Let_def)
  have "snapshot_ok (pc_stored st @ [(name, m)]) (nt_next (sv_net (pc_server st))) (pc_at st t')" for t'
    using snapshot_mono [of "pc_stored st" "nt_next (sv_net (pc_server st))" "pc_at st t'"
      "nt_next (sv_net (pc_server st))"] store by (simp add: pconc_ok_def)
  with store show ?case
    by (simp add: pconc_ok_def configured_store last_stored_def net)
next
  case (dial st t i sv)
  then show ?case by (intro dial_ok) simp_all
next
  case (dial_failed st t i e sv)
  then show ?case by (intro dial_ok) simp_all
next
  case (stopped st t)
  then show ?case
    using link_step_ok [OF close_section_link [of "pc_server st"]]
    by (intro pconc_ok_goto) (simp_all add: pconc_ok_def)
next
  case (configuring st t)
  then show ?case
    by (intro pconc_ok_goto) (auto simp: pconc_ok_def host_below split: option.split)
next
  case (read_settings st t name m)
  then show ?case
    by (intro pconc_ok_goto) (simp_all add: pconc_ok_def seen_stored_now)
next
  case (executing st t name m base)
  then have "snapshot_ok (pc_stored st) (nt_next (sv_net (pc_server st))) (CRead name m base)"
    by (metis pconc_ok_def)
  with executing show ?case
    by (intro pconc_ok_goto) (auto simp: pconc_ok_def host_below split: option.split)
qed (auto intro!: pconc_ok_goto simp: pconc_ok_def)

lemma pconc_steps_ok: "pconc_step\<^sup>*\<^sup>* st st' \<Longrightarrow> pconc_ok st \<Longrightarrow> pconc_ok st'"
  by (induction rule: rtranclp_induct) (auto intro: pconc_step_ok)

lemma pconc_ok_start: "pconc_ok (pconc_start (new_GRPCServer impl s broker))"
  by (simp add: pconc_ok_def pconc_start_def last_stored_def configured_settings_def)
    (simp add: new_GRPCServer_def)

section \<open>One call alone\<close>

lemma goto_goto [simp]: "goto (goto st sv t p) sv' t p' = goto st sv' t p'"
  by (simp add: goto_def)

lemma goto_idle: "goto (pconc_start sv) sv' t CIdle = pconc_start sv'"
  by (simp add: goto_def pconc_start_def fun_eq_iff)

lemma goto_stored: "goto (st\<lparr>pc_stored := h\<rparr>) sv t p = (goto st sv t p)\<lparr>pc_stored := h\<rparr>"
  by (simp add: goto_def)

lemma pconc_start_sel [simp]:
  "pc_server (pconc_start sv) = sv" "pc_at (pconc_start sv) t = CIdle" "pc_stored (pconc_start sv) = []"
  by (simp_all add: pconc_start_def)

abbreviation at_call :: "('s, 'v) GRPCServer \<Rightarrow> (string \<times> bytes strmap) list \<Rightarrow> ('s, 'v) GRPCServer \<Rightarrow>
    call_pc \<Rightarrow> ('s, 'v) pconc" where
  "at_call sv0 hist sv p \<equiv> (goto (pconc_start sv0) sv 0 p)\<lparr>pc_stored := hist\<rparr>"

lemma plugin_alone: "pconc_step\<^sup>*\<^sup>* (pconc_start sv) (pconc_start (sv\<lparr>sv_plugin := s\<rparr>))"
  using pconc_step.stop_failed [of "pconc_start sv" 0 s] by (simp add: goto_idle r_into_rtranclp)

lemma stop_alone: "pconc_step\<^sup>*\<^sup>* (pconc_start sv) (pconc_start (snd (GRPCServer_StopProvider c name sv)))"
proof -
  obtain err s where run: "pp_StopProvider (sv_Impl sv) c name (sv_plugin sv) = (err, s)"
    by (cases "pp_StopProvider (sv_Impl sv) c name (sv_plugin sv)")
  show ?thesis
  proof (cases err)
    case None
    then have "snd (GRPCServer_StopProvider c name sv) = close_section (sv\<lparr>sv_plugin := s\<rparr>)"
      by (simp add: GRPCServer_StopProvider_def run close_section_def Let_def)
    moreover have "pconc_step (pconc_start sv) (goto (pconc_start sv) (sv\<lparr>sv_plugin := s\<rparr>) 0 CStopping)"
      using pconc_step.stopping [of "pconc_start sv" 0 s] by simp
    moreover have "pconc_step (goto (pconc_start sv) (sv\<lparr>sv_plugin := s\<rparr>) 0 CStopping)
        (pconc_start (close_section (sv\<lparr>sv_plugin := s\<rparr>)))"
      using pconc_step.stopped [of "goto (pconc_start sv) (sv\<lparr>sv_plugin := s\<rparr>) 0 CStopping" 0]
      by (simp add: goto_idle)
    ultimately show ?thesis by simp
  next
    case (Some e)
    then have "snd (GRPCServer_StopProvider c name sv) = sv\<lparr>sv_plugin := s\<rparr>"
      by (simp add: GRPCServer_StopProvider_def run)
    with plugin_alone show ?thesis by simp
  qed
qed

text \<open>The plugin's part of a configure call.\<close>

lemma plugin_section:
  "pconc_step\<^sup>*\<^sup>* (at_call sv h sv2 CDialled) (at_call sv h (sv2\<lparr>sv_plugin := s\<rparr>) CIdle)"
proof -
  have "pconc_step (at_call sv h sv2 CDialled) (at_call sv h sv2 (CConfiguring (sv_hostClient sv2)))"
    using pconc_step.configuring [of "at_call sv h sv2 CDialled" 0] by (simp add: goto_stored)
  moreover have "pconc_step (at_call sv h sv2 (CConfiguring (sv_hostClient sv2)))
      (at_call sv h (sv2\<lparr>sv_plugin := s\<rparr>) CIdle)"
    using pconc_step.configured [of "at_call sv h sv2 (CConfiguring (sv_hostClient sv2))" 0 _ s]
    by (simp add: goto_stored)
  ultimately show ?thesis by simp
qed

lemma configure_call_alone:
  assumes "gm_wf (cr_Settings req)"
  shows "pconc_step\<^sup>*\<^sup>* (pconc_start sv)
    ((pconc_start (snd (GRPCServer_ConfigureProvider c req sv)))
      \<lparr>pc_stored := [(cr_ProviderName req, cr_Settings req)]\<rparr>)"
proof -
  let ?h = "[(cr_ProviderName req, cr_Settings req)]"
  let ?sv1 = "store_settings (cr_ProviderName req) (cr_Settings req) sv"
  have idle: "(pconc_start sv')\<lparr>pc_stored := ?h\<rparr> = at_call sv ?h sv' CIdle" for sv'
    by (simp add: goto_idle)
  have first: "pconc_step (pconc_start sv) (at_call sv ?h ?sv1 (CStored (cr_HostServiceId req)))"
    using pconc_step.store [of "pconc_start sv" 0 "cr_Settings req" "cr_ProviderName req"] assms by simp
  obtain err sv2 where dial: "dial_host (cr_HostServiceId req) ?sv1 = (err, sv2)"
    by (cases "dial_host (cr_HostServiceId req) ?sv1")
  show ?thesis
  proof (cases err)
    case (Some e)
    have "pconc_step (at_call sv ?h ?sv1 (CStored (cr_HostServiceId req))) (at_call sv ?h sv2 CIdle)"
      using pconc_step.dial_failed [of "at_call sv ?h ?sv1 (CStored (cr_HostServiceId req))" 0
          "cr_HostServiceId req" e sv2] dial Some by (simp add: goto_stored)
    moreover have "snd (GRPCServer_ConfigureProvider c req sv) = sv2"
      by (simp add: GRPCServer_ConfigureProvider_def dial Some)
    ultimately show ?thesis using first unfolding idle by (simp add: converse_rtranclp_into_rtranclp)
  next
    case None
    obtain perr s where plug: "pp_ConfigureProvider (sv_Impl sv2)
        (WithProfile (injectHostClient sv2 c) (cr_Profile req)) (cr_ProviderName req)
        (config_of_request req) (sv_plugin sv2) = (perr, s)"
      by (cases "pp_ConfigureProvider (sv_Impl sv2)
        (WithProfile (injectHostClient sv2 c) (cr_Profile req)) (cr_ProviderName req)
        (config_of_request req) (sv_plugin sv2)")
    have "pconc_step (at_call sv ?h ?sv1 (CStored (cr_HostServiceId req))) (at_call sv ?h sv2 CDialled)"
      using pconc_step.dial [of "at_call sv ?h ?sv1 (CStored (cr_HostServiceId req))" 0
          "cr_HostServiceId req" sv2] dial None by (simp add: goto_stored)
    with first plugin_section [where sv = sv and h = ?h and ?sv2.0 = sv2 and s = s]
    have "pconc_step\<^sup>*\<^sup>* (pconc_start sv) (at_call sv ?h (sv2\<lparr>sv_plugin := s\<rparr>) CIdle)"
      by (meson converse_rtranclp_into_rtranclp)
    moreover have "snd (GRPCServer_ConfigureProvider c req sv) = sv2\<lparr>sv_plugin := s\<rparr>"
      by (cases perr) (simp_all add: GRPCServer_ConfigureProvider_def dial None plug)
    ultimately show ?thesis by (simp add: idle)
  qed
qed

section \<open>Properties\<close>

text \<open>
  C9. However configure, execute and stop calls interleave, with any number in flight, the
  server never leaks a connection: the open connections are at every moment exactly the one
  its host client uses. Every call in flight runs on a consistent view: the settings an
  execution read are those of one configure call that had stored them by then, whole, or none
  before the first, and never a mixture; the host client it holds is one the server dialled,
  and its connection is open exactly while the server still keeps it.
\<close>

theorem provider_concurrent_calls:
  assumes "pconc_step\<^sup>*\<^sup>* (pconc_start (new_GRPCServer impl s broker)) st"
  shows "sv_hostClient (pc_server st) = sv_conn (pc_server st) \<and>
    nt_open (sv_net (pc_server st)) = (case sv_hostClient (pc_server st) of None \<Rightarrow> [] | Some c \<Rightarrow> [c]) \<and>
    (case pc_at st t of
       CExecuting name m base hc \<Rightarrow>
         (\<exists>k \<le> length (pc_stored st). base = last_stored name (take k (pc_stored st))) \<and>
         (case hc of None \<Rightarrow> True
          | Some c \<Rightarrow> c < nt_next (sv_net (pc_server st)) \<and>
              (c \<in> set (nt_open (sv_net (pc_server st))) \<longleftrightarrow> sv_hostClient (pc_server st) = Some c))
     | _ \<Rightarrow> True)"
proof -
  have link: "link_of (pc_server (pconc_start (new_GRPCServer impl s broker))) = new_link"
    by (simp del: pconc_start_sel add: pconc_start_sel(1))
  from pconc_link.run_one_connection [OF assms link]
  have conn: "sv_hostClient (pc_server st) = sv_conn (pc_server st)"
    "nt_open (sv_net (pc_server st)) = (case sv_hostClient (pc_server st) of None \<Rightarrow> [] | Some c \<Rightarrow> [c])"
    by (simp_all add: link_of_def)
  have "snapshot_ok (pc_stored st) (nt_next (sv_net (pc_server st))) (pc_at st t)"
    using pconc_steps_ok [OF assms pconc_ok_start] by (simp add: pconc_ok_def)
  with conn show ?thesis
    by (auto simp: seen_stored_def split: call_pc.split option.split)
qed

text \<open>An execution that read its settings before they were configured anew.\<close>

lemma overtaken_run:
  "\<exists>st. pconc_step\<^sup>*\<^sup>* (pconc_start (new_GRPCServer (mock_plugin bare_mock) () None)) st \<and>
     pc_at st 1 = CExecuting ''p'' [] [] None \<and> pc_stored st = [(''p'', [(''k'', ''v'')])] \<and>
     sv_hostClient (pc_server st) = None"
proof -
  let ?sv = "new_GRPCServer (mock_plugin bare_mock) () None"
  let ?st1 = "goto (pconc_start ?sv) ?sv 1 (CRead ''p'' [] [])"
  let ?st2 = "(goto ?st1 (store_settings ''p'' [(''k'', ''v'')] ?sv) 0 (CStored 0))
    \<lparr>pc_stored := [(''p'', [(''k'', ''v'')])]\<rparr>"
  have none: "configured_settings ?sv ''p'' = []"
    by (simp add: configured_settings_def new_GRPCServer_def)
  have host: "sv_hostClient (pc_server ?st2) = None"
    by (simp add: store_settings_def new_GRPCServer_def Let_def)
  have "pconc_step (pconc_start ?sv) ?st1"
    using pconc_step.read_settings [of "pconc_start ?sv" 1 "''p''" "[]"] by (simp add: none)
  moreover have "pconc_step ?st1 ?st2"
    using pconc_step.store [of ?st1 0 "[(''k'', ''v'')]" "''p''" 0] by (simp add: gm_wf_def)
  moreover have "pconc_step ?st2 (goto ?st2 (pc_server ?st2) 1 (CExecuting ''p'' [] [] None))"
    using pconc_step.executing [of ?st2 1 "''p''" "[]" "[]"] host by simp
  ultimately have "pconc_step\<^sup>*\<^sup>* (pconc_start ?sv) (goto ?st2 (pc_server ?st2) 1 (CExecuting ''p'' [] [] None))"
    by (meson rtranclp.rtrancl_into_rtrancl rtranclp.rtrancl_refl)
  then show ?thesis using host by (intro exI conjI) (assumption, simp_all)
qed

theorem provider_concurrent_calls_witness:
  "\<exists>st. pc_at st 1 = CExecuting ''p'' [] [] None \<and>
     nt_open (sv_net (pc_server (st :: (unit, unit) pconc))) = [] \<and>
     (\<exists>k \<le> length (pc_stored st). [] = last_stored ''p'' (take k (pc_stored st)))"
proof -
  obtain st where run: "pconc_step\<^sup>*\<^sup>* (pconc_start (new_GRPCServer (mock_plugin bare_mock) () None)) st"
    and st: "pc_at st 1 = CExecuting ''p'' [] [] None" "sv_hostClient (pc_server st) = None"
    using overtaken_run by blast
  from provider_concurrent_calls [OF run, of 1] st
  have "pc_at st 1 = CExecuting ''p'' [] [] None \<and> nt_open (sv_net (pc_server st)) = [] \<and>
     (\<exists>k \<le> length (pc_stored st). [] = last_stored ''p'' (take k (pc_stored st)))" by simp
  then show ?thesis by (rule exI)
qed



end
