(* ===== verification/Stream_Concurrency.thy ===== *)
theory Stream_Concurrency
  imports Auth_Server
begin

text \<open>
  Callbacks called from several goroutines of a plugin.

  A provider may report chunks from any number of goroutines. \<open>streamForwarder.forward\<close> holds a
  mutex from its first line to its return; each rule of \<open>fwd_step\<close> is a part of one call:
  taking the mutex, skipping the chunk, starting to send, the outcome of the send, and
  releasing the mutex. \<open>fc_order\<close> records the chunks in the order in which their calls took
  the mutex; no operation reads it.

  The device code callback of \<open>Login\<close> has no mutex, only an atomic flag; \<open>prompt_step\<close> gives
  its parts. gRPC forbids two sends on one stream at a time.
\<close>

section \<open>The forwarder under its mutex\<close>

datatype fwd_pc =
    FIdle
  | FEntered StreamChunk                    \<comment> \<open>has the mutex; about to look at the error\<close>
  | FSending ExecuteProviderStreamChunk     \<comment> \<open>has the mutex; in \<open>Send\<close>\<close>
  | FLeaving                                \<comment> \<open>has the mutex; about to return\<close>

record fwd_conc =
  fc_forwarder :: streamForwarder
  fc_mutex :: "nat option"
  fc_pc :: "nat \<Rightarrow> fwd_pc"
  fc_order :: "StreamChunk list"

definition fwd_at :: "fwd_conc \<Rightarrow> nat \<Rightarrow> fwd_pc \<Rightarrow> fwd_conc" where
  "fwd_at st t p = st\<lparr>fc_pc := (fc_pc st)(t := p)\<rparr>"

inductive fwd_step :: "json_lib \<Rightarrow> fwd_conc \<Rightarrow> fwd_conc \<Rightarrow> bool" for J where
  enter: "fc_pc st t = FIdle \<Longrightarrow> fc_mutex st = None \<Longrightarrow>
    fwd_step J st ((fwd_at st t (FEntered chunk))\<lparr>fc_mutex := Some t, fc_order := fc_order st @ [chunk]\<rparr>)"
| skip: "fc_pc st t = FEntered chunk \<Longrightarrow>
    fw_err (fc_forwarder st) \<noteq> None \<or> chunk_to_proto J chunk = None \<Longrightarrow>
    fwd_step J st (fwd_at st t FLeaving)"
| start_send: "fc_pc st t = FEntered chunk \<Longrightarrow> fw_err (fc_forwarder st) = None \<Longrightarrow>
    chunk_to_proto J chunk = Some m \<Longrightarrow> fwd_step J st (fwd_at st t (FSending m))"
| sent: "fc_pc st t = FSending m \<Longrightarrow> stream_send m (fw_stream (fc_forwarder st)) = (None, s) \<Longrightarrow>
    fwd_step J st ((fwd_at st t FLeaving)\<lparr>fc_forwarder := (fc_forwarder st)\<lparr>fw_stream := s\<rparr>\<rparr>)"
| send_failed: "fc_pc st t = FSending m \<Longrightarrow> stream_send m (fw_stream (fc_forwarder st)) = (Some e, s) \<Longrightarrow>
    fwd_step J st ((fwd_at st t FLeaving)
      \<lparr>fc_forwarder := (fc_forwarder st)\<lparr>fw_stream := s, fw_err := Some e\<rparr>\<rparr>)"
| leave: "fc_pc st t = FLeaving \<Longrightarrow> fwd_step J st ((fwd_at st t FIdle)\<lparr>fc_mutex := None\<rparr>)"

inductive_cases fwd_stepE: "fwd_step J st st'"

definition fwd_start :: "ExecuteProviderStreamChunk stream \<Rightarrow> fwd_conc" where
  "fwd_start s = \<lparr>fc_forwarder = newStreamForwarder s, fc_mutex = None, fc_pc = (\<lambda>_. FIdle), fc_order = []\<rparr>"

lemma fwd_at_sel [simp]:
  "fc_forwarder (fwd_at st t p) = fc_forwarder st" "fc_mutex (fwd_at st t p) = fc_mutex st"
  "fc_order (fwd_at st t p) = fc_order st"
  "fc_pc (fwd_at st t p) t' = (if t' = t then p else fc_pc st t')"
  by (simp_all add: fwd_at_def)

text \<open>
  The mutex is held by the one thread that is inside a call, and the forwarder is where the
  calls that are done, in order, have left it; the call inside is the last in the order.
\<close>

fun call_at :: "json_lib \<Rightarrow> streamForwarder \<Rightarrow> StreamChunk list \<Rightarrow> streamForwarder \<Rightarrow> fwd_pc \<Rightarrow> bool" where
  "call_at J start order f (FEntered chunk) \<longleftrightarrow>
     (\<exists>done. order = done @ [chunk] \<and> f = fold (forward J) done start)"
| "call_at J start order f (FSending m) \<longleftrightarrow>
     (\<exists>done chunk. order = done @ [chunk] \<and> f = fold (forward J) done start \<and> fw_err f = None \<and>
        chunk_to_proto J chunk = Some m)"
| "call_at J start order f _ \<longleftrightarrow> f = fold (forward J) order start"

definition fwd_ok :: "json_lib \<Rightarrow> streamForwarder \<Rightarrow> fwd_conc \<Rightarrow> bool" where
  "fwd_ok J start st \<longleftrightarrow>
     (\<forall>t. fc_pc st t \<noteq> FIdle \<longleftrightarrow> fc_mutex st = Some t) \<and>
     (case fc_mutex st of
        None \<Rightarrow> fc_forwarder st = fold (forward J) (fc_order st) start
      | Some t \<Rightarrow> call_at J start (fc_order st) (fc_forwarder st) (fc_pc st t))"

lemma forward_skip:
  "fw_err f \<noteq> None \<or> chunk_to_proto J chunk = None \<Longrightarrow> forward J chunk f = f"
  by (auto simp: forward_def)

lemma forward_send:
  "fw_err f = None \<Longrightarrow> chunk_to_proto J chunk = Some m \<Longrightarrow>
     forward J chunk f = (case stream_send m (fw_stream f) of
       (None, s) \<Rightarrow> f\<lparr>fw_stream := s\<rparr> | (Some e, s) \<Rightarrow> f\<lparr>fw_stream := s, fw_err := Some e\<rparr>)"
  by (simp add: forward_def)

lemma inside: "fwd_ok J start st \<Longrightarrow> fc_pc st t \<noteq> FIdle \<Longrightarrow>
   fc_mutex st = Some t \<and> call_at J start (fc_order st) (fc_forwarder st) (fc_pc st t)"
  by (auto simp: fwd_ok_def)

lemma fwd_step_ok: "fwd_step J st st' \<Longrightarrow> fwd_ok J start st \<Longrightarrow> fwd_ok J start st'"
proof (induction rule: fwd_step.induct)
  case (enter st t chunk)
  then show ?case by (auto simp: fwd_ok_def)
next
  case (skip st t chunk)
  with inside [of J start st t] show ?case
    by (auto simp: fwd_ok_def forward_skip)
next
  case (start_send st t chunk m)
  with inside [of J start st t] show ?case by (auto simp: fwd_ok_def)
next
  case (sent st t m s)
  with inside [of J start st t] show ?case by (auto simp: fwd_ok_def forward_send)
next
  case (send_failed st t m e s)
  with inside [of J start st t] show ?case by (auto simp: fwd_ok_def forward_send)
next
  case (leave st t)
  with inside [of J start st t] show ?case by (auto simp: fwd_ok_def)
qed

lemma fwd_steps_ok: "(fwd_step J)\<^sup>*\<^sup>* st st' \<Longrightarrow> fwd_ok J start st \<Longrightarrow> fwd_ok J start st'"
  by (induction rule: rtranclp_induct) (auto intro: fwd_step_ok)

lemma fwd_ok_start: "fwd_ok J (newStreamForwarder s) (fwd_start s)"
  by (simp add: fwd_ok_def fwd_start_def)

section \<open>The device code callback without one\<close>

datatype prompt_pc =
    PIdle
  | PChecked DeviceCodePrompt             \<comment> \<open>read the flag as unset\<close>
  | PSending PLoginStreamMessage          \<comment> \<open>in \<open>Send\<close>\<close>

record prompt_conc =
  pr_cb :: login_cb
  pr_pc :: "nat \<Rightarrow> prompt_pc"

definition prompt_at :: "prompt_conc \<Rightarrow> nat \<Rightarrow> prompt_pc \<Rightarrow> prompt_conc" where
  "prompt_at st t p = st\<lparr>pr_pc := (pr_pc st)(t := p)\<rparr>"

inductive prompt_step :: "prompt_conc \<Rightarrow> prompt_conc \<Rightarrow> bool" where
  checked: "pr_pc st t = PIdle \<Longrightarrow> \<not> lb_sendFailed (pr_cb st) \<Longrightarrow> prompt_step st (prompt_at st t (PChecked p))"
| stopped: "pr_pc st t = PIdle \<Longrightarrow> lb_sendFailed (pr_cb st) \<Longrightarrow> prompt_step st st"
| start_send: "pr_pc st t = PChecked p \<Longrightarrow> prompt_step st (prompt_at st t (PSending (prompt_message p)))"
| sent: "pr_pc st t = PSending m \<Longrightarrow> stream_send m (lb_stream (pr_cb st)) = (None, s) \<Longrightarrow>
    prompt_step st ((prompt_at st t PIdle)\<lparr>pr_cb := (pr_cb st)\<lparr>lb_stream := s\<rparr>\<rparr>)"
| send_failed: "pr_pc st t = PSending m \<Longrightarrow> stream_send m (lb_stream (pr_cb st)) = (Some e, s) \<Longrightarrow>
    prompt_step st ((prompt_at st t PIdle)
      \<lparr>pr_cb := (pr_cb st)\<lparr>lb_stream := s, lb_sendFailed := True\<rparr>\<rparr>)"

definition prompt_start :: "PLoginStreamMessage stream \<Rightarrow> prompt_conc" where
  "prompt_start s = \<lparr>pr_cb = \<lparr>lb_stream = s, lb_sendFailed = False\<rparr>, pr_pc = (\<lambda>_. PIdle)\<rparr>"

section \<open>Properties\<close>

text \<open>
  The forwarder is linearizable: however the chunks of a streaming execution are reported
  from several goroutines, at most one call is inside it at a time, so no two sends overlap;
  and whenever none is, the stream is exactly where reporting the chunks one after another,
  in the order in which the calls took the mutex, would have left it. So what is proved of
  sequential reporting holds of concurrent reporting, for that order.
\<close>

theorem forward_linearizable:
  assumes "(fwd_step J)\<^sup>*\<^sup>* (fwd_start s) st"
  shows "(\<exists>t. \<forall>t'. t' \<noteq> t \<longrightarrow> fc_pc st t' = FIdle) \<and>
    (if \<exists>t. fc_pc st t \<noteq> FIdle then True
     else fc_forwarder st = fold (forward J) (fc_order st) (newStreamForwarder s))"
proof -
  have ok: "fwd_ok J (newStreamForwarder s) st"
    by (rule fwd_steps_ok [OF assms fwd_ok_start])
  show ?thesis
  proof (cases "fc_mutex st")
    case None
    with ok show ?thesis by (auto simp: fwd_ok_def)
  next
    case (Some t)
    with ok show ?thesis by (auto simp: fwd_ok_def intro: exI [of _ t])
  qed
qed

definition two_chunks :: "StreamChunk list" where
  "two_chunks = [\<lparr>sk_Stdout = Some ''a'', sk_Stderr = None, sk_Result = None, sk_Error = ''''\<rparr>,
     \<lparr>sk_Stdout = Some ''b'', sk_Stderr = None, sk_Result = None, sk_Error = ''''\<rparr>]"

lemma one_call:
  assumes "fc_mutex st = None" and "fc_pc st t = FIdle" and "fw_err (fc_forwarder st) = None"
    and "chunk_to_proto J chunk = Some m"
    and "stream_send m (fw_stream (fc_forwarder st)) = (None, s)"
  shows "(fwd_step J)\<^sup>*\<^sup>* st
    (st\<lparr>fc_forwarder := (fc_forwarder st)\<lparr>fw_stream := s\<rparr>, fc_order := fc_order st @ [chunk]\<rparr>)"
proof -
  let ?in = "\<lambda>p. (fwd_at st t p)\<lparr>fc_mutex := Some t, fc_order := fc_order st @ [chunk]\<rparr>"
  have at: "fwd_at (?in p) t p' = ?in p'" for p p' by (simp add: fwd_at_def)
  have "fwd_step J st (?in (FEntered chunk))"
    using fwd_step.enter [OF assms(2,1)] by simp
  moreover have "fwd_step J (?in (FEntered chunk)) (?in (FSending m))"
    using fwd_step.start_send [of "?in (FEntered chunk)" t chunk J m] assms(3,4) by (simp add: at)
  moreover have "fwd_step J (?in (FSending m))
      ((?in FLeaving)\<lparr>fc_forwarder := (fc_forwarder st)\<lparr>fw_stream := s\<rparr>\<rparr>)"
    using fwd_step.sent [of "?in (FSending m)" t m s J] assms(5) by (simp add: at)
  moreover have "fwd_step J ((?in FLeaving)\<lparr>fc_forwarder := (fc_forwarder st)\<lparr>fw_stream := s\<rparr>\<rparr>)
      (st\<lparr>fc_forwarder := (fc_forwarder st)\<lparr>fw_stream := s\<rparr>, fc_order := fc_order st @ [chunk]\<rparr>)"
  proof -
    have "(fwd_at ((?in FLeaving)\<lparr>fc_forwarder := (fc_forwarder st)\<lparr>fw_stream := s\<rparr>\<rparr>) t FIdle)\<lparr>fc_mutex := None\<rparr> =
        st\<lparr>fc_forwarder := (fc_forwarder st)\<lparr>fw_stream := s\<rparr>, fc_order := fc_order st @ [chunk]\<rparr>"
      using assms(1,2) by (cases st) (simp add: fwd_at_def fun_upd_idem)
    with fwd_step.leave [of "(?in FLeaving)\<lparr>fc_forwarder := (fc_forwarder st)\<lparr>fw_stream := s\<rparr>\<rparr>" t J]
    show ?thesis by simp
  qed
  ultimately show ?thesis by (meson rtranclp.rtrancl_into_rtrancl rtranclp.rtrancl_refl)
qed

theorem forward_linearizable_witness:
  "\<exists>st. (fwd_step sample_json)\<^sup>*\<^sup>* (fwd_start (new_stream background (\<lambda>_. None))) st \<and>
     fc_order st = two_chunks \<and>
     fc_forwarder st = fold (forward sample_json) two_chunks (newStreamForwarder (new_stream background (\<lambda>_. None)))"
proof -
  let ?s = "fwd_start (new_stream background (\<lambda>_. None))"
  have chunk: "chunk_to_proto sample_json \<lparr>sk_Stdout = Some b, sk_Stderr = None, sk_Result = None,
      sk_Error = ''''\<rparr> = Some (ChunkStdout b)" for b by (simp add: chunk_to_proto_def)
  obtain s1 where s1: "stream_send (ChunkStdout ''a'') (fw_stream (fc_forwarder ?s)) = (None, s1)"
    and r1: "st_results s1 = (\<lambda>_. None)"
    by (simp add: fwd_start_def newStreamForwarder_def new_stream_def stream_send_def)
  note one = one_call [of ?s 0, OF _ _ _ chunk s1]
  let ?after = "?s\<lparr>fc_forwarder := (fc_forwarder ?s)\<lparr>fw_stream := s1\<rparr>, fc_order := fc_order ?s @ [hd two_chunks]\<rparr>"
  have run1: "(fwd_step sample_json)\<^sup>*\<^sup>* ?s ?after"
    using one by (simp add: fwd_start_def newStreamForwarder_def two_chunks_def)
  obtain s2 where s2: "stream_send (ChunkStdout ''b'') (fw_stream (fc_forwarder ?after)) = (None, s2)"
    using r1 by (simp add: stream_send_def)
  from one_call [of ?after 1, OF _ _ _ chunk s2] run1
  have run: "(fwd_step sample_json)\<^sup>*\<^sup>* ?s
      (?after\<lparr>fc_forwarder := (fc_forwarder ?after)\<lparr>fw_stream := s2\<rparr>, fc_order := two_chunks\<rparr>)"
    by (simp add: fwd_start_def newStreamForwarder_def two_chunks_def)
  from forward_linearizable [OF run] run show ?thesis
    by (intro exI [of _ "?after\<lparr>fc_forwarder := (fc_forwarder ?after)\<lparr>fw_stream := s2\<rparr>, fc_order := two_chunks\<rparr>"])
      (simp add: fwd_start_def)
qed

text \<open>Two goroutines, each past the flag and in \<open>Send\<close>.\<close>

lemma both_sending: "prompt_step\<^sup>*\<^sup>* (prompt_start s)
    (prompt_at (prompt_at (prompt_start s) 0 (PSending (prompt_message p))) 1 (PSending (prompt_message q)))"
proof -
  have at: "prompt_at (prompt_at st t a) t b = prompt_at st t b" for st t a b by (simp add: prompt_at_def)
  let ?s = "prompt_start s" and ?one = "prompt_at (prompt_start s) 0 (PSending (prompt_message p))"
  have "prompt_step ?s (prompt_at ?s 0 (PChecked p))"
    by (rule prompt_step.checked) (simp_all add: prompt_start_def)
  moreover have "prompt_step (prompt_at ?s 0 (PChecked p)) ?one"
    using prompt_step.start_send [of "prompt_at ?s 0 (PChecked p)" 0 p] by (simp only: at) (simp add: prompt_at_def)
  moreover have "prompt_step ?one (prompt_at ?one 1 (PChecked q))"
    by (rule prompt_step.checked [where t = 1]) (simp_all add: prompt_start_def prompt_at_def)
  moreover have "prompt_step (prompt_at ?one 1 (PChecked q)) (prompt_at ?one 1 (PSending (prompt_message q)))"
    using prompt_step.start_send [of "prompt_at ?one 1 (PChecked q)" 1 q] by (simp only: at) (simp add: prompt_at_def)
  ultimately show ?thesis by (meson rtranclp.rtrancl_into_rtrancl rtranclp.rtrancl_refl)
qed


end
