(* ===== verification/Progress.thy ===== *)
theory Progress
  imports Prelude
begin

text \<open>
  Calls of a concurrent component come to an end. A component is a step relation on a state in
  which every thread has a program point; at the point \<open>idle\<close> a thread is in no call, and any
  idle thread may start one at any time. The locale \<open>calls\<close> says what makes the calls in
  progress finish: a step moves one thread, brings it nearer to the end of its call, and no
  thread inside a call waits for another. The servers and the stream forwarder are instances.
\<close>

definition busy :: "('s \<Rightarrow> nat \<Rightarrow> 'p) \<Rightarrow> 'p \<Rightarrow> 's \<Rightarrow> nat set" where
  "busy pc idle st = {t. pc st t \<noteq> idle}"

text \<open>A step of a thread that is inside a call.\<close>

definition busy_step :: "('s \<Rightarrow> 's \<Rightarrow> bool) \<Rightarrow> ('s \<Rightarrow> nat \<Rightarrow> 'p) \<Rightarrow> 'p \<Rightarrow> 's \<Rightarrow> 's \<Rightarrow> bool" where
  "busy_step step pc idle st st' \<longleftrightarrow> step st st' \<and> (\<exists>t \<in> busy pc idle st. pc st' t \<noteq> pc st t)"

lemma busy_steps: "(busy_step step pc idle ^^ n) st st' \<Longrightarrow> step\<^sup>*\<^sup>* st st'"
  by (drule relpowp_imp_rtranclp)
    (erule rtranclp_mono [THEN predicate2D, rotated], auto simp: busy_step_def)

lemma moves: "step st st1 \<Longrightarrow> pc st1 t \<noteq> pc st t \<Longrightarrow> \<exists>st'. step st st' \<and> pc st' t \<noteq> pc st t"
  by blast

locale calls =
  fixes step :: "'s \<Rightarrow> 's \<Rightarrow> bool"
    and pc :: "'s \<Rightarrow> nat \<Rightarrow> 'p"
    and idle :: 'p
    and left :: "'p \<Rightarrow> nat"      \<comment> \<open>the sections a call still has to go through, at most\<close>
    and bound :: nat
    and inv :: "'s \<Rightarrow> bool"
  assumes left_idle: "left p = 0 \<longleftrightarrow> p = idle"
    and left_bound: "left p \<le> bound"
    and step_moves: "step st st' \<Longrightarrow> \<exists>t. (\<forall>t'. t' \<noteq> t \<longrightarrow> pc st' t' = pc st t') \<and>
      (pc st t = idle \<or> left (pc st' t) < left (pc st t))"
    and inv_step: "step st st' \<Longrightarrow> inv st \<Longrightarrow> inv st'"
    and not_stuck: "inv st \<Longrightarrow> pc st t \<noteq> idle \<Longrightarrow> \<exists>st'. step st st' \<and> pc st' t \<noteq> pc st t"
begin

definition remaining :: "'s \<Rightarrow> nat" where
  "remaining st = (\<Sum>t \<in> busy pc idle st. left (pc st t))"

lemma busy_finite: "step st st' \<Longrightarrow> finite (busy pc idle st) \<Longrightarrow> finite (busy pc idle st')"
proof -
  assume "step st st'" and fin: "finite (busy pc idle st)"
  then obtain t where "\<forall>t'. t' \<noteq> t \<longrightarrow> pc st' t' = pc st t'" using step_moves by blast
  then have "busy pc idle st' \<subseteq> insert t (busy pc idle st)" by (auto simp: busy_def)
  with fin show ?thesis by (meson finite.insertI finite_subset)
qed

lemma remaining_less:
  assumes "busy_step step pc idle st st'" and fin: "finite (busy pc idle st)"
  shows "remaining st' < remaining st"
proof -
  from assms(1) obtain u where step: "step st st'" and u: "u \<in> busy pc idle st" "pc st' u \<noteq> pc st u"
    by (auto simp: busy_step_def)
  from step_moves [OF step] obtain t where others: "\<forall>t'. t' \<noteq> t \<longrightarrow> pc st' t' = pc st t'" and
    t: "pc st t = idle \<or> left (pc st' t) < left (pc st t)" by blast
  from others u have "u = t" by metis
  with t u have less: "left (pc st' t) < left (pc st t)" "t \<in> busy pc idle st" by (auto simp: busy_def)
  have sub: "busy pc idle st' \<subseteq> busy pc idle st" using others less(2) by (fastforce simp: busy_def)
  have "remaining st' = (\<Sum>t' \<in> busy pc idle st. left (pc st' t'))"
    unfolding remaining_def
    by (rule sum.mono_neutral_left [OF fin sub]) (simp add: busy_def left_idle)
  also have "\<dots> < remaining st"
    unfolding remaining_def using others less
  proof (intro sum_strict_mono_ex1 [OF fin] ballI)
    fix t' assume "t' \<in> busy pc idle st"
    show "left (pc st' t') \<le> left (pc st t')" using others less(1) by (cases "t' = t") simp_all
  qed (use less in blast)
  finally show ?thesis .
qed

lemma run_remaining:
  "(busy_step step pc idle ^^ n) st st' \<Longrightarrow> finite (busy pc idle st) \<Longrightarrow> n + remaining st' \<le> remaining st"
proof (induction n arbitrary: st)
  case (Suc n)
  from Suc.prems(1) obtain st1 where
    st1: "busy_step step pc idle st st1" "(busy_step step pc idle ^^ n) st1 st'"
    by (metis relpowp_Suc_D2)
  then have "finite (busy pc idle st1)" using busy_finite Suc.prems(2) by (auto simp: busy_step_def)
  with Suc.IH [OF st1(2)] remaining_less [OF st1(1) Suc.prems(2)] show ?case by simp
qed simp

lemma run_keeps:
  "step\<^sup>*\<^sup>* st st' \<Longrightarrow> finite (busy pc idle st) \<Longrightarrow> inv st \<Longrightarrow> finite (busy pc idle st') \<and> inv st'"
  by (induction rule: rtranclp_induct) (auto dest: busy_finite inv_step)

text \<open>
  From any state reached from a start without calls, a run of the threads inside calls is
  bounded, and it can go on exactly while one of them is inside.
\<close>

lemma finish:
  assumes "step\<^sup>*\<^sup>* start st" and "\<And>t. pc start t = idle" and "inv start"
    and "(busy_step step pc idle ^^ n) st st'"
  shows "n \<le> bound * card (busy pc idle st) \<and> finite (busy pc idle st) \<and>
    ((\<exists>st''. busy_step step pc idle st' st'') \<longleftrightarrow> (\<exists>t. pc st' t \<noteq> idle))"
proof -
  have "busy pc idle start = {}" using assms(2) by (simp add: busy_def)
  with run_keeps [OF assms(1)] assms(3) have st: "finite (busy pc idle st)" "inv st" by simp_all
  have "remaining st \<le> (\<Sum>t \<in> busy pc idle st. bound)"
    unfolding remaining_def by (rule sum_mono) (rule left_bound)
  with run_remaining [OF assms(4) st(1)] have "n \<le> bound * card (busy pc idle st)" by (simp add: mult.commute)
  moreover have "inv st'" using run_keeps [OF busy_steps [OF assms(4)] st] by simp
  then have "(\<exists>st''. busy_step step pc idle st' st'') \<longleftrightarrow> (\<exists>t. pc st' t \<noteq> idle)"
    using not_stuck by (auto simp: busy_step_def busy_def) (metis (mono_tags))+
  ultimately show ?thesis using st(1) by simp
qed

end

end
