(* ===== verification/Auth_Progress.thy ===== *)
theory Auth_Progress
  imports Auth_Concurrency Progress
begin

text \<open>
  Calls of the auth handler server come to an end: the lock sections of \<open>Auth_Concurrency\<close> are
  an instance of \<open>calls\<close>. In \<open>conc_step\<close> any thread may start a new call at any time;
  \<open>busy_step\<close> moves only the threads that are inside a call.
\<close>

text \<open>The number of sections a thread has yet to go through, at most.\<close>

fun sections_left :: "auth_pc \<Rightarrow> nat" where
  "sections_left Idle = 0"
| "sections_left (Reset i) = 6"
| "sections_left (Dialling i) = 5"
| "sections_left (Holding c) = 4"
| "sections_left Ready = 3"
| "sections_left (Configuring hc) = 2"
| "sections_left Closing = 1"
| "sections_left (Serving hc) = 1"

lemma sections_left_0: "sections_left p = 0 \<longleftrightarrow> p = Idle"
  by (cases p) simp_all

lemma sections_left_le: "sections_left p \<le> 6"
  by (cases p) simp_all

text \<open>A step moves one thread: an idle one, or a busy one nearer to its end.\<close>

lemma conc_step_thread:
  "conc_step st st' \<Longrightarrow> \<exists>t. (\<forall>t'. t' \<noteq> t \<longrightarrow> cs_pc st' t' = cs_pc st t') \<and>
     (cs_pc st t = Idle \<or> sections_left (cs_pc st' t) < sections_left (cs_pc st t))"
  by (erule conc_stepE) (auto intro!: exI)

section \<open>No thread is stuck\<close>

text \<open>A thread dials only where there is a dial function, and the functions stay.\<close>

definition can_dial :: "'s conc \<Rightarrow> bool" where
  "can_dial st \<longleftrightarrow>
     (\<forall>t i. cs_pc st t = Dialling i \<longrightarrow> auth_pickDialFunc (cs_server st) \<noteq> None)"

lemma pick_update [simp]:
  "auth_pickDialFunc (sv\<lparr>au_net := n\<rparr>) = auth_pickDialFunc sv"
  "auth_pickDialFunc (sv\<lparr>au_plugin := s\<rparr>) = auth_pickDialFunc sv"
  "auth_pickDialFunc (sv\<lparr>au_closed := b\<rparr>) = auth_pickDialFunc sv"
  "auth_pickDialFunc (commit_conn c sv) = auth_pickDialFunc sv"
  "auth_pickDialFunc (closeHostClient sv) = auth_pickDialFunc sv"
  by (simp_all add: auth_pickDialFunc_def commit_conn_def closeHostClient_def Let_def split: option.split)

lemma can_dial_step: "conc_step st st' \<Longrightarrow> can_dial st \<Longrightarrow> can_dial st'"
  by (induction rule: conc_step.induct)
    (auto simp: can_dial_def must_dial_def split: if_splits)

lemma conc_not_stuck:
  assumes "can_dial st" and "cs_pc st t \<noteq> Idle"
  shows "\<exists>st'. conc_step st st' \<and> cs_pc st' t \<noteq> cs_pc st t"
proof (cases "cs_pc st t")
  case (Reset i)
  from conc_step.check [OF Reset] show ?thesis by (rule moves) (simp add: Reset)
next
  case (Dialling i)
  with assms(1) obtain dial where d: "auth_pickDialFunc (cs_server st) = Some dial"
    by (auto simp: can_dial_def)
  obtain r net where run: "run_dial dial i (au_net (cs_server st)) = (r, net)"
    by (cases "run_dial dial i (au_net (cs_server st))")
  show ?thesis
  proof (cases r)
    case (Inl e)
    from conc_step.dial_failed [OF Dialling d run [unfolded Inl]]
    show ?thesis by (rule moves) (simp add: Dialling)
  next
    case (Inr c)
    from conc_step.dialled [OF Dialling d run [unfolded Inr]]
    show ?thesis by (rule moves) (simp add: Dialling)
  qed
next
  case (Holding c)
  from conc_step.commit [OF Holding] show ?thesis by (rule moves) (simp add: Holding)
next
  case Ready
  from conc_step.inject [OF Ready] show ?thesis by (rule moves) (simp add: Ready)
next
  case (Configuring hc)
  from conc_step.impl_ok [OF Configuring] show ?thesis by (rule moves) (simp add: Configuring)
next
  case Closing
  from conc_step.closing [OF Closing] show ?thesis by (rule moves) (simp add: Closing)
next
  case (Serving hc)
  from conc_step.served [OF Serving] show ?thesis by (rule moves) (simp add: Serving)
qed (use assms(2) in simp)

interpretation auth_calls: calls conc_step cs_pc Idle sections_left 6 can_dial
  by unfold_locales
    (rule sections_left_0, rule sections_left_le, erule conc_step_thread, erule (1) can_dial_step,
      erule (1) conc_not_stuck)

section \<open>Property\<close>



end
