(* ===== verification/Serving.thy ===== *)
theory Serving
  imports Provider_Server Auth_Server
begin

text \<open>
  Serving a plugin: \<open>plugin/server.go\<close> and \<open>plugin/grpc_plugin.go\<close>.

  \<open>Serve\<close> hands go-plugin a configuration, which is what it is here: the handshake, the plugin
  under its name, and the function that makes the gRPC server. go-plugin then calls
  \<open>GRPCServer\<close> of the plugin in the plugin's process, and \<open>GRPCClient\<close> in the host's. gRPC's
  server is a parameter, a record \<open>grpc_lib\<close> of the functions used and of what can be observed
  of a server; its documented behaviour is \<open>grpc_law\<close>.
\<close>

section \<open>The gRPC server\<close>

text \<open>
  A server option is the receive limit it sets, or another option. gRPC applies options in
  order, so the last limit wins; its own default is 4 MB.
\<close>

datatype server_option = MaxRecvMsgSize nat | OtherOption nat

definition recv_limit :: "server_option list \<Rightarrow> nat" where
  "recv_limit opts =
     fold (\<lambda>opt limit. case opt of MaxRecvMsgSize n \<Rightarrow> n | OtherOption x \<Rightarrow> limit) opts (4 * 2 ^ 20)"

record ('g, 'svc) grpc_lib =
  gl_NewServer :: "server_option list \<Rightarrow> 'g"
  gl_RegisterService :: "string \<Rightarrow> 'svc \<Rightarrow> 'g \<Rightarrow> 'g"
  gl_service :: "'g \<Rightarrow> string \<Rightarrow> 'svc option"
  gl_limit :: "'g \<Rightarrow> nat"

definition grpc_law :: "('g, 'svc) grpc_lib \<Rightarrow> bool" where
  "grpc_law G \<longleftrightarrow>
     (\<forall>opts n. gl_service G (gl_NewServer G opts) n = None) \<and>
     (\<forall>opts. gl_limit G (gl_NewServer G opts) = recv_limit opts) \<and>
     (\<forall>n svc g. gl_service G (gl_RegisterService G n svc g) = (gl_service G g)(n \<mapsto> svc)) \<and>
     (\<forall>n svc g. gl_limit G (gl_RegisterService G n svc g) = gl_limit G g)"

definition maxRecvMsgSize :: nat where "maxRecvMsgSize = 64 * 2 ^ 20"

definition newGRPCServer :: "('g, 'svc) grpc_lib \<Rightarrow> server_option list \<Rightarrow> 'g" where
  "newGRPCServer G opts = gl_NewServer G ([MaxRecvMsgSize maxRecvMsgSize] @ opts)"

section \<open>The plugins of go-plugin\<close>

text \<open>The services a plugin process can register, and the generated functions that do it.\<close>

datatype ('s, 'v, 't) service =
    PluginService "('s, 'v) GRPCServer"
  | AuthHandlerService "'t AuthHandlerGRPCServer"

definition RegisterPluginServiceServer ::
  "('g, ('s, 'v, 't) service) grpc_lib \<Rightarrow> 'g \<Rightarrow> ('s, 'v) GRPCServer \<Rightarrow> 'g" where
  "RegisterPluginServiceServer G s srv = gl_RegisterService G ''plugin.PluginService'' (PluginService srv) s"

definition RegisterAuthHandlerServiceServer ::
  "('g, ('s, 'v, 't) service) grpc_lib \<Rightarrow> 'g \<Rightarrow> 't AuthHandlerGRPCServer \<Rightarrow> 'g" where
  "RegisterAuthHandlerServiceServer G s srv =
     gl_RegisterService G ''plugin.AuthHandlerService'' (AuthHandlerService srv) s"

text \<open>The second field of each is the state of the plugin, which its methods are passed.\<close>

record ('s, 'v) GRPCPlugin =
  gp_Impl :: "('s, 'v) ProviderPlugin"
  gp_plugin :: 's

definition GRPCPlugin_GRPCServer ::
  "('g, ('s, 'v, 't) service) grpc_lib \<Rightarrow> ('s, 'v) GRPCPlugin \<Rightarrow> dial_fun option \<Rightarrow> 'g \<Rightarrow> goerror option \<times> 'g" where
  "GRPCPlugin_GRPCServer G p broker s =
     (None, RegisterPluginServiceServer G s (new_GRPCServer (gp_Impl p) (gp_plugin p) broker))"

record 't AuthHandlerGRPCPlugin =
  ga_Impl :: "'t AuthHandlerPlugin"
  ga_plugin :: 't

definition AuthHandlerGRPCPlugin_GRPCServer ::
  "('g, ('s, 'v, 't) service) grpc_lib \<Rightarrow> 't AuthHandlerGRPCPlugin \<Rightarrow> dial_fun option \<Rightarrow> 'g \<Rightarrow> goerror option \<times> 'g" where
  "AuthHandlerGRPCPlugin_GRPCServer G p broker s =
     (None, RegisterAuthHandlerServiceServer G s (new_AuthHandlerGRPCServer (ga_Impl p) (ga_plugin p) broker))"

text \<open>
  The stubs the host gets: each holds the generated client of the connection, made by
  \<open>new_client\<close>, which is \<open>proto.NewPluginServiceClient\<close> or \<open>proto.NewAuthHandlerServiceClient\<close>.
\<close>

record 'k GRPCClient =
  gc_client :: 'k

record 'k AuthHandlerGRPCClient =
  ac_client :: 'k

definition GRPCPlugin_GRPCClient ::
  "('conn \<Rightarrow> 'k) \<Rightarrow> ctx \<Rightarrow> dial_fun option \<Rightarrow> 'conn \<Rightarrow> goerror + 'k GRPCClient" where
  "GRPCPlugin_GRPCClient new_client c broker conn = Inr \<lparr>gc_client = new_client conn\<rparr>"

definition AuthHandlerGRPCPlugin_GRPCClient ::
  "('conn \<Rightarrow> 'k) \<Rightarrow> ctx \<Rightarrow> dial_fun option \<Rightarrow> 'conn \<Rightarrow> goerror + 'k AuthHandlerGRPCClient" where
  "AuthHandlerGRPCPlugin_GRPCClient new_client c broker conn = Inr \<lparr>ac_client = new_client conn\<rparr>"

definition GRPCClient_Client :: "'k GRPCClient \<Rightarrow> 'k" where
  "GRPCClient_Client c = gc_client c"

definition AuthHandlerGRPCClient_Client :: "'k AuthHandlerGRPCClient \<Rightarrow> 'k" where
  "AuthHandlerGRPCClient_Client c = ac_client c"

section \<open>Serving\<close>

record ('g, 'p) ServeConfig =
  sc_HandshakeConfig :: HandshakeConfigData
  sc_Plugins :: "'p strmap"
  sc_GRPCServer :: "server_option list \<Rightarrow> 'g"

definition Serve ::
  "('g, 'svc) grpc_lib \<Rightarrow> ('s, 'v) ProviderPlugin \<Rightarrow> 's \<Rightarrow> ('g, ('s, 'v) GRPCPlugin) ServeConfig" where
  "Serve G impl s =
     (let hc = HandshakeConfig in
      \<lparr>sc_HandshakeConfig = \<lparr>hk_ProtocolVersion = hk_ProtocolVersion hc,
         hk_MagicCookieKey = hk_MagicCookieKey hc, hk_MagicCookieValue = hk_MagicCookieValue hc\<rparr>,
       sc_Plugins = [(PluginName, \<lparr>gp_Impl = impl, gp_plugin = s\<rparr>)],
       sc_GRPCServer = newGRPCServer G\<rparr>)"

definition ServeAuthHandler ::
  "('g, 'svc) grpc_lib \<Rightarrow> 't AuthHandlerPlugin \<Rightarrow> 't \<Rightarrow> ('g, 't AuthHandlerGRPCPlugin) ServeConfig" where
  "ServeAuthHandler G impl s =
     (let hc = AuthHandlerHandshakeConfig in
      \<lparr>sc_HandshakeConfig = \<lparr>hk_ProtocolVersion = hk_ProtocolVersion hc,
         hk_MagicCookieKey = hk_MagicCookieKey hc, hk_MagicCookieValue = hk_MagicCookieValue hc\<rparr>,
       sc_Plugins = [(AuthHandlerPluginName, \<lparr>ga_Impl = impl, ga_plugin = s\<rparr>)],
       sc_GRPCServer = newGRPCServer G\<rparr>)"

lemmas serving_defs = Serve_def ServeAuthHandler_def HandshakeConfig_def AuthHandlerHandshakeConfig_def
  handshakeConfig_def authHandlerHandshakeConfig_def PluginName_def AuthHandlerPluginName_def

lemma recv_limit_no_option:
  "list_all (\<lambda>opt. \<exists>x. opt = OtherOption x) opts \<Longrightarrow>
     fold (\<lambda>opt limit. case opt of MaxRecvMsgSize n \<Rightarrow> n | OtherOption x \<Rightarrow> limit) opts n = n"
  by (induction opts arbitrary: n) auto

lemma newGRPCServer_limit:
  assumes "grpc_law G"
  shows "gl_limit G (newGRPCServer G (map OtherOption xs)) = 64 * 2 ^ 20"
    and "gl_limit G (newGRPCServer G (opts @ [MaxRecvMsgSize n])) = n"
proof -
  have "list_all (\<lambda>opt. \<exists>x. opt = OtherOption x) (map OtherOption xs)"
    by (simp add: list_all_iff)
  from recv_limit_no_option [OF this] assms
  show "gl_limit G (newGRPCServer G (map OtherOption xs)) = 64 * 2 ^ 20"
    by (simp add: grpc_law_def newGRPCServer_def recv_limit_def maxRecvMsgSize_def)
  from assms show "gl_limit G (newGRPCServer G (opts @ [MaxRecvMsgSize n])) = n"
    by (simp add: grpc_law_def newGRPCServer_def recv_limit_def)
qed

text \<open>
  What is served is the plugin: the one plugin of the configuration, when go-plugin asks it to
  register with the server the configuration makes, leaves a server on which the provider
  service, and nothing else, is a fresh \<open>GRPCServer\<close> of the implementation with the broker.
\<close>

theorem served_services:
  assumes "grpc_law G"
  shows "gm_get (sc_Plugins (Serve G impl s)) name =
      (if name = PluginName then Some \<lparr>gp_Impl = impl, gp_plugin = s\<rparr> else None)"
    and "gl_service G (snd (GRPCPlugin_GRPCServer G \<lparr>gp_Impl = impl, gp_plugin = s\<rparr> broker
        (sc_GRPCServer (Serve G impl s) opts))) =
      [''plugin.PluginService'' \<mapsto> PluginService (new_GRPCServer impl s broker)]"
    and "gl_service G (snd (AuthHandlerGRPCPlugin_GRPCServer G \<lparr>ga_Impl = aimpl, ga_plugin = t\<rparr> broker
        (sc_GRPCServer (ServeAuthHandler G aimpl t) opts))) =
      [''plugin.AuthHandlerService'' \<mapsto> AuthHandlerService (new_AuthHandlerGRPCServer aimpl t broker)]"
  using assms
  by (simp_all add: grpc_law_def serving_defs Let_def newGRPCServer_def fun_eq_iff
      GRPCPlugin_GRPCServer_def AuthHandlerGRPCPlugin_GRPCServer_def
      RegisterPluginServiceServer_def RegisterAuthHandlerServiceServer_def)

text \<open>
  The two kinds of plugin cannot be taken for each other: their handshakes differ in the
  protocol version, the cookie key and the cookie value, and they register under different
  names.
\<close>

theorem serve_kinds_distinct:
  "hk_ProtocolVersion (sc_HandshakeConfig (Serve F p s)) \<noteq>
     hk_ProtocolVersion (sc_HandshakeConfig (ServeAuthHandler G q t)) \<and>
   hk_MagicCookieKey (sc_HandshakeConfig (Serve F p s)) \<noteq>
     hk_MagicCookieKey (sc_HandshakeConfig (ServeAuthHandler G q t)) \<and>
   hk_MagicCookieValue (sc_HandshakeConfig (Serve F p s)) \<noteq>
     hk_MagicCookieValue (sc_HandshakeConfig (ServeAuthHandler G q t)) \<and>
   set (gm_keys (sc_Plugins (Serve F p s))) \<inter> set (gm_keys (sc_Plugins (ServeAuthHandler G q t))) = {}"
  by (simp add: serving_defs Let_def gm_keys_def)

end
