(* ===== verification/Static_Auth_Example.thy ===== *)
theory Static_Auth_Example
  imports Auth_Server
begin

text \<open>
  The example auth handler \<open>examples/staticauth/main.go\<close>: one login flag and the claims of the
  last login. \<open>time.Now\<close> is the argument \<open>now\<close> of the operations that read it.
\<close>

record StaticAuthPlugin =
  sa_loggedIn :: bool
  sa_claims :: "Claims option"

definition static_handlerName :: string where "static_handlerName = ''static''"

definition unknown_handler :: "string \<Rightarrow> goerror" where
  "unknown_handler name = Errorf [Lit ''unknown handler: '', Str name]"

text \<open>The guard at the start of every method.\<close>

definition static_guard :: "string \<Rightarrow> (goerror + 'a) \<Rightarrow> goerror + 'a" where
  "static_guard name r = (if name \<noteq> static_handlerName then Inl (unknown_handler name) else r)"

definition static_GetAuthHandlers :: "AuthHandlerInfo list" where
  "static_GetAuthHandlers =
     [\<lparr>ah_Name = static_handlerName, ah_DisplayName = ''Static Auth Handler'', ah_Flows = [FlowPAT],
       ah_Capabilities = [CapScopesOnLogin, CapFlowOverride]\<rparr>]"

definition static_ConfigureAuthHandler :: "string \<Rightarrow> goerror option" where
  "static_ConfigureAuthHandler name =
     (if name \<noteq> static_handlerName then Some (unknown_handler name) else None)"

definition static_Login ::
  "gotime \<Rightarrow> string \<Rightarrow> StaticAuthPlugin \<Rightarrow> (goerror + LoginResponse option) \<times> StaticAuthPlugin" where
  "static_Login now name p =
     (if name \<noteq> static_handlerName then (Inl (unknown_handler name), p)
      else
        (let claims = \<lparr>cl_Issuer = '''', cl_Subject = ''static-user'', cl_TenantID = '''',
               cl_ObjectID = '''', cl_ClientID = '''', cl_Email = ''user@example.com'',
               cl_Name = ''Static User'', cl_Username = '''', cl_IssuedAt = now,
               cl_ExpiresAt = zero_time\<rparr>;
             p = p\<lparr>sa_claims := Some claims, sa_loggedIn := True\<rparr>
         in (Inr (Some \<lparr>lp_Claims = sa_claims p, lp_ExpiresAt = time_add now hour\<rparr>), p)))"

definition static_Logout :: "string \<Rightarrow> StaticAuthPlugin \<Rightarrow> goerror option \<times> StaticAuthPlugin" where
  "static_Logout name p =
     (if name \<noteq> static_handlerName then (Some (unknown_handler name), p)
      else (None, p\<lparr>sa_loggedIn := False, sa_claims := None\<rparr>))"

definition static_GetStatus :: "string \<Rightarrow> StaticAuthPlugin \<Rightarrow> goerror + Status option" where
  "static_GetStatus name p =
     static_guard name (Inr (Some
       \<lparr>su_Authenticated = sa_loggedIn p, su_Reason = '''', su_Claims = sa_claims p,
        su_ExpiresAt = zero_time, su_LastRefresh = zero_time, su_TenantID = '''',
        su_IdentityType = IdentityTypeUser, su_ClientID = '''', su_TokenFile = '''', su_Scopes = [],
        su_Flow = '''', su_Hostname = ''''\<rparr>))"

definition static_GetToken :: "gotime \<Rightarrow> string \<Rightarrow> StaticAuthPlugin \<Rightarrow> goerror + TokenResponse option" where
  "static_GetToken now name p =
     static_guard name
       (if \<not> sa_loggedIn p then Inl (Errorf [Lit ''not logged in''])
        else Inr (Some \<lparr>tr_AccessToken = ''static-token-value'', tr_TokenType = ''Bearer'',
               tr_ExpiresAt = time_add now hour, tr_Scope = '''', tr_CachedAt = zero_time,
               tr_Flow = '''', tr_SessionID = ''''\<rparr>))"

definition static_ListCachedTokens :: "string \<Rightarrow> goerror + CachedTokenInfo option list" where
  "static_ListCachedTokens name = static_guard name (Inr [])"

definition static_PurgeExpiredTokens :: "string \<Rightarrow> goerror + goint" where
  "static_PurgeExpiredTokens name = static_guard name (Inr 0)"

definition static_DetectAvailableFlows :: "string \<Rightarrow> goerror + FlowAvailability list" where
  "static_DetectAvailableFlows name =
     static_guard name (Inr [\<lparr>fa_Flow = FlowPAT, fa_Available = True,
       fa_Reason = ''static handler always available''\<rparr>])"

definition static_StopAuthHandler :: "string \<Rightarrow> goerror option" where
  "static_StopAuthHandler name =
     (if name \<noteq> static_handlerName then Some (unknown_handler name) else None)"

text \<open>The plugin, at a clock that reads \<open>now\<close>.\<close>

definition static_plugin :: "gotime \<Rightarrow> StaticAuthPlugin AuthHandlerPlugin" where
  "static_plugin now =
     \<lparr>ap_GetAuthHandlers = (\<lambda>c p. (Inr static_GetAuthHandlers, p)),
      ap_ConfigureAuthHandler = (\<lambda>c name cfg p. (static_ConfigureAuthHandler name, p)),
      ap_Login = (\<lambda>c name req p. (case static_Login now name p of (r, p') \<Rightarrow> (([], r), p'))),
      ap_Logout = (\<lambda>c name req p. static_Logout name p),
      ap_GetStatus = (\<lambda>c name req p. (static_GetStatus name p, p)),
      ap_GetToken = (\<lambda>c name req p. (static_GetToken now name p, p)),
      ap_ListCachedTokens = (\<lambda>c name p. (static_ListCachedTokens name, p)),
      ap_PurgeExpiredTokens = (\<lambda>c name p. (static_PurgeExpiredTokens name, p)),
      ap_DetectAvailableFlows = (\<lambda>c name p. (static_DetectAvailableFlows name, p)),
      ap_StopAuthHandler = (\<lambda>c name p. (static_StopAuthHandler name, p)),
      ap_ActivateServerMode = None\<rparr>"

section \<open>Logging in and out\<close>

text \<open>Claims are held exactly while logged in.\<close>

definition static_ok :: "StaticAuthPlugin \<Rightarrow> bool" where
  "static_ok p \<longleftrightarrow> (sa_loggedIn p \<longleftrightarrow> sa_claims p \<noteq> None) \<and>
     (sa_claims p = None \<or> \<not> Claims_IsEmpty (sa_claims p))"

inductive static_step :: "StaticAuthPlugin \<Rightarrow> StaticAuthPlugin \<Rightarrow> bool" where
  login: "static_step p (snd (static_Login now name p))"
| logout: "static_step p (snd (static_Logout name p))"

lemma static_step_ok: "static_step p p' \<Longrightarrow> static_ok p \<Longrightarrow> static_ok p'"
  by (induction rule: static_step.induct)
    (auto simp: static_ok_def static_Login_def static_Logout_def Let_def Claims_IsEmpty_def)

lemma static_steps_ok: "static_step\<^sup>*\<^sup>* p p' \<Longrightarrow> static_ok p \<Longrightarrow> static_ok p'"
  by (induction rule: rtranclp_induct) (auto intro: static_step_ok)

lemma sint_hour: "sint hour = 3600000000000"
  by (simp add: hour_def second_def)

definition static_start :: StaticAuthPlugin where
  "static_start = \<lparr>sa_loggedIn = False, sa_claims = None\<rparr>"

text \<open>
  After any logins and logouts of the example handler, its status, its claims and its
  tokens agree: it reports an authenticated status exactly when the status has claims, exactly
  when a token is granted, and the token is good for every duration below an hour and for no
  longer one. The clock reads a time from Go's zero time on.
\<close>

theorem static_session_consistent:
  assumes "static_step\<^sup>*\<^sup>* static_start p" and "abs_ns now \<ge> 0"
  shows "\<exists>st. static_GetStatus ''static'' p = Inr (Some st) \<and>
    (su_Authenticated st \<longleftrightarrow> \<not> Claims_IsEmpty (su_Claims st)) \<and>
    (case static_GetToken now ''static'' p of
       Inl e \<Rightarrow> \<not> su_Authenticated st
     | Inr None \<Rightarrow> False
     | Inr (Some t) \<Rightarrow> su_Authenticated st \<and>
         (IsValidFor now (Some \<lparr>tk_AccessToken = tr_AccessToken t, tk_TokenType = tr_TokenType t,
            tk_ExpiresAt = tr_ExpiresAt t, tk_Scope = tr_Scope t, tk_CachedAt = tr_CachedAt t,
            tk_Flow = tr_Flow t, tk_SessionID = tr_SessionID t\<rparr>) d \<longleftrightarrow> sint d < 3600000000000))"
proof -
  have "static_ok static_start" by (simp add: static_ok_def static_start_def)
  with static_steps_ok [OF assms(1)] have ok: "static_ok p" by blast
  have empty: "Claims_IsEmpty None" by (simp add: Claims_IsEmpty_def)
  have name: "static_handlerName = ''static''" by (simp add: static_handlerName_def)
  from ok empty assms(2) show ?thesis
    by (cases "sa_claims p")
      (auto simp: static_GetStatus_def static_GetToken_def static_guard_def name static_ok_def
        IsValidFor_iff time_add_def sint_hour)
qed

theorem static_session_consistent_witness:
  "\<exists>st. static_GetStatus ''static'' (snd (static_Login (GoTime 5) ''static'' static_start)) = Inr (Some st) \<and>
     su_Authenticated st \<and> \<not> Claims_IsEmpty (su_Claims st)"
proof -
  have "static_step static_start (snd (static_Login (GoTime 5) ''static'' static_start))"
    by (rule static_step.login)
  from static_session_consistent [OF r_into_rtranclp [of static_step, OF this], of "GoTime 6" 0]
  obtain st where "static_GetStatus ''static'' (snd (static_Login (GoTime 5) ''static'' static_start)) = Inr (Some st)"
    "su_Authenticated st \<longleftrightarrow> \<not> Claims_IsEmpty (su_Claims st)" by auto
  moreover from this(1) have "su_Authenticated st"
    by (auto simp: static_GetStatus_def static_guard_def static_Login_def static_handlerName_def Let_def)
  ultimately show ?thesis by blast
qed

end
