(* ===== verification/Multi_Cluster_Example.thy ===== *)
theory Multi_Cluster_Example
  imports Static_Auth_Example
begin

text \<open>
  The example auth handler \<open>examples/multicluster/main.go\<close>: one session per instance hostname,
  in a Go map. \<open>time.Now\<close> is an argument; the listing reads the clock once per session, so
  there it is a function of the position. The map operations are those of \<open>go_dict\<close>, and the
  sessions refine a map from hostnames to sessions.
\<close>

record session =
  se_claims :: "Claims option"
  se_token :: string
  se_expiresAt :: gotime
  se_callbackPort :: goint

record MultiClusterAuthPlugin =
  mc_sessions :: "session strmap"

definition multicluster_New :: MultiClusterAuthPlugin where
  "multicluster_New = \<lparr>mc_sessions = []\<rparr>"

definition multicluster_handlerName :: string where
  "multicluster_handlerName = ''multicluster''"

definition checkHandler :: "string \<Rightarrow> goerror option" where
  "checkHandler name = (if name \<noteq> multicluster_handlerName then Some (unknown_handler name) else None)"

definition instanceLabel :: "string \<Rightarrow> string" where
  "instanceLabel hostname = (if hostname = '''' then ''default'' else hostname)"

definition multicluster_ConfigureAuthHandler :: "string \<Rightarrow> ProviderConfig \<Rightarrow> goerror option" where
  "multicluster_ConfigureAuthHandler name cfg = checkHandler name"

definition multicluster_StopAuthHandler :: "string \<Rightarrow> goerror option" where
  "multicluster_StopAuthHandler name = checkHandler name"

definition multicluster_GetAuthHandlers :: "AuthHandlerInfo list" where
  "multicluster_GetAuthHandlers =
     [\<lparr>ah_Name = multicluster_handlerName, ah_DisplayName = ''Multi-Cluster Auth Handler'',
       ah_Flows = [FlowInteractive],
       ah_Capabilities = [CapHostname, CapTokenHostname, CapInstanceHostname, CapCallbackPort]\<rparr>]"

text \<open>The claims and the session a login makes for an instance.\<close>

definition cluster_claims :: "gotime \<Rightarrow> string \<Rightarrow> Claims" where
  "cluster_claims now hostname =
     \<lparr>cl_Issuer = '''', cl_Subject = ''user@'' @ instanceLabel hostname, cl_TenantID = '''',
      cl_ObjectID = '''', cl_ClientID = '''', cl_Email = '''', cl_Name = ''Cluster User'',
      cl_Username = '''', cl_IssuedAt = now, cl_ExpiresAt = zero_time\<rparr>"

definition cluster_session :: "gotime \<Rightarrow> string \<Rightarrow> goint \<Rightarrow> session" where
  "cluster_session now hostname port =
     \<lparr>se_claims = Some (cluster_claims now hostname), se_token = ''token-for-'' @ instanceLabel hostname,
      se_expiresAt = time_add now hour, se_callbackPort = port\<rparr>"

definition multicluster_Login :: "gotime \<Rightarrow> string \<Rightarrow> LoginRequest \<Rightarrow> MultiClusterAuthPlugin \<Rightarrow>
    (goerror + LoginResponse option) \<times> MultiClusterAuthPlugin" where
  "multicluster_Login now name req p =
     (case checkHandler name of
        Some err \<Rightarrow> (Inl err, p)
      | None \<Rightarrow>
          (let s = cluster_session now (lq_Hostname req) (lq_CallbackPort req) in
           (Inr (Some \<lparr>lp_Claims = se_claims s, lp_ExpiresAt = se_expiresAt s\<rparr>),
            p\<lparr>mc_sessions := gm_put (lq_Hostname req) s (mc_sessions p)\<rparr>)))"

definition multicluster_Logout ::
  "string \<Rightarrow> LogoutRequest \<Rightarrow> MultiClusterAuthPlugin \<Rightarrow> goerror option \<times> MultiClusterAuthPlugin" where
  "multicluster_Logout name req p =
     (case checkHandler name of
        Some err \<Rightarrow> (Some err, p)
      | None \<Rightarrow>
          if oq_Hostname req = '''' then (None, p\<lparr>mc_sessions := []\<rparr>)
          else (None, p\<lparr>mc_sessions := gm_del (oq_Hostname req) (mc_sessions p)\<rparr>))"

definition multicluster_GetStatus ::
  "string \<Rightarrow> StatusRequest \<Rightarrow> MultiClusterAuthPlugin \<Rightarrow> goerror + Status option" where
  "multicluster_GetStatus name req p =
     (case checkHandler name of
        Some err \<Rightarrow> Inl err
      | None \<Rightarrow>
          (let st = \<lparr>su_Authenticated = False, su_Reason = '''', su_Claims = None,
                     su_ExpiresAt = zero_time, su_LastRefresh = zero_time, su_TenantID = '''',
                     su_IdentityType = '''', su_ClientID = '''', su_TokenFile = '''', su_Scopes = [],
                     su_Flow = '''', su_Hostname = sq_Hostname req\<rparr>
           in (case gm_get (mc_sessions p) (sq_Hostname req) of
                 None \<Rightarrow> Inr (Some (st\<lparr>su_Reason := ''no session for instance''\<rparr>))
               | Some sess \<Rightarrow>
                   Inr (Some (st\<lparr>su_Authenticated := True, su_Claims := se_claims sess,
                     su_ExpiresAt := se_expiresAt sess, su_IdentityType := IdentityTypeUser\<rparr>)))))"

definition multicluster_GetToken ::
  "string \<Rightarrow> TokenRequest \<Rightarrow> MultiClusterAuthPlugin \<Rightarrow> goerror + TokenResponse option" where
  "multicluster_GetToken name req p =
     (case checkHandler name of
        Some err \<Rightarrow> Inl err
      | None \<Rightarrow>
          (case gm_get (mc_sessions p) (tq_Hostname req) of
             None \<Rightarrow> Inl (Errorf [Lit ''not logged in for instance '', Quo (tq_Hostname req)])
           | Some sess \<Rightarrow>
               Inr (Some \<lparr>tr_AccessToken = se_token sess, tr_TokenType = ''Bearer'',
                 tr_ExpiresAt = se_expiresAt sess, tr_Scope = '''', tr_CachedAt = zero_time,
                 tr_Flow = '''', tr_SessionID = ''''\<rparr>)))"

text \<open>The loop over the sorted hosts; \<open>clock i\<close> is the time read for the i-th.\<close>

fun list_tokens :: "(nat \<Rightarrow> gotime) \<Rightarrow> nat \<Rightarrow> session strmap \<Rightarrow> string list \<Rightarrow> CachedTokenInfo option list" where
  "list_tokens clock i sessions [] = []"
| "list_tokens clock i sessions (host # hosts) =
     Some \<lparr>ct_Handler = multicluster_handlerName, ct_Hostname = host, ct_TokenKind = ''access'',
        ct_Scope = '''', ct_TokenType = ''Bearer'', ct_Flow = '''', ct_Fingerprint = '''',
        ct_ExpiresAt = zero_time, ct_CachedAt = zero_time,
        ct_IsExpired = (case gm_get sessions host of None \<Rightarrow> False | Some sess \<Rightarrow> se_expiresAt sess < clock i),
        ct_SessionID = ''''\<rparr> # list_tokens clock (Suc i) sessions hosts"

definition multicluster_ListCachedTokens ::
  "(nat \<Rightarrow> gotime) \<Rightarrow> string \<Rightarrow> MultiClusterAuthPlugin \<Rightarrow> goerror + CachedTokenInfo option list" where
  "multicluster_ListCachedTokens clock name p =
     (case checkHandler name of
        Some err \<Rightarrow> Inl err
      | None \<Rightarrow> Inr (list_tokens clock 0 (mc_sessions p) (sort (gm_keys (mc_sessions p)))))"

text \<open>The loop over the map, which deletes the entry it is at.\<close>

fun purge_loop :: "gotime \<Rightarrow> session strmap \<Rightarrow> session strmap \<Rightarrow> nat \<Rightarrow> session strmap \<times> nat" where
  "purge_loop now [] sessions purged = (sessions, purged)"
| "purge_loop now ((host, sess) # rest) sessions purged =
     (if se_expiresAt sess < now then purge_loop now rest (gm_del host sessions) (Suc purged)
      else purge_loop now rest sessions purged)"

definition multicluster_PurgeExpiredTokens ::
  "gotime \<Rightarrow> string \<Rightarrow> MultiClusterAuthPlugin \<Rightarrow> (goerror + goint) \<times> MultiClusterAuthPlugin" where
  "multicluster_PurgeExpiredTokens now name p =
     (case checkHandler name of
        Some err \<Rightarrow> (Inl err, p)
      | None \<Rightarrow>
          (case purge_loop now (mc_sessions p) (mc_sessions p) 0 of
             (sessions, purged) \<Rightarrow> (Inr (of_nat purged), p\<lparr>mc_sessions := sessions\<rparr>)))"

definition multicluster_DetectAvailableFlows :: "string \<Rightarrow> goerror + FlowAvailability list" where
  "multicluster_DetectAvailableFlows name =
     (case checkHandler name of
        Some err \<Rightarrow> Inl err
      | None \<Rightarrow> Inr [\<lparr>fa_Flow = FlowInteractive, fa_Available = True,
          fa_Reason = ''interactive login always available''\<rparr>])"

definition multicluster_plugin :: "(nat \<Rightarrow> gotime) \<Rightarrow> MultiClusterAuthPlugin AuthHandlerPlugin" where
  "multicluster_plugin clock =
     \<lparr>ap_GetAuthHandlers = (\<lambda>c p. (Inr multicluster_GetAuthHandlers, p)),
      ap_ConfigureAuthHandler = (\<lambda>c name cfg p. (multicluster_ConfigureAuthHandler name cfg, p)),
      ap_Login = (\<lambda>c name req p.
        (case multicluster_Login (clock 0) name req p of (r, p') \<Rightarrow> (([], r), p'))),
      ap_Logout = (\<lambda>c name req p. multicluster_Logout name req p),
      ap_GetStatus = (\<lambda>c name req p. (multicluster_GetStatus name req p, p)),
      ap_GetToken = (\<lambda>c name req p. (multicluster_GetToken name req p, p)),
      ap_ListCachedTokens = (\<lambda>c name p. (multicluster_ListCachedTokens clock name p, p)),
      ap_PurgeExpiredTokens = (\<lambda>c name p. multicluster_PurgeExpiredTokens (clock 0) name p),
      ap_DetectAvailableFlows = (\<lambda>c name p. (multicluster_DetectAvailableFlows name, p)),
      ap_StopAuthHandler = (\<lambda>c name p. (multicluster_StopAuthHandler name, p)),
      ap_ActivateServerMode = None\<rparr>"

section \<open>Sessions as a map\<close>

definition cluster_ok :: "MultiClusterAuthPlugin \<Rightarrow> bool" where
  "cluster_ok p \<longleftrightarrow> gm_wf (mc_sessions p)"

text \<open>Purging walks over a snapshot: it deletes exactly the expired entries, once each.\<close>

definition live :: "gotime \<Rightarrow> string \<times> session \<Rightarrow> bool" where
  "live now e \<longleftrightarrow> \<not> se_expiresAt (snd e) < now"

lemma purge_loop_count:
  "snd (purge_loop now rest sessions n) = n + length (filter (\<lambda>e. \<not> live now e) rest)"
  by (induction now rest sessions n rule: purge_loop.induct) (auto simp: live_def)

lemma purge_loop_get:
  "gm_wf rest \<Longrightarrow> gm_get (fst (purge_loop now rest sessions n)) h =
     (case gm_get rest h of
        Some s \<Rightarrow> if se_expiresAt s < now then None else gm_get sessions h
      | None \<Rightarrow> gm_get sessions h)"
proof (induction now rest sessions n rule: purge_loop.induct)
  case (2 now host sess rest sessions n)
  then have "gm_get rest host = None" "gm_wf rest" by (auto simp: gm_wf_def map_of_eq_None_iff)
  with 2 show ?case by (auto simp: gm.get_del split: option.split)
qed simp

lemma purge_loop_wf: "gm_wf sessions \<Longrightarrow> gm_wf (fst (purge_loop now rest sessions n))"
  by (induction now rest sessions n rule: purge_loop.induct) (auto simp: gm.wf_del)

lemma list_tokens_hosts: "map (map_option ct_Hostname) (list_tokens clock i sessions hosts) = map Some hosts"
  by (induction clock i sessions hosts rule: list_tokens.induct) simp_all

text \<open>A history of calls, and what it means for the map from hostnames to sessions.\<close>

datatype cluster_call =
    ClusterLogin gotime LoginRequest
  | ClusterLogout LogoutRequest
  | ClusterPurge gotime

fun cluster_run :: "cluster_call \<Rightarrow> MultiClusterAuthPlugin \<Rightarrow> MultiClusterAuthPlugin" where
  "cluster_run (ClusterLogin now req) p = snd (multicluster_Login now multicluster_handlerName req p)"
| "cluster_run (ClusterLogout req) p = snd (multicluster_Logout multicluster_handlerName req p)"
| "cluster_run (ClusterPurge now) p = snd (multicluster_PurgeExpiredTokens now multicluster_handlerName p)"

fun cluster_spec :: "cluster_call \<Rightarrow> (string \<Rightarrow> session option) \<Rightarrow> string \<Rightarrow> session option" where
  "cluster_spec (ClusterLogin now req) m =
     m(lq_Hostname req \<mapsto> cluster_session now (lq_Hostname req) (lq_CallbackPort req))"
| "cluster_spec (ClusterLogout req) m =
     (if oq_Hostname req = '''' then Map.empty else m(oq_Hostname req := None))"
| "cluster_spec (ClusterPurge now) m =
     (\<lambda>h. case m h of Some s \<Rightarrow> if se_expiresAt s < now then None else Some s | None \<Rightarrow> None)"

lemma check_own [simp]: "checkHandler multicluster_handlerName = None"
  by (simp add: checkHandler_def)

lemma cluster_run_ok: "cluster_ok p \<Longrightarrow> cluster_ok (cluster_run call p)"
  by (cases call) (simp_all add: cluster_ok_def multicluster_Login_def multicluster_Logout_def
      multicluster_PurgeExpiredTokens_def Let_def case_prod_beta purge_loop_wf)

lemma cluster_run_spec:
  "cluster_ok p \<Longrightarrow> gm_get (mc_sessions (cluster_run call p)) = cluster_spec call (gm_get (mc_sessions p))"
proof (cases call)
  case (ClusterPurge now)
  assume "cluster_ok p"
  then have wf: "gm_wf (mc_sessions p)" by (simp add: cluster_ok_def)
  show ?thesis
    unfolding ClusterPurge cluster_run.simps cluster_spec.simps multicluster_PurgeExpiredTokens_def
    using purge_loop_get [OF wf, of now "mc_sessions p" 0]
    by (auto simp: fun_eq_iff case_prod_beta split: option.split)
qed (auto simp: multicluster_Login_def multicluster_Logout_def Let_def gm.get_put gm.get_del fun_eq_iff)

lemma cluster_history_ok: "cluster_ok p \<Longrightarrow> cluster_ok (fold cluster_run calls p)"
  by (induction calls arbitrary: p) (auto intro: cluster_run_ok)

lemma cluster_history_spec:
  "gm_get (mc_sessions (fold cluster_run calls multicluster_New)) = fold cluster_spec calls Map.empty"
proof -
  have ok: "cluster_ok multicluster_New" by (simp add: cluster_ok_def multicluster_New_def)
  have "gm_get (mc_sessions (fold cluster_run calls p)) = fold cluster_spec calls (gm_get (mc_sessions p))"
    if "cluster_ok p" for p
    using that
  proof (induction calls arbitrary: p)
    case (Cons call calls)
    from Cons.IH [OF cluster_run_ok [OF Cons.prems]] cluster_run_spec [OF Cons.prems]
    show ?case by simp
  qed simp
  from this [OF ok] show ?thesis by (simp add: multicluster_New_def)
qed


section \<open>Properties\<close>

text \<open>
  The sessions of the multi-cluster handler refine a map from hostnames to sessions: after
  any history of logins, logouts and purges of a fresh handler, what it holds for each
  hostname is what the history means for that map. In particular a login, a named logout and
  a purge of another instance leave an instance's session alone.
\<close>

theorem cluster_sessions_refine:
  "gm_get (mc_sessions (fold cluster_run calls multicluster_New)) = fold cluster_spec calls Map.empty"
  by (rule cluster_history_spec)

text \<open>
  The listing names exactly the instances that have a session, once each and in order,
  whatever the order of the map, after any history.
\<close>

theorem cluster_listing:
  "\<exists>tokens. multicluster_ListCachedTokens clock multicluster_handlerName
        (fold cluster_run calls multicluster_New) = Inr tokens \<and>
     None \<notin> set tokens \<and>
     sorted (map (ct_Hostname \<circ> the) tokens) \<and> distinct (map (ct_Hostname \<circ> the) tokens) \<and>
     set (map (ct_Hostname \<circ> the) tokens) = dom (gm_get (mc_sessions (fold cluster_run calls multicluster_New)))"
proof -
  let ?m = "mc_sessions (fold cluster_run calls multicluster_New)"
  let ?hosts = "sort (gm_keys ?m)"
  let ?tokens = "list_tokens clock 0 ?m ?hosts"
  have "gm_wf ?m"
    using cluster_history_ok [of multicluster_New calls] by (simp add: cluster_ok_def multicluster_New_def)
  then have dist: "distinct ?hosts" by (simp add: gm_wf_def gm_keys_def)
  have none: "None \<notin> set ?tokens"
    using list_tokens_hosts [of clock 0 ?m ?hosts] by (metis ex_map_conv list.set_map option.distinct(1) option.simps(8) image_iff)
  have names: "map (ct_Hostname \<circ> the) ?tokens = ?hosts"
  proof -
    have "map (map_option ct_Hostname) ts = map Some hs \<Longrightarrow> map (ct_Hostname \<circ> the) ts = hs"
      for ts :: "CachedTokenInfo option list" and hs
      by (induction ts arbitrary: hs) auto
    from this [OF list_tokens_hosts] show ?thesis .
  qed
  have "set ?hosts = dom (gm_get ?m)" by (simp add: gm_keys_dom)
  with none dist have "None \<notin> set ?tokens \<and>
     sorted (map (ct_Hostname \<circ> the) ?tokens) \<and> distinct (map (ct_Hostname \<circ> the) ?tokens) \<and>
     set (map (ct_Hostname \<circ> the) ?tokens) = dom (gm_get ?m)"
    unfolding names by simp
  moreover have "multicluster_ListCachedTokens clock multicluster_handlerName
      (fold cluster_run calls multicluster_New) = Inr ?tokens"
    by (simp add: multicluster_ListCachedTokens_def)
  ultimately show ?thesis by blast
qed

text \<open>
  Purging removes exactly the expired sessions and counts them: no session that remains is
  expired, every session that was not expired remains, and the returned count is the number
  of sessions that are gone.
\<close>

theorem cluster_purge:
  assumes "cluster_ok p" and "length (mc_sessions p) < 2 ^ 63"
  shows "\<exists>n p'. multicluster_PurgeExpiredTokens now multicluster_handlerName p = (Inr n, p') \<and>
    gm_get (mc_sessions p') = (\<lambda>h. case gm_get (mc_sessions p) h of
       Some s \<Rightarrow> if se_expiresAt s < now then None else Some s | None \<Rightarrow> None) \<and>
    sint n = int (card (dom (gm_get (mc_sessions p)))) - int (card (dom (gm_get (mc_sessions p'))))"
proof -
  let ?m = "mc_sessions p"
  obtain m' k where run: "purge_loop now ?m ?m 0 = (m', k)" by (cases "purge_loop now ?m ?m 0")
  have wf: "gm_wf ?m" using assms(1) by (simp add: cluster_ok_def)
  have k: "k = length (filter (\<lambda>e. \<not> live now e) ?m)"
    using purge_loop_count [of now ?m ?m 0] run by simp
  have get: "gm_get m' = (\<lambda>h. case gm_get ?m h of
       Some s \<Rightarrow> if se_expiresAt s < now then None else Some s | None \<Rightarrow> None)"
    using purge_loop_get [OF wf, of now ?m 0] run by (auto simp: fun_eq_iff split: option.split)
  have keys: "card (dom (gm_get ?m)) = length ?m"
    using wf by (simp add: gm_wf_def dom_map_of_conv_image_fst distinct_card [of "map fst ?m", simplified])
  have "dom (gm_get m') = fst ` set (filter (live now) ?m)"
  proof (rule set_eqI)
    fix h
    have "h \<in> dom (gm_get m') \<longleftrightarrow> (\<exists>s. gm_get ?m h = Some s \<and> \<not> se_expiresAt s < now)"
      by (auto simp: get split: option.splits if_splits)
    also have "\<dots> \<longleftrightarrow> (\<exists>s. (h, s) \<in> set ?m \<and> live now (h, s))"
      using wf by (simp add: gm_wf_def map_of_eq_Some_iff live_def)
    also have "\<dots> \<longleftrightarrow> h \<in> fst ` set (filter (live now) ?m)" by (force simp: image_iff)
    finally show "h \<in> dom (gm_get m') \<longleftrightarrow> h \<in> fst ` set (filter (live now) ?m)" .
  qed
  moreover have "distinct (map fst (filter (live now) ?m))"
    using wf by (simp add: gm_wf_def distinct_map_filter)
  ultimately have "card (dom (gm_get m')) = length (filter (live now) ?m)"
    using distinct_card [of "map fst (filter (live now) ?m)"] by simp
  with k keys have "int k = int (card (dom (gm_get ?m))) - int (card (dom (gm_get m')))"
    using sum_length_filter_compl [of "live now" ?m] by simp
  moreover have "sint (of_nat k :: 64 word) = int k"
  proof -
    have "k \<le> length ?m" using k by simp
    with assms(2) have "int k < 2 ^ 63" by simp
    then have "sint (word_of_int (int k) :: 64 word) = int k" by (intro sint_word_of_int_64) simp_all
    then show ?thesis by simp
  qed
  ultimately show ?thesis
    using get by (simp add: multicluster_PurgeExpiredTokens_def run)
qed

text \<open>Two instances, of which one has expired.\<close>

definition cluster_login :: "string \<Rightarrow> LoginRequest" where
  "cluster_login host = \<lparr>lq_TenantID = '''', lq_Scopes = [], lq_Flow = '''', lq_Timeout = 0,
     lq_Hostname = host, lq_CallbackPort = 0\<rparr>"

theorem cluster_purge_witness:
  "\<exists>n p'. multicluster_PurgeExpiredTokens (GoTime 3600000000500) multicluster_handlerName
      (fold cluster_run [ClusterLogin (GoTime 0) (cluster_login ''a''),
         ClusterLogin (GoTime 1000) (cluster_login ''b'')] multicluster_New) = (Inr n, p') \<and>
    gm_get (mc_sessions p') ''a'' = None \<and> gm_get (mc_sessions p') ''b'' \<noteq> None"
proof -
  let ?p = "fold cluster_run [ClusterLogin (GoTime 0) (cluster_login ''a''),
         ClusterLogin (GoTime 1000) (cluster_login ''b'')] multicluster_New"
  have m: "mc_sessions ?p = [(''a'', cluster_session (GoTime 0) ''a'' 0), (''b'', cluster_session (GoTime 1000) ''b'' 0)]"
    by (simp add: multicluster_Login_def cluster_login_def multicluster_New_def Let_def)
  have "cluster_ok ?p" by (simp only: cluster_ok_def m) (simp add: gm_wf_def)
  moreover have "length (mc_sessions ?p) < 2 ^ 63" by (simp only: m) simp
  ultimately obtain n p' where
    run: "multicluster_PurgeExpiredTokens (GoTime 3600000000500) multicluster_handlerName ?p = (Inr n, p')" and
    get: "gm_get (mc_sessions p') = (\<lambda>h. case gm_get (mc_sessions ?p) h of
       Some s \<Rightarrow> if se_expiresAt s < GoTime 3600000000500 then None else Some s | None \<Rightarrow> None)"
    using cluster_purge [of ?p "GoTime 3600000000500"] by blast
  have "gm_get (mc_sessions p') ''a'' = None" "gm_get (mc_sessions p') ''b'' \<noteq> None"
    unfolding get m by (simp_all add: cluster_session_def time_add_def sint_hour)
  with run show ?thesis by blast
qed

end
