(* ===== verification/Served_Plugins.thy ===== *)
theory Served_Plugins
  imports Serving Echo_Example Static_Auth_Example Multi_Cluster_Example
begin

text \<open>
  Plugins behind their servers: what a host sees of them through the RPCs.

  \<^item> A provider that streams its log lines and then its result, against the same provider
    called without streaming: the two execute handlers of \<open>plugin/grpc_server.go\<close> must agree.
  \<^item> The multi-cluster handler of \<open>examples/multicluster/main.go\<close> behind the auth server of
    \<open>plugin/grpc_auth_server.go\<close>: a history of RPCs means what the history of logins, logouts
    and purges means for the sessions, and the token a host gets is the one of that meaning.
\<close>

section \<open>Streamed and plain execution\<close>

text \<open>The chunk that carries a result.\<close>

definition result_chunk :: "Output option \<Rightarrow> StreamChunk" where
  "result_chunk out = \<lparr>sk_Stdout = None, sk_Stderr = None, sk_Result = out, sk_Error = ''''\<rparr>"

text \<open>A provider that streams some chunks, then does what the plain provider does.\<close>

definition streaming_form ::
  "(ctx \<Rightarrow> string \<Rightarrow> goval strmap option \<Rightarrow> StreamChunk list) \<Rightarrow>
   ('s, 'v) ProviderPlugin \<Rightarrow> ('s, 'v) ProviderPlugin" where
  "streaming_form logs impl = impl\<lparr>pp_ExecuteProviderStream :=
     (\<lambda>c name input s.
        (case pp_ExecuteProvider impl c name input s of
           (Inl e, s') \<Rightarrow> ((logs c name input, Some e), s')
         | (Inr out, s') \<Rightarrow> ((logs c name input @ [result_chunk out], None), s')))\<rparr>"

lemma streaming_form_plain [simp]:
  "pp_ExecuteProvider (streaming_form logs impl) = pp_ExecuteProvider impl"
  by (simp add: streaming_form_def)

lemma result_chunk_proto:
  "chunk_to_proto J (result_chunk out) =
     (if out = None then None
      else Some (ChunkResult (case marshal_output J out of
                   Inl err \<Rightarrow> result_error (encode_failed err) | Inr b \<Rightarrow> \<lparr>es_Output = b, es_Error = ''''\<rparr>)))"
  by (auto simp: chunk_to_proto_def result_chunk_def result_error_def split: sum.split)

text \<open>On a stream that does not break, every message goes out.\<close>

abbreviation whole :: "ctx \<Rightarrow> 'm stream" where
  "whole c \<equiv> new_stream c (\<lambda>_. None)"

lemma forward_whole:
  "st_sent (fw_stream (fold (forward J) chunks (newStreamForwarder (whole c)))) =
     List.map_filter (chunk_to_proto J) chunks"
  "st_results (fw_stream (fold (forward J) chunks (newStreamForwarder (whole c)))) = (\<lambda>_. None)"
  using fwd.run_whole [of "newStreamForwarder (whole c)" J chunks]
  by (simp_all add: newStreamForwarder_def new_stream_def)

lemma send_whole:
  "st_results st = (\<lambda>_. None) \<Longrightarrow> fst (stream_send m st) = None \<and> st_sent (snd (stream_send m st)) = st_sent st @ [m]"
  by (simp add: stream_send_def)

text \<open>
  C14. Streaming changes how a result arrives, not what it is: on an unbroken stream, a provider
  that streams log chunks and then its result makes the host see, after the chunks, exactly
  one result message, and that is the response the plain call gives: for a request that does
  not decode, for a failing provider, for an output that does not encode, and for a result.
  Two cases differ: an error that means streaming is unsupported ends the call with a status,
  and a nil output sends no result at all. The plugin's state is the same either way.
\<close>

theorem stream_unary_agree:
  "let sv = sv0\<lparr>sv_Impl := streaming_form logs impl\<rparr>;
       (resp, sv1) = GRPCServer_ExecuteProvider J c req sv;
       ((err, st), sv2) = GRPCServer_ExecuteProviderStream J req (whole c) sv
   in sv2 = sv1 \<and>
     (case execute_setup J c req sv of
        Inl msg \<Rightarrow> err = None \<and> st_sent st = [ChunkResult resp]
      | Inr (input, c1) \<Rightarrow>
          (let sent = List.map_filter (chunk_to_proto J) (logs c1 (er_ProviderName req) input) in
           (case fst (pp_ExecuteProvider impl c1 (er_ProviderName req) input (sv_plugin sv)) of
              Inl e \<Rightarrow>
                if errors_is_streaming e
                then err = Some (StatusErr CodeUnimplemented (error_text e)) \<and> st_sent st = sent
                else err = None \<and> st_sent st = sent @ [ChunkResult resp]
            | Inr out \<Rightarrow> err = None \<and>
                st_sent st = (if out = None then sent else sent @ [ChunkResult resp]))))"
proof -
  let ?sv = "sv0\<lparr>sv_Impl := streaming_form logs impl\<rparr>"
  have ctx: "st_ctx (whole c) = c" by (simp add: new_stream_def)
  show ?thesis
  proof (cases "execute_setup J c req ?sv")
    case (Inl msg)
    then show ?thesis
      by (simp add: Let_def GRPCServer_ExecuteProvider_def GRPCServer_ExecuteProviderStream_def ctx)
        (simp add: stream_send_def new_stream_def)
  next
    case (Inr p)
    obtain input c1 where p: "p = (input, c1)" by (cases p)
    obtain r s where run: "pp_ExecuteProvider impl c1 (er_ProviderName req) input (sv_plugin sv0) = (r, s)"
      by (cases "pp_ExecuteProvider impl c1 (er_ProviderName req) input (sv_plugin sv0)")
    let ?logs = "logs c1 (er_ProviderName req) input"
    let ?f = "fold (forward J) ?logs (newStreamForwarder (whole c))"
    have stream: "pp_ExecuteProviderStream (streaming_form logs impl) c1 (er_ProviderName req) input (sv_plugin sv0) =
        (case r of Inl e \<Rightarrow> ((?logs, Some e), s) | Inr out \<Rightarrow> ((?logs @ [result_chunk out], None), s))"
      by (simp add: streaming_form_def run split: sum.split)
    show ?thesis
    proof (cases r)
      case (Inl e)
      obtain e' st where send: "stream_send (ChunkResult (result_error (error_text e))) (fw_stream ?f) = (e', st)"
        by (cases "stream_send (ChunkResult (result_error (error_text e))) (fw_stream ?f)")
      from send_whole [OF forward_whole(2) [of J ?logs c], of "ChunkResult (result_error (error_text e))"]
        forward_whole(1) [of J ?logs c]
      show ?thesis
        by (simp add: Let_def GRPCServer_ExecuteProvider_def GRPCServer_ExecuteProviderStream_def ctx
            Inr p run stream Inl send)
    next
      case (Inr out)
      from forward_whole(1) [of J "?logs @ [result_chunk out]" c] result_chunk_proto [of J out]
        \<open>execute_setup J c req ?sv = Inr p\<close>
      show ?thesis
        by (simp add: Let_def GRPCServer_ExecuteProvider_def GRPCServer_ExecuteProviderStream_def ctx
            p run stream Inr List.map_filter_def split: sum.split)
    qed
  qed
qed

section \<open>The multi-cluster handler behind its server\<close>

text \<open>
  RPCs a host sends, with the time the handler's clock shows when it serves them. Each is
  served by the auth server with the handler's code at that time; \<open>cluster_meaning\<close> is what
  the RPC means for the sessions, which is nothing when it names another handler.
\<close>

datatype cluster_rpc =
    LoginRPC gotime PLoginRequest "PLoginStreamMessage stream"
  | LogoutRPC gotime ctx PLogoutRequest
  | PurgeRPC gotime ctx PPurgeExpiredTokensRequest
  | StatusRPC gotime ctx PGetStatusRequest
  | TokenRPC gotime ctx PGetTokenRequest
  | ListRPC gotime ctx PListCachedTokensRequest

abbreviation at_time ::
  "gotime \<Rightarrow> MultiClusterAuthPlugin AuthHandlerGRPCServer \<Rightarrow> MultiClusterAuthPlugin AuthHandlerGRPCServer" where
  "at_time now sv \<equiv> sv\<lparr>au_Impl := multicluster_plugin (\<lambda>_. now)\<rparr>"

fun serve_rpc ::
  "cluster_rpc \<Rightarrow> MultiClusterAuthPlugin AuthHandlerGRPCServer \<Rightarrow> MultiClusterAuthPlugin AuthHandlerGRPCServer" where
  "serve_rpc (LoginRPC now req st) sv = snd (Auth_Login req st (at_time now sv))"
| "serve_rpc (LogoutRPC now c req) sv = snd (Auth_Logout c req (at_time now sv))"
| "serve_rpc (PurgeRPC now c req) sv = snd (Auth_PurgeExpiredTokens c req (at_time now sv))"
| "serve_rpc (StatusRPC now c req) sv = snd (Auth_GetStatus c req (at_time now sv))"
| "serve_rpc (TokenRPC now c req) sv = snd (Auth_GetToken c req (at_time now sv))"
| "serve_rpc (ListRPC now c req) sv = snd (Auth_ListCachedTokens c req (at_time now sv))"

fun cluster_meaning :: "cluster_rpc \<Rightarrow> cluster_call list" where
  "cluster_meaning (LoginRPC now req st) =
     (if lr_HandlerName req = ''multicluster'' then [ClusterLogin now (login_request_of req)] else [])"
| "cluster_meaning (LogoutRPC now c req) =
     (if lo_HandlerName req = ''multicluster'' then [ClusterLogout \<lparr>oq_Hostname = lo_Hostname req\<rparr>] else [])"
| "cluster_meaning (PurgeRPC now c req) =
     (if pe_HandlerName req = ''multicluster'' then [ClusterPurge now] else [])"
| "cluster_meaning _ = []"

definition served_cluster :: "dial_fun option \<Rightarrow> MultiClusterAuthPlugin AuthHandlerGRPCServer" where
  "served_cluster broker = new_AuthHandlerGRPCServer (multicluster_plugin (\<lambda>_. zero_time)) multicluster_New broker"

lemma cluster_plugin_sel:
  "ap_Login (multicluster_plugin clock) c name req p =
     (case multicluster_Login (clock 0) name req p of (r, p') \<Rightarrow> (([], r), p'))"
  "ap_Logout (multicluster_plugin clock) c name oreq p = multicluster_Logout name oreq p"
  "ap_GetStatus (multicluster_plugin clock) c name sreq p = (multicluster_GetStatus name sreq p, p)"
  "ap_GetToken (multicluster_plugin clock) c name treq p = (multicluster_GetToken name treq p, p)"
  "ap_ListCachedTokens (multicluster_plugin clock) c name p = (multicluster_ListCachedTokens clock name p, p)"
  "ap_PurgeExpiredTokens (multicluster_plugin clock) c name p = multicluster_PurgeExpiredTokens (clock 0) name p"
  by (simp_all add: multicluster_plugin_def)

lemma check_other: "checkHandler name = (if name = ''multicluster'' then None else Some (unknown_handler name))"
  by (simp add: checkHandler_def multicluster_handlerName_def)

lemma login_state: "au_plugin (snd (Auth_Login req st sv)) =
   snd (ap_Login (au_Impl sv) (call_ctx sv (st_ctx st) (lr_Profile req)) (lr_HandlerName req)
     (login_request_of req) (au_plugin sv))"
  by (auto simp: Auth_Login_def Let_def split: prod.split sum.split option.split)

lemma serve_rpc_state:
  "au_plugin (serve_rpc rpc sv) = fold cluster_run (cluster_meaning rpc) (au_plugin sv)"
proof (cases rpc)
  case (LoginRPC now req st)
  then show ?thesis
    by (auto simp: login_state cluster_plugin_sel multicluster_handlerName_def
        multicluster_Login_def check_other Let_def)
next
  case (LogoutRPC now c req)
  then show ?thesis
    by (auto simp: Auth_Logout_def cluster_plugin_sel multicluster_handlerName_def
        multicluster_Logout_def check_other)
next
  case (PurgeRPC now c req)
  then show ?thesis
    by (auto simp: Auth_PurgeExpiredTokens_def cluster_plugin_sel multicluster_handlerName_def
        multicluster_PurgeExpiredTokens_def check_other split: prod.split)
qed (auto simp: Auth_GetStatus_def Auth_GetToken_def Auth_ListCachedTokens_def cluster_plugin_sel
    split: sum.split)

lemma serve_history_state:
  "au_plugin (fold serve_rpc rpcs sv) = fold cluster_run (concat (map cluster_meaning rpcs)) (au_plugin sv)"
  by (induction rpcs arbitrary: sv) (simp_all add: serve_rpc_state)

text \<open>
  C18. The per-instance sessions hold end to end: after any RPCs from a host, a token RPC for an
  instance is answered from what the history of login, logout and purge RPCs means for a map
  from hostnames to sessions: with the token of that instance's last login and the time that
  login expires in seconds since 1970, or with an error when the history leaves no session
  for it. RPCs for other handlers or other instances make no difference.
\<close>

theorem cluster_served:
  "fst (Auth_GetToken c req (at_time now (fold serve_rpc rpcs (served_cluster broker)))) =
     (if gt_HandlerName req \<noteq> ''multicluster'' then
        Inl (call_error ''GetToken'' (gt_HandlerName req) (unknown_handler (gt_HandlerName req)))
      else
        (case fold cluster_spec (concat (map cluster_meaning rpcs)) Map.empty (gt_Hostname req) of
           None \<Rightarrow> Inl (call_error ''GetToken'' ''multicluster''
                     (Errorf [Lit ''not logged in for instance '', Quo (gt_Hostname req)]))
         | Some sess \<Rightarrow> Inr \<lparr>gtr_AccessToken = se_token sess, gtr_TokenType = ''Bearer'',
             gtr_ExpiresAtUnix = safeUnix (se_expiresAt sess), gtr_Scope = '''', gtr_CachedAtUnix = 0,
             gtr_Flow = '''', gtr_SessionId = ''''\<rparr>))"
proof -
  let ?p = "au_plugin (fold serve_rpc rpcs (served_cluster broker))"
  have "?p = fold cluster_run (concat (map cluster_meaning rpcs)) multicluster_New"
    by (simp add: serve_history_state) (simp add: served_cluster_def new_AuthHandlerGRPCServer_def)
  then have sessions: "gm_get (mc_sessions ?p) =
      fold cluster_spec (concat (map cluster_meaning rpcs)) Map.empty"
    using cluster_history_spec by simp
  have zero: "safeUnix zero_time = 0" by (simp add: safeUnix_def time_is_zero_def zero_time_def)
  show ?thesis
    unfolding Auth_GetToken_def
    by (simp add: cluster_plugin_sel multicluster_GetToken_def check_other token_request_of_def
        sessions tokenResponseToProto_def zero split: option.split)
qed

section \<open>The main functions\<close>

text \<open>What each example's \<open>main\<close> hands to go-plugin.\<close>

definition echo_main ::
  "('g, 'svc) grpc_lib \<Rightarrow> (string \<Rightarrow> string) \<Rightarrow> json_lib \<Rightarrow> 'v \<Rightarrow> ('g, (unit, 'v) GRPCPlugin) ServeConfig" where
  "echo_main G upper J v1 = Serve G (EchoPlugin upper J v1) ()"

definition static_main ::
  "('g, 'svc) grpc_lib \<Rightarrow> gotime \<Rightarrow> ('g, StaticAuthPlugin AuthHandlerGRPCPlugin) ServeConfig" where
  "static_main G now = ServeAuthHandler G (static_plugin now) static_start"

definition multicluster_main ::
  "('g, 'svc) grpc_lib \<Rightarrow> (nat \<Rightarrow> gotime) \<Rightarrow> ('g, MultiClusterAuthPlugin AuthHandlerGRPCPlugin) ServeConfig" where
  "multicluster_main G clock = ServeAuthHandler G (multicluster_plugin clock) multicluster_New"

end
