(* ===== verification/Served_Echo.thy ===== *)
theory Served_Echo
  imports Served_Plugins
begin

text \<open>
  The example provider \<open>examples/echo/main.go\<close> as its \<open>main\<close> serves it: from the configuration
  \<open>Serve\<close> hands to go-plugin, over the registration with the gRPC server, to the RPCs a host
  makes. The property is end to end: the descriptor a host reads is valid, and an execution is
  answered from its request alone.
\<close>

section \<open>The example provider behind its server\<close>

text \<open>No call replaces the implementation a server was made with.\<close>

lemma dial_host_impl: "dial_host i sv = (r, sv') \<Longrightarrow> sv_Impl sv' = sv_Impl sv"
  by (auto simp: dial_host_def Let_def split: option.splits prod.splits sum.splits if_splits)

lemma serve_call_impl: "serve_call J f call sv = Ret sv' \<Longrightarrow> sv_Impl sv' = sv_Impl sv"
  by (cases call)
    (auto simp: GRPCServer_GetProviders_def GRPCServer_GetProviderDescriptor_def
      GRPCServer_ConfigureProvider_def GRPCServer_ExecuteProvider_def
      GRPCServer_ExecuteProviderStream_def GRPCServer_DescribeWhatIf_def
      GRPCServer_ExtractDependencies_def GRPCServer_StopProvider_def store_settings_def
      Let_def out_bind_eq_Ret dest!: dial_host_impl split: sum.splits prod.splits option.splits if_splits)

lemma provider_steps_impl: "(provider_step J f)\<^sup>*\<^sup>* sv sv' \<Longrightarrow> sv_Impl sv' = sv_Impl sv"
  by (induction rule: rtranclp_induct) (auto elim!: provider_stepE dest: serve_call_impl)

lemma history_new [simp]: "sv_Impl (new_GRPCServer impl s broker) = impl"
  by (simp add: new_GRPCServer_def)

lemma unit_plugin [simp]: "(sv :: (unit, 'v) GRPCServer)\<lparr>sv_plugin := s\<rparr> = sv"
  by (cases sv) simp

lemma setup_history:
  "(case execute_setup J c req sv of Inl msg \<Rightarrow> Inl msg | Inr (input, c1) \<Rightarrow> Inr input) =
     (case decode_input J (er_Input req) of
        Inl err \<Rightarrow> Inl (decode_failed ''input'' err)
      | Inr input \<Rightarrow> (case applyRequestContext J c req of Inl err \<Rightarrow> Inl (error_text err) | Inr c1 \<Rightarrow> Inr input))"
  by (auto simp: execute_setup_def split: sum.split)

text \<open>What the host is answered when it executes the example.\<close>

definition echo_answer ::
  "(string \<Rightarrow> string) \<Rightarrow> json_lib \<Rightarrow> string \<Rightarrow> goval strmap option \<Rightarrow> ExecuteProviderResponse" where
  "echo_answer upper J name input =
     (case echo_ExecuteProvider upper name input of
        Inl err \<Rightarrow> result_error (error_text err)
      | Inr out \<Rightarrow>
          (case marshal_output J out of
             Inl err \<Rightarrow> result_error (encode_failed err)
           | Inr b \<Rightarrow> \<lparr>es_Output = b, es_Error = ''''\<rparr>))"

lemma echo_execute_answer:
  assumes "sv_Impl sv = EchoPlugin upper J v1"
  shows "fst (GRPCServer_ExecuteProvider J c req sv) =
    (case (case execute_setup J c req sv of Inl msg \<Rightarrow> Inl msg | Inr (input, c1) \<Rightarrow> Inr input) of
       Inl msg \<Rightarrow> result_error msg
     | Inr input \<Rightarrow> echo_answer upper J (er_ProviderName req) input)"
  using assms
  by (auto simp: GRPCServer_ExecuteProvider_def EchoPlugin_def echo_answer_def
      split: sum.splits prod.splits)

lemma echo_wf: "gm_wf (gm_of (d_OutputSchemas (echo_descriptor J v1)))"
  by (simp add: echo_descriptor_def echo_output_schemas_eq gm_wf_def)

text \<open>
  C19. The example provider as its main function serves it, end to end: on the gRPC server that
  go-plugin gets from the configuration and has the plugin register with, after any RPCs, the
  descriptor the host reads is the plugin's, and the host's validation accepts it; and every
  execute RPC is answered from its request alone, as the example's code says, whatever the host
  did before. The version and the schemas must survive their libraries, and the transport does
  with the message what protobuf does.
\<close>

theorem echo_served:
  assumes "grpc_law G" and "wire_ready J sv_string sv_new (echo_descriptor J v1)"
    and "proto_transport deliver"
    and "gm_get (sc_Plugins (echo_main G upper J v1)) PluginName = Some p"
    and "gl_service G (snd (GRPCPlugin_GRPCServer G p broker (sc_GRPCServer (echo_main G upper J v1) opts)))
      ''plugin.PluginService'' = Some (PluginService sv0)"
    and "(provider_step J sv_string)\<^sup>*\<^sup>* sv0 sv"
  shows "(\<exists>pd. GRPCServer_GetProviderDescriptor J sv_string c ''echo'' sv = Ret (Inr pd, sv) \<and>
      (case deliver pd of
         Inl err \<Rightarrow> True
       | Inr pd' \<Rightarrow> ProtoToDescriptor J sv_new (Some pd') = Ret (Inr (wire_view (echo_descriptor J v1))))) \<and>
    ValidateDescriptor (Some (wire_view (echo_descriptor J v1))) = None \<and>
    fst (GRPCServer_ExecuteProvider J c req sv) =
      (case decode_input J (er_Input req) of
         Inl err \<Rightarrow> result_error (decode_failed ''input'' err)
       | Inr input \<Rightarrow>
           (case applyRequestContext J c req of
              Inl err \<Rightarrow> result_error (error_text err)
            | Inr c1 \<Rightarrow> echo_answer upper J (er_ProviderName req) input))"
proof -
  from assms(4) have p: "p = \<lparr>gp_Impl = EchoPlugin upper J v1, gp_plugin = ()\<rparr>"
    by (simp add: echo_main_def served_services(1) [OF assms(1)])
  with assms(5) have "sv0 = new_GRPCServer (EchoPlugin upper J v1) () broker"
    by (simp add: echo_main_def served_services(2) [OF assms(1)])
  with provider_steps_impl [OF assms(6)] have impl: "sv_Impl sv = EchoPlugin upper J v1" by simp
  from descriptor_round_trip [OF assms(2)] obtain pd where
    pd: "descriptorToProto J sv_string (Some (echo_descriptor J v1)) = Ret pd"
      "ProtoToDescriptor J sv_new (Some (wire_form pd)) = Ret (Inr (wire_view (echo_descriptor J v1)))"
    by (auto simp: round_trip_def out_bind_eq_Ret)
  then have "GRPCServer_GetProviderDescriptor J sv_string c ''echo'' sv = Ret (Inr pd, sv)"
    by (simp add: GRPCServer_GetProviderDescriptor_def impl EchoPlugin_def echo_GetProviderDescriptor_def)
  with pd assms(3) have descr: "\<exists>pd. GRPCServer_GetProviderDescriptor J sv_string c ''echo'' sv = Ret (Inr pd, sv) \<and>
      (case deliver pd of
         Inl err \<Rightarrow> True
       | Inr pd' \<Rightarrow> ProtoToDescriptor J sv_new (Some pd') = Ret (Inr (wire_view (echo_descriptor J v1))))"
    by (auto simp: proto_transport_def split: sum.split)
  have "valid_descriptor (wire_view (echo_descriptor J v1))"
    by (simp add: wire_valid [OF echo_wf] echo_valid) (simp add: echo_descriptor_def echo_output_get)
  then have "ValidateDescriptor (Some (wire_view (echo_descriptor J v1))) = None"
    by (simp add: validate_iff)
  with descr show ?thesis
    by (simp add: echo_execute_answer [OF impl] setup_history split: sum.split)
qed

text \<open>
  A JSON library that knows the four schemas of the example, reads any input as a message and
  prints an output of one string, and a gRPC library that keeps the options and the services of
  a server.
\<close>

definition echo_output_schema :: schema where
  "echo_output_schema = set_property ''echoed'' (StringProp ''The echoed message'' [])
     (defaultSchemaForCapability CapabilityTransform)"

definition echo_schemas :: "schema list" where
  "echo_schemas = [echo_schema sample_json, echo_output_schema] @
     List.map_filter (\<lambda>s. s) [op_InputSchema echo_operation, op_OutputSchema echo_operation]"

definition echo_json :: json_lib where
  "echo_json = sample_json\<lparr>
     marshal_schema := (\<lambda>s. case List.find (\<lambda>(b, s'). s' = s) (enumerate 1 echo_schemas) of
        None \<Rightarrow> Inl json_error | Some (n, s') \<Rightarrow> Inr (replicate n CHR ''x'')),
     unmarshal_schema := (\<lambda>b. if b = [] \<or> length echo_schemas < length b then Inl json_error
        else Inr (echo_schemas ! (length b - 1))),
     unmarshal_map := (\<lambda>b. Inr (Some [(''message'', VStr b)])),
     marshal_output := (\<lambda>out. case map_option out_Data out of
        Some (VMap (Some [(k, VStr s)])) \<Rightarrow> Inr (k @ ''='' @ s) | _ \<Rightarrow> Inl json_error)\<rparr>"

definition list_grpc :: "(server_option list \<times> (string \<times> 'svc) list, 'svc) grpc_lib" where
  "list_grpc = \<lparr>gl_NewServer = (\<lambda>opts. (opts, [])),
     gl_RegisterService = (\<lambda>n svc (opts, svcs). (opts, (n, svc) # svcs)),
     gl_service = (\<lambda>(opts, svcs). map_of svcs), gl_limit = (\<lambda>(opts, svcs). recv_limit opts)\<rparr>"

lemma list_grpc_law: "grpc_law list_grpc"
  by (simp add: grpc_law_def list_grpc_def split_beta)

lemma echo_json_stable: "s \<in> set echo_schemas \<Longrightarrow> schema_stable echo_json s"
proof -
  assume "s \<in> set echo_schemas"
  then obtain i where i: "i < length echo_schemas" "echo_schemas ! i = s" by (auto simp: in_set_conv_nth)
  have "List.find (\<lambda>(b, s'). s' = s) (enumerate 1 echo_schemas) \<noteq> None"
  proof
    assume "List.find (\<lambda>(b, s'). s' = s) (enumerate 1 echo_schemas) = None"
    then have "\<forall>x \<in> set (enumerate 1 echo_schemas). snd x \<noteq> s"
      by (auto simp: find_None_iff)
    moreover have "(Suc i, s) \<in> set (enumerate 1 echo_schemas)"
      using i by (auto simp: in_set_enumerate_eq)
    ultimately show False by force
  qed
  then obtain n s' where f: "List.find (\<lambda>(b, s'). s' = s) (enumerate 1 echo_schemas) = Some (n, s')"
    by auto
  then have "s' = s \<and> (n, s') \<in> set (enumerate 1 echo_schemas)"
    by (auto simp: find_Some_iff in_set_conv_nth)
  then have "s' = s" "n \<noteq> 0" "n \<le> length echo_schemas" "echo_schemas ! (n - 1) = s"
    by (auto simp: in_set_enumerate_eq)
  with f show ?thesis
    by (simp add: schema_stable_def echo_json_def)
qed

lemma echo_json_ready: "wire_ready echo_json (\<lambda>v. v) Inr (echo_descriptor echo_json ''1.0.0'')"
proof -
  have same: "echo_schema echo_json = echo_schema sample_json"
  proof -
    have "WithDefault echo_json = WithDefault sample_json"
      by (simp add: fun_eq_iff WithDefault_def echo_json_def)
    then show ?thesis by (simp add: echo_schema_def)
  qed
  have stable: "schema_stable echo_json (echo_schema sample_json)"
    "schema_stable echo_json echo_output_schema"
    "op_ready echo_json echo_operation"
    by (auto simp: op_ready_def echo_operation_def
        intro!: echo_json_stable simp: echo_schemas_def List.map_filter_def)
  from echo_sendable [of echo_json "''1.0.0''"]
  have "no_nil_props (echo_schema sample_json)" "no_nil_props echo_output_schema"
    by (simp_all add: sendable_def echo_descriptor_def same echo_output_schemas_eq echo_output_schema_def)
  with stable show ?thesis
    by (simp add: wire_ready_def echo_descriptor_def same echo_output_schemas_eq echo_output_schema_def)
qed

text \<open>The example, served, configured, and then asked to echo a greeting.\<close>

definition served_echo :: "(unit, string) GRPCServer" where
  "served_echo = snd (GRPCServer_ConfigureProvider background sample_configure
     (new_GRPCServer (EchoPlugin id echo_json ''1.0.0'') () None))"

definition echo_hello :: ExecuteProviderRequest where
  "echo_hello = sample_execute\<lparr>er_ProviderName := ''echo'', er_Input := ''hello''\<rparr>"

theorem echo_served_witness:
  "(\<exists>pd. GRPCServer_GetProviderDescriptor echo_json (\<lambda>v. v) background ''echo'' served_echo =
      Ret (Inr pd, served_echo) \<and>
     ProtoToDescriptor echo_json Inr (Some (wire_form pd)) =
       Ret (Inr (wire_view (echo_descriptor echo_json ''1.0.0'')))) \<and>
   fst (GRPCServer_ExecuteProvider echo_json background echo_hello served_echo) =
     \<lparr>es_Output = ''echoed=hello'', es_Error = ''''\<rparr>"
proof -
  let ?main = "echo_main list_grpc id echo_json ''1.0.0''"
  let ?p = "\<lparr>gp_Impl = EchoPlugin id echo_json ''1.0.0'', gp_plugin = ()\<rparr>"
  have p: "gm_get (sc_Plugins ?main) PluginName = Some ?p"
    by (simp add: echo_main_def Serve_def Let_def)
  have svc: "gl_service list_grpc (snd (GRPCPlugin_GRPCServer list_grpc ?p None
      (sc_GRPCServer ?main []))) ''plugin.PluginService'' =
      Some (PluginService (new_GRPCServer (EchoPlugin id echo_json ''1.0.0'') () None))"
    by (simp add: echo_main_def served_services(2) [OF list_grpc_law])
  have "provider_step echo_json (\<lambda>v. v) (new_GRPCServer (EchoPlugin id echo_json ''1.0.0'') () None) served_echo"
    by (rule provider_step.call [where c = "CallConfigure background sample_configure"])
      (simp add: served_echo_def)
  from echo_served [OF list_grpc_law echo_json_ready wire_form_transport p svc r_into_rtranclp [of "provider_step echo_json (\<lambda>v. v)", OF this],
      of background echo_hello]
  show ?thesis
    by (simp add: echo_hello_def sample_execute_def decode_input_def applyRequestContext_def
        apply_resolver_data_def unmarshalIterationContext_def apply_parameters_def echo_json_def
        echo_answer_def echo_ExecuteProvider_def index_any_def)
qed

end
