(* ===== verification/Shared_Connection.thy ===== *)
theory Shared_Connection
  imports Provider_Server Auth_Server
begin

text \<open>
  One connection for all. A plugin process may serve several providers or handlers, but its
  server keeps one connection to the host and one host client, and every call takes the client
  from there. So a call for one provider decides what the calls for the others find in their
  context. This theory follows the host client over histories of calls in which no configure
  call dials: \<open>plugin/grpc_server.go\<close> in the first part, \<open>plugin/grpc_auth_server.go\<close> in the
  second.
\<close>

section \<open>The provider server\<close>

text \<open>The calls that may dial the host.\<close>

fun dials :: "provider_call \<Rightarrow> bool" where
  "dials (CallConfigure c req) \<longleftrightarrow> cr_HostServiceId req \<noteq> 0"
| "dials _ \<longleftrightarrow> False"

lemma dial_host_0 [simp]: "dial_host 0 sv = (None, sv)"
  by (simp add: dial_host_def)

lemma store_settings_hostClient [simp]: "sv_hostClient (store_settings name m sv) = sv_hostClient sv"
  by (simp add: store_settings_def Let_def)

lemma serve_call_no_client:
  assumes "serve_call J f call sv = Ret sv'" and "\<not> dials call" and "sv_hostClient sv = None"
  shows "sv_hostClient sv' = None"
  using assms
  by (cases call)
    (auto simp: GRPCServer_GetProviders_def GRPCServer_GetProviderDescriptor_def
      GRPCServer_ConfigureProvider_def GRPCServer_ExecuteProvider_def
      GRPCServer_ExecuteProviderStream_def GRPCServer_DescribeWhatIf_def
      GRPCServer_ExtractDependencies_def GRPCServer_StopProvider_def
      Let_def out_bind_eq_Ret split: sum.splits prod.splits option.splits if_splits)

lemma serve_calls_no_client:
  "serve_calls J f calls sv = Ret sv' \<Longrightarrow> list_all (\<lambda>call. \<not> dials call) calls \<Longrightarrow>
     sv_hostClient sv = None \<Longrightarrow> sv_hostClient sv' = None"
  by (induction calls arbitrary: sv) (auto simp: out_bind_eq_Ret dest: serve_call_no_client)

lemma stop_no_client:
  "pp_StopProvider (sv_Impl sv) c name (sv_plugin sv) = (None, s) \<Longrightarrow>
     sv_hostClient (snd (GRPCServer_StopProvider c name sv)) = None"
  by (simp add: GRPCServer_StopProvider_def Let_def)

lemma setup_host_client:
  assumes "execute_setup J c req sv = Inr (input, c1)"
  shows "HostClientFromContext c1 =
    (case sv_hostClient sv of None \<Rightarrow> HostClientFromContext c | Some hc \<Rightarrow> Some hc)"
proof -
  from assms obtain c0 where c0: "applyRequestContext J c req = Inr c0"
    and c1: "c1 = injectHostClient sv (withSettings sv c0 (er_ProviderName req) (er_Settings req))"
    by (rule execute_setup_Inr)
  have "HostClientFromContext (withSettings sv c0 n m) = HostClientFromContext c0" for n m
    by (simp add: withSettings_def Let_def HostClientFromContext_def WithSettings_def ctx_simps)
  moreover have "HostClientFromContext c0 = HostClientFromContext c"
    by (simp add: from_defs apply_request_value [OF c0] request_value_def)
  ultimately show ?thesis
    by (simp add: c1 injectHostClient_def host_slot.fetch_store split: option.split)
qed

text \<open>
  C10. Stopping one provider disconnects all. Once StopProvider has succeeded for some provider,
  executions of every provider of the plugin run without a host client, whatever calls are
  made in between, until a configure call dials again; and the connection is closed.
\<close>

theorem stop_disconnects_all:
  assumes "serve_calls J f calls (snd (GRPCServer_StopProvider c name sv)) = Ret sv'"
    and "list_all (\<lambda>call. \<not> dials call) calls"
    and "HostClientFromContext c' = None"
    and "execute_setup J c' req sv' = Inr (input, c1)"
    and "fst (pp_StopProvider (sv_Impl sv) c name (sv_plugin sv)) = None"
  shows "HostClientFromContext c1 = None \<and>
    link_of (snd (GRPCServer_StopProvider c name sv)) =
      \<lparr>lk_conn = None, lk_host = None,
       lk_net = (case sv_conn sv of None \<Rightarrow> sv_net sv | Some k \<Rightarrow> close_conn k (sv_net sv))\<rparr>"
proof -
  obtain s where stop: "pp_StopProvider (sv_Impl sv) c name (sv_plugin sv) = (None, s)"
    using assms(5) by (cases "pp_StopProvider (sv_Impl sv) c name (sv_plugin sv)") auto
  from serve_calls_no_client [OF assms(1,2) stop_no_client [OF stop]]
  have "sv_hostClient sv' = None" .
  with setup_host_client [OF assms(4)] assms(3) stop show ?thesis
    by (auto simp: GRPCServer_StopProvider_def link_of_def Let_def split: option.split)
qed

lemma sample_dialled_client:
  "sv_hostClient sample_dialled = Some 0 \<and> sv_Impl sample_dialled = mock_plugin bare_mock"
  by (simp add: sample_dialled_def GRPCServer_ConfigureProvider_def store_settings_def dial_host_def
      new_GRPCServer_def pickDialFunc_def run_dial_def no_net_def sample_configure_def mock_defs
      bare_mock_def Let_def)

text \<open>The dialled server: an execution of q has the client, and after the stop of p it has none.\<close>

definition execute_q :: ExecuteProviderRequest where
  "execute_q = sample_execute\<lparr>er_ProviderName := ''q''\<rparr>"

lemma execute_q_setup: "\<exists>input c1. execute_setup sample_json background execute_q sv = Inr (input, c1)"
  by (simp add: execute_setup_def execute_q_def sample_execute_def decode_input_def
      applyRequestContext_def apply_resolver_data_def unmarshalIterationContext_def
      apply_parameters_def sample_json_def sample_unmarshal_map_def)

lemma background_no_client [simp]: "HostClientFromContext background = None"
  by (simp add: HostClientFromContext_def)

theorem stop_disconnects_all_witness:
  "\<exists>i1 c1 i2 c2.
     execute_setup sample_json background execute_q sample_dialled = Inr (i1, c1) \<and>
     HostClientFromContext c1 = Some 0 \<and>
     execute_setup sample_json background execute_q
       (snd (GRPCServer_StopProvider background ''p'' sample_dialled)) = Inr (i2, c2) \<and>
     HostClientFromContext c2 = None"
proof -
  obtain i1 c1 where one: "execute_setup sample_json background execute_q sample_dialled = Inr (i1, c1)"
    using execute_q_setup by blast
  obtain i2 c2 where two: "execute_setup sample_json background execute_q
      (snd (GRPCServer_StopProvider background ''p'' sample_dialled)) = Inr (i2, c2)"
    using execute_q_setup by blast
  have "sv_hostClient sample_dialled = Some 0"
    using sample_dialled_client by simp
  with setup_host_client [OF one] have "HostClientFromContext c1 = Some 0" by simp
  moreover have "fst (pp_StopProvider (sv_Impl sample_dialled) background ''p'' (sv_plugin sample_dialled)) = None"
    by (simp add: sample_dialled_client mock_defs bare_mock_def)
  then have "HostClientFromContext c2 = None"
    using stop_disconnects_all [of sample_json "\<lambda>_. ''''" "[]" background "''p''" sample_dialled,
        OF _ _ background_no_client two] by simp
  ultimately show ?thesis using one two by blast
qed

section \<open>The auth handler server\<close>

text \<open>A link without a host client gets one only by a dial, and a dial takes a number.\<close>

lemma link_step_no_dial:
  "link_step l l' \<Longrightarrow> nt_next (lk_net l) \<le> nt_next (lk_net l') \<and>
     (nt_next (lk_net l') = nt_next (lk_net l) \<longrightarrow> lk_host l = None \<longrightarrow> lk_host l' = None)"
  by (induction rule: link_step.induct)
    (auto simp: run_dial_def Let_def close_conn_def split: option.splits)

lemma link_steps_no_dial:
  "link_step\<^sup>*\<^sup>* l l' \<Longrightarrow> nt_next (lk_net l) \<le> nt_next (lk_net l') \<and>
     (nt_next (lk_net l') = nt_next (lk_net l) \<longrightarrow> lk_host l = None \<longrightarrow> lk_host l' = None)"
proof (induction rule: rtranclp_induct)
  case (step l1 l2)
  with link_step_no_dial [OF step(2)] show ?case by auto
qed simp

context host_link
begin

lemma run_no_dial:
  assumes "step\<^sup>*\<^sup>* st st'" and "lk_host (link_of st) = None"
    and "nt_next (lk_net (link_of st')) = nt_next (lk_net (link_of st))"
  shows "lk_host (link_of st') = None"
  using link_steps_no_dial [OF steps_link [OF assms(1)]] assms(2,3) by simp

end

lemma call_ctx_no_client:
  "au_hostClient sv = None \<Longrightarrow> HostClientFromContext c = None \<Longrightarrow>
     HostClientFromContext (call_ctx sv c profile) = None"
  by (simp add: call_ctx_def auth_injectHostClient_def host_profile.fetch1_store2)

lemma close_net_next [simp]: "nt_next (au_net (closeHostClient sv)) = nt_next (au_net sv)"
  by (simp add: closeHostClient_def close_conn_def Let_def split: option.split)

lemma rejected_configure:
  assumes "au_hostClient sv \<noteq> None"
    and "fst (ap_ConfigureAuthHandler (au_Impl sv) (call_ctx sv c (ca_Profile req)) (ca_HandlerName req)
      (auth_config_of_request req) (au_plugin sv)) \<noteq> None"
  shows "\<exists>sv0. snd (Auth_ConfigureAuthHandler c req sv) = closeHostClient sv0"
proof -
  have ctx: "call_ctx (sv\<lparr>au_closed := b\<rparr>) = call_ctx sv" for b
    by (simp add: fun_eq_iff call_ctx_def auth_injectHostClient_def)
  from assms(1) have ensure: "ensureHostClient i (sv\<lparr>au_closed := False\<rparr>) = (None, sv\<lparr>au_closed := False\<rparr>)" for i
    by (simp add: ensureHostClient_def split: option.split)
  from assms(2) show ?thesis
    by (auto simp: Auth_ConfigureAuthHandler_def ensure ctx split: prod.splits option.splits)
qed

text \<open>
  C11. One handler disconnects all. When a handler is stopped, or when a handler rejects its
  configuration while the server is connected, the server is closed and the host connection
  with it. Over any calls that follow, no handler of the plugin finds a host client in its
  context, until some call dials again.
\<close>

theorem handler_disconnects_all:
  assumes "sv1 = snd (Auth_StopAuthHandler c name sv) \<and>
      fst (ap_StopAuthHandler (au_Impl sv) c name (au_plugin sv)) = None \<or>
    sv1 = snd (Auth_ConfigureAuthHandler c req sv) \<and> au_hostClient sv \<noteq> None \<and>
      fst (ap_ConfigureAuthHandler (au_Impl sv) (call_ctx sv c (ca_Profile req)) (ca_HandlerName req)
        (auth_config_of_request req) (au_plugin sv)) \<noteq> None"
    and "auth_step\<^sup>*\<^sup>* sv1 sv'" and "nt_next (au_net sv') = nt_next (au_net sv1)"
    and "HostClientFromContext c' = None"
  shows "au_closed sv1 \<and> au_conn sv1 = None \<and> HostClientFromContext (call_ctx sv' c' profile) = None"
proof -
  from assms(1) have "\<exists>sv0. sv1 = closeHostClient sv0"
  proof
    assume "sv1 = snd (Auth_StopAuthHandler c name sv) \<and>
      fst (ap_StopAuthHandler (au_Impl sv) c name (au_plugin sv)) = None"
    then show ?thesis by (auto simp: Auth_StopAuthHandler_def split: prod.splits)
  qed (use rejected_configure in blast)
  then have sv1: "au_closed sv1" "au_conn sv1 = None" "au_hostClient sv1 = None" by auto
  from auth_link.run_no_dial [OF assms(2)] sv1(3) assms(3) have "au_hostClient sv' = None"
    by (simp add: auth_link_of_def)
  with call_ctx_no_client assms(4) sv1 show ?thesis by blast
qed

text \<open>A handler that refuses every configuration but the one of h, on a server connected for h.\<close>

definition choosy_handler :: "unit AuthHandlerPlugin" where
  "choosy_handler = quiet_handler\<lparr>ap_ConfigureAuthHandler :=
     (\<lambda>c h cfg s. (if h = ''h'' then None else Some (Foreign ''no such handler''), s))\<rparr>"

definition choosy_server :: "unit AuthHandlerGRPCServer" where
  "choosy_server = snd (Auth_ConfigureAuthHandler background sample_auth_request
     (new_AuthHandlerGRPCServer choosy_handler () (Some (\<lambda>i n. None))))"

lemma choosy_connected:
  "au_hostClient choosy_server = Some 0 \<and> au_Impl choosy_server = choosy_handler"
  by (simp add: choosy_server_def Auth_ConfigureAuthHandler_def sample_auth_request_def
      new_AuthHandlerGRPCServer_def ensureHostClient_def auth_pickDialFunc_def run_dial_def no_net_def
      commit_conn_def choosy_handler_def quiet_handler_def Let_def)

theorem handler_disconnects_all_witness:
  "HostClientFromContext (call_ctx choosy_server background '''') = Some 0 \<and>
   HostClientFromContext (call_ctx (snd (Auth_ConfigureAuthHandler background
     (sample_auth_request\<lparr>ca_HandlerName := ''other''\<rparr>) choosy_server)) background '''') = None"
proof
  show "HostClientFromContext (call_ctx choosy_server background '''') = Some 0"
    by (simp add: call_ctx_def auth_injectHostClient_def choosy_connected host_profile.fetch1_store2
        host_slot.fetch_store)
  show "HostClientFromContext (call_ctx (snd (Auth_ConfigureAuthHandler background
     (sample_auth_request\<lparr>ca_HandlerName := ''other''\<rparr>) choosy_server)) background '''') = None"
    using handler_disconnects_all [where c = background and sv = choosy_server and c' = background
        and req = "sample_auth_request\<lparr>ca_HandlerName := ''other''\<rparr>" and profile = "''''",
        OF _ rtranclp.rtrancl_refl refl background_no_client]
    by (simp add: choosy_connected) (simp add: choosy_handler_def)
qed

end
