(* ===== verification/Stream_Handler.thy ===== *)
theory Stream_Handler
  imports Stream_Concurrency Provider_Server
begin

text \<open>
  A streaming execution with its handler: \<open>ExecuteProviderStream\<close> of \<open>plugin/grpc_server.go\<close>
  waits for the plugin, whose goroutines report chunks through the forwarder, and then may send
  a result of its own. That last send goes to the stream directly, not through the forwarder
  and its mutex.

  \<open>exec_step\<close> interleaves the calls of the forwarder with the end of the handler. Its first
  argument says whether the plugin joins its goroutines before it returns: then it returns only
  when no call is inside the forwarder, and makes none after.
\<close>

datatype handler_pc =
    Waiting                                                        \<comment> \<open>for the plugin\<close>
  | Replying "goerror option" ExecuteProviderStreamChunk           \<comment> \<open>in \<open>Send\<close>, after this plugin error\<close>
  | Returned "goerror option" "goerror option"                     \<comment> \<open>plugin error, RPC error\<close>

record exec_conc =
  xc_fwd :: fwd_conc
  xc_handler :: handler_pc

definition set_stream :: "ExecuteProviderStreamChunk stream \<Rightarrow> fwd_conc \<Rightarrow> fwd_conc" where
  "set_stream s f = f\<lparr>fc_forwarder := (fc_forwarder f)\<lparr>fw_stream := s\<rparr>\<rparr>"

definition joined :: "fwd_conc \<Rightarrow> bool" where
  "joined f \<longleftrightarrow> fc_mutex f = None"

inductive exec_step :: "bool \<Rightarrow> json_lib \<Rightarrow> exec_conc \<Rightarrow> exec_conc \<Rightarrow> bool" for joins J where
  report: "fwd_step J (xc_fwd st) f \<Longrightarrow> joins \<longrightarrow> xc_handler st = Waiting \<Longrightarrow>
    exec_step joins J st (st\<lparr>xc_fwd := f\<rparr>)"
| plugin_done: "xc_handler st = Waiting \<Longrightarrow> joins \<longrightarrow> joined (xc_fwd st) \<Longrightarrow>
    exec_step joins J st (st\<lparr>xc_handler := Returned None None\<rparr>)"
| unsupported: "xc_handler st = Waiting \<Longrightarrow> joins \<longrightarrow> joined (xc_fwd st) \<Longrightarrow> errors_is_streaming e \<Longrightarrow>
    exec_step joins J st
      (st\<lparr>xc_handler := Returned (Some e) (Some (StatusErr CodeUnimplemented (error_text e)))\<rparr>)"
| plugin_failed: "xc_handler st = Waiting \<Longrightarrow> joins \<longrightarrow> joined (xc_fwd st) \<Longrightarrow> \<not> errors_is_streaming e \<Longrightarrow>
    exec_step joins J st
      (st\<lparr>xc_handler := Replying (Some e) (ChunkResult (result_error (error_text e)))\<rparr>)"
| replied: "xc_handler st = Replying perr m \<Longrightarrow>
    stream_send m (fw_stream (fc_forwarder (xc_fwd st))) = (err, s) \<Longrightarrow>
    exec_step joins J st (st\<lparr>xc_handler := Returned perr err, xc_fwd := set_stream s (xc_fwd st)\<rparr>)"

definition exec_start :: "ExecuteProviderStreamChunk stream \<Rightarrow> exec_conc" where
  "exec_start s = \<lparr>xc_fwd = fwd_start s, xc_handler = Waiting\<rparr>"

section \<open>The sequential handler\<close>

text \<open>How the sequential handler ends, from the plugin's chunks and error.\<close>

definition stream_end :: "json_lib \<Rightarrow> ExecuteProviderStreamChunk stream \<Rightarrow> StreamChunk list \<Rightarrow> goerror option \<Rightarrow>
    goerror option \<times> ExecuteProviderStreamChunk stream" where
  "stream_end J s chunks perr =
     (let f = fold (forward J) chunks (newStreamForwarder s) in
      case perr of
        None \<Rightarrow> (None, fw_stream f)
      | Some e \<Rightarrow>
          if errors_is_streaming e then (Some (StatusErr CodeUnimplemented (error_text e)), fw_stream f)
          else stream_send (ChunkResult (result_error (error_text e))) (fw_stream f))"

lemma execute_stream_end:
  assumes "execute_setup J (st_ctx s) req sv = Inr (input, c1)"
    and "pp_ExecuteProviderStream (sv_Impl sv) c1 (er_ProviderName req) input (sv_plugin sv) =
      ((chunks, perr), p)"
  shows "fst (GRPCServer_ExecuteProviderStream J req s sv) = stream_end J s chunks perr"
  using assms
  by (auto simp: GRPCServer_ExecuteProviderStream_def stream_end_def Let_def split: option.split)

section \<open>A plugin that joins its goroutines\<close>

definition exec_ok :: "json_lib \<Rightarrow> ExecuteProviderStreamChunk stream \<Rightarrow> exec_conc \<Rightarrow> bool" where
  "exec_ok J s st \<longleftrightarrow>
     (case xc_handler st of
        Waiting \<Rightarrow> fwd_ok J (newStreamForwarder s) (xc_fwd st)
      | Replying perr m \<Rightarrow> fwd_ok J (newStreamForwarder s) (xc_fwd st) \<and> joined (xc_fwd st) \<and>
          (\<exists>e. perr = Some e \<and> \<not> errors_is_streaming e \<and> m = ChunkResult (result_error (error_text e)))
      | Returned perr err \<Rightarrow> (\<forall>t. fc_pc (xc_fwd st) t = FIdle) \<and>
          (err, fw_stream (fc_forwarder (xc_fwd st))) = stream_end J s (fc_order (xc_fwd st)) perr)"

lemma joined_idle: "fwd_ok J start f \<Longrightarrow> joined f \<Longrightarrow> fc_pc f t = FIdle"
  by (auto simp: fwd_ok_def joined_def)

lemma joined_forwarder:
  "fwd_ok J start f \<Longrightarrow> joined f \<Longrightarrow> fc_forwarder f = fold (forward J) (fc_order f) start"
  by (simp add: fwd_ok_def joined_def)

lemma set_stream_sel [simp]:
  "fc_pc (set_stream s f) = fc_pc f" "fc_order (set_stream s f) = fc_order f"
  "fw_stream (fc_forwarder (set_stream s f)) = s"
  by (simp_all add: set_stream_def)

lemma exec_step_ok: "exec_step True J st st' \<Longrightarrow> exec_ok J s st \<Longrightarrow> exec_ok J s st'"
proof (induction rule: exec_step.induct)
  case (report st f)
  then show ?case by (auto simp: exec_ok_def intro: fwd_step_ok)
next
  case (replied st perr m err s')
  then show ?case
    by (auto simp: exec_ok_def stream_end_def Let_def joined_idle joined_forwarder)
qed (auto simp: exec_ok_def stream_end_def Let_def joined_idle joined_forwarder)

lemma exec_steps_ok: "(exec_step True J)\<^sup>*\<^sup>* st st' \<Longrightarrow> exec_ok J s st \<Longrightarrow> exec_ok J s st'"
  by (induction rule: rtranclp_induct) (auto intro: exec_step_ok)

lemma exec_ok_start: "exec_ok J s (exec_start s)"
  by (simp add: exec_ok_def exec_start_def fwd_ok_start)

section \<open>Properties\<close>

text \<open>
  C26. A provider that joins its goroutines before it returns is served as the sequential handler
  serves it, however its calls of the callback interleave: no two sends overlap, those of the
  forwarder and the one of the handler, and in the end the stream and the RPC's error are those
  of a plugin that reports the same chunks one after another, in the order of the mutex, and
  returns the same error.
\<close>

theorem stream_handler_linearizable:
  assumes "(exec_step True J)\<^sup>*\<^sup>* (exec_start s) st"
    and "execute_setup J (st_ctx s) req sv = Inr (input, c1)"
    and "case xc_handler st of
        Returned perr err \<Rightarrow> fst (pp_ExecuteProviderStream (sv_Impl sv) c1 (er_ProviderName req) input (sv_plugin sv)) =
          (fc_order (xc_fwd st), perr)
      | _ \<Rightarrow> True"
  shows "case xc_handler st of
      Waiting \<Rightarrow> \<exists>t. \<forall>t'. t' \<noteq> t \<longrightarrow> fc_pc (xc_fwd st) t' = FIdle
    | Replying perr m \<Rightarrow> \<forall>t. fc_pc (xc_fwd st) t = FIdle
    | Returned perr err \<Rightarrow> (\<forall>t. fc_pc (xc_fwd st) t = FIdle) \<and>
        fst (GRPCServer_ExecuteProviderStream J req s sv) = (err, fw_stream (fc_forwarder (xc_fwd st)))"
proof -
  have ok: "exec_ok J s st" by (rule exec_steps_ok [OF assms(1) exec_ok_start])
  show ?thesis
  proof (cases "xc_handler st")
    case Waiting
    with ok have "fwd_ok J (newStreamForwarder s) (xc_fwd st)" by (simp add: exec_ok_def)
    then have "fc_pc (xc_fwd st) t \<noteq> FIdle \<longleftrightarrow> fc_mutex (xc_fwd st) = Some t" for t
      by (simp add: fwd_ok_def)
    then have "\<forall>t'. t' \<noteq> the (fc_mutex (xc_fwd st)) \<longrightarrow> fc_pc (xc_fwd st) t' = FIdle"
      by (metis option.sel)
    then have "\<exists>t. \<forall>t'. t' \<noteq> t \<longrightarrow> fc_pc (xc_fwd st) t' = FIdle" by blast
    with Waiting show ?thesis by simp
  next
    case (Replying perr m)
    with ok joined_idle show ?thesis by (auto simp: exec_ok_def)
  next
    case (Returned perr err)
    obtain p where "pp_ExecuteProviderStream (sv_Impl sv) c1 (er_ProviderName req) input (sv_plugin sv) =
        ((fc_order (xc_fwd st), perr), p)"
      using assms(3) Returned
      by (cases "pp_ExecuteProviderStream (sv_Impl sv) c1 (er_ProviderName req) input (sv_plugin sv)") auto
    from execute_stream_end [OF assms(2) this] ok Returned show ?thesis
      by (auto simp: exec_ok_def)
  qed
qed

text \<open>One chunk, and then an error.\<close>

definition one_chunk :: StreamChunk where
  "one_chunk = \<lparr>sk_Stdout = Some ''a'', sk_Stderr = None, sk_Result = None, sk_Error = ''''\<rparr>"

definition failing_mock :: "(unit, unit) MockProviderPlugin" where
  "failing_mock = bare_mock\<lparr>mk_ExecuteProviderStreamFunc :=
     Some (\<lambda>c name input s. (([one_chunk], Some (Foreign ''disk full'')), s))\<rparr>"

lemma one_chunk_proto: "chunk_to_proto J one_chunk = Some (ChunkStdout ''a'')"
  by (simp add: chunk_to_proto_def one_chunk_def)

lemma report_steps:
  "(fwd_step J)\<^sup>*\<^sup>* (xc_fwd st) f \<Longrightarrow> xc_handler st = Waiting \<Longrightarrow>
     (exec_step joins J)\<^sup>*\<^sup>* st (st\<lparr>xc_fwd := f\<rparr>)"
proof (induction rule: rtranclp_induct)
  case (step f1 f2)
  have "exec_step joins J (st\<lparr>xc_fwd := f1\<rparr>) (st\<lparr>xc_fwd := f2\<rparr>)"
    using exec_step.report [of J "st\<lparr>xc_fwd := f1\<rparr>" f2 joins] step by simp
  with step show ?case by (meson rtranclp.rtrancl_into_rtrancl)
qed simp

definition failing_run :: exec_conc where
  "failing_run =
     (let s = \<lparr>st_ctx = background, st_results = (\<lambda>_. None), st_attempts = 2,
                st_sent = [ChunkStdout ''a'', ChunkResult (result_error ''disk full'')]\<rparr>
      in \<lparr>xc_fwd = (fwd_start (new_stream background (\<lambda>_. None)))
            \<lparr>fc_order := [one_chunk], fc_forwarder := newStreamForwarder s\<rparr>,
          xc_handler = Returned (Some (Foreign ''disk full'')) None\<rparr>)"

lemma failing_run_steps:
  "(exec_step True sample_json)\<^sup>*\<^sup>* (exec_start (new_stream background (\<lambda>_. None))) failing_run"
proof -
  let ?e = "Foreign ''disk full''" and ?f0 = "fwd_start (new_stream background (\<lambda>_. None))"
  let ?s1 = "\<lparr>st_ctx = background, st_results = (\<lambda>_. None), st_attempts = 1, st_sent = [ChunkStdout ''a'']\<rparr>"
  let ?f1 = "?f0\<lparr>fc_forwarder := newStreamForwarder ?s1, fc_order := [one_chunk]\<rparr>"
  let ?x1 = "\<lparr>xc_fwd = ?f1, xc_handler = Waiting\<rparr>"
  let ?x2 = "\<lparr>xc_fwd = ?f1, xc_handler = Replying (Some ?e) (ChunkResult (result_error (error_text ?e)))\<rparr>"
  have "(fwd_step sample_json)\<^sup>*\<^sup>* ?f0 ?f1"
    using one_call [of ?f0 0, OF _ _ _ one_chunk_proto, of ?s1]
    by (simp add: fwd_start_def newStreamForwarder_def new_stream_def stream_send_def)
  from report_steps [of sample_json "exec_start (new_stream background (\<lambda>_. None))", OF _ _, of ?f1 True] this
  have "(exec_step True sample_json)\<^sup>*\<^sup>* (exec_start (new_stream background (\<lambda>_. None))) ?x1"
    by (simp add: exec_start_def)
  moreover have "exec_step True sample_json ?x1 ?x2"
    using exec_step.plugin_failed [of ?x1 True ?e sample_json]
    by (simp add: joined_def fwd_start_def)
  moreover have "exec_step True sample_json ?x2 failing_run"
    using exec_step.replied [of ?x2 "Some ?e" "ChunkResult (result_error (error_text ?e))" None
        "\<lparr>st_ctx = background, st_results = (\<lambda>_. None), st_attempts = 2,
          st_sent = [ChunkStdout ''a'', ChunkResult (result_error ''disk full'')]\<rparr>" True sample_json]
    by (simp add: stream_send_def newStreamForwarder_def failing_run_def set_stream_def Let_def)
  ultimately show ?thesis by (meson rtranclp.rtrancl_into_rtrancl)
qed

theorem stream_handler_linearizable_witness:
  "(exec_step True sample_json)\<^sup>*\<^sup>* (exec_start (new_stream background (\<lambda>_. None))) failing_run \<and>
   fst (GRPCServer_ExecuteProviderStream sample_json sample_execute (new_stream background (\<lambda>_. None))
     (new_GRPCServer (mock_plugin failing_mock) () None)) =
     (None, fw_stream (fc_forwarder (xc_fwd failing_run)))"
proof -
  let ?sv = "new_GRPCServer (mock_plugin failing_mock) () None"
    and ?st = "new_stream background (\<lambda>_. None) :: ExecuteProviderStreamChunk stream"
  obtain input c1 where run: "execute_setup sample_json (st_ctx ?st) sample_execute ?sv = Inr (input, c1)"
    by (simp add: execute_setup_def sample_execute_def decode_input_def applyRequestContext_def
        apply_resolver_data_def unmarshalIterationContext_def apply_parameters_def sample_json_def
        sample_unmarshal_map_def)
  have "case xc_handler failing_run of
      Returned perr err \<Rightarrow> fst (pp_ExecuteProviderStream (sv_Impl ?sv) c1 (er_ProviderName sample_execute) input
        (sv_plugin ?sv)) = (fc_order (xc_fwd failing_run), perr)
    | _ \<Rightarrow> True"
    by (simp add: failing_run_def Let_def new_GRPCServer_def failing_mock_def mock_defs)
  from stream_handler_linearizable [OF failing_run_steps run this] failing_run_steps
  show ?thesis by (simp add: failing_run_def Let_def)
qed

text \<open>
  C17. The handler's own result bypasses the mutex of the forwarder: a plugin that fails while one of
  its goroutines is still reporting makes the handler and the goroutine send on the stream at
  once, and the host can get a chunk after the result that ends the stream.
\<close>

theorem late_chunk_race:
  "\<exists>st st'. (exec_step False J)\<^sup>*\<^sup>* (exec_start (new_stream c (\<lambda>_. None))) st \<and>
     xc_handler st = Replying (Some (Foreign t)) (ChunkResult (result_error t)) \<and>
     fc_pc (xc_fwd st) 0 = FSending (ChunkStdout ''a'') \<and>
     (exec_step False J)\<^sup>*\<^sup>* st st' \<and> xc_handler st' = Returned (Some (Foreign t)) None \<and>
     st_sent (fw_stream (fc_forwarder (xc_fwd st'))) = [ChunkResult (result_error t), ChunkStdout ''a'']"
proof -
  let ?f0 = "fwd_start (new_stream c (\<lambda>_. None))" and ?m = "ChunkResult (result_error t)"
  let ?in = "\<lambda>p. (fwd_at ?f0 0 p)\<lparr>fc_mutex := Some 0, fc_order := [one_chunk]\<rparr>"
  let ?x1 = "\<lparr>xc_fwd = ?in (FEntered one_chunk), xc_handler = Waiting\<rparr>"
  let ?x2 = "\<lparr>xc_fwd = ?in (FSending (ChunkStdout ''a'')), xc_handler = Waiting\<rparr>"
  let ?x3 = "?x2\<lparr>xc_handler := Replying (Some (Foreign t)) ?m\<rparr>"
  let ?s4 = "\<lparr>st_ctx = c, st_results = (\<lambda>_. None), st_attempts = 1, st_sent = [?m]\<rparr>"
  let ?s5 = "\<lparr>st_ctx = c, st_results = (\<lambda>_. None), st_attempts = 2, st_sent = [?m, ChunkStdout ''a'']\<rparr>"
  let ?x4 = "\<lparr>xc_fwd = set_stream ?s4 (?in (FSending (ChunkStdout ''a''))),
    xc_handler = Returned (Some (Foreign t)) None\<rparr>"
  let ?x5 = "?x4\<lparr>xc_fwd := (fwd_at (xc_fwd ?x4) 0 FLeaving)
    \<lparr>fc_forwarder := (fc_forwarder (xc_fwd ?x4))\<lparr>fw_stream := ?s5\<rparr>\<rparr>\<rparr>"
  have at: "fwd_at (?in p) 0 q = ?in q" for p q by (simp add: fwd_at_def)
  have "fwd_step J ?f0 (?in (FEntered one_chunk))"
    using fwd_step.enter [of ?f0 0 J one_chunk] by (simp add: fwd_start_def)
  from exec_step.report [of J "exec_start (new_stream c (\<lambda>_. None))", OF _, of _ False] this
  have 1: "exec_step False J (exec_start (new_stream c (\<lambda>_. None))) ?x1" by (simp add: exec_start_def)
  have "fwd_step J (?in (FEntered one_chunk)) (?in (FSending (ChunkStdout ''a'')))"
    using fwd_step.start_send [of "?in (FEntered one_chunk)" 0 one_chunk J, OF _ _ one_chunk_proto]
    by (simp add: at) (simp add: fwd_start_def newStreamForwarder_def)
  from exec_step.report [of J ?x1, OF _, of _ False] this have 2: "exec_step False J ?x1 ?x2" by simp
  have 3: "exec_step False J ?x2 ?x3"
    using exec_step.plugin_failed [of ?x2 False "Foreign t" J] by simp
  have 4: "exec_step False J ?x3 ?x4"
    using exec_step.replied [of ?x3 "Some (Foreign t)" ?m None ?s4 False J]
    by (simp add: stream_send_def fwd_start_def newStreamForwarder_def new_stream_def)
  have "fwd_step J (xc_fwd ?x4) (xc_fwd ?x5)"
    using fwd_step.sent [of "xc_fwd ?x4" 0 "ChunkStdout ''a''" ?s5 J] by (simp add: stream_send_def)
  from exec_step.report [of J ?x4, OF this, of False] have 5: "exec_step False J ?x4 ?x5" by simp
  from 1 2 3 have "(exec_step False J)\<^sup>*\<^sup>* (exec_start (new_stream c (\<lambda>_. None))) ?x3"
    by (meson rtranclp.rtrancl_into_rtrancl rtranclp.rtrancl_refl)
  moreover from 4 5 have "(exec_step False J)\<^sup>*\<^sup>* ?x3 ?x5"
    by (meson rtranclp.rtrancl_into_rtrancl rtranclp.rtrancl_refl)
  ultimately show ?thesis by (intro exI [of _ ?x3] exI [of _ ?x5]) simp
qed

end
