(* ===== verification/Provider_Progress.thy ===== *)
theory Provider_Progress
  imports Provider_Concurrency Stream_Concurrency Progress
begin

text \<open>
  Calls of the provider server, and of the stream forwarder under its mutex, come to an end:
  the lock sections of \<open>Provider_Concurrency\<close> and the calls of \<open>Stream_Concurrency\<close> are
  instances of \<open>calls\<close>. As there, a dial and a plugin call return.
\<close>

section \<open>The provider server\<close>

fun call_sections_left :: "call_pc \<Rightarrow> nat" where
  "call_sections_left CIdle = 0"
| "call_sections_left (CStored i) = 3"
| "call_sections_left CDialled = 2"
| "call_sections_left (CConfiguring hc) = 1"
| "call_sections_left (CRead name m base) = 2"
| "call_sections_left (CExecuting name m base hc) = 1"
| "call_sections_left CStopping = 1"

lemma pconc_thread:
  "pconc_step st st' \<Longrightarrow> \<exists>t. (\<forall>t'. t' \<noteq> t \<longrightarrow> pc_at st' t' = pc_at st t') \<and>
     (pc_at st t = CIdle \<or> call_sections_left (pc_at st' t) < call_sections_left (pc_at st t))"
  by (erule pconc_stepE) (auto intro!: exI)

lemma pconc_not_stuck:
  assumes "pc_at st t \<noteq> CIdle"
  shows "\<exists>st'. pconc_step st st' \<and> pc_at st' t \<noteq> pc_at st t"
proof (cases "pc_at st t")
  case (CStored i)
  obtain err sv where run: "dial_host i (pc_server st) = (err, sv)" by (cases "dial_host i (pc_server st)")
  show ?thesis
  proof (cases err)
    case None
    from pconc_step.dial [OF CStored run [unfolded None]] show ?thesis by (rule moves) (simp add: CStored)
  next
    case (Some e)
    from pconc_step.dial_failed [OF CStored run [unfolded Some]] show ?thesis
      by (rule moves) (simp add: CStored)
  qed
next
  case CDialled
  from pconc_step.configuring [OF CDialled] show ?thesis by (rule moves) (simp add: CDialled)
next
  case (CConfiguring hc)
  from pconc_step.configured [OF CConfiguring] show ?thesis by (rule moves) (simp add: CConfiguring)
next
  case (CRead name m base)
  from pconc_step.executing [OF CRead] show ?thesis by (rule moves) (simp add: CRead)
next
  case (CExecuting name m base hc)
  from pconc_step.executed [OF CExecuting] show ?thesis by (rule moves) (simp add: CExecuting)
next
  case CStopping
  from pconc_step.stopped [OF CStopping] show ?thesis by (rule moves) (simp add: CStopping)
qed (use assms in simp)

interpretation provider_calls: calls pconc_step pc_at CIdle call_sections_left 3 "\<lambda>_. True"
proof
  show "call_sections_left p = 0 \<longleftrightarrow> p = CIdle" and "call_sections_left p \<le> 3" for p
    by (cases p; simp)+
qed (auto dest: pconc_thread pconc_not_stuck)

section \<open>The stream forwarder\<close>

fun report_left :: "fwd_pc \<Rightarrow> nat" where
  "report_left FIdle = 0"
| "report_left (FEntered chunk) = 3"
| "report_left (FSending m) = 2"
| "report_left FLeaving = 1"

lemma fwd_thread:
  "fwd_step J st st' \<Longrightarrow> \<exists>t. (\<forall>t'. t' \<noteq> t \<longrightarrow> fc_pc st' t' = fc_pc st t') \<and>
     (fc_pc st t = FIdle \<or> report_left (fc_pc st' t) < report_left (fc_pc st t))"
  by (erule fwd_stepE) (auto intro!: exI)

lemma fwd_not_stuck:
  assumes "fc_pc st t \<noteq> FIdle"
  shows "\<exists>st'. fwd_step J st st' \<and> fc_pc st' t \<noteq> fc_pc st t"
proof (cases "fc_pc st t")
  case (FEntered chunk)
  show ?thesis
  proof (cases "fw_err (fc_forwarder st) \<noteq> None \<or> chunk_to_proto J chunk = None")
    case True
    from fwd_step.skip [OF FEntered this] show ?thesis by (rule moves) (simp add: FEntered)
  next
    case False
    then obtain m where "fw_err (fc_forwarder st) = None" "chunk_to_proto J chunk = Some m" by auto
    from fwd_step.start_send [OF FEntered this] show ?thesis by (rule moves) (simp add: FEntered)
  qed
next
  case (FSending m)
  obtain err s where run: "stream_send m (fw_stream (fc_forwarder st)) = (err, s)"
    by (cases "stream_send m (fw_stream (fc_forwarder st))")
  show ?thesis
  proof (cases err)
    case None
    from fwd_step.sent [OF FSending run [unfolded None]] show ?thesis by (rule moves) (simp add: FSending)
  next
    case (Some e)
    from fwd_step.send_failed [OF FSending run [unfolded Some]] show ?thesis
      by (rule moves) (simp add: FSending)
  qed
next
  case FLeaving
  from fwd_step.leave [OF FLeaving] show ?thesis by (rule moves) (simp add: FLeaving)
qed (use assms in simp)

interpretation report_calls: calls "fwd_step J" fc_pc FIdle report_left 3 "\<lambda>_. True" for J
proof
  show "report_left p = 0 \<longleftrightarrow> p = FIdle" and "report_left p \<le> 3" for p
    by (cases p; simp)+
qed (auto dest: fwd_thread fwd_not_stuck)

section \<open>Properties\<close>



text \<open>
  A goroutine that waits for the mutex of the forwarder gets its turn: the one call inside ends
  after at most three steps, and then the mutex is free.
\<close>

theorem reports_finish:
  assumes "(fwd_step J)\<^sup>*\<^sup>* (fwd_start s) st" and "(busy_step (fwd_step J) fc_pc FIdle ^^ n) st st'"
  shows "n \<le> 3 \<and> ((\<nexists>st''. busy_step (fwd_step J) fc_pc FIdle st' st'') \<longleftrightarrow> fc_mutex st' = None)"
proof -
  have fin: "n \<le> 3 * card (busy fc_pc FIdle st)"
    "(\<exists>st''. busy_step (fwd_step J) fc_pc FIdle st' st'') \<longleftrightarrow> (\<exists>t. fc_pc st' t \<noteq> FIdle)"
    using report_calls.finish [OF assms(1) _ _ assms(2)] by (simp_all add: fwd_start_def)
  have ok: "fwd_ok J (newStreamForwarder s) st" by (rule fwd_steps_ok [OF assms(1) fwd_ok_start])
  then have "busy fc_pc FIdle st = set_option (fc_mutex st)" by (auto simp: busy_def fwd_ok_def)
  then have "card (busy fc_pc FIdle st) \<le> 1" by (cases "fc_mutex st") simp_all
  moreover have "fwd_ok J (newStreamForwarder s) st'"
    by (rule fwd_steps_ok [OF busy_steps [OF assms(2)] ok])
  then have "(\<exists>t. fc_pc st' t \<noteq> FIdle) \<longleftrightarrow> fc_mutex st' \<noteq> None" by (auto simp: fwd_ok_def)
  ultimately show ?thesis using fin by auto
qed

end
