(* ===== verification/Error_Answers.thy ===== *)
theory Error_Answers
  imports Provider_Server
begin

text \<open>
  How failures of the provider server reach the host. All handlers but GetProviders and
  GetProviderDescriptor answer a failure inside the response, by its \<open>Error\<close> text, and the RPC
  itself succeeds; an empty text means success. The texts of the server's own failures are
  never empty; the text of a plugin's error is the plugin's.
\<close>

section \<open>The server's own error texts\<close>

lemma own_texts [simp]: "decode_failed what err \<noteq> ''''" "encode_failed err \<noteq> ''''"
  by (simp_all add: decode_failed_def encode_failed_def)

lemma apply_request_error: "applyRequestContext J c req = Inl err \<Longrightarrow> error_text err \<noteq> ''''"
  by (auto simp: applyRequestContext_def apply_resolver_data_def apply_parameters_def
      unmarshalIterationContext_def Let_def split: sum.splits option.splits if_splits)

lemma execute_setup_error: "execute_setup J c req sv = Inl msg \<Longrightarrow> msg \<noteq> ''''"
  by (auto simp: execute_setup_def dest: apply_request_error split: sum.splits)

section \<open>What an answer says\<close>

text \<open>What a plugin returned, read by the text of its error alone.\<close>

definition reads_as_success :: "goerror option \<Rightarrow> bool" where
  "reads_as_success err = (case err of None \<Rightarrow> True | Some e \<Rightarrow> error_text e = '''')"

definition failure_of :: "goerror + 'a \<Rightarrow> goerror option" where
  "failure_of r = (case r of Inl e \<Rightarrow> Some e | Inr _ \<Rightarrow> None)"

lemma failure_of_simps [simp]: "failure_of (Inl e) = Some e" "failure_of (Inr x) = None"
  by (simp_all add: failure_of_def)

lemma reads_as_success_simps [simp]:
  "reads_as_success None" "reads_as_success (Some e) \<longleftrightarrow> error_text e = ''''"
  by (simp_all add: reads_as_success_def)

lemma execute_answer:
  "es_Error (fst (GRPCServer_ExecuteProvider J c req sv)) = '''' \<longleftrightarrow>
     (case execute_setup J c req sv of
        Inl msg \<Rightarrow> False
      | Inr (input, c1) \<Rightarrow>
          (case fst (pp_ExecuteProvider (sv_Impl sv) c1 (er_ProviderName req) input (sv_plugin sv)) of
             Inl err \<Rightarrow> error_text err = ''''
           | Inr output \<Rightarrow> \<not> isl (marshal_output J output)))"
  by (auto simp: GRPCServer_ExecuteProvider_def result_error_def dest: execute_setup_error
      split: sum.splits prod.splits)

lemma describe_answer:
  "ws_Error (fst (GRPCServer_DescribeWhatIf J c req sv)) = '''' \<longleftrightarrow>
     (case decode_input J (wr_Input req) of
        Inl err \<Rightarrow> False
      | Inr input \<Rightarrow>
          reads_as_success (failure_of (fst (pp_DescribeWhatIf (sv_Impl sv) (injectHostClient sv c)
            (wr_ProviderName req) input (sv_plugin sv)))))"
  by (auto simp: GRPCServer_DescribeWhatIf_def split: sum.splits prod.splits)

lemma extract_answer:
  "xs_Error (fst (GRPCServer_ExtractDependencies J c req sv)) = '''' \<longleftrightarrow>
     (case decode_input J (xr_Inputs req) of
        Inl err \<Rightarrow> False
      | Inr inputs \<Rightarrow>
          reads_as_success (failure_of (fst (pp_ExtractDependencies (sv_Impl sv) (injectHostClient sv c)
            (xr_ProviderName req) inputs (sv_plugin sv)))))"
  by (auto simp: GRPCServer_ExtractDependencies_def split: sum.splits prod.splits)

text \<open>What the plugin's ConfigureProvider returns to a configure call whose dial worked.\<close>

definition configure_result :: "ctx \<Rightarrow> ConfigureProviderRequest \<Rightarrow> ('s, 'v) GRPCServer \<Rightarrow> goerror option" where
  "configure_result c req sv2 =
     fst (pp_ConfigureProvider (sv_Impl sv2) (WithProfile (injectHostClient sv2 c) (cr_Profile req))
       (cr_ProviderName req) (config_of_request req) (sv_plugin sv2))"

lemma configure_answer:
  assumes "dial_host (cr_HostServiceId req) (store_settings (cr_ProviderName req) (cr_Settings req) sv) = (err, sv2)"
  shows "cs_Error (fst (GRPCServer_ConfigureProvider c req sv)) = '''' \<longleftrightarrow>
      err = None \<and> reads_as_success (configure_result c req sv2)"
    and "cs_ProtocolVersion (fst (GRPCServer_ConfigureProvider c req sv)) =
      (if err = None \<and> configure_result c req sv2 = None then PluginProtocolVersion else 0)"
  using assms
  by (auto simp: GRPCServer_ConfigureProvider_def configure_error_def configure_result_def Let_def
      split: prod.splits option.splits)

lemma stop_answer:
  assumes "fst (pp_StopProvider (sv_Impl sv) c name (sv_plugin sv)) = err"
  shows "fst (GRPCServer_StopProvider c name sv) = '''' \<longleftrightarrow> reads_as_success err"
    and "sv_hostClient (snd (GRPCServer_StopProvider c name sv)) =
      (if err = None then None else sv_hostClient sv)"
  using assms
  by (auto simp: GRPCServer_StopProvider_def Let_def split: prod.splits option.splits)

section \<open>Property\<close>


end
